(* ===== verification/Prelude.thy ===== *)
theory Prelude
  imports Main "HOL-Library.Multiset" "HOL-Library.AList"
begin

text \<open>
  The part of JavaScript the dashboard sources rely on: strings, the nullish and truthiness
  operators, decimal printing of numbers, the insertion ordered \<open>Map\<close>, and the
  stable \<open>Array.prototype.sort\<close>, with the lemmas the component theories share.

  A JavaScript string is a sequence of 16 bit code units. The model keeps the code units below
  256 (the Latin-1 range, which holds every ASCII and Spanish character): one \<^typ>\<open>char\<close>
  is one code unit, so \<open>length\<close>, indexing and \<open>slice\<close> count as JavaScript counts.
\<close>

named_theorems js_simps \<open>unfolding rules of the JavaScript string layer\<close>
named_theorems step_defs \<open>unfolding rules of the component step functions\<close>

type_synonym js_string = string

section \<open>Options: the nullish operators\<close>

text \<open>\<open>a ?? b\<close> where \<open>a\<close> is \<open>T | null | undefined\<close>.\<close>

definition nullish :: "'a option \<Rightarrow> 'a \<Rightarrow> 'a" where
  "nullish a b = (case a of None \<Rightarrow> b | Some x \<Rightarrow> x)"

text \<open>\<open>a ?? b\<close> where \<open>b\<close> may be nullish again.\<close>

definition nullish_opt :: "'a option \<Rightarrow> 'a option \<Rightarrow> 'a option" where
  "nullish_opt a b = (case a of None \<Rightarrow> b | Some x \<Rightarrow> Some x)"

lemma nullish_simps [simp]:
  "nullish None b = b" "nullish (Some x) b = x"
  "nullish_opt None c = c" "nullish_opt (Some x) c = Some x"
  by (simp_all add: nullish_def nullish_opt_def)

lemma nullish_opt_assoc: "nullish_opt (nullish_opt a b) c = nullish_opt a (nullish_opt b c)"
  by (cases a) simp_all

lemma nullish_opt_None_iff [simp]: "nullish_opt a b = None \<longleftrightarrow> a = None \<and> b = None"
  by (cases a) simp_all

text \<open>A string is falsy exactly when it is empty or nullish (\<open>s ? \<dots> : \<dots>\<close>, \<open>!s\<close>).\<close>

fun truthy_str :: "string option \<Rightarrow> bool" where
  "truthy_str None = False"
| "truthy_str (Some s) = (s \<noteq> [])"

lemma truthy_str_iff: "truthy_str x \<longleftrightarrow> (\<exists>s. x = Some s \<and> s \<noteq> [])"
  by (cases x) auto

section \<open>Characters and strings\<close>

definition code :: "char \<Rightarrow> nat" where
  "code c = of_char c"

text \<open>The white space of \<open>trim\<close> and of \<open>\s\<close> in a regular expression, in Latin-1.\<close>

definition is_ws :: "char \<Rightarrow> bool" where
  "is_ws c = (let n = code c in n = 32 \<or> (9 \<le> n \<and> n \<le> 13) \<or> n = 160)"

definition is_digit :: "char \<Rightarrow> bool" where
  "is_digit c = (48 \<le> code c \<and> code c \<le> 57)"

definition trim_start :: "string \<Rightarrow> string" where
  "trim_start s = dropWhile is_ws s"

definition trim :: "string \<Rightarrow> string" where
  "trim s = rev (trim_start (rev (trim_start s)))"

definition lower_char :: "char \<Rightarrow> char" where
  "lower_char c =
     (let n = code c in
      if (65 \<le> n \<and> n \<le> 90) \<or> (192 \<le> n \<and> n \<le> 222 \<and> n \<noteq> 215) then char_of (n + 32) else c)"

definition toLowerCase :: "string \<Rightarrow> string" where
  "toLowerCase s = map lower_char s"

text \<open>
  \<open>toUpperCase\<close>: the sharp s becomes two letters. The micro sign and y with diaeresis have
  upper case letters outside Latin-1 and stay as they are here.
\<close>

definition upper_char :: "char \<Rightarrow> string" where
  "upper_char c =
     (let n = code c in
      if (97 \<le> n \<and> n \<le> 122) \<or> (224 \<le> n \<and> n \<le> 254 \<and> n \<noteq> 247) then [char_of (n - 32)]
      else if n = 223 then ''SS'' else [c])"

definition toUpperCase :: "string \<Rightarrow> string" where
  "toUpperCase s = concat (map upper_char s)"

definition startsWith :: "string \<Rightarrow> string \<Rightarrow> bool" where
  "startsWith s p = (take (length p) s = p)"

definition endsWith :: "string \<Rightarrow> string \<Rightarrow> bool" where
  "endsWith s p = (length p \<le> length s \<and> drop (length s - length p) s = p)"

fun str_includes :: "string \<Rightarrow> string \<Rightarrow> bool" where
  "str_includes [] p = (p = [])"
| "str_includes (c # s) p = (startsWith (c # s) p \<or> str_includes s p)"

text \<open>\<open>s.split(c)\<close> for a one character separator; \<open>xs.join(sep)\<close>.\<close>

fun split_on :: "'a \<Rightarrow> 'a list \<Rightarrow> 'a list list" where
  "split_on c [] = [[]]"
| "split_on c (x # xs) =
     (if x = c then [] # split_on c xs
      else (case split_on c xs of [] \<Rightarrow> [[x]] | y # ys \<Rightarrow> (x # y) # ys))"

fun join :: "string \<Rightarrow> string list \<Rightarrow> string" where
  "join sep [] = []"
| "join sep [x] = x"
| "join sep (x # y # ys) = x @ sep @ join sep (y # ys)"

text \<open>\<open>s.split(/\s+/)\<close>: a run of white space is one separator.\<close>

function split_ws :: "string \<Rightarrow> string list" where
  "split_ws [] = [[]]"
| "split_ws (x # xs) =
     (if is_ws x then [] # split_ws (dropWhile is_ws xs)
      else (case split_ws xs of [] \<Rightarrow> [[x]] | y # ys \<Rightarrow> (x # y) # ys))"
  by pat_completeness auto
termination
  by (relation "measure length") (auto simp: le_imp_less_Suc length_dropWhile_le)

subsection \<open>Lemmas on strings\<close>

lemma rev_dropWhile_rev_subset: "set (rev (dropWhile P (rev xs))) \<subseteq> set xs"
  by (metis set_dropWhileD set_rev subsetI)

lemma trim_Nil [simp]: "trim [] = []"
  by (simp add: trim_def trim_start_def)

lemma hd_dropWhile_ws: "dropWhile is_ws s \<noteq> [] \<Longrightarrow> \<not> is_ws (hd (dropWhile is_ws s))"
  by (rule hd_dropWhile)

lemma dropWhile_rev_hd:
  assumes "s \<noteq> []" and "\<not> P (hd s)"
  shows "\<exists>t. rev (dropWhile P (rev s)) = hd s # t"
  using assms
proof (induction s rule: rev_induct)
  case Nil
  then show ?case by simp
next
  case (snoc x xs)
  show ?case
  proof (cases "P x")
    case True
    with snoc.prems have "xs \<noteq> []" by auto
    with True snoc show ?thesis by simp
  next
    case False
    then have "rev (dropWhile P (rev (xs @ [x]))) = xs @ [x]" by simp
    with snoc.prems show ?thesis by (metis list.collapse)
  qed
qed

lemma trim_first_not_ws: "trim s = c # t \<Longrightarrow> \<not> is_ws c"
proof -
  assume a: "trim s = c # t"
  let ?u = "dropWhile is_ws s"
  have "?u = [] \<Longrightarrow> trim s = []" by (simp only: trim_def trim_start_def) simp
  with a have "?u \<noteq> []" by auto
  then have h: "\<not> is_ws (hd ?u)" by (rule hd_dropWhile_ws)
  from dropWhile_rev_hd [of ?u is_ws] \<open>?u \<noteq> []\<close> a h show ?thesis
    by (auto simp: trim_def trim_start_def)
qed

lemma trim_last_not_ws:
  assumes "trim s \<noteq> []"
  shows "\<not> is_ws (last (trim s))"
proof -
  have "dropWhile is_ws (rev (dropWhile is_ws s)) \<noteq> []"
    using assms by (simp add: trim_def trim_start_def)
  then have "\<not> is_ws (hd (dropWhile is_ws (rev (dropWhile is_ws s))))"
    by (rule hd_dropWhile)
  then show ?thesis by (simp add: trim_def trim_start_def last_rev)
qed

lemma dropWhile_not_hd: "(s = [] \<or> \<not> P (hd s)) \<Longrightarrow> dropWhile P s = s"
  by (cases s) auto

lemma trim_id_iff: "trim s = s \<longleftrightarrow> s = [] \<or> (\<not> is_ws (hd s) \<and> \<not> is_ws (last s))"
proof (cases "s = []")
  case False
  show ?thesis
  proof
    assume "trim s = s"
    then show "s = [] \<or> (\<not> is_ws (hd s) \<and> \<not> is_ws (last s))"
      using False trim_first_not_ws [of s] trim_last_not_ws [of s] by (cases s) auto
  next
    assume "s = [] \<or> (\<not> is_ws (hd s) \<and> \<not> is_ws (last s))"
    then show "trim s = s"
      using False by (simp add: trim_def trim_start_def dropWhile_not_hd hd_rev)
  qed
qed simp

lemma trim_trim [simp]: "trim (trim s) = trim s"
  by (metis list.collapse trim_first_not_ws trim_id_iff trim_last_not_ws)

lemma trim_Nil_iff: "trim s = [] \<longleftrightarrow> (\<forall>c \<in> set s. is_ws c)"
  by (auto simp: trim_def trim_start_def dropWhile_eq_Nil_conv
      dest: set_dropWhileD)
     (metis dropWhile_eq_Nil_conv hd_dropWhile hd_in_set)

lemma split_on_not_Nil [simp]: "split_on c s \<noteq> []"
  by (cases s) (auto split: list.splits)

lemma split_ws_not_Nil [simp]: "split_ws s \<noteq> []"
  by (cases s) (auto split: list.splits)

lemma length_split_on_pos [simp]: "0 < length (split_on c s)"
  by simp

lemma length_split_on: "length (split_on c s) = Suc (count_list s c)"
  by (induction s) (auto split: list.splits)

lemma split_on_no_sep: "c \<notin> set s \<Longrightarrow> split_on c s = [s]"
  by (induction s) auto

lemma split_on_append: "c \<notin> set s \<Longrightarrow> split_on c (s @ c # t) = s # split_on c t"
  by (induction s) auto

lemma split_on_parts: "p \<in> set (split_on c s) \<Longrightarrow> c \<notin> set p"
  by (induction s arbitrary: p) (auto split: if_splits list.splits)

lemma join_Cons: "xs \<noteq> [] \<Longrightarrow> join sep (x # xs) = x @ sep @ join sep xs"
  by (cases xs) simp_all

lemma join_split_on: "join [c] (split_on c s) = s"
proof (induction s)
  case (Cons x xs)
  obtain y ys where y: "split_on c xs = y # ys"
    by (meson list.exhaust split_on_not_Nil)
  with Cons show ?case by (cases ys) auto
qed simp

lemma split_on_join:
  "xs \<noteq> [] \<Longrightarrow> (\<And>x. x \<in> set xs \<Longrightarrow> c \<notin> set x) \<Longrightarrow> split_on c (join [c] xs) = xs"
proof (induction xs)
  case (Cons x xs)
  then show ?case
    by (cases "xs = []") (simp_all add: split_on_no_sep join_Cons split_on_append)
qed simp

lemma startsWith_append [simp]: "startsWith (p @ s) p"
  by (simp add: startsWith_def)

lemma startsWithE: "startsWith s p \<Longrightarrow> s = p @ drop (length p) s"
  by (metis append_take_drop_id startsWith_def)

lemma startsWith_Nil [simp]: "startsWith s []"
  by (simp add: startsWith_def)

lemma startsWith_Cons: "startsWith (c # s) (d # p) \<longleftrightarrow> c = d \<and> startsWith s p"
  by (auto simp: startsWith_def)

lemma Nil_startsWith: "startsWith [] p \<longleftrightarrow> p = []"
  by (auto simp: startsWith_def)

lemma endsWith_iff: "endsWith s p \<longleftrightarrow> (\<exists>u. s = u @ p)"
  by (auto simp: endsWith_def) (metis append_take_drop_id)

lemma str_includes_iff: "str_includes s p \<longleftrightarrow> (\<exists>u v. s = u @ p @ v)"
proof (induction s)
  case (Cons c s)
  show ?case
  proof
    assume "str_includes (c # s) p"
    then consider "startsWith (c # s) p" | "str_includes s p" by auto
    then show "\<exists>u v. c # s = u @ p @ v"
      by cases (metis append.left_neutral startsWithE, metis Cons.IH append_Cons)
  next
    assume "\<exists>u v. c # s = u @ p @ v"
    then obtain u v where uv: "c # s = u @ p @ v" by blast
    show "str_includes (c # s) p"
    proof (cases u)
      case Nil
      with uv have "startsWith (c # s) p" by simp
      then show ?thesis by simp
    next
      case (Cons a u')
      with uv Cons.IH show ?thesis by auto
    qed
  qed
qed simp

section \<open>Decimal numbers\<close>

definition digit_char :: "nat \<Rightarrow> char" where
  "digit_char d = char_of (48 + d)"

definition digit_val :: "char \<Rightarrow> nat" where
  "digit_val c = code c - 48"

text \<open>\<open>n.toString()\<close> of a non-negative integer, and of an integer.\<close>

fun nat_str :: "nat \<Rightarrow> string" where
  "nat_str n = (if n < 10 then [digit_char n] else nat_str (n div 10) @ [digit_char (n mod 10)])"

declare nat_str.simps [simp del]

definition int_str :: "int \<Rightarrow> string" where
  "int_str i = (if i < 0 then ''-'' @ nat_str (nat (- i)) else nat_str (nat i))"

text \<open>The value of a digit string, most significant digit first.\<close>

definition digits_val :: "string \<Rightarrow> nat" where
  "digits_val s = foldl (\<lambda>n c. 10 * n + digit_val c) 0 s"

lemma code_digit_char [simp]: "d < 10 \<Longrightarrow> code (digit_char d) = 48 + d"
  by (simp add: code_def digit_char_def)

lemma digit_val_digit_char [simp]: "d < 10 \<Longrightarrow> digit_val (digit_char d) = d"
  by (simp add: digit_val_def)

lemma is_digit_digit_char [simp]: "d < 10 \<Longrightarrow> is_digit (digit_char d)"
  by (simp add: is_digit_def)

lemma nat_str_digits: "\<forall>c \<in> set (nat_str n). is_digit c"
proof (induction n rule: nat_str.induct)
  case (1 n)
  then show ?case by (cases "n < 10") (simp_all add: nat_str.simps [of n])
qed

lemma nat_str_not_Nil [simp]: "nat_str n \<noteq> []"
  by (subst nat_str.simps) simp

lemma digits_val_snoc: "digits_val (s @ [c]) = 10 * digits_val s + digit_val c"
  by (simp add: digits_val_def)

lemma digits_val_nat_str [simp]: "digits_val (nat_str n) = n"
proof (induction n rule: nat_str.induct)
  case (1 n)
  show ?case
  proof (cases "n < 10")
    case True
    then show ?thesis by (simp add: nat_str.simps [of n] digits_val_def)
  next
    case False
    with 1 show ?thesis by (simp add: nat_str.simps [of n] digits_val_snoc)
  qed
qed

lemma nat_str_inj [simp]: "nat_str m = nat_str n \<longleftrightarrow> m = n"
  by (metis digits_val_nat_str)

lemma minus_not_digit [simp]: "\<not> is_digit (CHR ''-'')"
  by (simp add: is_digit_def code_def)

lemma nat_str_not_minus: "nat_str m \<noteq> CHR ''-'' # s"
  by (metis list.set_intros(1) minus_not_digit nat_str_digits)

lemma int_str_inj [simp]: "int_str i = int_str j \<longleftrightarrow> i = j"
proof (cases "i < 0"; cases "j < 0")
  assume "i < 0" "\<not> j < 0"
  then show ?thesis using nat_str_not_minus by (simp add: int_str_def) metis
next
  assume "\<not> i < 0" "j < 0"
  then show ?thesis using nat_str_not_minus by (simp add: int_str_def)
qed (simp_all add: int_str_def eq_nat_nat_iff nat_eq_iff)

text \<open>\<open>s.padStart(n, c)\<close>.\<close>

definition padStart :: "nat \<Rightarrow> char \<Rightarrow> string \<Rightarrow> string" where
  "padStart n c s = replicate (n - length s) c @ s"

lemma length_padStart [simp]: "length (padStart n c s) = max n (length s)"
  by (simp add: padStart_def)

section \<open>The insertion ordered Map\<close>

text \<open>
  \<open>new Map()\<close> keeps its entries in insertion order; \<open>set\<close> on a present key replaces the
  value in place. This is \<^const>\<open>AList.update\<close> on an association list.
\<close>

type_synonym ('k, 'v) js_map = "('k \<times> 'v) list"

abbreviation map_get :: "('k, 'v) js_map \<Rightarrow> 'k \<Rightarrow> 'v option" where
  "map_get m k \<equiv> map_of m k"

abbreviation map_set :: "'k \<Rightarrow> 'v \<Rightarrow> ('k, 'v) js_map \<Rightarrow> ('k, 'v) js_map" where
  "map_set k v m \<equiv> AList.update k v m"

text \<open>\<open>for (x of xs) if (p) m.set(key, val)\<close>, the loop that builds an index.\<close>

fun index_by :: "('a \<Rightarrow> 'k option) \<Rightarrow> 'a list \<Rightarrow> ('k, 'a) js_map \<Rightarrow> ('k, 'a) js_map" where
  "index_by key [] m = m"
| "index_by key (x # xs) m =
     (case key x of None \<Rightarrow> index_by key xs m | Some k \<Rightarrow> index_by key xs (map_set k x m))"

lemma map_get_set [simp]: "map_get (map_set k v m) = (map_get m)(k \<mapsto> v)"
  by (rule ext) (simp add: update_conv)

text \<open>A lookup in the index finds the last element with that key: a later entry wins.\<close>

lemma index_by_lookup:
  "map_get (index_by key xs m) k =
     (case filter (\<lambda>x. key x = Some k) xs of
        [] \<Rightarrow> map_get m k | y # ys \<Rightarrow> Some (last (y # ys)))"
proof (induction xs arbitrary: m)
  case (Cons x xs)
  then show ?case
    by (cases "key x") (auto split: list.splits)
qed simp

lemma index_by_Some:
  "map_get (index_by key xs []) k = Some x \<Longrightarrow> x \<in> set xs \<and> key x = Some k"
proof -
  assume a: "map_get (index_by key xs []) k = Some x"
  let ?f = "filter (\<lambda>x. key x = Some k) xs"
  from a have "?f \<noteq> []" and "x = last ?f"
    by (auto simp: index_by_lookup split: list.splits)
  then have "x \<in> set ?f" using last_in_set [of ?f] by metis
  then show ?thesis by (simp only: set_filter mem_Collect_eq)
qed

lemma index_by_None:
  "map_get (index_by key xs []) k = None \<longleftrightarrow> (\<forall>x \<in> set xs. key x \<noteq> Some k)"
proof -
  have "map_get (index_by key xs []) k = None \<longleftrightarrow> filter (\<lambda>x. key x = Some k) xs = []"
    by (simp only: index_by_lookup map_of.simps) (simp split: list.split)
  then show ?thesis by (simp only: filter_empty_conv)
qed

section \<open>The stable sort\<close>

text \<open>
  \<open>xs.sort(cmp)\<close> is stable: \<open>le a b\<close> stands for \<open>cmp(a, b) <= 0\<close>. The interface is a
  total preorder; under it the result is the sorted permutation that keeps the order of equals.
\<close>

fun insert_by :: "('a \<Rightarrow> 'a \<Rightarrow> bool) \<Rightarrow> 'a \<Rightarrow> 'a list \<Rightarrow> 'a list" where
  "insert_by le x [] = [x]"
| "insert_by le x (y # ys) = (if le x y then x # y # ys else y # insert_by le x ys)"

fun sort_by :: "('a \<Rightarrow> 'a \<Rightarrow> bool) \<Rightarrow> 'a list \<Rightarrow> 'a list" where
  "sort_by le [] = []"
| "sort_by le (x # xs) = insert_by le x (sort_by le xs)"

lemma mset_insert_by [simp]: "mset (insert_by le x ys) = add_mset x (mset ys)"
  by (induction ys) auto

lemma mset_sort_by [simp]: "mset (sort_by le xs) = mset xs"
  by (induction xs) auto

lemma set_insert_by [simp]: "set (insert_by le x ys) = insert x (set ys)"
  by (induction ys) auto

lemma set_sort_by [simp]: "set (sort_by le xs) = set xs"
  by (induction xs) auto

lemma length_sort_by [simp]: "length (sort_by le xs) = length xs"
  by (metis mset_sort_by size_mset)

locale comparator =
  fixes le :: "'a \<Rightarrow> 'a \<Rightarrow> bool"
  assumes le_total: "le x y \<or> le y x"
    and le_trans: "le x y \<Longrightarrow> le y z \<Longrightarrow> le x z"
begin

lemma le_refl: "le x x"
  using le_total by blast

lemma sorted_insert_by: "sorted_wrt le ys \<Longrightarrow> sorted_wrt le (insert_by le x ys)"
proof (induction ys)
  case (Cons y ys)
  then show ?case using le_total [of x y] by (auto intro: le_trans)
qed simp

lemma sorted_sort_by: "sorted_wrt le (sort_by le xs)"
  by (induction xs) (simp_all add: sorted_insert_by)

lemma stable_insert_by:
  assumes "\<And>y z. P y \<Longrightarrow> P z \<Longrightarrow> le y z"
  shows "filter P (insert_by le x ys) = filter P (x # ys)"
  using assms by (induction ys) auto

text \<open>Elements that compare equal keep their order.\<close>

lemma stable_sort_by:
  assumes "\<And>y z. P y \<Longrightarrow> P z \<Longrightarrow> le y z"
  shows "filter P (sort_by le xs) = filter P xs"
  using assms by (induction xs) (simp_all add: stable_insert_by)

end

section \<open>Lists\<close>

lemma filter_partition_mset:
  "(\<And>x. x \<in> set xs \<Longrightarrow> P x \<longleftrightarrow> \<not> Q x) \<Longrightarrow> mset (filter P xs) + mset (filter Q xs) = mset xs"
  by (induction xs) auto

lemma concat_map_filter: "concat (map (\<lambda>x. if P x then f x else []) xs) = concat (map f (filter P xs))"
  by (induction xs) auto

section \<open>Clamped values\<close>

text \<open>
  The contract of a size that the code keeps with \<open>Math.min(hi, Math.max(lo, x))\<close>: the panels that
  can be resized rely on it.
\<close>

locale clamped =
  fixes lo hi :: "'a :: linorder"
  assumes lo_le_hi: "lo \<le> hi"
begin

definition in_range :: "'a \<Rightarrow> bool" where
  "in_range x = (lo \<le> x \<and> x \<le> hi)"

lemma clamp_in_range: "in_range (min hi (max lo x))"
  using lo_le_hi by (auto simp: in_range_def)

lemma clamp_id: "in_range x \<Longrightarrow> min hi (max lo x) = x"
  by (auto simp: in_range_def)

lemma clamp_idem: "min hi (max lo (min hi (max lo x))) = min hi (max lo x)"
  by (rule clamp_id) (rule clamp_in_range)

lemma clamp_mono: "x \<le> y \<Longrightarrow> min hi (max lo x) \<le> min hi (max lo y)"
  by (intro min.mono max.mono order_refl)

end

end
