(* ===== verification/Js_Value.thy ===== *)
theory Js_Value
  imports Prelude
begin

text \<open>
  Values of type \<open>unknown\<close> as the sources handle them (tool arguments, tool outputs, message
  content, artifacts): a dynamic value with JavaScript's \<open>typeof\<close> tests, property access and
  nullish operator, and \<open>JSON.parse\<close> / \<open>JSON.stringify\<close>. Numbers are integers, or
  a decimal literal kept as its text when it has a fraction or an exponent.
\<close>

datatype jsval =
    JUndefined
  | JNull
  | JBool bool
  | JNum int
  | JDec string
  | JStr string
  | JArr "jsval list"
  | JObj "(string \<times> jsval) list"

section \<open>Tests, property access, nullish operator\<close>

definition is_nullish :: "jsval \<Rightarrow> bool" where
  "is_nullish v = (v = JUndefined \<or> v = JNull)"

text \<open>\<open>a ?? b\<close> on dynamic values.\<close>

definition jnullish :: "jsval \<Rightarrow> jsval \<Rightarrow> jsval" where
  "jnullish a b = (if is_nullish a then b else a)"

text \<open>\<open>typeof v === "object"\<close> holds of null, of arrays and of objects.\<close>

fun typeof_object :: "jsval \<Rightarrow> bool" where
  "typeof_object JNull = True"
| "typeof_object (JArr _) = True"
| "typeof_object (JObj _) = True"
| "typeof_object _ = False"

fun js_truthy :: "jsval \<Rightarrow> bool" where
  "js_truthy JUndefined = False"
| "js_truthy JNull = False"
| "js_truthy (JBool b) = b"
| "js_truthy (JNum n) = (n \<noteq> 0)"
| "js_truthy (JDec _) = True"
| "js_truthy (JStr s) = (s \<noteq> [])"
| "js_truthy (JArr _) = True"
| "js_truthy (JObj _) = True"

fun as_string :: "jsval \<Rightarrow> string option" where
  "as_string (JStr s) = Some s"
| "as_string _ = None"

fun as_bool :: "jsval \<Rightarrow> bool option" where
  "as_bool (JBool b) = Some b"
| "as_bool _ = None"

text \<open>Reading a property of an object; every other value has none of the properties read.\<close>

fun get_prop :: "jsval \<Rightarrow> string \<Rightarrow> jsval" where
  "get_prop (JObj kvs) k = (case map_of kvs k of None \<Rightarrow> JUndefined | Some v \<Rightarrow> v)"
| "get_prop _ k = JUndefined"

lemma as_string_Some [simp]: "as_string v = Some s \<longleftrightarrow> v = JStr s"
  by (cases v) auto

lemma as_bool_Some [simp]: "as_bool v = Some b \<longleftrightarrow> v = JBool b"
  by (cases v) auto

lemma jnullish_simps [simp]:
  "jnullish JUndefined b = b" "jnullish JNull b = b" "jnullish (JStr s) b = JStr s"
  "jnullish (JObj kvs) b = JObj kvs"
  by (simp_all add: jnullish_def is_nullish_def)

section \<open>JSON.stringify\<close>

definition hex_digit :: "nat \<Rightarrow> char" where
  "hex_digit d = (if d < 10 then char_of (48 + d) else char_of (87 + d))"

definition escape_char :: "char \<Rightarrow> string" where
  "escape_char c =
     (let n = code c in
      if n = 34 then [CHR 0x5C, CHR 0x22]
      else if n = 92 then [CHR 0x5C, CHR 0x5C]
      else if n = 8 then [CHR 0x5C, CHR ''b'']
      else if n = 9 then [CHR 0x5C, CHR ''t'']
      else if n = 10 then [CHR 0x5C, CHR ''n'']
      else if n = 12 then [CHR 0x5C, CHR ''f'']
      else if n = 13 then [CHR 0x5C, CHR ''r'']
      else if n < 32 then [CHR 0x5C, CHR ''u'', CHR ''0'', CHR ''0'', hex_digit (n div 16), hex_digit (n mod 16)]
      else [c])"

definition quote_str :: "string \<Rightarrow> string" where
  "quote_str s = [CHR 0x22] @ concat (map escape_char s) @ [CHR 0x22]"

text \<open>
  \<open>undefined\<close> is printed as \<open>null\<close> inside an array and its property is left out of an
  object; \<open>JSON.stringify(undefined)\<close> itself is \<open>undefined\<close>, the \<open>None\<close> of
  \<open>stringify\<close>.
\<close>

fun stringify_val :: "jsval \<Rightarrow> string"
  and stringify_elems :: "jsval list \<Rightarrow> string list"
  and stringify_props :: "(string \<times> jsval) list \<Rightarrow> string list"
where
  "stringify_val JUndefined = ''null''"
| "stringify_val JNull = ''null''"
| "stringify_val (JBool b) = (if b then ''true'' else ''false'')"
| "stringify_val (JNum n) = int_str n"
| "stringify_val (JDec d) = d"
| "stringify_val (JStr s) = quote_str s"
| "stringify_val (JArr vs) = ''['' @ join '','' (stringify_elems vs) @ '']''"
| "stringify_val (JObj kvs) = ''{'' @ join '','' (stringify_props kvs) @ ''}''"
| "stringify_elems [] = []"
| "stringify_elems (v # vs) = stringify_val v # stringify_elems vs"
| "stringify_props [] = []"
| "stringify_props ((k, v) # kvs) =
     (if v = JUndefined then stringify_props kvs
      else (quote_str k @ '':'' @ stringify_val v) # stringify_props kvs)"

definition stringify :: "jsval \<Rightarrow> string option" where
  "stringify v = (if v = JUndefined then None else Some (stringify_val v))"

section \<open>JSON.parse\<close>

type_synonym 'a parser = "string \<Rightarrow> ('a \<times> string) option"

definition json_ws :: "char \<Rightarrow> bool" where
  "json_ws c = (code c = 32 \<or> code c = 9 \<or> code c = 10 \<or> code c = 13)"

definition skip_ws :: "string \<Rightarrow> string" where
  "skip_ws s = dropWhile json_ws s"

definition hex_val :: "char \<Rightarrow> nat option" where
  "hex_val c =
     (let n = code c in
      if 48 \<le> n \<and> n \<le> 57 then Some (n - 48)
      else if 97 \<le> n \<and> n \<le> 102 then Some (n - 87)
      else if 65 \<le> n \<and> n \<le> 70 then Some (n - 55)
      else None)"

text \<open>The value of a \<open>\u\<close> escape; code units outside Latin-1 are outside the model's strings.\<close>

definition unicode_escape :: "char \<Rightarrow> char \<Rightarrow> char \<Rightarrow> char \<Rightarrow> char option" where
  "unicode_escape a b c d =
     (case (hex_val a, hex_val b, hex_val c, hex_val d) of
        (Some w, Some x, Some y, Some z) \<Rightarrow>
          (if w = 0 \<and> x = 0 then Some (char_of (16 * y + z)) else None)
      | _ \<Rightarrow> None)"

definition simple_escape :: "char \<Rightarrow> char option" where
  "simple_escape c =
     (let n = code c in
      if n = 34 \<or> n = 92 \<or> n = 47 then Some c
      else if c = CHR ''b'' then Some (char_of (8::nat))
      else if c = CHR ''f'' then Some (char_of (12::nat))
      else if c = CHR ''n'' then Some (char_of (10::nat))
      else if c = CHR ''r'' then Some (char_of (13::nat))
      else if c = CHR ''t'' then Some (char_of (9::nat))
      else None)"

text \<open>The characters after an opening quote, up to and including the closing one.\<close>

fun parse_chars :: "string parser" where
  "parse_chars [] = None"
| "parse_chars (c # s) =
     (if code c = 34 then Some ([], s)
      else if code c = 92 then
        (case s of
           [] \<Rightarrow> None
         | e # s1 \<Rightarrow>
             (if e = CHR ''u'' then
                (case s1 of
                   w # x # y # z # s2 \<Rightarrow>
                     (case unicode_escape w x y z of
                        None \<Rightarrow> None
                      | Some u \<Rightarrow> map_option (\<lambda>(t, r). (u # t, r)) (parse_chars s2))
                 | _ \<Rightarrow> None)
              else (case simple_escape e of
                      None \<Rightarrow> None
                    | Some u \<Rightarrow> map_option (\<lambda>(t, r). (u # t, r)) (parse_chars s1))))
      else if code c < 32 then None
      else map_option (\<lambda>(t, r). (c # t, r)) (parse_chars s))"

definition parse_string :: "string parser" where
  "parse_string s = (case s of c # r \<Rightarrow> (if code c = 34 then parse_chars r else None) | [] \<Rightarrow> None)"

definition parse_digits :: "string parser" where
  "parse_digits s =
     (let ds = takeWhile is_digit s in if ds = [] then None else Some (ds, dropWhile is_digit s))"

text \<open>The optional fraction and exponent of a number, as text.\<close>

definition parse_frac :: "string parser" where
  "parse_frac s =
     (case s of
        c # r \<Rightarrow> (if c = CHR ''.'' then map_option (\<lambda>(ds, r'). (c # ds, r')) (parse_digits r) else Some ([], s))
      | [] \<Rightarrow> Some ([], s))"

definition parse_exp :: "string parser" where
  "parse_exp s =
     (case s of
        c # r \<Rightarrow>
          (if c = CHR ''e'' \<or> c = CHR ''E'' then
             (case r of
                d # r1 \<Rightarrow>
                  (if d = CHR ''+'' \<or> d = CHR ''-''
                   then map_option (\<lambda>(ds, r'). (c # d # ds, r')) (parse_digits r1)
                   else map_option (\<lambda>(ds, r'). (c # ds, r')) (parse_digits r))
              | [] \<Rightarrow> None)
           else Some ([], s))
      | [] \<Rightarrow> Some ([], s))"

definition parse_number :: "jsval parser" where
  "parse_number s =
     (let neg = startsWith s ''-''; s1 = (if neg then drop 1 s else s) in
      case parse_digits s1 of
        None \<Rightarrow> None
      | Some (ds, s2) \<Rightarrow>
          if 1 < length ds \<and> hd ds = CHR ''0'' then None
          else (case parse_frac s2 of
             None \<Rightarrow> None
           | Some (fr, s3) \<Rightarrow>
               (case parse_exp s3 of
                  None \<Rightarrow> None
                | Some (ex, s4) \<Rightarrow>
                    Some (if fr = [] \<and> ex = []
                          then JNum (if neg then - int (digits_val ds) else int (digits_val ds))
                          else JDec ((if neg then ''-'' else []) @ ds @ fr @ ex), s4))))"

text \<open>
  The recursive descent. The first argument bounds the depth of calls; \<open>json_parse_fuel\<close> below
  shows that more than twice the length of the text changes nothing. A repeated key keeps its place
  and takes the last value.
\<close>

fun parse_val :: "nat \<Rightarrow> jsval parser"
  and parse_elems :: "nat \<Rightarrow> jsval list parser"
  and parse_props :: "nat \<Rightarrow> (string \<times> jsval) list \<Rightarrow> (string \<times> jsval) list parser"
where
  "parse_val 0 s = None"
| "parse_val (Suc n) s =
     (case skip_ws s of
        [] \<Rightarrow> None
      | c # r \<Rightarrow>
          if c = CHR ''{'' then
            (if startsWith (skip_ws r) ''}'' then Some (JObj [], drop 1 (skip_ws r))
             else map_option (\<lambda>(kvs, r'). (JObj kvs, r')) (parse_props n [] r))
          else if c = CHR ''['' then
            (if startsWith (skip_ws r) '']'' then Some (JArr [], drop 1 (skip_ws r))
             else map_option (\<lambda>(vs, r'). (JArr vs, r')) (parse_elems n r))
          else if code c = 34 then map_option (\<lambda>(t, r'). (JStr t, r')) (parse_chars r)
          else if startsWith (c # r) ''null'' then Some (JNull, drop 4 (c # r))
          else if startsWith (c # r) ''true'' then Some (JBool True, drop 4 (c # r))
          else if startsWith (c # r) ''false'' then Some (JBool False, drop 5 (c # r))
          else parse_number (c # r))"
| "parse_elems 0 s = None"
| "parse_elems (Suc n) s =
     (case parse_val n s of
        None \<Rightarrow> None
      | Some (v, s1) \<Rightarrow>
          (case skip_ws s1 of
             c # s2 \<Rightarrow>
               (if c = CHR '']'' then Some ([v], s2)
                else if c = CHR '','' then map_option (\<lambda>(vs, r). (v # vs, r)) (parse_elems n s2)
                else None)
           | [] \<Rightarrow> None))"
| "parse_props 0 acc s = None"
| "parse_props (Suc n) acc s =
     (case parse_string (skip_ws s) of
        None \<Rightarrow> None
      | Some (k, s1) \<Rightarrow>
          (case skip_ws s1 of
             c # s2 \<Rightarrow>
               (if c \<noteq> CHR '':'' then None
                else (case parse_val n s2 of
                   None \<Rightarrow> None
                 | Some (v, s3) \<Rightarrow>
                     (case skip_ws s3 of
                        d # s4 \<Rightarrow>
                          (if d = CHR ''}'' then Some (map_set k v acc, s4)
                           else if d = CHR '','' then parse_props n (map_set k v acc) s4
                           else None)
                      | [] \<Rightarrow> None)))
           | [] \<Rightarrow> None))"

definition json_parse :: "string \<Rightarrow> jsval option" where
  "json_parse s =
     (case parse_val (Suc (2 * length s)) s of
        Some (v, r) \<Rightarrow> (if skip_ws r = [] then Some v else None)
      | None \<Rightarrow> None)"

section \<open>The fuel of the parser is enough\<close>

text \<open>Every parser leaves a shorter rest, so a member costs at most two calls per character.\<close>

lemma length_skip_ws: "length (skip_ws s) \<le> length s"
  by (simp add: skip_ws_def length_dropWhile_le)

lemma skip_ws_Cons_length: "skip_ws s = c # r \<Longrightarrow> length r < length s"
  using length_skip_ws [of s] by simp

lemma parse_chars_length: "parse_chars s = Some (t, r) \<Longrightarrow> length r < length s"
  by (induction s arbitrary: t r rule: parse_chars.induct)
    (fastforce split: if_splits list.splits option.splits)+

lemma parse_string_length: "parse_string s = Some (t, r) \<Longrightarrow> length r < length s"
  by (auto simp: parse_string_def dest!: parse_chars_length split: list.splits if_splits)

lemma parse_digits_length:
  assumes "parse_digits s = Some (t, r)"
  shows "length r < length s"
proof -
  have "length (takeWhile is_digit s) + length (dropWhile is_digit s) = length s"
    by (metis length_append takeWhile_dropWhile_id)
  with assms show ?thesis
    by (auto simp: parse_digits_def Let_def length_greater_0_conv [symmetric]
        simp del: length_greater_0_conv split: if_splits)
qed

lemma parse_frac_length: "parse_frac s = Some (t, r) \<Longrightarrow> length r \<le> length s"
  by (auto simp: parse_frac_def dest!: parse_digits_length split: list.splits if_splits)

lemma parse_exp_length: "parse_exp s = Some (t, r) \<Longrightarrow> length r \<le> length s"
  by (auto simp: parse_exp_def dest!: parse_digits_length split: list.splits if_splits)

lemma parse_number_length:
  assumes "parse_number s = Some (v, r)"
  shows "length r < length s"
proof -
  let ?s1 = "if startsWith s ''-'' then drop 1 s else s"
  obtain ds s2 fr s3 ex where
    "parse_digits ?s1 = Some (ds, s2)" "parse_frac s2 = Some (fr, s3)" "parse_exp s3 = Some (ex, r)"
    using assms unfolding parse_number_def Let_def by (auto split: option.splits prod.splits if_split_asm)
  then have "length r < length ?s1"
    by (meson order.strict_trans1 parse_digits_length parse_exp_length parse_frac_length)
  also have "length ?s1 \<le> length s"
    by simp
  finally show ?thesis .
qed

lemma parse_length:
  "parse_val n s = Some (v, r) \<Longrightarrow> length r < length s"
  "parse_elems n s = Some (vs, r) \<Longrightarrow> length r < length s"
  "parse_props n acc s = Some (kvs, r) \<Longrightarrow> length r < length s"
proof (induction n arbitrary: s v vs kvs r acc)
  case (Suc n)
  {
    case 1
    then obtain c s1 where ws: "skip_ws s = c # s1"
      by (auto split: list.splits)
    note len = skip_ws_Cons_length [OF ws] length_skip_ws [of s1]
    show ?case
      using 1 ws len
      by (auto dest!: Suc.IH(2) Suc.IH(3) parse_chars_length parse_number_length split: if_splits)
  next
    case 2
    then obtain w s1 c s2 where val: "parse_val n s = Some (w, s1)" and ws: "skip_ws s1 = c # s2"
      by (auto split: option.splits list.splits)
    show ?case
      using 2 val ws Suc.IH(1) [OF val] skip_ws_Cons_length [OF ws]
      by (auto dest!: Suc.IH(2) split: if_splits)
  next
    case 3
    then obtain k s1 c s2 w s3 d s4 where
      str: "parse_string (skip_ws s) = Some (k, s1)" and ws: "skip_ws s1 = c # s2" and
      val: "parse_val n s2 = Some (w, s3)" and ws': "skip_ws s3 = d # s4"
      by (auto split: option.splits list.splits if_splits)
    note len = parse_string_length [OF str] length_skip_ws [of s] skip_ws_Cons_length [OF ws]
      Suc.IH(1) [OF val] skip_ws_Cons_length [OF ws']
    show ?case
      using 3 str ws val ws' len by (auto dest!: Suc.IH(3) split: if_splits)
  }
qed simp_all

lemma parse_fuel:
  "2 * length s < n \<Longrightarrow> 2 * length s < m \<Longrightarrow> parse_val n s = parse_val m s"
  "2 * length s + 1 < n \<Longrightarrow> 2 * length s + 1 < m \<Longrightarrow> parse_elems n s = parse_elems m s"
  "2 * length s + 1 < n \<Longrightarrow> 2 * length s + 1 < m \<Longrightarrow> parse_props n acc s = parse_props m acc s"
proof (induction n arbitrary: s acc m)
  case (Suc n)
  {
    case 1
    then obtain m' where m: "m = Suc m'"
      by (cases m) auto
    show ?case
    proof (cases "skip_ws s")
      case (Cons c r)
      have "parse_elems n r = parse_elems m' r" "parse_props n [] r = parse_props m' [] r"
        using 1 m skip_ws_Cons_length [OF Cons] by (auto intro!: Suc.IH(2) Suc.IH(3))
      then show ?thesis
        using Cons m by simp
    qed (simp add: m)
  next
    case 2
    then obtain m' where m: "m = Suc m'"
      by (cases m) auto
    have val: "parse_val n s = parse_val m' s"
      using 2 m by (intro Suc.IH(1)) auto
    have "parse_elems n s2 = parse_elems m' s2"
      if "parse_val m' s = Some (v, s1)" "skip_ws s1 = c # s2" for v s1 c s2
      using 2 m parse_length(1) [OF that(1)] skip_ws_Cons_length [OF that(2)]
      by (intro Suc.IH(2)) auto
    then show ?case
      by (auto simp: m val split: option.split list.split)
  next
    case 3
    then obtain m' where m: "m = Suc m'"
      by (cases m) auto
    have len: "length s2 < length s"
      if "parse_string (skip_ws s) = Some (k, s1)" "skip_ws s1 = c # s2" for k s1 c s2
      using parse_string_length [OF that(1)] length_skip_ws [of s] skip_ws_Cons_length [OF that(2)]
      by simp
    have val: "parse_val n s2 = parse_val m' s2"
      if "parse_string (skip_ws s) = Some (k, s1)" "skip_ws s1 = c # s2" for k s1 c s2
      using 3 m len [OF that] by (intro Suc.IH(1)) auto
    have "parse_props n acc' s4 = parse_props m' acc' s4"
      if "parse_string (skip_ws s) = Some (k, s1)" "skip_ws s1 = c # s2"
        "parse_val m' s2 = Some (v, s3)" "skip_ws s3 = d # s4" for k s1 c s2 v s3 d s4 acc'
      using 3 m len [OF that(1,2)] parse_length(1) [OF that(3)] skip_ws_Cons_length [OF that(4)]
      by (intro Suc.IH(3)) auto
    then show ?case
      by (auto simp: m val split: option.split list.split)
  }
qed simp_all

text \<open>More fuel than \<open>json_parse\<close> gives changes nothing: no text is refused for want of fuel.\<close>

lemma json_parse_fuel:
  assumes "2 * length s < n"
  shows "json_parse s =
    (case parse_val n s of Some (v, r) \<Rightarrow> (if skip_ws r = [] then Some v else None) | None \<Rightarrow> None)"
  using parse_fuel(1) [of s "Suc (2 * length s)" n] assms by (simp add: json_parse_def)

end
