(* ===== verification/Agent_Types.thy ===== *)
theory Agent_Types
  imports Js_Value
begin

text \<open>
  The data model of the agent pages (\<open>lib/agents/types.ts\<close>): authors, statuses, transcript
  chunks, messages, threads, schedules and the git status entries. A TypeScript union of string
  literals is a datatype, an interface a record (fields prefixed with a short name of the
  interface, since field names are global in HOL), an optional or nullable field an option.
\<close>

datatype Author = UserAuthor | AgentAuthor | SystemAuthor | ToolAuthor

datatype ChunkKind =
    KText | KReasoning | KCode | KError | KList | KToolExecution | KTodo | KImage

datatype TodoStatus = TodoPending | TodoInProgress | TodoCompleted

datatype AgentStatus = Idle | Running | Finished | Interrupted | Errored

datatype AgentSource = FromDashboard | FromGithub | FromSlack | FromLinear | FromSchedule

record TodoItem =
  todo_content :: string
  todo_status :: TodoStatus

datatype AcpToolKind =
    ReadK | EditK | DeleteK | MoveK | SearchK | ExecuteK | ThinkK | FetchK | SlackK | LinearK
  | TaskK | OtherK

datatype AcpToolStatus = PendingS | InProgressS | CompletedS | ErrorS

record AcpToolLocation =
  loc_path :: string
  loc_line :: "int option"

record DiffData =
  originalContent :: "string option"
  newContent :: string
  filePath :: string
  isNewFile :: bool
  isBinary :: bool
  isTruncated :: bool
  totalLines :: jsval

record ToolExecutionChunk =
  tc_toolCallId :: string
  tc_title :: string
  tc_toolKind :: AcpToolKind
  tc_input :: "jsval option"
  tc_status :: AcpToolStatus
  tc_output :: "string option"
  tc_elapsedMs :: "int option"
  tc_approvalRequestId :: "string option"
  tc_diffData :: "DiffData option"
  tc_diffs :: "DiffData list option"
  tc_locations :: "AcpToolLocation list option"
  tc_subagentNamespace :: "string list option"

record ImageData =
  img_base64 :: string
  img_mimeType :: string
  img_fileName :: "string option"

datatype Chunk =
    TextChunk string
  | ReasoningChunk string
  | CodeChunk string "string option"
  | ErrorChunk string
  | ListChunk "string list"
  | ToolChunk ToolExecutionChunk
  | TodoChunk "TodoItem list"
  | ImageChunk ImageData

record Message =
  msg_id :: string
  msg_author :: Author
  msg_timestamp :: string
  msg_chunks :: "Chunk list"
  msg_hidden :: "bool option"

record Project =
  project_id :: string
  project_path :: string
  project_name :: string
  project_createdAt :: int
  project_lastOpenedAt :: int
  project_gitBranch :: "string option"

record AgentSchedule =
  sched_id :: string
  sched_name :: string
  sched_prompt :: string
  sched_schedule :: string
  sched_repo :: "string option"
  sched_model :: string
  sched_effort :: "string option"
  sched_enabled :: bool
  sched_cronId :: "string option"
  sched_lastThreadId :: "string option"
  sched_lastRunId :: "string option"
  sched_lastTriggeredAt :: "string option"
  sched_lastError :: "string option"
  sched_lastErrorAt :: "string option"
  sched_createdAt :: "string option"
  sched_updatedAt :: "string option"

datatype PrState = PrDraft | PrOpen | PrMerged | PrClosed

record ThreadPr =
  pr_number :: int
  pr_title :: string
  pr_state :: PrState
  pr_headRef :: string
  pr_baseRef :: string
  pr_url :: string

record DiffStats =
  ds_files :: int
  ds_additions :: int
  ds_deletions :: int

record ChangedFile =
  cf_path :: string
  cf_additions :: int
  cf_deletions :: int
  cf_patch :: "string option"

record AgentThread =
  th_id :: string
  th_title :: string
  th_repo :: string
  th_repoFullName :: string
  th_branch :: string
  th_model :: string
  th_effort :: "string option"
  th_source :: "AgentSource option"
  th_status :: AgentStatus
  th_errorMessage :: "string option"
  th_viewed :: bool
  th_viewedAt :: "int option"
  th_createdAt :: int
  th_updatedAt :: int
  th_traceUrl :: "string option"
  th_workspaceId :: "string option"
  th_workspaceLabel :: "string option"
  th_workspaceBranch :: "string option"
  th_messages :: "Message list"
  th_pr :: "ThreadPr option"
  th_diffStats :: "DiffStats option"
  th_changedFiles :: "ChangedFile list option"

record SnapshotFile =
  sf_path :: string
  sf_status :: string
  sf_additions :: "int option"
  sf_deletions :: "int option"

record WorkspaceSnapshot =
  ws_base_commit :: string
  ws_head_commit :: string
  ws_is_dirty :: bool
  ws_diff_stats :: DiffStats
  ws_changed_files :: "SnapshotFile list"
  ws_commits :: "(string \<times> string) list"

datatype GitFileStatus =
    IndexModified | IndexAdded | IndexDeleted | IndexRenamed | IndexCopied
  | Modified | Deleted | Untracked | Ignored | TypeChanged | IntentToAdd
  | BothModified | BothAdded | BothDeleted | AddedByUs | AddedByThem | DeletedByUs | DeletedByThem

record GitStatusEntry =
  gs_path :: string
  gs_status :: GitFileStatus
  gs_staged :: bool
  gs_originalPath :: "string option"

text \<open>The discriminating field \<open>chunk.kind\<close>.\<close>

fun chunk_kind :: "Chunk \<Rightarrow> ChunkKind" where
  "chunk_kind (TextChunk _) = KText"
| "chunk_kind (ReasoningChunk _) = KReasoning"
| "chunk_kind (CodeChunk _ _) = KCode"
| "chunk_kind (ErrorChunk _) = KError"
| "chunk_kind (ListChunk _) = KList"
| "chunk_kind (ToolChunk _) = KToolExecution"
| "chunk_kind (TodoChunk _) = KTodo"
| "chunk_kind (ImageChunk _) = KImage"

fun chunk_tool :: "Chunk \<Rightarrow> ToolExecutionChunk option" where
  "chunk_tool (ToolChunk t) = Some t"
| "chunk_tool _ = None"

lemma chunk_kind_text_iff: "chunk_kind c = KText \<longleftrightarrow> (\<exists>t. c = TextChunk t)"
  by (cases c) auto

lemma chunk_tool_Some [simp]: "chunk_tool c = Some t \<longleftrightarrow> c = ToolChunk t"
  by (cases c) auto

text \<open>A tool chunk with only the fields every tool chunk has.\<close>

definition bare_tool_chunk ::
  "string \<Rightarrow> string \<Rightarrow> AcpToolKind \<Rightarrow> jsval option \<Rightarrow> AcpToolStatus \<Rightarrow> ToolExecutionChunk" where
  "bare_tool_chunk cid ttl k inp st =
     \<lparr>tc_toolCallId = cid, tc_title = ttl, tc_toolKind = k, tc_input = inp, tc_status = st,
      tc_output = None, tc_elapsedMs = None, tc_approvalRequestId = None, tc_diffData = None,
      tc_diffs = None, tc_locations = None, tc_subagentNamespace = None\<rparr>"

lemma bare_tool_chunk_sel [simp]:
  "tc_toolCallId (bare_tool_chunk cid ttl k inp st) = cid"
  "tc_title (bare_tool_chunk cid ttl k inp st) = ttl"
  "tc_toolKind (bare_tool_chunk cid ttl k inp st) = k"
  "tc_input (bare_tool_chunk cid ttl k inp st) = inp"
  "tc_status (bare_tool_chunk cid ttl k inp st) = st"
  "tc_output (bare_tool_chunk cid ttl k inp st) = None"
  "tc_diffData (bare_tool_chunk cid ttl k inp st) = None"
  "tc_diffs (bare_tool_chunk cid ttl k inp st) = None"
  "tc_subagentNamespace (bare_tool_chunk cid ttl k inp st) = None"
  by (simp_all add: bare_tool_chunk_def)

text \<open>\<open>chunks.filter(kind = "text").map(text)\<close> and the tool chunks, in order.\<close>

fun texts_of :: "Chunk list \<Rightarrow> string list" where
  "texts_of [] = []"
| "texts_of (TextChunk t # cs) = t # texts_of cs"
| "texts_of (_ # cs) = texts_of cs"

fun tools_of :: "Chunk list \<Rightarrow> ToolExecutionChunk list" where
  "tools_of [] = []"
| "tools_of (ToolChunk t # cs) = t # tools_of cs"
| "tools_of (_ # cs) = tools_of cs"

lemma texts_of_append [simp]: "texts_of (xs @ ys) = texts_of xs @ texts_of ys"
  by (induction xs rule: texts_of.induct) auto

lemma tools_of_append [simp]: "tools_of (xs @ ys) = tools_of xs @ tools_of ys"
  by (induction xs rule: tools_of.induct) auto

lemma tools_of_concat: "tools_of (concat xss) = concat (map tools_of xss)"
  by (induction xss) auto

lemma set_tools_of: "t \<in> set (tools_of cs) \<longleftrightarrow> ToolChunk t \<in> set cs"
  by (induction cs rule: tools_of.induct) auto

end
