(* ===== verification/Render_Items.thy ===== *)
theory Render_Items
  imports Agent_Types
begin

text \<open>
  \<open>components/agents/messages/renderItems.ts\<close>: how the chunks of a message become the items the
  page renders. Runs of exploration calls and runs of subagent calls are collected into groups.
\<close>

datatype RenderItem =
    TextItem (item_key: string) Chunk
  | ReasoningItem (item_key: string) Chunk
  | ExploredGroup (item_key: string) (group_id: string) "ToolExecutionChunk list"
  | SubagentGroup (item_key: string) (group_id: string) "ToolExecutionChunk list"
  | EditItem (item_key: string) ToolExecutionChunk
  | ShellItem (item_key: string) ToolExecutionChunk
  | ReplyItem (item_key: string) ToolExecutionChunk
  | ToolItem (item_key: string) ToolExecutionChunk

fun getChunkRenderKey :: "Chunk \<Rightarrow> nat \<Rightarrow> string" where
  "getChunkRenderKey (ToolChunk t) i = ''tool-'' @ tc_toolCallId t"
| "getChunkRenderKey (TextChunk _) i = ''text-'' @ nat_str i"
| "getChunkRenderKey (ReasoningChunk _) i = ''reasoning-'' @ nat_str i"
| "getChunkRenderKey (CodeChunk _ _) i = ''code-'' @ nat_str i"
| "getChunkRenderKey (ErrorChunk _) i = ''error-'' @ nat_str i"
| "getChunkRenderKey (ListChunk _) i = ''list-'' @ nat_str i"
| "getChunkRenderKey (ImageChunk _) i = ''image-'' @ nat_str i"
| "getChunkRenderKey (TodoChunk _) i = ''chunk-'' @ nat_str i"

text \<open>\<open>chunk.diffs?.length\<close> is truthy exactly for a non-empty list.\<close>

definition has_diffs :: "ToolExecutionChunk \<Rightarrow> bool" where
  "has_diffs t = (case tc_diffs t of Some (d # ds) \<Rightarrow> True | _ \<Rightarrow> False)"

definition isEditTool :: "ToolExecutionChunk \<Rightarrow> bool" where
  "isEditTool t =
     (tc_toolKind t = EditK \<or> tc_toolKind t = DeleteK \<or> tc_toolKind t = MoveK
      \<or> has_diffs t \<or> tc_diffData t \<noteq> None)"

definition isExplorationTool :: "ToolExecutionChunk \<Rightarrow> bool" where
  "isExplorationTool t =
     (\<not> has_diffs t \<and> tc_diffData t = None \<and> (tc_toolKind t = ReadK \<or> tc_toolKind t = SearchK))"

definition isShellTool :: "ToolExecutionChunk \<Rightarrow> bool" where
  "isShellTool t = (tc_toolKind t = ExecuteK)"

definition isReplyTool :: "ToolExecutionChunk \<Rightarrow> bool" where
  "isReplyTool t = (tc_toolKind t = SlackK \<or> tc_toolKind t = LinearK)"

definition isSubagentTool :: "ToolExecutionChunk \<Rightarrow> bool" where
  "isSubagentTool t = (tc_toolKind t = TaskK)"

text \<open>The local variables of \<open>buildRenderItems\<close>.\<close>

record render_state =
  items :: "RenderItem list"
  exploredBuffer :: "ToolExecutionChunk list"
  exploredStartIndex :: int
  subagentBuffer :: "ToolExecutionChunk list"
  subagentStartIndex :: int

definition init_render :: render_state where
  "init_render =
     \<lparr>items = [], exploredBuffer = [], exploredStartIndex = -1,
      subagentBuffer = [], subagentStartIndex = -1\<rparr>"

text \<open>\<open>`${prefix}${firstId || startIndex}`\<close>.\<close>

definition group_key :: "string \<Rightarrow> ToolExecutionChunk list \<Rightarrow> int \<Rightarrow> string" where
  "group_key prefix buf start =
     (case buf of
        [] \<Rightarrow> prefix @ int_str start
      | t # _ \<Rightarrow> prefix @ (if tc_toolCallId t \<noteq> [] then tc_toolCallId t else int_str start))"

definition flushExplored :: "render_state \<Rightarrow> render_state" where
  "flushExplored s =
     (if exploredBuffer s = [] then s
      else (let gid = group_key ''explored-'' (exploredBuffer s) (exploredStartIndex s) in
            s\<lparr>items := items s @ [ExploredGroup gid gid (exploredBuffer s)],
              exploredBuffer := [], exploredStartIndex := -1\<rparr>))"

definition flushSubagents :: "render_state \<Rightarrow> render_state" where
  "flushSubagents s =
     (if subagentBuffer s = [] then s
      else (let gid = group_key ''subagents-'' (subagentBuffer s) (subagentStartIndex s) in
            s\<lparr>items := items s @ [SubagentGroup gid gid (subagentBuffer s)],
              subagentBuffer := [], subagentStartIndex := -1\<rparr>))"

definition flushGroups :: "render_state \<Rightarrow> render_state" where
  "flushGroups s = flushSubagents (flushExplored s)"

definition push_item :: "RenderItem \<Rightarrow> render_state \<Rightarrow> render_state" where
  "push_item it s = s\<lparr>items := items s @ [it]\<rparr>"

definition tool_item :: "ToolExecutionChunk \<Rightarrow> RenderItem" where
  "tool_item t =
     (let key = ''tool-'' @ tc_toolCallId t in
      if isEditTool t then EditItem key t
      else if isShellTool t then ShellItem key t
      else if isReplyTool t then ReplyItem key t
      else ToolItem key t)"

text \<open>\<open>messageId ? `${messageId}-${key}` : key\<close>.\<close>

definition chunk_item_key :: "string option \<Rightarrow> Chunk \<Rightarrow> nat \<Rightarrow> string" where
  "chunk_item_key messageId c i =
     (if truthy_str messageId then the messageId @ ''-'' @ getChunkRenderKey c i
      else getChunkRenderKey c i)"

fun blank_text :: "Chunk \<Rightarrow> bool" where
  "blank_text (TextChunk t) = (trim t = [])"
| "blank_text _ = False"

fun chunk_item :: "string option \<Rightarrow> nat \<Rightarrow> Chunk \<Rightarrow> RenderItem" where
  "chunk_item messageId i (ReasoningChunk t) =
     ReasoningItem (chunk_item_key messageId (ReasoningChunk t) i) (ReasoningChunk t)"
| "chunk_item messageId i c = TextItem (chunk_item_key messageId c i) c"

definition render_chunk :: "string option \<Rightarrow> nat \<Rightarrow> Chunk \<Rightarrow> render_state \<Rightarrow> render_state" where
  "render_chunk messageId i chunk s =
     (case chunk of
        ToolChunk t \<Rightarrow>
          (if isSubagentTool t then
             (let s1 = flushExplored s;
                  s2 = (if subagentBuffer s1 = [] then s1\<lparr>subagentStartIndex := int i\<rparr> else s1)
              in s2\<lparr>subagentBuffer := subagentBuffer s2 @ [t]\<rparr>)
           else if isExplorationTool t then
             (let s1 = flushSubagents s;
                  s2 = (if exploredBuffer s1 = [] then s1\<lparr>exploredStartIndex := int i\<rparr> else s1)
              in s2\<lparr>exploredBuffer := exploredBuffer s2 @ [t]\<rparr>)
           else push_item (tool_item t) (flushGroups s))
      | _ \<Rightarrow>
          (if blank_text chunk then s
           else push_item (chunk_item messageId i chunk) (flushGroups s)))"

fun render_loop :: "string option \<Rightarrow> nat \<Rightarrow> Chunk list \<Rightarrow> render_state \<Rightarrow> render_state" where
  "render_loop messageId i [] s = s"
| "render_loop messageId i (c # cs) s = render_loop messageId (Suc i) cs (render_chunk messageId i c s)"

definition buildRenderItems :: "Chunk list \<Rightarrow> string option \<Rightarrow> RenderItem list" where
  "buildRenderItems chunks messageId =
     items (flushGroups (render_loop messageId 0 chunks init_render))"

definition summarizeExploration :: "ToolExecutionChunk list \<Rightarrow> string" where
  "summarizeExploration chunks =
     ''Explored '' @ nat_str (length chunks) @ '' file'' @ (if length chunks = 1 then [] else ''s'')"

section \<open>The items as a function of the chunks still to come\<close>

text \<open>
  \<open>emit\<close> is the loop without its list of items: what the rest of the chunks adds, given the two
  buffers. All facts about the result are proved on it.
\<close>

definition explored_out :: "ToolExecutionChunk list \<Rightarrow> int \<Rightarrow> RenderItem list" where
  "explored_out eb ei =
     (if eb = [] then [] else [ExploredGroup (group_key ''explored-'' eb ei) (group_key ''explored-'' eb ei) eb])"

definition subagents_out :: "ToolExecutionChunk list \<Rightarrow> int \<Rightarrow> RenderItem list" where
  "subagents_out sb si =
     (if sb = [] then [] else [SubagentGroup (group_key ''subagents-'' sb si) (group_key ''subagents-'' sb si) sb])"

fun emit ::
  "string option \<Rightarrow> ToolExecutionChunk list \<Rightarrow> int \<Rightarrow> ToolExecutionChunk list \<Rightarrow> int \<Rightarrow> nat \<Rightarrow> Chunk list
     \<Rightarrow> RenderItem list" where
  "emit mid eb ei sb si i [] = explored_out eb ei @ subagents_out sb si"
| "emit mid eb ei sb si i (ToolChunk t # cs) =
     (if isSubagentTool t then
        explored_out eb ei
        @ emit mid [] (if eb = [] then ei else -1) (sb @ [t]) (if sb = [] then int i else si) (Suc i) cs
      else if isExplorationTool t then
        subagents_out sb si
        @ emit mid (eb @ [t]) (if eb = [] then int i else ei) [] (if sb = [] then si else -1) (Suc i) cs
      else explored_out eb ei @ subagents_out sb si @ [tool_item t]
        @ emit mid [] (if eb = [] then ei else -1) [] (if sb = [] then si else -1) (Suc i) cs)"
| "emit mid eb ei sb si i (c # cs) =
     (if blank_text c then emit mid eb ei sb si (Suc i) cs
      else explored_out eb ei @ subagents_out sb si @ [chunk_item mid i c]
        @ emit mid [] (if eb = [] then ei else -1) [] (if sb = [] then si else -1) (Suc i) cs)"

lemma flushExplored_eq:
  "flushExplored s = s\<lparr>items := items s @ explored_out (exploredBuffer s) (exploredStartIndex s),
     exploredBuffer := [], exploredStartIndex := (if exploredBuffer s = [] then exploredStartIndex s else -1)\<rparr>"
  by (cases s) (simp add: flushExplored_def explored_out_def Let_def)

lemma flushSubagents_eq:
  "flushSubagents s = s\<lparr>items := items s @ subagents_out (subagentBuffer s) (subagentStartIndex s),
     subagentBuffer := [], subagentStartIndex := (if subagentBuffer s = [] then subagentStartIndex s else -1)\<rparr>"
  by (cases s) (simp add: flushSubagents_def subagents_out_def Let_def)

lemmas flush_eqs = flushExplored_eq flushSubagents_eq flushGroups_def

lemma render_loop_emit:
  "items (flushGroups (render_loop mid i cs s)) =
     items s @ emit mid (exploredBuffer s) (exploredStartIndex s) (subagentBuffer s) (subagentStartIndex s) i cs"
proof (induction cs arbitrary: i s)
  case Nil
  then show ?case by (simp add: flush_eqs)
next
  case (Cons c cs)
  then show ?case
    by (cases c) (simp_all add: render_chunk_def push_item_def flush_eqs)
qed

lemma buildRenderItems_emit: "buildRenderItems cs mid = emit mid [] (-1) [] (-1) 0 cs"
  by (simp add: buildRenderItems_def render_loop_emit init_render_def)

text \<open>The two buffers are never both in use.\<close>

lemma emit_induct_bufs [consumes 1, case_names Nil Sub Expl Tool Blank Other]:
  assumes "eb = [] \<or> sb = []"
    and "\<And>eb ei sb si i. eb = [] \<or> sb = [] \<Longrightarrow> P eb ei sb si i []"
    and "\<And>eb ei sb si i t cs. eb = [] \<or> sb = [] \<Longrightarrow> isSubagentTool t \<Longrightarrow>
           P [] (if eb = [] then ei else -1) (sb @ [t]) (if sb = [] then int i else si) (Suc i) cs \<Longrightarrow>
           P eb ei sb si i (ToolChunk t # cs)"
    and "\<And>eb ei sb si i t cs. eb = [] \<or> sb = [] \<Longrightarrow> \<not> isSubagentTool t \<Longrightarrow> isExplorationTool t \<Longrightarrow>
           P (eb @ [t]) (if eb = [] then int i else ei) [] (if sb = [] then si else -1) (Suc i) cs \<Longrightarrow>
           P eb ei sb si i (ToolChunk t # cs)"
    and "\<And>eb ei sb si i t cs. eb = [] \<or> sb = [] \<Longrightarrow> \<not> isSubagentTool t \<Longrightarrow> \<not> isExplorationTool t \<Longrightarrow>
           P [] (if eb = [] then ei else -1) [] (if sb = [] then si else -1) (Suc i) cs \<Longrightarrow>
           P eb ei sb si i (ToolChunk t # cs)"
    and "\<And>eb ei sb si i c cs. eb = [] \<or> sb = [] \<Longrightarrow> chunk_tool c = None \<Longrightarrow> blank_text c \<Longrightarrow>
           P eb ei sb si (Suc i) cs \<Longrightarrow> P eb ei sb si i (c # cs)"
    and "\<And>eb ei sb si i c cs. eb = [] \<or> sb = [] \<Longrightarrow> chunk_tool c = None \<Longrightarrow> \<not> blank_text c \<Longrightarrow>
           P [] (if eb = [] then ei else -1) [] (if sb = [] then si else -1) (Suc i) cs \<Longrightarrow>
           P eb ei sb si i (c # cs)"
  shows "P eb ei sb si i cs"
  using assms(1)
proof (induction cs arbitrary: eb ei sb si i)
  case Nil
  then show ?case by (rule assms(2))
next
  case (Cons c cs)
  show ?case
  proof (cases "chunk_tool c")
    case (Some t)
    with Cons show ?thesis
      using assms(3) [of eb sb t] assms(4) [of eb sb t] assms(5) [of eb sb t] by (simp split: if_splits) blast
  next
    case None
    with Cons show ?thesis
      using assms(6) [of eb sb c] assms(7) [of eb sb c] by blast
  qed
qed

lemma emit_non_tool:
  "chunk_tool c = None \<Longrightarrow>
   emit mid eb ei sb si i (c # cs) =
     (if blank_text c then emit mid eb ei sb si (Suc i) cs
      else explored_out eb ei @ subagents_out sb si @ [chunk_item mid i c]
        @ emit mid [] (if eb = [] then ei else -1) [] (if sb = [] then si else -1) (Suc i) cs)"
  by (cases c) simp_all

section \<open>Completeness, grouping and keys\<close>

fun item_chunks :: "RenderItem \<Rightarrow> Chunk list" where
  "item_chunks (TextItem k c) = [c]"
| "item_chunks (ReasoningItem k c) = [c]"
| "item_chunks (ExploredGroup k g ts) = map ToolChunk ts"
| "item_chunks (SubagentGroup k g ts) = map ToolChunk ts"
| "item_chunks (EditItem k t) = [ToolChunk t]"
| "item_chunks (ShellItem k t) = [ToolChunk t]"
| "item_chunks (ReplyItem k t) = [ToolChunk t]"
| "item_chunks (ToolItem k t) = [ToolChunk t]"

lemma item_chunks_out [simp]:
  "concat (map item_chunks (explored_out eb ei)) = map ToolChunk eb"
  "concat (map item_chunks (subagents_out sb si)) = map ToolChunk sb"
  "item_chunks (tool_item t) = [ToolChunk t]"
  by (simp_all add: explored_out_def subagents_out_def tool_item_def Let_def)

lemma item_chunks_chunk_item [simp]: "item_chunks (chunk_item mid i c) = [c]"
  by (cases c) simp_all

lemma item_chunks_emit:
  "eb = [] \<or> sb = [] \<Longrightarrow>
   concat (map item_chunks (emit mid eb ei sb si i cs)) =
     map ToolChunk eb @ map ToolChunk sb @ filter (\<lambda>c. \<not> blank_text c) cs"
  by (induction eb ei sb si i cs rule: emit_induct_bufs) (auto simp: emit_non_tool)

text \<open>What each kind of item may hold.\<close>

fun item_ok :: "RenderItem \<Rightarrow> bool" where
  "item_ok (TextItem k c) = (chunk_tool c = None \<and> chunk_kind c \<noteq> KReasoning \<and> \<not> blank_text c)"
| "item_ok (ReasoningItem k c) = (chunk_kind c = KReasoning)"
| "item_ok (ExploredGroup k g ts) = (k = g \<and> ts \<noteq> [] \<and> list_all isExplorationTool ts)"
| "item_ok (SubagentGroup k g ts) = (k = g \<and> ts \<noteq> [] \<and> list_all isSubagentTool ts)"
| "item_ok (EditItem k t) = (isEditTool t \<and> \<not> isSubagentTool t)"
| "item_ok (ShellItem k t) = (isShellTool t \<and> \<not> isEditTool t)"
| "item_ok (ReplyItem k t) = (isReplyTool t \<and> \<not> isEditTool t)"
| "item_ok (ToolItem k t) =
     (\<not> isEditTool t \<and> \<not> isShellTool t \<and> \<not> isReplyTool t \<and> \<not> isSubagentTool t \<and> \<not> isExplorationTool t)"

fun same_group_kind :: "RenderItem \<Rightarrow> RenderItem \<Rightarrow> bool" where
  "same_group_kind (ExploredGroup _ _ _) (ExploredGroup _ _ _) = True"
| "same_group_kind (SubagentGroup _ _ _) (SubagentGroup _ _ _) = True"
| "same_group_kind _ _ = False"

abbreviation separated :: "RenderItem list \<Rightarrow> bool" where
  "separated its \<equiv> successively (\<lambda>a b. \<not> same_group_kind a b) its"

lemma item_ok_tool_item:
  "\<not> isSubagentTool t \<Longrightarrow> \<not> isExplorationTool t \<Longrightarrow> item_ok (tool_item t)"
  by (auto simp: tool_item_def Let_def)

lemma item_ok_chunk_item: "chunk_tool c = None \<Longrightarrow> \<not> blank_text c \<Longrightarrow> item_ok (chunk_item mid i c)"
  by (cases c) simp_all

lemma item_ok_out:
  "list_all isExplorationTool eb \<Longrightarrow> list_all item_ok (explored_out eb ei)"
  "list_all isSubagentTool sb \<Longrightarrow> list_all item_ok (subagents_out sb si)"
  by (simp_all add: explored_out_def subagents_out_def)

lemma item_ok_emit:
  "eb = [] \<or> sb = [] \<Longrightarrow> list_all isExplorationTool eb \<Longrightarrow> list_all isSubagentTool sb \<Longrightarrow>
   list_all item_ok (emit mid eb ei sb si i cs)"
proof (induction eb ei sb si i cs rule: emit_induct_bufs)
  case (Other eb ei sb si i c cs)
  then show ?case by (simp add: emit_non_tool item_ok_out item_ok_chunk_item)
qed (simp_all add: item_ok_out item_ok_tool_item emit_non_tool)

text \<open>A buffer in use comes out first, as a group of its kind.\<close>

lemma emit_first_explored:
  "eb = [] \<or> sb = [] \<Longrightarrow> eb \<noteq> [] \<Longrightarrow>
   \<exists>k g ts r. emit mid eb ei sb si i cs = ExploredGroup k g ts # r"
  by (induction eb ei sb si i cs rule: emit_induct_bufs)
     (auto simp: explored_out_def subagents_out_def emit_non_tool)

lemma emit_first_subagents:
  "eb = [] \<or> sb = [] \<Longrightarrow> sb \<noteq> [] \<Longrightarrow>
   \<exists>k g ts r. emit mid eb ei sb si i cs = SubagentGroup k g ts # r"
  by (induction eb ei sb si i cs rule: emit_induct_bufs)
     (auto simp: explored_out_def subagents_out_def emit_non_tool)

lemma same_group_kind_tool_item [simp]:
  "\<not> same_group_kind (tool_item t) b" "\<not> same_group_kind a (tool_item t)"
  by (cases a; simp add: tool_item_def Let_def)+

lemma same_group_kind_chunk_item [simp]:
  "\<not> same_group_kind (chunk_item mid i c) b" "\<not> same_group_kind a (chunk_item mid i c)"
  by (cases c; simp; cases a; simp)+

lemma separated_emit:
  "eb = [] \<or> sb = [] \<Longrightarrow> separated (emit mid eb ei sb si i cs)"
proof (induction eb ei sb si i cs rule: emit_induct_bufs)
  case (Sub eb ei sb si i t cs)
  let ?r = "emit mid [] (if eb = [] then ei else -1) (sb @ [t]) (if sb = [] then int i else si) (Suc i) cs"
  obtain k g ts r where "?r = SubagentGroup k g ts # r"
    using emit_first_subagents [of "[]" "sb @ [t]"] by blast
  with Sub show ?case by (simp add: explored_out_def successively_Cons)
next
  case (Expl eb ei sb si i t cs)
  let ?r = "emit mid (eb @ [t]) (if eb = [] then int i else ei) [] (if sb = [] then si else -1) (Suc i) cs"
  obtain k g ts r where "?r = ExploredGroup k g ts # r"
    using emit_first_explored [of "eb @ [t]" "[]"] by blast
  with Expl show ?case by (simp add: subagents_out_def successively_Cons)
next
  case (Tool eb ei sb si i t cs)
  then show ?case
    by (auto simp: explored_out_def subagents_out_def successively_Cons)
next
  case (Other eb ei sb si i c cs)
  then show ?case
    by (auto simp: explored_out_def subagents_out_def successively_Cons emit_non_tool)
qed (auto simp: explored_out_def subagents_out_def emit_non_tool)

subsection \<open>Keys\<close>

abbreviation before_hyphen :: "string \<Rightarrow> string" where
  "before_hyphen s \<equiv> takeWhile (\<lambda>c. c \<noteq> CHR ''-'') s"

definition tool_heads :: "string list" where
  "tool_heads = [''tool'', ''explored'', ''subagents'']"

text \<open>The keys made from tool call identifiers, and those made from positions.\<close>

definition tool_keys :: "string set \<Rightarrow> string set" where
  "tool_keys I = {p @ ''-'' @ x | p x. p \<in> set tool_heads \<and> x \<in> I}"

definition chunk_keys :: "string option \<Rightarrow> nat \<Rightarrow> string set" where
  "chunk_keys mid i = {chunk_item_key mid c j | c j. chunk_tool c = None \<and> i \<le> j}"

definition mid_ok :: "string option \<Rightarrow> bool" where
  "mid_ok mid = (case mid of None \<Rightarrow> True | Some m \<Rightarrow> before_hyphen m \<notin> set tool_heads)"

lemma before_hyphen_append: "CHR ''-'' \<notin> set k \<Longrightarrow> before_hyphen (k @ CHR ''-'' # x) = k"
  by (induction k) auto

lemma before_hyphen_message: "before_hyphen (m @ CHR ''-'' # x) = before_hyphen m"
  by (induction m) auto

lemma tool_heads_no_hyphen: "p \<in> set tool_heads \<Longrightarrow> CHR ''-'' \<notin> set p"
  by (auto simp: tool_heads_def)

lemma chunk_key_shape:
  "chunk_tool c = None \<Longrightarrow>
   \<exists>k. CHR ''-'' \<notin> set k \<and> k \<notin> set tool_heads \<and> getChunkRenderKey c i = k @ CHR ''-'' # nat_str i"
  by (cases c) (force simp: tool_heads_def)+

lemma nat_str_no_hyphen: "CHR ''-'' \<notin> set (nat_str n)"
  using nat_str_digits minus_not_digit by blast

lemma getChunkRenderKey_index:
  assumes "chunk_tool c = None" "chunk_tool d = None" "getChunkRenderKey c i = getChunkRenderKey d j"
  shows "i = j"
proof -
  from assms(1) obtain k where k: "CHR ''-'' \<notin> set k" "getChunkRenderKey c i = k @ CHR ''-'' # nat_str i"
    using chunk_key_shape by blast
  from assms(2) obtain l where l: "CHR ''-'' \<notin> set l" "getChunkRenderKey d j = l @ CHR ''-'' # nat_str j"
    using chunk_key_shape by blast
  have "split_on (CHR ''-'') (k @ CHR ''-'' # nat_str i) = split_on (CHR ''-'') (l @ CHR ''-'' # nat_str j)"
    using k l assms(3) by simp
  then have "[k, nat_str i] = [l, nat_str j]"
    using split_on_append [OF k(1), of "nat_str i"] split_on_append [OF l(1), of "nat_str j"]
      split_on_no_sep [OF nat_str_no_hyphen] by simp
  then show ?thesis by simp
qed

lemma chunk_item_key_index:
  "chunk_tool c = None \<Longrightarrow> chunk_tool d = None \<Longrightarrow> chunk_item_key mid c i = chunk_item_key mid d j \<Longrightarrow> i = j"
  using getChunkRenderKey_index by (auto simp: chunk_item_key_def split: if_splits)

lemma tool_keys_head: "k \<in> tool_keys I \<Longrightarrow> before_hyphen k \<in> set tool_heads"
  by (auto simp: tool_keys_def before_hyphen_append tool_heads_no_hyphen)

lemma chunk_keys_head:
  assumes "mid_ok mid" "k \<in> chunk_keys mid i"
  shows "before_hyphen k \<notin> set tool_heads"
proof -
  from assms(2) obtain c j where c: "chunk_tool c = None" "k = chunk_item_key mid c j"
    by (auto simp: chunk_keys_def)
  show ?thesis
  proof (cases "truthy_str mid")
    case True
    then obtain m where "mid = Some m" by (auto simp: truthy_str_iff)
    with True c assms(1) show ?thesis
      by (simp add: chunk_item_key_def mid_ok_def before_hyphen_message)
  next
    case False
    obtain h where "CHR ''-'' \<notin> set h" "h \<notin> set tool_heads" "getChunkRenderKey c j = h @ CHR ''-'' # nat_str j"
      using chunk_key_shape [OF c(1)] by blast
    with False c show ?thesis by (simp add: chunk_item_key_def before_hyphen_append)
  qed
qed

lemma keys_disjoint: "mid_ok mid \<Longrightarrow> tool_keys I \<inter> chunk_keys mid i = {}"
  using tool_keys_head chunk_keys_head by blast

lemma tool_key_eq:
  assumes "p \<in> set tool_heads" "q \<in> set tool_heads" "p @ ''-'' @ x = q @ ''-'' @ y"
  shows "p = q \<and> x = y"
proof -
  have "before_hyphen (p @ CHR ''-'' # x) = before_hyphen (q @ CHR ''-'' # y)" using assms(3) by simp
  then have "p = q" by (simp only: before_hyphen_append tool_heads_no_hyphen [OF assms(1)]
        tool_heads_no_hyphen [OF assms(2)] not_False_eq_True)
  with assms(3) show ?thesis by simp
qed

lemma tool_keys_disjoint: "I \<inter> J = {} \<Longrightarrow> tool_keys I \<inter> tool_keys J = {}"
  by (auto simp: tool_keys_def dest: tool_key_eq)

lemma tool_keys_mono: "I \<subseteq> J \<Longrightarrow> tool_keys I \<subseteq> tool_keys J"
  by (auto simp: tool_keys_def)

lemma chunk_keys_mono: "i \<le> j \<Longrightarrow> chunk_keys mid j \<subseteq> chunk_keys mid i"
  unfolding chunk_keys_def by (blast intro: le_trans)

abbreviation ids :: "ToolExecutionChunk list \<Rightarrow> string set" where
  "ids ts \<equiv> tc_toolCallId ` set ts"

abbreviation keys_of :: "RenderItem list \<Rightarrow> string list" where
  "keys_of its \<equiv> map item_key its"

lemma tool_keysI: "p \<in> set tool_heads \<Longrightarrow> x \<in> I \<Longrightarrow> p @ ''-'' @ x \<in> tool_keys I"
  unfolding tool_keys_def by blast

lemma keys_explored_out:
  "[] \<notin> ids eb \<Longrightarrow> set (keys_of (explored_out eb ei)) \<subseteq> tool_keys (ids eb) \<and> distinct (keys_of (explored_out eb ei))"
  using tool_keysI [of "''explored''"] by (cases eb) (auto simp: explored_out_def group_key_def tool_heads_def)

lemma keys_subagents_out:
  "[] \<notin> ids sb \<Longrightarrow> set (keys_of (subagents_out sb si)) \<subseteq> tool_keys (ids sb) \<and> distinct (keys_of (subagents_out sb si))"
  using tool_keysI [of "''subagents''"] by (cases sb) (auto simp: subagents_out_def group_key_def tool_heads_def)

lemma key_tool_item: "item_key (tool_item t) \<in> tool_keys {tc_toolCallId t}"
  using tool_keysI [of "''tool''"] by (simp add: tool_item_def Let_def tool_heads_def)

lemma key_chunk_item: "item_key (chunk_item mid i c) = chunk_item_key mid c i"
  by (cases c) simp_all

lemma chunk_key_fresh: "chunk_tool c = None \<Longrightarrow> chunk_item_key mid c i \<notin> chunk_keys mid (Suc i)"
proof
  assume c: "chunk_tool c = None" and "chunk_item_key mid c i \<in> chunk_keys mid (Suc i)"
  then obtain d j where "chunk_tool d = None" "chunk_item_key mid c i = chunk_item_key mid d j" "Suc i \<le> j"
    unfolding chunk_keys_def by blast
  then have "i = j" using chunk_item_key_index [OF c] by blast
  with \<open>Suc i \<le> j\<close> show False by simp
qed

lemma chunk_key_in: "chunk_tool c = None \<Longrightarrow> chunk_item_key mid c i \<in> chunk_keys mid i"
  by (auto simp: chunk_keys_def)

text \<open>
  The invariant of the key proof: the keys of the items still to come are distinct and made from the
  identifiers \<open>I\<close> or from positions at or after \<open>i\<close>.
\<close>

definition good_keys :: "string option \<Rightarrow> string set \<Rightarrow> nat \<Rightarrow> string list \<Rightarrow> bool" where
  "good_keys mid I i ks \<longleftrightarrow> distinct ks \<and> set ks \<subseteq> tool_keys I \<union> chunk_keys mid i"

definition ok_ids :: "ToolExecutionChunk list \<Rightarrow> bool" where
  "ok_ids ts \<longleftrightarrow> distinct (map tc_toolCallId ts) \<and> [] \<notin> ids ts"

lemma ok_ids_simps [simp]:
  "ok_ids []"
  "ok_ids (t # ts) \<longleftrightarrow> tc_toolCallId t \<noteq> [] \<and> tc_toolCallId t \<notin> ids ts \<and> ok_ids ts"
  "ok_ids (xs @ ys) \<longleftrightarrow> ok_ids xs \<and> ok_ids ys \<and> ids xs \<inter> ids ys = {}"
  by (auto simp: ok_ids_def)

lemma good_keys_Suc: "good_keys mid I (Suc i) ks \<Longrightarrow> good_keys mid I i ks"
  using chunk_keys_mono [of i "Suc i" mid] by (auto simp: good_keys_def)

lemma good_keys_tools:
  assumes "mid_ok mid" "I \<inter> J = {}" "set xs \<subseteq> tool_keys I" "distinct xs" "good_keys mid J i ys"
  shows "good_keys mid (I \<union> J) i (xs @ ys)"
proof -
  have "set xs \<inter> set ys = {}"
    using keys_disjoint [OF assms(1)] tool_keys_disjoint [OF assms(2)] assms(3,5)
    unfolding good_keys_def by blast
  moreover have "tool_keys I \<subseteq> tool_keys (I \<union> J)" "tool_keys J \<subseteq> tool_keys (I \<union> J)"
    by (simp_all add: tool_keys_mono)
  ultimately show ?thesis using assms(3-5) by (auto simp: good_keys_def)
qed

lemma good_keys_chunk:
  assumes "mid_ok mid" "chunk_tool c = None" "good_keys mid J (Suc i) ys"
  shows "good_keys mid J i (chunk_item_key mid c i # ys)"
proof -
  have "chunk_item_key mid c i \<notin> set ys"
    using chunk_key_fresh [OF assms(2)] chunk_key_in [OF assms(2)] keys_disjoint [OF assms(1)] assms(3)
    unfolding good_keys_def by blast
  then show ?thesis
    using good_keys_Suc [OF assms(3)] chunk_key_in [OF assms(2)] by (simp add: good_keys_def)
qed

lemma good_keys_explored:
  assumes "mid_ok mid" "ok_ids eb" "ids eb \<inter> J = {}" "good_keys mid J i ys"
  shows "good_keys mid (ids eb \<union> J) i (keys_of (explored_out eb ei) @ ys)"
  using good_keys_tools [OF assms(1,3) _ _ assms(4)] keys_explored_out [of eb ei] assms(2)
  by (simp add: ok_ids_def)

lemma good_keys_subagents:
  assumes "mid_ok mid" "ok_ids sb" "ids sb \<inter> J = {}" "good_keys mid J i ys"
  shows "good_keys mid (ids sb \<union> J) i (keys_of (subagents_out sb si) @ ys)"
  using good_keys_tools [OF assms(1,3) _ _ assms(4)] keys_subagents_out [of sb si] assms(2)
  by (simp add: ok_ids_def)

lemma good_keys_groups:
  assumes "mid_ok mid" "ok_ids (eb @ sb)" "ids (eb @ sb) \<inter> J = {}" "good_keys mid J i ys"
  shows "good_keys mid (ids (eb @ sb) \<union> J) i
           (keys_of (explored_out eb ei) @ keys_of (subagents_out sb si) @ ys)"
proof -
  have "good_keys mid (ids sb \<union> J) i (keys_of (subagents_out sb si) @ ys)"
    using assms by (intro good_keys_subagents) auto
  from good_keys_explored [OF assms(1) _ _ this, of eb ei] assms(2,3) show ?thesis
    by (auto simp: image_Un Un_assoc)
qed

lemma emit_keys:
  assumes "mid_ok mid" "eb = [] \<or> sb = []" "ok_ids (eb @ sb @ tools_of cs)"
  shows "good_keys mid (ids (eb @ sb @ tools_of cs)) i (keys_of (emit mid eb ei sb si i cs))"
  using assms(2,3)
proof (induction eb ei sb si i cs rule: emit_induct_bufs)
  case (Nil eb ei sb si i)
  have "good_keys mid {} i []" by (simp add: good_keys_def)
  from good_keys_groups [OF assms(1) _ _ this, of eb sb ei si] Nil show ?case by simp
next
  case (Sub eb ei sb si i t cs)
  have "ok_ids ([] @ (sb @ [t]) @ tools_of cs)" using Sub.prems by auto
  from good_keys_explored [OF assms(1) _ _ good_keys_Suc [OF Sub.IH [OF this]], of eb ei] Sub
  show ?case by (auto simp: image_Un Un_ac)
next
  case (Expl eb ei sb si i t cs)
  have "ok_ids ((eb @ [t]) @ [] @ tools_of cs)" using Expl.prems by auto
  from good_keys_subagents [OF assms(1) _ _ good_keys_Suc [OF Expl.IH [OF this]], of sb si] Expl
  show ?case by (auto simp: image_Un Un_ac)
next
  case (Tool eb ei sb si i t cs)
  have "ok_ids ([] @ [] @ tools_of cs)" using Tool.prems by simp
  from good_keys_tools [OF assms(1) _ _ _ good_keys_Suc [OF Tool.IH [OF this]],
      of "{tc_toolCallId t}" "[item_key (tool_item t)]"]
  have "good_keys mid (insert (tc_toolCallId t) (ids (tools_of cs))) i (item_key (tool_item t) #
      keys_of (emit mid [] (if eb = [] then ei else -1) [] (if sb = [] then si else -1) (Suc i) cs))"
    using Tool.prems key_tool_item [of t] by simp
  from good_keys_groups [OF assms(1) _ _ this, of eb sb ei si] Tool
  show ?case by (auto simp: image_Un Un_ac)
next
  case (Blank eb ei sb si i c cs)
  then show ?case by (cases c) (auto intro: good_keys_Suc)
next
  case (Other eb ei sb si i c cs)
  have tc: "tools_of (c # cs) = tools_of cs" using Other.hyps by (cases c) auto
  have "ok_ids ([] @ [] @ tools_of cs)" using Other.prems by (simp add: tc)
  from good_keys_groups [OF assms(1) _ _ good_keys_chunk [OF assms(1) Other.hyps(2) Other.IH [OF this]],
      of eb sb ei si] Other
  show ?case by (auto simp: emit_non_tool key_chunk_item tc image_Un Un_ac)
qed

section \<open>Properties\<close>

text \<open>
  C10. Rendering loses nothing and keeps the order: laying the chunks of the items one after the other
  gives back the chunks of the message, without the blank texts.
\<close>

theorem render_items_complete:
  "concat (map item_chunks (buildRenderItems chunks messageId)) = filter (\<lambda>c. \<not> blank_text c) chunks"
  by (simp add: buildRenderItems_emit item_chunks_emit)

text \<open>
  C37. Every item holds what its kind says, and the groups are maximal: a group is not empty, is named by
  its key and holds calls of its kind only; an edit item holds an edit, a shell item a shell call that
  is no edit, a reply item a reply that is no edit, a plain tool item a call of no special kind; a text
  item is never blank; and two groups of one kind are never neighbours.
\<close>

theorem render_items_grouped:
  "list_all item_ok (buildRenderItems chunks messageId) \<and> separated (buildRenderItems chunks messageId)"
  by (simp add: buildRenderItems_emit item_ok_emit separated_emit)

text \<open>
  C21. The React keys of a message's items are pairwise distinct, under three conditions: the tool calls
  have distinct identifiers, none of them is empty, and the identifier of the message, up to its first
  hyphen, is none of the words \<open>tool\<close>, \<open>explored\<close> and \<open>subagents\<close>, which the keys of tool items start with.
  The last condition is needed: a message \<open>tool\<close> with a text and a call \<open>text-0\<close> has the same key twice.
\<close>

theorem render_keys_distinct:
  assumes "distinct (map tc_toolCallId (tools_of chunks))" and "[] \<notin> set (map tc_toolCallId (tools_of chunks))"
    and "mid_ok messageId"
  shows "distinct (map item_key (buildRenderItems chunks messageId))"
  using emit_keys [OF assms(3), of "[]" "[]" chunks] assms(1,2)
  by (simp add: buildRenderItems_emit good_keys_def ok_ids_def)

definition sample_chunks :: "Chunk list" where
  "sample_chunks =
     [TextChunk ''hi'', ToolChunk (bare_tool_chunk ''a'' ''t'' ReadK None CompletedS),
      ToolChunk (bare_tool_chunk ''b'' ''t'' SearchK None CompletedS),
      TextChunk '' '', ToolChunk (bare_tool_chunk ''c'' ''t'' TaskK None CompletedS),
      ToolChunk (bare_tool_chunk ''d'' ''t'' EditK None CompletedS)]"

theorem render_keys_distinct_witness:
  "distinct (map tc_toolCallId (tools_of sample_chunks)) \<and> mid_ok (Some ''msg-0'')
   \<and> distinct (map item_key (buildRenderItems sample_chunks (Some ''msg-0'')))"
proof -
  have "distinct (map tc_toolCallId (tools_of sample_chunks))"
    and "[] \<notin> set (map tc_toolCallId (tools_of sample_chunks))"
    by (simp_all add: sample_chunks_def)
  moreover have "mid_ok (Some ''msg-0'')" by (simp add: mid_ok_def tool_heads_def)
  ultimately show ?thesis using render_keys_distinct by blast
qed

lemma message_named_tool_collides:
  "map item_key (buildRenderItems
      [TextChunk ''hi'', ToolChunk (bare_tool_chunk ''text-0'' ''t'' EditK None CompletedS)] (Some ''tool'')) =
   [''tool-text-0'', ''tool-text-0'']"
  by code_simp

end
