(* ===== verification/Changed_Files.thy ===== *)
theory Changed_Files
  imports Agent_Types
begin

text \<open>
  \<open>components/agents/utils/diffStats.ts\<close> and \<open>components/agents/messages/summarizeChangedFiles.ts\<close>:
  the files a turn changed, with the content before the first and after the last completed edit.
  The diff library's \<open>parseDiffFromFile\<close> is a parameter \<open>hunks name old new\<close>, the list of
  (added, deleted) line counts of its hunks; \<open>localeCompare(a, b) <= 0\<close> is a parameter \<open>le a b\<close>.
\<close>

type_synonym diff_parser = "string \<Rightarrow> string \<Rightarrow> string \<Rightarrow> (int \<times> int) list"

record LineChanges =
  additions :: int
  deletions :: int

definition countLineChanges :: "diff_parser \<Rightarrow> string option \<Rightarrow> string \<Rightarrow> string \<Rightarrow> LineChanges" where
  "countLineChanges hunks original new path =
     fold (\<lambda>(a, d) acc. acc\<lparr>additions := additions acc + a, deletions := deletions acc + d\<rparr>)
       (hunks path (nullish original []) new) \<lparr>additions = 0, deletions = 0\<rparr>"

record ChangedFileSummaryItem =
  sum_filePath :: string
  sum_additions :: int
  sum_deletions :: int
  sum_originalContent :: string
  sum_modifiedContent :: string

record file_change =
  fc_filePath :: string
  fc_originalContent :: "string option"
  fc_modifiedContent :: string

text \<open>\<open>chunk.diffs?.length ? chunk.diffs : (chunk.diffData ? [chunk.diffData] : [])\<close>, for completed tools.\<close>

definition diffEntries :: "ToolExecutionChunk \<Rightarrow> DiffData list" where
  "diffEntries t =
     (case tc_diffs t of
        Some (d # ds) \<Rightarrow> d # ds
      | _ \<Rightarrow> (case tc_diffData t of Some d \<Rightarrow> [d] | None \<Rightarrow> []))"

fun completed_diffs :: "Chunk \<Rightarrow> DiffData list" where
  "completed_diffs (ToolChunk t) = (if tc_status t = CompletedS then diffEntries t else [])"
| "completed_diffs _ = []"

definition add_diff :: "DiffData \<Rightarrow> (string, file_change) js_map \<Rightarrow> (string, file_change) js_map" where
  "add_diff d byFile =
     (case map_get byFile (filePath d) of
        None \<Rightarrow>
          map_set (filePath d)
            \<lparr>fc_filePath = filePath d, fc_originalContent = originalContent d,
             fc_modifiedContent = newContent d\<rparr> byFile
      | Some existing \<Rightarrow> map_set (filePath d) (existing\<lparr>fc_modifiedContent := newContent d\<rparr>) byFile)"

definition collect_changes :: "Chunk list \<Rightarrow> (string, file_change) js_map" where
  "collect_changes chunks = fold (\<lambda>c m. fold add_diff (completed_diffs c) m) chunks []"

definition summary_item :: "diff_parser \<Rightarrow> file_change \<Rightarrow> ChangedFileSummaryItem" where
  "summary_item hunks f =
     (let n = countLineChanges hunks (fc_originalContent f) (fc_modifiedContent f) (fc_filePath f) in
      \<lparr>sum_filePath = fc_filePath f, sum_additions = additions n, sum_deletions = deletions n,
       sum_originalContent = nullish (fc_originalContent f) [],
       sum_modifiedContent = fc_modifiedContent f\<rparr>)"

definition summarizeChangedFiles ::
  "diff_parser \<Rightarrow> (string \<Rightarrow> string \<Rightarrow> bool) \<Rightarrow> Chunk list \<Rightarrow> ChangedFileSummaryItem list" where
  "summarizeChangedFiles hunks le chunks =
     sort_by (\<lambda>a b. le (sum_filePath a) (sum_filePath b))
       (map (\<lambda>(_, f). summary_item hunks f) (collect_changes chunks))"

section \<open>Line counts\<close>

lemma fold_counts:
  "fold (\<lambda>(a, d) acc. acc\<lparr>additions := additions acc + a, deletions := deletions acc + d\<rparr>) hs acc =
     acc\<lparr>additions := additions acc + sum_list (map fst hs), deletions := deletions acc + sum_list (map snd hs)\<rparr>"
  by (induction hs arbitrary: acc) (auto simp: add.assoc)

lemma countLineChanges_sum:
  "countLineChanges hunks orig new path =
     \<lparr>additions = sum_list (map fst (hunks path (nullish orig []) new)),
      deletions = sum_list (map snd (hunks path (nullish orig []) new))\<rparr>"
  by (simp add: countLineChanges_def fold_counts)

section \<open>First original, last new content\<close>

text \<open>The change a non-empty list of diffs of one file stands for.\<close>

definition merged_change :: "DiffData list \<Rightarrow> file_change" where
  "merged_change ds =
     \<lparr>fc_filePath = filePath (hd ds), fc_originalContent = originalContent (hd ds),
      fc_modifiedContent = newContent (last ds)\<rparr>"

abbreviation diffs_of :: "string \<Rightarrow> DiffData list \<Rightarrow> DiffData list" where
  "diffs_of p ds \<equiv> filter (\<lambda>d. filePath d = p) ds"

lemma fold_add_diff_lookup:
  "map_get (fold add_diff ds []) p = (if diffs_of p ds = [] then None else Some (merged_change (diffs_of p ds)))"
proof (induction ds rule: rev_induct)
  case (snoc d ds)
  then show ?case
    by (auto simp: add_diff_def merged_change_def hd_append split: option.splits)
qed simp

lemma distinct_keys_add_diff: "distinct (map fst m) \<Longrightarrow> distinct (map fst (add_diff d m))"
  by (auto simp: add_diff_def distinct_update split: option.splits)

lemma distinct_keys_fold: "distinct (map fst (fold add_diff ds []))"
  by (induction ds rule: rev_induct) (simp_all add: distinct_keys_add_diff)

lemma collect_changes_flat: "collect_changes chunks = fold add_diff (concat (map completed_diffs chunks)) []"
proof -
  have "fold (\<lambda>c m. fold add_diff (completed_diffs c) m) chunks m = fold add_diff (concat (map completed_diffs chunks)) m" for m
    by (induction chunks arbitrary: m) auto
  then show ?thesis by (simp add: collect_changes_def)
qed

lemma set_collect_changes:
  "set (map snd (collect_changes chunks)) =
     (\<lambda>p. merged_change (diffs_of p (concat (map completed_diffs chunks)))) ` filePath ` set (concat (map completed_diffs chunks))"
  (is "?L = ?f ` ?P")
proof -
  let ?ds = "concat (map completed_diffs chunks)"
  have d: "distinct (map fst (collect_changes chunks))"
    by (simp add: collect_changes_flat distinct_keys_fold)
  have "(p, f) \<in> set (collect_changes chunks) \<longleftrightarrow> p \<in> ?P \<and> f = ?f p" for p f
  proof -
    have "(p, f) \<in> set (collect_changes chunks) \<longleftrightarrow> map_get (fold add_diff ?ds []) p = Some f"
      using d by (simp add: collect_changes_flat)
    then show ?thesis by (auto simp: fold_add_diff_lookup filter_empty_conv)
  qed
  then have "set (collect_changes chunks) = (\<lambda>p. (p, ?f p)) ` ?P" by (auto simp del: set_concat)
  then show ?thesis by (simp only: set_map image_image snd_conv)
qed

lemma merged_change_path: "p \<in> filePath ` set ds \<Longrightarrow> fc_filePath (merged_change (diffs_of p ds)) = p"
proof -
  assume "p \<in> filePath ` set ds"
  then have "diffs_of p ds \<noteq> []" by (auto simp: filter_empty_conv)
  then have "hd (diffs_of p ds) \<in> set (diffs_of p ds)" by (rule hd_in_set)
  then show ?thesis by (simp add: merged_change_def)
qed

lemma summary_paths_distinct: "distinct (map sum_filePath (summarizeChangedFiles hunks le chunks))"
proof -
  let ?m = "collect_changes chunks"
  have "fc_filePath f = p" if "(p, f) \<in> set ?m" for p f
  proof -
    let ?ds = "concat (map completed_diffs chunks)"
    have "map_get (fold add_diff ?ds []) p = Some f"
      using that distinct_keys_fold by (simp add: collect_changes_flat)
    then have "diffs_of p ?ds \<noteq> []" and f: "f = merged_change (diffs_of p ?ds)"
      by (auto simp: fold_add_diff_lookup split: if_splits)
    then have "p \<in> filePath ` set ?ds" by (force simp: filter_empty_conv)
    with f show ?thesis by (simp add: merged_change_path)
  qed
  then have "map sum_filePath (map (\<lambda>(_, f). summary_item hunks f) ?m) = map fst ?m"
    by (auto simp: summary_item_def Let_def)
  moreover have "distinct (map fst ?m)" by (simp add: collect_changes_flat distinct_keys_fold)
  ultimately have "distinct (map sum_filePath (map (\<lambda>(_, f). summary_item hunks f) ?m))" by (simp only:)
  moreover have "mset (map sum_filePath (summarizeChangedFiles hunks le chunks)) =
      mset (map sum_filePath (map (\<lambda>(_, f). summary_item hunks f) ?m))"
    by (simp only: mset_map summarizeChangedFiles_def mset_sort_by)
  ultimately show ?thesis using mset_eq_imp_distinct_iff by blast
qed

section \<open>Properties\<close>

text \<open>
  C34. The summary has exactly one entry per file with a completed edit; its original content is the
  one before the file's first edit, its modified content the one after the last, whatever the other
  files in between, and its counts are those of the diff between the two.
\<close>

theorem summary_first_original_last_new:
  "distinct (map sum_filePath (summarizeChangedFiles hunks le chunks))
   \<and> set (summarizeChangedFiles hunks le chunks) =
       (\<lambda>p. summary_item hunks (merged_change (diffs_of p (concat (map completed_diffs chunks)))))
         ` filePath ` set (concat (map completed_diffs chunks))"
proof -
  have "set (summarizeChangedFiles hunks le chunks) = summary_item hunks ` set (map snd (collect_changes chunks))"
    by (force simp: summarizeChangedFiles_def)
  then show ?thesis
    using summary_paths_distinct by (simp only: set_collect_changes image_image)
qed

text \<open>The summary is sorted by path, for every collation that is a total preorder.\<close>

theorem summary_sorted:
  assumes "comparator le"
  shows "sorted_wrt (\<lambda>a b. le (sum_filePath a) (sum_filePath b)) (summarizeChangedFiles hunks le chunks)"
proof -
  have "comparator (\<lambda>a b. le (sum_filePath a) (sum_filePath b))"
    using assms unfolding comparator_def by blast
  then show ?thesis unfolding summarizeChangedFiles_def by (rule comparator.sorted_sort_by)
qed

definition sample_edit :: "string \<Rightarrow> string \<Rightarrow> Chunk" where
  "sample_edit path new =
     ToolChunk ((bare_tool_chunk path ''t'' EditK None CompletedS)
       \<lparr>tc_diffData := Some \<lparr>originalContent = None, newContent = new, filePath = path, isNewFile = True,
                            isBinary = False, isTruncated = False, totalLines = JNum 1\<rparr>\<rparr>)"

theorem summary_sorted_witness:
  "comparator (\<lambda>a b :: string. length a \<le> length b)
   \<and> length (summarizeChangedFiles (\<lambda>_ _ _. [(1, 0)]) (\<lambda>a b. length a \<le> length b)
               [sample_edit ''/long'' ''x'', sample_edit ''/s'' ''y'', sample_edit ''/long'' ''z'']) = 2
   \<and> sorted_wrt (\<lambda>a b. length (sum_filePath a) \<le> length (sum_filePath b))
       (summarizeChangedFiles (\<lambda>_ _ _. [(1, 0)]) (\<lambda>a b. length a \<le> length b)
          [sample_edit ''/long'' ''x'', sample_edit ''/s'' ''y'', sample_edit ''/long'' ''z''])"
proof -
  have c: "comparator (\<lambda>a b :: string. length a \<le> length b)" by unfold_locales auto
  have "length (summarizeChangedFiles (\<lambda>_ _ _. [(1, 0)]) (\<lambda>a b. length a \<le> length b)
               [sample_edit ''/long'' ''x'', sample_edit ''/s'' ''y'', sample_edit ''/long'' ''z'']) = 2"
    by code_simp
  with summary_sorted [OF c] c show ?thesis by simp
qed

end
