(* ===== verification/Agent_Message.thy ===== *)
theory Agent_Message
  imports Render_Items Changed_Files
begin

text \<open>
  \<open>components/agents/messages/AgentMessage.tsx\<close>: one agent message on the page. The state is the
  record of expanded exploration groups and the flag that remembers whether the message was live;
  the effect that runs after a render, the toggle of a group and the view of the items are
  functions on it. A view is the element rendered with its properties, without styling.
\<close>

record LineTotals =
  tot_additions :: int
  tot_deletions :: int

definition changedFilesTotals :: "ChangedFileSummaryItem list \<Rightarrow> LineTotals" where
  "changedFilesTotals files =
     fold (\<lambda>f acc. acc\<lparr>tot_additions := tot_additions acc + sum_additions f,
                       tot_deletions := tot_deletions acc + sum_deletions f\<rparr>)
       files \<lparr>tot_additions = 0, tot_deletions = 0\<rparr>"

definition changedFilesByPath :: "ChangedFileSummaryItem list \<Rightarrow> (string, ChangedFileSummaryItem) js_map" where
  "changedFilesByPath files = index_by (\<lambda>f. Some (sum_filePath f)) files []"

fun explored_id :: "RenderItem \<Rightarrow> string option" where
  "explored_id (ExploredGroup k g ts) = Some g"
| "explored_id _ = None"

definition exploredGroupIds :: "RenderItem list \<Rightarrow> string list" where
  "exploredGroupIds its = List.map_filter explored_id its"

record expand_state =
  expandedExploredGroups :: "(string, bool) js_map"
  wasExplorationLive :: bool

definition init_expand :: expand_state where
  "init_expand = \<lparr>expandedExploredGroups = [], wasExplorationLive = False\<rparr>"

text \<open>\<open>for (id of ids) next[id] = value(id)\<close> on a fresh object.\<close>

definition assign_all :: "(string \<Rightarrow> bool) \<Rightarrow> string list \<Rightarrow> (string, bool) js_map" where
  "assign_all val gids = fold (\<lambda>i m. map_set i (val i) m) gids []"

text \<open>The updater returns the old object when it holds the same keys and values.\<close>

definition keep_if_same :: "(string, bool) js_map \<Rightarrow> (string, bool) js_map \<Rightarrow> (string, bool) js_map" where
  "keep_if_same prev next =
     (if length prev \<noteq> length next then next
      else if \<exists>k \<in> set (map fst next). map_get prev k \<noteq> map_get next k then next
      else prev)"

definition expand_effect :: "bool \<Rightarrow> string list \<Rightarrow> expand_state \<Rightarrow> expand_state" where
  "expand_effect isStreaming gids s =
     (let isLive = isStreaming in
      if gids = [] then s\<lparr>expandedExploredGroups := [], wasExplorationLive := isLive\<rparr>
      else if isLive then
        s\<lparr>expandedExploredGroups := assign_all (\<lambda>_. True) gids, wasExplorationLive := True\<rparr>
      else
        (let shouldAutoCollapse = wasExplorationLive s;
             prev = expandedExploredGroups s;
             next = assign_all (\<lambda>i. if shouldAutoCollapse then False else nullish (map_get prev i) False) gids
         in s\<lparr>expandedExploredGroups := keep_if_same prev next, wasExplorationLive := False\<rparr>))"

definition toggle_group :: "string \<Rightarrow> expand_state \<Rightarrow> expand_state" where
  "toggle_group gid s =
     s\<lparr>expandedExploredGroups :=
         map_set gid (\<not> nullish (map_get (expandedExploredGroups s) gid) False) (expandedExploredGroups s)\<rparr>"

definition is_expanded :: "expand_state \<Rightarrow> string \<Rightarrow> bool" where
  "is_expanded s gid = nullish (map_get (expandedExploredGroups s) gid) False"

section \<open>The view\<close>

datatype ItemView =
    ReasoningView string string bool
  | ExploredView string string bool "ToolExecutionChunk list"
  | SubagentView string "ToolExecutionChunk list"
  | ToolView string ToolExecutionChunk "(string \<times> string) option" bool
  | ShellView string ToolExecutionChunk
  | ReplyView string ToolExecutionChunk
  | ChunkView string Chunk bool

text \<open>
  \<open>last\<close> says whether the item is the last one. A \<open>ToolView\<close> carries the whole file diff of an
  edit and whether the approval callbacks are passed on; the tools of a collapsed group are not shown.
\<close>

definition item_view ::
  "bool \<Rightarrow> bool \<Rightarrow> expand_state \<Rightarrow> (string, ChangedFileSummaryItem) js_map \<Rightarrow> bool \<Rightarrow> RenderItem \<Rightarrow> ItemView" where
  "item_view isStreaming isMarkdownLive s byPath isLast it =
     (case it of
        ReasoningItem key c \<Rightarrow>
          ReasoningView key (case c of ReasoningChunk t \<Rightarrow> t | _ \<Rightarrow> []) (isStreaming \<and> isLast)
      | ExploredGroup key gid ts \<Rightarrow>
          ExploredView key (summarizeExploration ts) (is_expanded s gid) (if is_expanded s gid then ts else [])
      | SubagentGroup key gid ts \<Rightarrow> SubagentView key ts
      | EditItem key t \<Rightarrow>
          (let full = (case tc_diffData t of Some d \<Rightarrow> map_get byPath (filePath d) | None \<Rightarrow> None) in
           ToolView key t (map_option (\<lambda>f. (sum_originalContent f, sum_modifiedContent f)) full) True)
      | ShellItem key t \<Rightarrow> ShellView key t
      | ReplyItem key t \<Rightarrow> ReplyView key t
      | ToolItem key t \<Rightarrow> ToolView key t None True
      | TextItem key c \<Rightarrow> ChunkView key c isMarkdownLive)"

record MessageView =
  view_items :: "ItemView list"
  view_changed :: "(ChangedFileSummaryItem list \<times> LineTotals) option"

definition agent_message_view ::
  "diff_parser \<Rightarrow> (string \<Rightarrow> string \<Rightarrow> bool) \<Rightarrow> bool \<Rightarrow> bool \<Rightarrow> expand_state \<Rightarrow> Message \<Rightarrow> MessageView" where
  "agent_message_view hunks le isStreaming isMarkdownLive s message =
     (let its = buildRenderItems (msg_chunks message) (Some (msg_id message));
          changedFiles = summarizeChangedFiles hunks le (msg_chunks message);
          byPath = changedFilesByPath changedFiles
      in \<lparr>view_items =
            map (\<lambda>(i, it). item_view isStreaming isMarkdownLive s byPath (Suc i = length its) it) (enumerate 0 its),
          view_changed =
            (if changedFiles \<noteq> [] \<and> \<not> isStreaming
             then Some (changedFiles, changedFilesTotals changedFiles) else None)\<rparr>)"

section \<open>Facts\<close>

lemma assign_all_lookup:
  "map_get (assign_all val gids) k = (if k \<in> set gids then Some (val k) else None)"
proof -
  have "map_get (fold (\<lambda>i m. map_set i (val i) m) gids m) k =
        (if k \<in> set gids then Some (val k) else map_get m k)" for m
    by (induction gids arbitrary: m) auto
  then show ?thesis by (simp add: assign_all_def)
qed

lemma distinct_assign_all: "distinct (map fst (assign_all val gids))"
proof -
  have "distinct (map fst m) \<Longrightarrow> distinct (map fst (fold (\<lambda>i m. map_set i (val i) m) gids m))" for m
    by (induction gids arbitrary: m) (auto simp: distinct_update)
  then show ?thesis by (simp add: assign_all_def)
qed

text \<open>Keeping the old object does not change what is read from it.\<close>

lemma keep_if_same_lookup:
  assumes "distinct (map fst prev)" "distinct (map fst next)"
  shows "map_get (keep_if_same prev next) = map_get next"
proof (cases "keep_if_same prev next = next")
  case False
  then have len: "length prev = length next"
    and same: "\<forall>k \<in> set (map fst next). map_get prev k = map_get next k"
    by (auto simp: keep_if_same_def split: if_splits)
  have "set (map fst next) \<subseteq> set (map fst prev)"
  proof
    fix k assume k: "k \<in> set (map fst next)"
    then obtain v where "map_get next k = Some v" by (metis map_of_eq_None_iff not_None_eq set_map)
    moreover have "map_get prev k = map_get next k" using same k by blast
    ultimately have "map_get prev k = Some v" by simp
    then show "k \<in> set (map fst prev)" by (metis map_of_eq_None_iff option.distinct(1) set_map)
  qed
  moreover have "card (set (map fst prev)) = card (set (map fst next))"
    using assms len by (simp only: distinct_card length_map)
  ultimately have "set (map fst next) = set (map fst prev)"
    by (intro card_subset_eq) simp_all
  then have "map_get prev k = map_get next k" for k
    using same by (metis map_of_eq_None_iff set_map)
  with False show ?thesis by (auto simp: keep_if_same_def split: if_splits)
qed simp

definition expand_wf :: "expand_state \<Rightarrow> bool" where
  "expand_wf s = distinct (map fst (expandedExploredGroups s))"

lemma expand_wf_init: "expand_wf init_expand"
  by (simp add: expand_wf_def init_expand_def)

lemma expand_wf_effect: "expand_wf s \<Longrightarrow> expand_wf (expand_effect live gids s)"
  by (auto simp: expand_wf_def expand_effect_def keep_if_same_def distinct_assign_all Let_def)

lemma expand_wf_toggle: "expand_wf s \<Longrightarrow> expand_wf (toggle_group gid s)"
  by (simp add: expand_wf_def toggle_group_def distinct_update)

lemma is_expanded_effect:
  assumes "expand_wf s"
  shows "is_expanded (expand_effect live gids s) k =
    (k \<in> set gids \<and> (live \<or> \<not> wasExplorationLive s \<and> is_expanded s k))"
  using assms
  by (auto simp: is_expanded_def expand_effect_def assign_all_lookup Let_def expand_wf_def
      keep_if_same_lookup distinct_assign_all nullish_def split: option.splits)

lemma wasLive_effect: "wasExplorationLive (expand_effect live gids s) = live"
  by (simp add: expand_effect_def Let_def)

lemma fold_totals:
  "fold (\<lambda>f acc. acc\<lparr>tot_additions := tot_additions acc + sum_additions f,
                     tot_deletions := tot_deletions acc + sum_deletions f\<rparr>) fs acc =
     acc\<lparr>tot_additions := tot_additions acc + (\<Sum>f\<leftarrow>fs. sum_additions f),
         tot_deletions := tot_deletions acc + (\<Sum>f\<leftarrow>fs. sum_deletions f)\<rparr>"
  by (induction fs arbitrary: acc) (auto simp: add.assoc)

section \<open>Runs of effects and toggles\<close>

datatype expand_event = Rendered bool "string list" | Toggled string

fun expand_step :: "expand_state \<Rightarrow> expand_event \<Rightarrow> expand_state" where
  "expand_step s (Rendered live gids) = expand_effect live gids s"
| "expand_step s (Toggled gid) = toggle_group gid s"

abbreviation expand_run :: "expand_state \<Rightarrow> expand_event list \<Rightarrow> expand_state" where
  "expand_run s es \<equiv> foldl expand_step s es"

lemma expand_wf_run: "expand_wf s \<Longrightarrow> expand_wf (expand_run s es)"
proof (induction es arbitrary: s)
  case (Cons e es)
  then show ?case by (cases e) (simp_all add: expand_wf_effect expand_wf_toggle)
qed simp

section \<open>Properties\<close>

text \<open>
  Whatever renders and toggles came before, the effect leaves exactly this set of groups open:
  while the message streams all its exploration groups; at the first idle render after streaming
  none; at any later idle render those the user had opened, if they are still there.
\<close>

theorem explored_groups_after_render:
  "is_expanded (expand_run init_expand (es @ [Rendered live gids])) k =
     (k \<in> set gids \<and>
       (live \<or> \<not> wasExplorationLive (expand_run init_expand es) \<and> is_expanded (expand_run init_expand es) k))"
  by (simp add: is_expanded_effect expand_wf_run expand_wf_init)

text \<open>
  The card with the changed files is shown exactly when the message has stopped streaming and a
  completed edit changed a file, and its totals are the sums over the files listed.
\<close>

theorem changed_files_card:
  "view_changed (agent_message_view hunks le isStreaming live s message) =
     (if \<not> isStreaming \<and> concat (map completed_diffs (msg_chunks message)) \<noteq> [] then
        (let files = summarizeChangedFiles hunks le (msg_chunks message) in
         Some (files, \<lparr>tot_additions = (\<Sum>f\<leftarrow>files. sum_additions f),
                       tot_deletions = (\<Sum>f\<leftarrow>files. sum_deletions f)\<rparr>))
      else None)"
proof -
  have "set (summarizeChangedFiles hunks le cs) = {} \<longleftrightarrow> set (concat (map completed_diffs cs)) = {}" for cs
  proof -
    have "set (summarizeChangedFiles hunks le cs) = summary_item hunks ` set (map snd (collect_changes cs))"
      by (force simp: summarizeChangedFiles_def)
    then show ?thesis by (simp only: set_collect_changes image_is_empty)
  qed
  then have "summarizeChangedFiles hunks le cs = [] \<longleftrightarrow> concat (map completed_diffs cs) = []" for cs
    by (simp only: set_empty)
  then show ?thesis
    by (simp add: agent_message_view_def changedFilesTotals_def fold_totals Let_def)
qed

end
