(* ===== verification/Message_List.thy ===== *)
theory Message_List
  imports Agent_Message
begin

text \<open>
  \<open>components/agents/messages/Messages.tsx\<close> with \<open>useLiveMarkdownMessageId.ts\<close>: the scrolling list of
  messages. The scroll machine keeps the list at its end until the user scrolls up; the latch names
  the message whose markdown is still streaming. Heights are whole pixels; the browser keeps the
  scroll position between zero and the largest one.
\<close>

section \<open>The scroll machine\<close>

definition BOTTOM_LOCK_THRESHOLD_PX :: int where "BOTTOM_LOCK_THRESHOLD_PX = 24"

record scroll_state =
  scrollHeight :: int
  clientHeight :: int
  scrollTop :: int
  autoScrollEnabled :: bool
  lastManualScrollTop :: int
  previousScrollTop :: int
  pendingScrollFrame :: bool
  showScrollToBottom :: bool

definition max_top :: "scroll_state \<Rightarrow> int" where
  "max_top s = max 0 (scrollHeight s - clientHeight s)"

text \<open>Assigning \<open>el.scrollTop\<close>.\<close>

definition set_scrollTop :: "int \<Rightarrow> scroll_state \<Rightarrow> scroll_state" where
  "set_scrollTop t s = s\<lparr>scrollTop := min (max 0 t) (max_top s)\<rparr>"

definition clearScheduledScroll :: "scroll_state \<Rightarrow> scroll_state" where
  "clearScheduledScroll s = s\<lparr>pendingScrollFrame := False\<rparr>"

definition isNearBottom :: "scroll_state \<Rightarrow> bool" where
  "isNearBottom s = (scrollHeight s - scrollTop s - clientHeight s \<le> BOTTOM_LOCK_THRESHOLD_PX)"

definition syncScrollButtonVisibility :: "scroll_state \<Rightarrow> scroll_state" where
  "syncScrollButtonVisibility s = s\<lparr>showScrollToBottom := \<not> isNearBottom s\<rparr>"

definition scrollToBottomNow :: "scroll_state \<Rightarrow> scroll_state" where
  "scrollToBottomNow s =
     (let s = set_scrollTop (scrollHeight s) s;
          currentTop = scrollTop s
      in syncScrollButtonVisibility (s\<lparr>lastManualScrollTop := currentTop, previousScrollTop := currentTop\<rparr>))"

definition scheduleScrollToBottom :: "scroll_state \<Rightarrow> scroll_state" where
  "scheduleScrollToBottom s =
     (if \<not> autoScrollEnabled s then s else (clearScheduledScroll s)\<lparr>pendingScrollFrame := True\<rparr>)"

text \<open>The callback of the animation frame.\<close>

definition run_frame :: "scroll_state \<Rightarrow> scroll_state" where
  "run_frame s =
     (if \<not> pendingScrollFrame s then s
      else let s = s\<lparr>pendingScrollFrame := False\<rparr> in
           if \<not> autoScrollEnabled s then s else scrollToBottomNow s)"

definition handleScroll :: "scroll_state \<Rightarrow> scroll_state" where
  "handleScroll s =
     (let currentTop = scrollTop s;
          scrolledUp = currentTop < previousScrollTop s - 1;
          nearBottom = isNearBottom s;
          s = (if scrolledUp then clearScheduledScroll (s\<lparr>autoScrollEnabled := False\<rparr>)
               else if nearBottom then s\<lparr>autoScrollEnabled := True\<rparr> else s)
      in (syncScrollButtonVisibility s)\<lparr>lastManualScrollTop := currentTop, previousScrollTop := currentTop\<rparr>)"

definition mount_scroll :: "scroll_state \<Rightarrow> scroll_state" where
  "mount_scroll s = (scrollToBottomNow s)\<lparr>autoScrollEnabled := True\<rparr>"

text \<open>The layout effect when the messages or the run state change.\<close>

definition layout_effect :: "scroll_state \<Rightarrow> scroll_state" where
  "layout_effect s =
     (if autoScrollEnabled s then scheduleScrollToBottom s
      else
        (let targetTop = min (lastManualScrollTop s) (max_top s);
             jumpDistance = \<bar>scrollTop s - targetTop\<bar>;
             s = (if 2 * jumpDistance > clientHeight s then set_scrollTop targetTop s else s)
         in syncScrollButtonVisibility (s\<lparr>previousScrollTop := scrollTop s\<rparr>)))"

text \<open>The resize observer.\<close>

definition resize_effect :: "scroll_state \<Rightarrow> scroll_state" where
  "resize_effect s =
     (if autoScrollEnabled s then scheduleScrollToBottom s
      else
        (let m = max_top s;
             s = (if lastManualScrollTop s > m
                  then (set_scrollTop m s)\<lparr>lastManualScrollTop := m, previousScrollTop := m\<rparr> else s)
         in syncScrollButtonVisibility s))"

definition handleScrollToBottom :: "scroll_state \<Rightarrow> scroll_state" where
  "handleScrollToBottom s = scrollToBottomNow (clearScheduledScroll (s\<lparr>autoScrollEnabled := True\<rparr>))"

section \<open>The live message\<close>

record live_state =
  liveMessageId :: "string option"
  clearTimer :: bool

text \<open>
  The effect, run when the run state or the messages change; its cleanup, which cancels the timer,
  runs before the next effect. The timer is one event.
\<close>

definition live_effect :: "bool \<Rightarrow> Message list \<Rightarrow> live_state \<Rightarrow> live_state" where
  "live_effect runActive visible s =
     (let s = s\<lparr>clearTimer := False\<rparr> in
      if runActive then
        (case rev visible of
           [] \<Rightarrow> s\<lparr>liveMessageId := None\<rparr>
         | m # _ \<Rightarrow>
             if msg_author m = UserAuthor then s\<lparr>liveMessageId := None\<rparr>
             else if msg_author m = AgentAuthor then s\<lparr>liveMessageId := Some (msg_id m)\<rparr>
             else s)
      else s\<lparr>clearTimer := True\<rparr>)"

definition live_timeout :: "live_state \<Rightarrow> live_state" where
  "live_timeout s = (if clearTimer s then s\<lparr>clearTimer := False, liveMessageId := None\<rparr> else s)"

section \<open>The list\<close>

definition visibleMessages :: "Message list \<Rightarrow> Message list" where
  "visibleMessages ms = filter (\<lambda>m. msg_hidden m \<noteq> Some True) ms"

datatype row = UserRow Message | AgentRow Message bool bool

definition message_rows :: "bool \<Rightarrow> string option \<Rightarrow> Message list \<Rightarrow> row list" where
  "message_rows isStreaming live ms =
     (let visible = visibleMessages ms in
      map (\<lambda>(i, m). if msg_author m = UserAuthor then UserRow m
                    else AgentRow m (isStreaming \<and> Suc i = length visible) (Some (msg_id m) = live))
        (enumerate 0 visible))"

definition spinner_active :: "bool option \<Rightarrow> bool option \<Rightarrow> bool \<Rightarrow> bool" where
  "spinner_active isThinking streamIsLoading isStreaming =
     nullish (nullish_opt isThinking streamIsLoading) isStreaming"

section \<open>Runs of the scroll machine\<close>

datatype scroll_event =
    UserScrolls int
  | ContentResized int int
  | MessagesChanged int
  | Frame
  | ButtonClicked

text \<open>
  The browser: a scroll changes the position and calls the handler; a resize changes the heights,
  clamps the position and runs the observer; new messages change the height of the content.
\<close>

definition reflow :: "int \<Rightarrow> int \<Rightarrow> scroll_state \<Rightarrow> scroll_state" where
  "reflow h c s = (let s = s\<lparr>scrollHeight := max 0 h, clientHeight := max 0 c\<rparr> in set_scrollTop (scrollTop s) s)"

fun scroll_step :: "scroll_state \<Rightarrow> scroll_event \<Rightarrow> scroll_state" where
  "scroll_step s (UserScrolls t) = handleScroll (set_scrollTop t s)"
| "scroll_step s (ContentResized h c) = resize_effect (reflow h c s)"
| "scroll_step s (MessagesChanged h) = layout_effect (reflow h (clientHeight s) s)"
| "scroll_step s Frame = run_frame s"
| "scroll_step s ButtonClicked = handleScrollToBottom s"

definition scroll_inv :: "scroll_state \<Rightarrow> bool" where
  "scroll_inv s =
     (0 \<le> scrollHeight s \<and> 0 \<le> clientHeight s \<and> 0 \<le> scrollTop s \<and> scrollTop s \<le> max_top s
      \<and> \<not> (pendingScrollFrame s \<and> \<not> autoScrollEnabled s)
      \<and> (autoScrollEnabled s \<or> showScrollToBottom s = (\<not> isNearBottom s))
      \<and> (autoScrollEnabled s \<or> scrollTop s \<le> lastManualScrollTop s))"

lemma set_scrollTop_cases:
  obtains t' where "set_scrollTop t s = s\<lparr>scrollTop := t'\<rparr>" "0 \<le> t'" "t' \<le> max_top s"
  by (rule that [of "min (max 0 t) (max_top s)"]) (simp_all add: set_scrollTop_def max_top_def)

lemma to_bottom:
  assumes "0 \<le> scrollHeight s" "0 \<le> clientHeight s"
  shows "scrollToBottomNow s =
    s\<lparr>scrollTop := max_top s, lastManualScrollTop := max_top s, previousScrollTop := max_top s, showScrollToBottom := False\<rparr>"
proof -
  have "min (max 0 (scrollHeight s)) (max_top s) = max_top s" "scrollHeight s - max_top s - clientHeight s \<le> 24"
    using assms by (auto simp: max_top_def)
  then show ?thesis
    by (simp add: scrollToBottomNow_def set_scrollTop_def syncScrollButtonVisibility_def isNearBottom_def
        BOTTOM_LOCK_THRESHOLD_PX_def Let_def)
qed

lemmas scroll_frame = syncScrollButtonVisibility_def clearScheduledScroll_def scheduleScrollToBottom_def
  isNearBottom_def Let_def

lemma max_top_frame [simp]:
  "max_top (s\<lparr>scrollTop := a\<rparr>) = max_top s" "max_top (s\<lparr>autoScrollEnabled := b\<rparr>) = max_top s"
  "max_top (s\<lparr>lastManualScrollTop := a\<rparr>) = max_top s" "max_top (s\<lparr>previousScrollTop := a\<rparr>) = max_top s"
  "max_top (s\<lparr>pendingScrollFrame := b\<rparr>) = max_top s" "max_top (s\<lparr>showScrollToBottom := b\<rparr>) = max_top s"
  by (simp_all add: max_top_def)

lemma scroll_inv_handleScroll: "scroll_inv s \<Longrightarrow> scroll_inv (handleScroll (set_scrollTop t s))"
  by (rule set_scrollTop_cases [of t s]) (auto simp: handleScroll_def scroll_inv_def scroll_frame)

lemma scroll_inv_bottom: "scroll_inv s \<Longrightarrow> autoScrollEnabled s \<Longrightarrow> scroll_inv (scrollToBottomNow s)"
  by (simp add: scroll_inv_def to_bottom max_top_def)

lemma scroll_inv_schedule: "scroll_inv s \<Longrightarrow> autoScrollEnabled s \<Longrightarrow> scroll_inv (scheduleScrollToBottom s)"
  by (simp add: scroll_inv_def scroll_frame)

text \<open>After a reflow the button may be out of date until the effect that follows it has run.\<close>

definition scroll_pre :: "scroll_state \<Rightarrow> bool" where
  "scroll_pre s = (0 \<le> scrollHeight s \<and> 0 \<le> clientHeight s \<and> 0 \<le> scrollTop s \<and> scrollTop s \<le> max_top s
     \<and> \<not> (pendingScrollFrame s \<and> \<not> autoScrollEnabled s)
     \<and> (autoScrollEnabled s \<or> scrollTop s \<le> lastManualScrollTop s))"

lemma scroll_pre_reflow: "scroll_inv s \<Longrightarrow> scroll_pre (reflow h c s)"
  by (auto simp: reflow_def Let_def set_scrollTop_def scroll_pre_def scroll_inv_def max_top_def)

lemma reflow_fields [simp]:
  "autoScrollEnabled (reflow h c s) = autoScrollEnabled s" "lastManualScrollTop (reflow h c s) = lastManualScrollTop s"
  by (simp_all add: reflow_def set_scrollTop_def Let_def)

lemma scroll_inv_layout: "scroll_pre s \<Longrightarrow> scroll_inv (layout_effect s)"
  by (auto simp: layout_effect_def set_scrollTop_def scroll_pre_def scroll_inv_def scroll_frame)

lemma scroll_inv_resize: "scroll_pre s \<Longrightarrow> scroll_inv (resize_effect s)"
  by (rule set_scrollTop_cases [of "max_top s" s])
    (auto simp: resize_effect_def scroll_pre_def scroll_inv_def scroll_frame)

lemma scroll_inv_frame: "scroll_inv s \<Longrightarrow> scroll_inv (s\<lparr>pendingScrollFrame := False\<rparr>)"
  by (simp add: scroll_inv_def isNearBottom_def)

lemma scroll_inv_enable: "scroll_inv s \<Longrightarrow> scroll_inv (s\<lparr>autoScrollEnabled := True\<rparr>)"
  by (simp add: scroll_inv_def)

lemma scroll_inv_step: "scroll_inv s \<Longrightarrow> scroll_inv (scroll_step s e)"
  by (cases e)
    (auto simp: scroll_inv_handleScroll scroll_inv_layout scroll_inv_resize scroll_pre_reflow run_frame_def
      handleScrollToBottom_def clearScheduledScroll_def Let_def
      intro!: scroll_inv_bottom scroll_inv_frame scroll_inv_enable)

lemma scroll_inv_mount: "scroll_inv (mount_scroll (reflow h c s))"
proof -
  have "0 \<le> scrollHeight (reflow h c s)" "0 \<le> clientHeight (reflow h c s)"
    by (simp_all add: reflow_def set_scrollTop_def Let_def)
  then show ?thesis by (simp add: mount_scroll_def to_bottom scroll_inv_def max_top_def)
qed

lemma scroll_inv_run: "scroll_inv s \<Longrightarrow> scroll_inv (foldl scroll_step s es)"
  by (induction es arbitrary: s) (simp_all add: scroll_inv_step)

text \<open>
  The place where the list was left: only a scroll and the button can move it down. New messages and
  resizes can put the list back at that place, and that can be its end.
\<close>

lemma left_place:
  "\<not> autoScrollEnabled s \<Longrightarrow> (case e of UserScrolls _ \<Rightarrow> False | ButtonClicked \<Rightarrow> False | _ \<Rightarrow> True) \<Longrightarrow>
     lastManualScrollTop (scroll_step s e) \<le> lastManualScrollTop s"
  by (cases e) (auto simp: resize_effect_def layout_effect_def run_frame_def syncScrollButtonVisibility_def
      set_scrollTop_def Let_def)

lemma follows_same:
  "(case e of UserScrolls _ \<Rightarrow> False | ButtonClicked \<Rightarrow> False | _ \<Rightarrow> True) \<Longrightarrow>
     autoScrollEnabled (scroll_step s e) = autoScrollEnabled s"
  by (cases e) (auto simp: resize_effect_def layout_effect_def run_frame_def scrollToBottomNow_def
      scheduleScrollToBottom_def clearScheduledScroll_def syncScrollButtonVisibility_def set_scrollTop_def Let_def)

section \<open>Properties\<close>

text \<open>
  C35. The scroll machine, after any sequence of scrolls, resizes, new messages, frames and clicks. A
  jump to the end is pending only while the list follows its end. While it does not follow it, the button is
  shown exactly when the end is not near, and the list is never further down than the place where it was
  left, which nothing but a scroll and the button can move down: new messages and resizes only put the list
  at that place or above it (which can be the end, where the content has shrunk). Only a scroll and the
  button change whether it follows. A scroll up by more than a pixel stops the following and cancels a pending
  jump, and a frame then leaves the list where it is. The button resumes the following and shows the end.
\<close>

theorem scroll_follows_end:
  "let s = foldl scroll_step (mount_scroll (reflow h c s0)) es;
       u = scroll_step s (UserScrolls t); b = scroll_step s ButtonClicked; v = scroll_step s e in
     scroll_inv s
     \<and> (autoScrollEnabled s \<or> scrollTop s \<le> lastManualScrollTop s)
     \<and> (case e of
          UserScrolls _ \<Rightarrow> True
        | ButtonClicked \<Rightarrow> True
        | _ \<Rightarrow> autoScrollEnabled v = autoScrollEnabled s
              \<and> (autoScrollEnabled s
                  \<or> lastManualScrollTop v \<le> lastManualScrollTop s \<and> scrollTop v \<le> lastManualScrollTop v))
     \<and> autoScrollEnabled u = (\<not> scrollTop u < previousScrollTop s - 1 \<and> (isNearBottom u \<or> autoScrollEnabled s))
     \<and> pendingScrollFrame u = (pendingScrollFrame s \<and> \<not> scrollTop u < previousScrollTop s - 1)
     \<and> scrollTop (scroll_step u Frame) = (if pendingScrollFrame u then max_top u else scrollTop u)
     \<and> autoScrollEnabled b \<and> scrollTop b = max_top b \<and> isNearBottom b \<and> \<not> showScrollToBottom b"
proof -
  let ?s = "foldl scroll_step (mount_scroll (reflow h c s0)) es"
  let ?u = "scroll_step ?s (UserScrolls t)" and ?b = "scroll_step ?s ButtonClicked"
  have inv: "scroll_inv ?s" by (rule scroll_inv_run [OF scroll_inv_mount])
  then have "scroll_inv ?u" "scroll_inv ?b" by (simp_all only: scroll_inv_step)
  then have "scrollTop (scroll_step ?u Frame) = (if pendingScrollFrame ?u then max_top ?u else scrollTop ?u)"
    by (simp add: run_frame_def Let_def to_bottom scroll_inv_def del: scroll_step.simps(1))
  moreover have "autoScrollEnabled ?u = (\<not> scrollTop ?u < previousScrollTop ?s - 1 \<and> (isNearBottom ?u \<or> autoScrollEnabled ?s))"
    "pendingScrollFrame ?u = (pendingScrollFrame ?s \<and> \<not> scrollTop ?u < previousScrollTop ?s - 1)"
    by (simp_all add: handleScroll_def scroll_frame set_scrollTop_def)
  moreover have "scrollTop ?b = max_top ?b \<and> isNearBottom ?b \<and> \<not> showScrollToBottom ?b \<and> autoScrollEnabled ?b"
    using inv by (auto simp: handleScrollToBottom_def clearScheduledScroll_def to_bottom scroll_inv_def
        isNearBottom_def max_top_def BOTTOM_LOCK_THRESHOLD_PX_def)
  moreover have "autoScrollEnabled ?s \<or> scrollTop ?s \<le> lastManualScrollTop ?s"
    using inv by (simp add: scroll_inv_def)
  moreover have "case e of UserScrolls _ \<Rightarrow> True | ButtonClicked \<Rightarrow> True
      | _ \<Rightarrow> autoScrollEnabled (scroll_step ?s e) = autoScrollEnabled ?s
          \<and> (autoScrollEnabled ?s \<or> lastManualScrollTop (scroll_step ?s e) \<le> lastManualScrollTop ?s
              \<and> scrollTop (scroll_step ?s e) \<le> lastManualScrollTop (scroll_step ?s e))"
    using scroll_inv_step [OF inv, of e] left_place [of ?s e] follows_same [of e ?s]
    by (cases e) (auto simp: scroll_inv_def simp del: scroll_step.simps)
  ultimately show ?thesis using inv by (simp only: Let_def simp_thms)
qed

text \<open>
  The live message: while a run is active it is the last message if that is the agent's and none
  if the user spoke last or there is no message; it survives any number of idle renders until the
  timer fires, and an active run cancels the timer.
\<close>

theorem live_message_latched:
  "liveMessageId (live_effect True (ms @ [m]) s) =
     (if msg_author m = UserAuthor then None else if msg_author m = AgentAuthor then Some (msg_id m) else liveMessageId s)
   \<and> liveMessageId (live_effect False ms' s) = liveMessageId s
   \<and> liveMessageId (live_timeout (live_effect False ms' s)) = None
   \<and> live_timeout (live_effect True ms s) = live_effect True ms s"
  by (auto simp: live_effect_def live_timeout_def Let_def split: list.splits)

end
