(* ===== verification/Js_Number.thy ===== *)
theory Js_Number
  imports Prelude Complex_Main
begin

text \<open>
  \<open>Number(s)\<close> on strings, as the sources use it: the exact rational value of the numeral, or
  \<open>None\<close> where JavaScript gives \<open>NaN\<close> or an infinity (both fail \<open>Number.isFinite\<close> and
  \<open>Number.isInteger\<close>). Rounding to a double is not modelled.
\<close>

definition scale10 :: "rat \<Rightarrow> int \<Rightarrow> rat" where
  "scale10 v k = (if 0 \<le> k then v * 10 ^ nat k else v / 10 ^ nat (- k))"

text \<open>The exponent part, which must use up the text: empty, or \<open>e\<close> with an optional sign.\<close>

definition exponent_of :: "string \<Rightarrow> int option" where
  "exponent_of s =
     (case s of
        [] \<Rightarrow> Some 0
      | c # r \<Rightarrow>
          if c = CHR ''e'' \<or> c = CHR ''E'' then
            (let neg = startsWith r ''-'';
                 r1 = (if neg \<or> startsWith r ''+'' then drop 1 r else r)
             in if r1 \<noteq> [] \<and> list_all is_digit r1
                then Some (if neg then - int (digits_val r1) else int (digits_val r1)) else None)
          else None)"

definition unsigned_decimal :: "string \<Rightarrow> rat option" where
  "unsigned_decimal s =
     (let ip = takeWhile is_digit s; r = dropWhile is_digit s;
          dot = startsWith r ''.'';
          fp = (if dot then takeWhile is_digit (drop 1 r) else []);
          r2 = (if dot then dropWhile is_digit (drop 1 r) else r)
      in if ip @ fp = [] then None
         else map_option (\<lambda>e. scale10 (of_nat (digits_val (ip @ fp))) (e - int (length fp))) (exponent_of r2))"

definition radix_digit :: "char \<Rightarrow> nat option" where
  "radix_digit c =
     (let n = code c in
      if 48 \<le> n \<and> n \<le> 57 then Some (n - 48)
      else if 97 \<le> n \<and> n \<le> 102 then Some (n - 87)
      else if 65 \<le> n \<and> n \<le> 70 then Some (n - 55)
      else None)"

fun radix_val :: "nat \<Rightarrow> nat \<Rightarrow> string \<Rightarrow> nat option" where
  "radix_val b n [] = Some n"
| "radix_val b n (c # s) =
     (case radix_digit c of
        Some d \<Rightarrow> (if d < b then radix_val b (b * n + d) s else None)
      | None \<Rightarrow> None)"

definition radix_literal :: "nat \<Rightarrow> string \<Rightarrow> rat option" where
  "radix_literal b s = (if s = [] then None else map_option of_nat (radix_val b 0 s))"

definition js_Number :: "string \<Rightarrow> rat option" where
  "js_Number raw =
     (let s = trim raw; p = toLowerCase (take 2 s) in
      if s = [] then Some 0
      else if p = ''0x'' then radix_literal 16 (drop 2 s)
      else if p = ''0o'' then radix_literal 8 (drop 2 s)
      else if p = ''0b'' then radix_literal 2 (drop 2 s)
      else if startsWith s ''-'' then map_option uminus (unsigned_decimal (drop 1 s))
      else if startsWith s ''+'' then unsigned_decimal (drop 1 s)
      else unsigned_decimal s)"

text \<open>\<open>Number.isInteger(Number(s))\<close> with the integer it is.\<close>

definition integer_of :: "string \<Rightarrow> int option" where
  "integer_of s =
     (case js_Number s of
        Some x \<Rightarrow> (if of_int \<lfloor>x\<rfloor> = x then Some \<lfloor>x\<rfloor> else None)
      | None \<Rightarrow> None)"

lemma digits_no_ws: "is_digit c \<Longrightarrow> \<not> is_ws c"
  by (auto simp: is_digit_def is_ws_def Let_def)

lemma trim_digits: "list_all is_digit s \<Longrightarrow> trim s = s"
  by (cases "s = []") (auto simp: trim_id_iff list_all_iff digits_no_ws)

lemma takeWhile_digits [simp]: "list_all is_digit s \<Longrightarrow> takeWhile is_digit s = s"
  by (simp add: list_all_iff takeWhile_eq_all_conv)

lemma dropWhile_digits [simp]: "list_all is_digit s \<Longrightarrow> dropWhile is_digit s = []"
  by (simp add: list_all_iff)

lemma lower_char_prefix_letter: "is_digit c \<Longrightarrow> lower_char c = c"
  by (simp add: lower_char_def is_digit_def Let_def)

lemma js_Number_digits:
  assumes "list_all is_digit s" "s \<noteq> []"
  shows "js_Number s = Some (of_nat (digits_val s))"
proof -
  obtain c r where s: "s = c # r" using assms(2) by (cases s) auto
  have cd: "is_digit c" using assms(1) s by simp
  have "toLowerCase (take 2 s) = take 2 s"
    using assms(1) unfolding toLowerCase_def
    by (intro map_idI lower_char_prefix_letter) (auto simp: list_all_iff dest: in_set_takeD)
  moreover have "take 2 s \<noteq> ''0x''" "take 2 s \<noteq> ''0o''" "take 2 s \<noteq> ''0b''"
    using assms(1) s by (cases r; force simp: is_digit_def code_def)+
  moreover have "\<not> startsWith s ''-''" "\<not> startsWith s ''+''"
    using cd s by (auto simp: startsWith_def is_digit_def code_def)
  ultimately show ?thesis
    using assms by (simp add: js_Number_def trim_digits unsigned_decimal_def exponent_of_def
        scale10_def Nil_startsWith Let_def)
qed

lemma list_all_digits_nat_str [simp]: "list_all is_digit (nat_str n)"
  using nat_str_digits by (simp add: list_all_iff)

text \<open>\<open>Number(String(n)) = n\<close> for the integers the dashboard stores.\<close>

lemma js_Number_nat_str [simp]: "js_Number (nat_str n) = Some (of_nat n)"
  by (simp add: js_Number_digits)

lemma integer_of_nat_str [simp]: "integer_of (nat_str n) = Some (int n)"
  by (simp add: integer_of_def)

end
