(* ===== verification/Git_Panel.thy ===== *)
theory Git_Panel
  imports Changed_Files Js_Number
begin

text \<open>
  \<open>components/agents/AgentGitPanel.tsx\<close>: the panel that lists the changed files of a thread. The file
  list comes from the pull request's diff when it has been fetched and from the transcript
  otherwise; the panel's open and width state, its resize handle and its text are functions.
  Widths are rational numbers, as \<open>Number\<close> of a stored string may be fractional.
\<close>

record ThreadPrDiffFile =
  pf_path :: string
  pf_previousPath :: "string option"
  pf_status :: string
  pf_additions :: int
  pf_deletions :: int
  pf_originalContent :: "string option"
  pf_modifiedContent :: "string option"
  pf_unrenderable :: bool

record ThreadPrDiff =
  pd_prNumber :: int
  pd_baseSha :: string
  pd_headSha :: string
  pd_truncated :: bool
  pd_files :: "ThreadPrDiffFile list"

datatype GitStatus = GitAdded | GitDeleted | GitModified

record PanelFile =
  panel_filePath :: string
  panel_treePath :: string
  panel_additions :: int
  panel_deletions :: int
  panel_originalContent :: string
  panel_modifiedContent :: string
  panel_status :: GitStatus
  panel_unrenderable :: "bool option"

definition prFileStatus :: "ThreadPrDiffFile \<Rightarrow> GitStatus" where
  "prFileStatus file =
     (if pf_status file = ''added'' then GitAdded
      else if pf_status file = ''removed'' then GitDeleted
      else GitModified)"

definition deriveStatus :: "ChangedFileSummaryItem \<Rightarrow> GitStatus" where
  "deriveStatus file =
     (if length (sum_originalContent file) = 0 \<and> length (sum_modifiedContent file) > 0 then GitAdded
      else if length (sum_modifiedContent file) = 0 \<and> length (sum_originalContent file) > 0 then GitDeleted
      else GitModified)"

definition dir_segments :: "string \<Rightarrow> string list" where
  "dir_segments path = butlast (split_on (CHR ''/'') path)"

text \<open>\<open>while (i < depth && i < segments.length && segments[i] === base[i]) i++\<close>.\<close>

function advance :: "string list \<Rightarrow> string list \<Rightarrow> nat \<Rightarrow> nat \<Rightarrow> nat" where
  "advance base segments depth i =
     (if i < depth \<and> i < length segments \<and> segments ! i = base ! i
      then advance base segments depth (Suc i) else i)"
  by pat_completeness auto
termination
  by (relation "measure (\<lambda>(base, segments, depth, i). depth - i)") auto

declare advance.simps [simp del]

definition commonDirPrefix :: "string list \<Rightarrow> string" where
  "commonDirPrefix paths =
     (case paths of
        [] \<Rightarrow> []
      | first # _ \<Rightarrow>
          (let base = dir_segments first;
               depth = foldl (\<lambda>depth path. advance base (dir_segments path) depth 0) (length base) paths
           in if depth = 0 then [] else join ''/'' (take depth base) @ ''/''))"

definition pr_panel_file :: "ThreadPrDiffFile \<Rightarrow> PanelFile" where
  "pr_panel_file file =
     \<lparr>panel_filePath = pf_path file, panel_treePath = pf_path file,
      panel_additions = pf_additions file, panel_deletions = pf_deletions file,
      panel_originalContent = nullish (pf_originalContent file) [],
      panel_modifiedContent = nullish (pf_modifiedContent file) [],
      panel_status = prFileStatus file, panel_unrenderable = Some (pf_unrenderable file)\<rparr>"

definition summary_panel_file :: "string \<Rightarrow> ChangedFileSummaryItem \<Rightarrow> PanelFile" where
  "summary_panel_file prefix file =
     \<lparr>panel_filePath = sum_filePath file,
      panel_treePath =
        (if prefix \<noteq> [] \<and> startsWith (sum_filePath file) prefix
         then drop (length prefix) (sum_filePath file) else sum_filePath file),
      panel_additions = sum_additions file, panel_deletions = sum_deletions file,
      panel_originalContent = sum_originalContent file, panel_modifiedContent = sum_modifiedContent file,
      panel_status = deriveStatus file, panel_unrenderable = None\<rparr>"

definition panel_files ::
  "diff_parser \<Rightarrow> (string \<Rightarrow> string \<Rightarrow> bool) \<Rightarrow> ThreadPrDiff option \<Rightarrow> Message list \<Rightarrow> PanelFile list" where
  "panel_files hunks le prDiff messages =
     (case prDiff of
        Some d \<Rightarrow> map pr_panel_file (pd_files d)
      | None \<Rightarrow>
          (let chunks = concat (map msg_chunks messages);
               summary = summarizeChangedFiles hunks le chunks;
               prefix = commonDirPrefix (map sum_filePath summary)
           in map (summary_panel_file prefix) summary))"

definition panel_totals :: "PanelFile list \<Rightarrow> LineChanges" where
  "panel_totals files =
     foldl (\<lambda>acc file. \<lparr>additions = additions acc + panel_additions file,
                        deletions = deletions acc + panel_deletions file\<rparr>)
       \<lparr>additions = 0, deletions = 0\<rparr> files"

section \<open>Width and open state\<close>

definition PANEL_DEFAULT_WIDTH :: rat where "PANEL_DEFAULT_WIDTH = 420"
definition PANEL_MIN_WIDTH :: rat where "PANEL_MIN_WIDTH = 320"
definition PANEL_MAX_WIDTH :: rat where "PANEL_MAX_WIDTH = 720"

definition clamp_width :: "rat \<Rightarrow> rat" where
  "clamp_width w = min PANEL_MAX_WIDTH (max PANEL_MIN_WIDTH w)"

text \<open>The stored string, absent or not; an absent or empty one gives \<open>NaN\<close>.\<close>

definition readStoredPanelWidth :: "string option \<Rightarrow> rat" where
  "readStoredPanelWidth raw =
     (if truthy_str raw then
        (case js_Number (the raw) of None \<Rightarrow> PANEL_DEFAULT_WIDTH | Some parsed \<Rightarrow> clamp_width parsed)
      else PANEL_DEFAULT_WIDTH)"

datatype TopTab = GitTab | DesktopTab | TerminalTab
datatype PanelTab = DiffTab | ReviewTab | CommitsTab

record panel_state =
  topTab :: TopTab
  panelTab :: PanelTab
  collapsed :: bool
  panelWidth :: rat
  storedWidth :: "rat option"
  fullScreen :: bool
  prSeen :: "string \<times> bool"
  selectedTreePath :: "string option"
  dragStart :: "(rat \<times> rat) option"
  dragging :: bool

definition init_panel :: "string option \<Rightarrow> AgentThread \<Rightarrow> panel_state" where
  "init_panel raw thread =
     \<lparr>topTab = GitTab, panelTab = DiffTab, collapsed = True, panelWidth = readStoredPanelWidth raw,
      storedWidth = None, fullScreen = False, prSeen = (th_id thread, th_pr thread \<noteq> None),
      selectedTreePath = None, dragStart = None, dragging = False\<rparr>"

text \<open>The state adjustment made while rendering for a thread.\<close>

definition panel_render :: "AgentThread \<Rightarrow> panel_state \<Rightarrow> panel_state" where
  "panel_render thread s =
     (if fst (prSeen s) \<noteq> th_id thread
      then s\<lparr>prSeen := (th_id thread, th_pr thread \<noteq> None), collapsed := True\<rparr>
      else if th_pr thread \<noteq> None \<and> \<not> snd (prSeen s)
      then s\<lparr>prSeen := (th_id thread, True), collapsed := False\<rparr>
      else s)"

definition setWidth :: "rat \<Rightarrow> panel_state \<Rightarrow> panel_state" where
  "setWidth next s = s\<lparr>panelWidth := clamp_width next, storedWidth := Some (clamp_width next)\<rparr>"

datatype panel_event =
    RenderFor AgentThread
  | Expand
  | Collapse
  | ToggleFullScreen
  | SetTopTab TopTab
  | SetTab PanelTab
  | PointerDown rat
  | PointerMove rat
  | PointerUp
  | TreeSelection "string list"

fun panel_step :: "panel_state \<Rightarrow> panel_event \<Rightarrow> panel_state" where
  "panel_step s (RenderFor thread) = panel_render thread s"
| "panel_step s Expand = s\<lparr>collapsed := False\<rparr>"
| "panel_step s Collapse = s\<lparr>fullScreen := False, collapsed := True\<rparr>"
| "panel_step s ToggleFullScreen = s\<lparr>fullScreen := \<not> fullScreen s\<rparr>"
| "panel_step s (SetTopTab t) = s\<lparr>topTab := t\<rparr>"
| "panel_step s (SetTab t) = s\<lparr>panelTab := t\<rparr>"
| "panel_step s (PointerDown x) = s\<lparr>dragStart := Some (x, panelWidth s), dragging := True\<rparr>"
| "panel_step s (PointerMove x) =
     (case dragStart s of
        None \<Rightarrow> s
      | Some (x0, w0) \<Rightarrow> setWidth (w0 - (x - x0)) s)"
| "panel_step s PointerUp = s\<lparr>dragStart := None, dragging := False\<rparr>"
| "panel_step s (TreeSelection selection) =
     (case selection of
        path # _ \<Rightarrow> if path = [] then s else s\<lparr>selectedTreePath := Some path\<rparr>
      | [] \<Rightarrow> s)"

abbreviation panel_run :: "panel_state \<Rightarrow> panel_event list \<Rightarrow> panel_state" where
  "panel_run s es \<equiv> foldl panel_step s es"

section \<open>The view\<close>

text \<open>The section the panel scrolls to when a path of the tree is selected.\<close>

definition scroll_target :: "PanelFile list \<Rightarrow> string option \<Rightarrow> string option" where
  "scroll_target files selected =
     (if truthy_str selected
      then map_option panel_filePath (find (\<lambda>f. panel_treePath f = the selected) files)
      else None)"

text \<open>One file of the diff: the section is open at first and a click on its header toggles it.\<close>

datatype DiffBody = ClosedBody | UnrenderableNote | FileDiff string string string

record DiffSection =
  section_title :: string
  section_additions :: int
  section_deletions :: int
  section_body :: DiffBody

definition file_diff_section :: "bool \<Rightarrow> PanelFile \<Rightarrow> DiffSection" where
  "file_diff_section isOpen file =
     \<lparr>section_title = panel_treePath file, section_additions = panel_additions file,
      section_deletions = panel_deletions file,
      section_body =
        (if \<not> isOpen then ClosedBody
         else if panel_unrenderable file = Some True then UnrenderableNote
         else FileDiff (panel_treePath file) (panel_originalContent file) (panel_modifiedContent file))\<rparr>"

text \<open>What the tree component is given: the paths and the status of each.\<close>

definition tree_paths :: "PanelFile list \<Rightarrow> string list" where
  "tree_paths files = map panel_treePath files"

definition tree_git_status :: "PanelFile list \<Rightarrow> (string \<times> GitStatus) list" where
  "tree_git_status files = map (\<lambda>f. (panel_treePath f, panel_status f)) files"

datatype DiffArea = DiffSections "PanelFile list" | DiffComingSoon | DiffLoading | DiffUnavailable

definition diff_area :: "PanelTab \<Rightarrow> bool \<Rightarrow> PanelFile list \<Rightarrow> DiffArea" where
  "diff_area tab isLoading files =
     (if tab = DiffTab \<and> length files > 0 then DiffSections files
      else if tab \<noteq> DiffTab then DiffComingSoon
      else if isLoading then DiffLoading
      else DiffUnavailable)"

record PrHeader =
  prh_title :: string
  prh_state :: PrState
  prh_refs :: "string \<times> string"
  prh_link :: "string option"

definition pr_header :: "ThreadPr \<Rightarrow> PrHeader" where
  "pr_header pr =
     \<lparr>prh_title = pr_title pr @ '' #'' @ int_str (pr_number pr), prh_state = pr_state pr,
      prh_refs = (pr_headRef pr, pr_baseRef pr),
      prh_link = (if pr_url pr = [] then None else Some (pr_url pr))\<rparr>"

record GitTabView =
  gtv_pr :: "PrHeader option"
  gtv_counts :: "(string \<times> LineChanges) option"
  gtv_area :: DiffArea
  gtv_tree :: "((string \<times> GitStatus) list \<times> string option) option"

definition git_tab_view :: "AgentThread \<Rightarrow> bool \<Rightarrow> PanelFile list \<Rightarrow> panel_state \<Rightarrow> GitTabView" where
  "git_tab_view thread isLoading files s =
     \<lparr>gtv_pr = map_option pr_header (th_pr thread),
      gtv_counts =
        (if length files > 0
         then Some (nat_str (length files) @ '' file'' @ (if length files = 1 then [] else ''s''), panel_totals files)
         else None),
      gtv_area = diff_area (panelTab s) isLoading files,
      gtv_tree =
        (if fullScreen s \<and> length files > 0 then Some (tree_git_status files, selectedTreePath s) else None)\<rparr>"

datatype PanelBody = ComingSoon | GitBody GitTabView

text \<open>Collapsed, the panel is one button; open, its width is fixed unless it fills the screen.\<close>

datatype PanelView =
    ExpandButton
  | Panel "rat option" PanelBody bool

definition panel_view :: "AgentThread \<Rightarrow> bool \<Rightarrow> PanelFile list \<Rightarrow> panel_state \<Rightarrow> PanelView" where
  "panel_view thread isLoading files s =
     (if collapsed s then ExpandButton
      else Panel (if fullScreen s then None else Some (panelWidth s))
             (if topTab s \<noteq> GitTab then ComingSoon else GitBody (git_tab_view thread isLoading files s))
             (\<not> fullScreen s))"

section \<open>The common directory\<close>

lemma advance_bounds: "i \<le> depth \<Longrightarrow> i \<le> advance base segs depth i \<and> advance base segs depth i \<le> depth"
proof (induction base segs depth i rule: advance.induct)
  case (1 base segs depth i)
  then show ?case by (auto simp: advance.simps [of base segs depth i])
qed

lemma advance_agrees:
  "take i segs = take i base \<Longrightarrow> i \<le> length segs \<Longrightarrow> i \<le> depth \<Longrightarrow> depth \<le> length base \<Longrightarrow>
   take (advance base segs depth i) segs = take (advance base segs depth i) base
   \<and> advance base segs depth i \<le> length segs"
proof (induction base segs depth i rule: advance.induct)
  case (1 base segs depth i)
  then show ?case
    by (auto simp: advance.simps [of base segs depth i] take_Suc_conv_app_nth)
qed

abbreviation prefix_depth :: "string list \<Rightarrow> nat \<Rightarrow> string list \<Rightarrow> nat" where
  "prefix_depth base d paths \<equiv> foldl (\<lambda>depth path. advance base (dir_segments path) depth 0) d paths"

lemma prefix_depth_le: "prefix_depth base d paths \<le> d"
proof (induction paths arbitrary: d)
  case (Cons p ps)
  then show ?case
    using advance_bounds [of 0 d base "dir_segments p"] by (auto intro: le_trans)
qed simp

lemma prefix_depth_agrees:
  "d \<le> length base \<Longrightarrow> p \<in> set paths \<Longrightarrow>
   prefix_depth base d paths \<le> length (dir_segments p)
   \<and> take (prefix_depth base d paths) (dir_segments p) = take (prefix_depth base d paths) base"
proof (induction paths arbitrary: d)
  case (Cons q ps)
  let ?e = "advance base (dir_segments q) d 0"
  have e: "?e \<le> d" using advance_bounds [of 0 d] by simp
  have q: "take ?e (dir_segments q) = take ?e base \<and> ?e \<le> length (dir_segments q)"
    using advance_agrees [of 0 "dir_segments q" base d] Cons.prems(1) by simp
  show ?case
  proof (cases "p \<in> set ps")
    case True
    with Cons.IH [of ?e] e Cons.prems(1) show ?thesis by simp
  next
    case False
    with Cons.prems(2) have p: "p = q" by simp
    have "prefix_depth base ?e ps \<le> ?e" by (rule prefix_depth_le)
    with q p show ?thesis by simp (metis min.absorb_iff1 order_trans take_take)
  qed
qed simp

lemma join_append: "xs \<noteq> [] \<Longrightarrow> ys \<noteq> [] \<Longrightarrow> join sep (xs @ ys) = join sep xs @ sep @ join sep ys"
proof (induction xs)
  case (Cons x xs)
  then show ?case by (cases "xs = []") (simp_all add: join_Cons)
qed simp

lemma path_starts_with_dirs:
  assumes "0 < n" "n \<le> length (dir_segments p)"
  shows "startsWith p (join ''/'' (take n (dir_segments p)) @ ''/'')"
proof -
  let ?s = "split_on (CHR ''/'') p"
  have n: "n < length ?s" using assms by (auto simp: dir_segments_def)
  then have t: "take n (dir_segments p) = take n ?s"
    by (simp add: dir_segments_def take_butlast)
  have "p = join ''/'' (take n ?s @ drop n ?s)" using join_split_on [of "CHR ''/''" p] by simp
  also have "\<dots> = join ''/'' (take n ?s) @ ''/'' @ join ''/'' (drop n ?s)"
    using n assms(1) by (intro join_append) auto
  finally have "p = (join ''/'' (take n ?s) @ ''/'') @ join ''/'' (drop n ?s)" by simp
  then show ?thesis by (metis startsWith_append t)
qed

lemma commonDirPrefix_starts: "p \<in> set paths \<Longrightarrow> startsWith p (commonDirPrefix paths)"
proof (cases paths)
  case (Cons first rest)
  assume p: "p \<in> set paths"
  let ?base = "dir_segments first"
  let ?d = "prefix_depth ?base (length ?base) paths"
  show ?thesis
  proof (cases "?d = 0")
    case True
    with Cons show ?thesis by (simp add: commonDirPrefix_def)
  next
    case False
    have "?d \<le> length (dir_segments p) \<and> take ?d (dir_segments p) = take ?d ?base"
      using p by (intro prefix_depth_agrees) simp_all
    with False path_starts_with_dirs [of ?d p] Cons show ?thesis
      by (simp add: commonDirPrefix_def Let_def)
  qed
qed simp

section \<open>Panel facts\<close>

interpretation panel_width: clamped PANEL_MIN_WIDTH PANEL_MAX_WIDTH
  by unfold_locales (simp add: PANEL_MIN_WIDTH_def PANEL_MAX_WIDTH_def)

lemma clamp_width_bounds: "PANEL_MIN_WIDTH \<le> clamp_width w \<and> clamp_width w \<le> PANEL_MAX_WIDTH"
  using panel_width.clamp_in_range [of w] by (simp add: clamp_width_def panel_width.in_range_def)

definition width_ok :: "panel_state \<Rightarrow> bool" where
  "width_ok s \<longleftrightarrow> PANEL_MIN_WIDTH \<le> panelWidth s \<and> panelWidth s \<le> PANEL_MAX_WIDTH
     \<and> (case storedWidth s of None \<Rightarrow> True | Some w \<Rightarrow> w = panelWidth s)"

lemma width_ok_init: "width_ok (init_panel raw thread)"
  using clamp_width_bounds
  by (auto simp: width_ok_def init_panel_def readStoredPanelWidth_def PANEL_DEFAULT_WIDTH_def
      PANEL_MIN_WIDTH_def PANEL_MAX_WIDTH_def split: option.splits)

lemma width_ok_step: "width_ok s \<Longrightarrow> width_ok (panel_step s e)"
  using clamp_width_bounds
  by (cases e) (auto simp: width_ok_def panel_render_def setWidth_def split: option.splits list.splits)

lemma width_ok_run: "width_ok s \<Longrightarrow> width_ok (panel_run s es)"
  by (induction es arbitrary: s) (simp_all add: width_ok_step)

lemma foldl_totals:
  "foldl (\<lambda>acc file. \<lparr>additions = additions acc + panel_additions file,
                      deletions = deletions acc + panel_deletions file\<rparr>) acc files =
     \<lparr>additions = additions acc + (\<Sum>f\<leftarrow>files. panel_additions f),
      deletions = deletions acc + (\<Sum>f\<leftarrow>files. panel_deletions f)\<rparr>"
  by (induction files arbitrary: acc) (auto simp: add.assoc)

lemma panel_totals_sum:
  "panel_totals files = \<lparr>additions = (\<Sum>f\<leftarrow>files. panel_additions f), deletions = (\<Sum>f\<leftarrow>files. panel_deletions f)\<rparr>"
  by (simp add: panel_totals_def foldl_totals)

section \<open>Properties\<close>

text \<open>
  The directory cut off the shown paths is a prefix of every path, so the path shown in the tree
  and the common directory give back the file's path: no two files are confused by the shortening.
\<close>

theorem tree_path_round_trip:
  "list_all (\<lambda>f. panel_filePath f =
       commonDirPrefix (map sum_filePath (summarizeChangedFiles hunks le (concat (map msg_chunks ms)))) @ panel_treePath f)
     (panel_files hunks le None ms)"
proof -
  let ?files = "summarizeChangedFiles hunks le (concat (map msg_chunks ms))"
  let ?p = "commonDirPrefix (map sum_filePath ?files)"
  have "sum_filePath f = ?p @ drop (length ?p) (sum_filePath f)" if "f \<in> set ?files" for f
    using that by (intro startsWithE commonDirPrefix_starts) simp
  moreover have "startsWith (sum_filePath f) ?p" if "f \<in> set ?files" for f
    using that by (intro commonDirPrefix_starts) simp
  ultimately show ?thesis
    by (auto simp: panel_files_def list_all_iff summary_panel_file_def Let_def)
qed

text \<open>
  The panel's width stays between its bounds, and the stored width is the width shown, after any
  sequence of renders, clicks and drags, whatever string was in the storage at the start.
\<close>

theorem panel_width_bounded: "width_ok (panel_run (init_panel raw thread) es)"
  by (rule width_ok_run [OF width_ok_init])

text \<open>
  Rendering the panel for a thread whose pull request appears for the first time opens it, and
  rendering it for another thread than before closes it, from every state; a second render of the
  same thread changes nothing, so the state adjustment made while rendering settles.
\<close>

theorem panel_render_settles:
  "panel_render t (panel_render t s) = panel_render t s
   \<and> collapsed (panel_render t s) =
       (if fst (prSeen s) \<noteq> th_id t then True
        else if th_pr t \<noteq> None \<and> \<not> snd (prSeen s) then False else collapsed s)"
  by (auto simp: panel_render_def)

end
