(* ===== verification/Cron.thy ===== *)
theory Cron
  imports Js_Number
begin

text \<open>
  \<open>lib/agents/cron.ts\<close>: the schedule presets and the human description of a cron expression.
  Letters outside ASCII are written by their code.
\<close>

datatype CronPresetId = Hourly | Daily | Weekly

record CronPreset =
  preset_id :: CronPresetId
  preset_label :: string
  preset_value :: string

definition CRON_PRESETS :: "CronPreset list" where
  "CRON_PRESETS =
     [\<lparr>preset_id = Hourly, preset_label = ''Cada hora'', preset_value = ''0 * * * *''\<rparr>,
      \<lparr>preset_id = Daily, preset_label = ''Diario'', preset_value = ''0 9 * * *''\<rparr>,
      \<lparr>preset_id = Weekly, preset_label = ''Semanal'', preset_value = ''0 9 * * 1''\<rparr>]"

definition DAY_NAMES :: "string list" where
  "DAY_NAMES =
     [''domingo'', ''lunes'', ''martes'', ''mi'' @ [CHR 0xE9] @ ''rcoles'', ''jueves'', ''viernes'',
      ''s'' @ [CHR 0xE1] @ ''bado'']"

definition pad :: "int \<Rightarrow> string" where
  "pad n = padStart 2 (CHR ''0'') (int_str n)"

definition formatTime :: "int \<Rightarrow> int \<Rightarrow> string" where
  "formatTime minute hour = pad hour @ '':'' @ pad minute @ '' UTC''"

text \<open>\<open>hour.match(/^\*\/(\d+)$/)\<close>: the digits after \<open>*/\<close>.\<close>

definition every_n_hours :: "string \<Rightarrow> string option" where
  "every_n_hours hour =
     (if startsWith hour ''*/'' \<and> drop 2 hour \<noteq> [] \<and> list_all is_digit (drop 2 hour)
      then Some (drop 2 hour) else None)"

text \<open>The branches after the five fields are known to be there and not empty.\<close>

definition describe_fields :: "string \<Rightarrow> string \<Rightarrow> string \<Rightarrow> string \<Rightarrow> string \<Rightarrow> string \<Rightarrow> string" where
  "describe_fields expr minF hour domF mon dow =
     (if minF = ''0'' \<and> hour = ''*'' \<and> domF = ''*'' \<and> mon = ''*'' \<and> dow = ''*'' then ''Cada hora''
      else if every_n_hours hour \<noteq> None \<and> minF = ''0'' \<and> domF = ''*'' \<and> mon = ''*'' \<and> dow = ''*''
        then ''Cada '' @ the (every_n_hours hour) @ '' horas''
      else
        (case (integer_of minF, integer_of hour) of
           (Some minNum, Some hourNum) \<Rightarrow>
             (if 0 \<le> minNum \<and> 0 \<le> hourNum \<and> domF = ''*'' \<and> mon = ''*'' then
                (if dow = ''*'' then ''Todos los d'' @ [CHR 0xED] @ ''as a las '' @ formatTime minNum hourNum
                 else if dow = ''1-5'' then ''D'' @ [CHR 0xED] @ ''as laborables a las '' @ formatTime minNum hourNum
                 else
                   (case integer_of dow of
                      Some dowNum \<Rightarrow>
                        (if 0 \<le> dowNum \<and> dowNum \<le> 7
                         then ''Cada '' @ DAY_NAMES ! nat (dowNum mod 7) @ '' a las '' @ formatTime minNum hourNum
                         else expr)
                    | None \<Rightarrow> expr))
              else expr)
         | _ \<Rightarrow> expr))"

definition describeCron :: "string \<Rightarrow> string" where
  "describeCron expr =
     (case split_ws (trim expr) of
        [minF, hour, domF, mon, dow] \<Rightarrow>
          (if minF = [] \<or> hour = [] \<or> domF = [] \<or> mon = [] \<or> dow = [] then expr
           else describe_fields expr minF hour domF mon dow)
      | _ \<Rightarrow> expr)"

definition normalize_cron :: "string \<Rightarrow> string" where
  "normalize_cron expr = join '' '' (split_ws (trim expr))"

definition presetForCron :: "string \<Rightarrow> CronPresetId option" where
  "presetForCron expr =
     map_option preset_id (find (\<lambda>p. preset_value p = normalize_cron expr) CRON_PRESETS)"

section \<open>Splitting at white space\<close>

lemma split_ws_no_ws: "list_all (\<lambda>c. \<not> is_ws c) s \<Longrightarrow> split_ws s = [s]"
  by (induction s) auto

lemma split_ws_append:
  "list_all (\<lambda>c. \<not> is_ws c) s \<Longrightarrow> is_ws w \<Longrightarrow>
   split_ws (s @ w # t) = s # split_ws (dropWhile is_ws t)"
  by (induction s) auto

text \<open>A list of fields: not empty, each a non-empty word without white space.\<close>

definition field :: "string \<Rightarrow> bool" where
  "field s \<longleftrightarrow> s \<noteq> [] \<and> list_all (\<lambda>c. \<not> is_ws c) s"

text \<open>Fields laid out with a run of white space between each two.\<close>

fun interleave :: "string list \<Rightarrow> string list \<Rightarrow> string" where
  "interleave [] gaps = []"
| "interleave [f] gaps = f"
| "interleave (f # fs) [] = f @ '' '' @ interleave fs []"
| "interleave (f # fs) (g # gs) = f @ g @ interleave fs gs"

definition gap :: "string \<Rightarrow> bool" where
  "gap g \<longleftrightarrow> g \<noteq> [] \<and> list_all is_ws g"

lemma spread_first: "field f \<Longrightarrow> \<exists>r. interleave (f # fs) gaps = f @ r"
  by (cases fs; cases gaps) auto

lemma dropWhile_ws_spread: "field f \<Longrightarrow> dropWhile is_ws (interleave (f # fs) gaps) = interleave (f # fs) gaps"
proof -
  assume f: "field f"
  then obtain r where "interleave (f # fs) gaps = f @ r" using spread_first by blast
  with f show ?thesis by (cases f) (auto simp: field_def)
qed

lemma is_ws_space [simp]: "is_ws (CHR '' '')"
  by (simp add: is_ws_def code_def)

lemma dropWhile_gap: "list_all is_ws g \<Longrightarrow> dropWhile is_ws (g @ s) = dropWhile is_ws s"
  by (induction g) auto

lemma split_ws_spread:
  "list_all field fs \<Longrightarrow> list_all gap gaps \<Longrightarrow> fs \<noteq> [] \<Longrightarrow> split_ws (interleave fs gaps) = fs"
proof (induction fs gaps rule: interleave.induct)
  case (2 f gaps)
  then show ?case by (simp add: field_def split_ws_no_ws)
next
  case (3 f f' fs)
  then show ?case by (simp add: field_def [of f] split_ws_append dropWhile_ws_spread)
next
  case (4 f f' fs g gs)
  then obtain w g' where g: "g = w # g'" "is_ws w" "list_all is_ws g'"
    by (cases g) (auto simp: gap_def)
  with 4 show ?case
    by (simp add: field_def [of f] split_ws_append dropWhile_gap dropWhile_ws_spread)
qed simp

lemma spread_last: "list_all field fs \<Longrightarrow> fs \<noteq> [] \<Longrightarrow> interleave fs gaps \<noteq> [] \<and> \<not> is_ws (last (interleave fs gaps))"
proof (induction fs gaps rule: interleave.induct)
  case (2 f gaps)
  then show ?case by (auto simp: field_def list_all_iff)
qed auto

lemma trim_spread:
  assumes "list_all field fs" "fs \<noteq> []"
  shows "trim (interleave fs gaps) = interleave fs gaps"
proof -
  obtain f fs' where fs: "fs = f # fs'" using assms(2) by (cases fs) auto
  then obtain r where r: "interleave fs gaps = f @ r" using spread_first assms(1) by force
  have "f \<noteq> []" "\<not> is_ws (hd f)" using assms(1) fs by (auto simp: field_def list_all_iff)
  with r spread_last [OF assms, of gaps] show ?thesis by (simp add: trim_id_iff)
qed

lemma trim_pad_ws:
  assumes "list_all is_ws l" "list_all is_ws r"
  shows "trim (l @ s @ r) = trim s"
proof -
  have "dropWhile is_ws (l @ s @ r) = (if list_all is_ws s then [] else dropWhile is_ws s @ r)"
    using assms by (auto simp: dropWhile_gap list_all_iff dropWhile_append)
  moreover have "dropWhile is_ws (rev (u @ r)) = dropWhile is_ws (rev u)" for u
    using assms(2) by (simp add: dropWhile_gap list_all_rev)
  moreover have "dropWhile is_ws s = []" if "list_all is_ws s"
    using that by (simp add: list_all_iff)
  ultimately show ?thesis
    by (cases "list_all is_ws s") (simp_all add: trim_def trim_start_def del: dropWhile_eq_Nil_conv)
qed

section \<open>Properties\<close>

text \<open>
  Both functions read an expression up to white space: extra blanks around and between the
  fields of an expression do not change the preset it is matched to.
\<close>

theorem presetForCron_ignores_spacing:
  assumes "list_all field fs" "fs \<noteq> []" "list_all gap gaps" "list_all is_ws l" "list_all is_ws r"
  shows "presetForCron (l @ interleave fs gaps @ r) = presetForCron (join '' '' fs)"
proof -
  have "join '' '' fs = interleave fs []"
    by (induction fs rule: induct_list012) auto
  then have "normalize_cron (join '' '' fs) = join '' '' fs"
    using assms by (simp add: normalize_cron_def trim_spread split_ws_spread)
  moreover have "normalize_cron (l @ interleave fs gaps @ r) = join '' '' fs"
    using assms by (simp add: normalize_cron_def trim_pad_ws trim_spread split_ws_spread)
  ultimately show ?thesis by (simp add: presetForCron_def)
qed

theorem presetForCron_ignores_spacing_witness:
  "presetForCron (''  '' @ interleave [''0'', ''9'', ''*'', ''*'', ''1''] [''   ''] @ '' '') = Some Weekly"
proof -
  have h: "list_all field [''0'', ''9'', ''*'', ''*'', ''1'']" "list_all gap [''   '']"
    "list_all is_ws ''  ''" "list_all is_ws '' ''" by code_simp+
  have "presetForCron (join '' '' [''0'', ''9'', ''*'', ''*'', ''1'']) = Some Weekly" by code_simp
  with presetForCron_ignores_spacing [OF h(1) _ h(2-4)] show ?thesis by simp
qed

text \<open>
  Every preset of the list is matched back to itself, and its expression has a description that
  is not the expression itself.
\<close>

theorem presets_round_trip:
  "list_all (\<lambda>p. presetForCron (preset_value p) = Some (preset_id p)
                 \<and> describeCron (preset_value p) \<noteq> preset_value p) CRON_PRESETS"
  by code_simp

text \<open>
  A daily expression with numeric minute and hour is described by its time, two digits each,
  for every minute and hour.
\<close>

theorem describeCron_daily:
  "describeCron (interleave [nat_str m, nat_str h, ''*'', ''*'', ''*''] []) =
     ''Todos los d'' @ [CHR 0xED] @ ''as a las '' @ formatTime (int m) (int h)"
proof -
  have digits: "list_all (\<lambda>c. \<not> is_ws c) (nat_str n)" for n
    using nat_str_digits by (auto simp: list_all_iff digits_no_ws)
  have star: "\<not> is_ws (CHR ''*'')" by (simp add: is_ws_def code_def)
  have f: "list_all field [nat_str m, nat_str h, ''*'', ''*'', ''*'']"
    using digits star by (simp add: field_def)
  have "CHR ''*'' \<notin> set (nat_str h)"
    using nat_str_digits [of h] by (auto simp: is_digit_def code_def)
  then have "nat_str h \<noteq> ''*''" "\<not> startsWith (nat_str h) ''*/''"
    by (auto dest!: startsWithE) (metis list.set_intros(1))
  then show ?thesis
    using f by (simp add: describeCron_def trim_spread split_ws_spread describe_fields_def every_n_hours_def
        del: interleave.simps)
qed

end
