(* ===== verification/Api_Types.thy ===== *)
theory Api_Types
  imports Js_Value
begin

text \<open>
  The data of \<open>lib/api.ts\<close>, in the order of the file: what the dashboard's backend sends and
  receives. An optional or nullable field is an option; the string unions are datatypes.
\<close>

record SessionUser =
  su_login :: string
  su_actor_id :: "string option"
  su_auth_provider :: "string option"
  su_email :: "string option"
  su_name :: "string option"
  su_tenant_id :: "string option"
  su_avatar_url :: "string option"
  su_is_admin :: bool
  su_slack_oauth_enabled :: "bool option"
  su_allow_nonazure_workspace :: "bool option"

record ModelOption =
  mo_id :: string
  mo_label :: string
  mo_efforts :: "string list"
  mo_default_effort :: string
  mo_supports_images :: bool

record OptionsPayload =
  op_models :: "ModelOption list"
  op_default_agent_model :: string
  op_default_agent_reasoning_effort :: string
  op_default_agent_subagent_model :: string
  op_default_agent_subagent_reasoning_effort :: string

record Profile =
  prof_login :: "string option"
  prof_email :: "string option"
  prof_default_model :: "string option"
  prof_reasoning_effort :: "string option"
  prof_default_subagent_model :: "string option"
  prof_subagent_reasoning_effort :: "string option"
  prof_default_repo :: "string option"
  prof_base_branch :: "string option"
  prof_branch_prefix :: "string option"
  prof_auto_fix_ci :: "bool option"
  prof_create_prs :: "bool option"
  prof_review_draft_prs :: "bool option"
  prof_updated_at :: "string option"

record ProfileUpdate =
  pu_default_model :: string
  pu_reasoning_effort :: string
  pu_default_subagent_model :: "string option"
  pu_subagent_reasoning_effort :: "string option"
  pu_default_repo :: "string option"
  pu_base_branch :: "string option"
  pu_branch_prefix :: "string option"
  pu_auto_fix_ci :: "bool option"
  pu_create_prs :: "bool option"
  pu_review_draft_prs :: "bool option"

datatype TriggerMode = TriggerEveryPush | TriggerOncePerPr | TriggerManual

datatype AutofixMode = AutofixOff | AutofixLow | AutofixMedium | AutofixHigh

record TeamSettings =
  ts_trigger_mode :: TriggerMode
  ts_review_draft_prs :: bool
  ts_pr_summaries :: bool
  ts_review_trace_links :: bool
  ts_autofix_mode :: AutofixMode
  ts_autofix_severity_threshold :: AutofixMode
  ts_org_guidelines :: "string option"
  ts_default_agent_model :: "string option"
  ts_default_agent_reasoning_effort :: "string option"
  ts_default_agent_subagent_model :: "string option"
  ts_default_agent_subagent_reasoning_effort :: "string option"
  ts_default_repo :: "string option"
  ts_default_reviewer_model :: "string option"
  ts_default_reviewer_reasoning_effort :: "string option"
  ts_default_reviewer_subagent_model :: "string option"
  ts_default_reviewer_subagent_reasoning_effort :: "string option"
  ts_updated_at :: "string option"

record ProviderCredentialStatus =
  pcs_connected :: bool
  pcs_site :: "string option"
  pcs_endpoint :: "string option"
  pcs_api_key_last4 :: "string option"
  pcs_updated_at :: "string option"

record TeamCredentialsStatus =
  tcs_datadog :: ProviderCredentialStatus
  tcs_langsmith :: ProviderCredentialStatus

record DatadogConnectBody =
  dd_site :: string
  dd_api_key :: string
  dd_app_key :: string

record LangSmithConnectBody =
  ls_api_key :: string
  ls_endpoint :: "string option"

datatype AzureUsagePeriod = Period7d | Period30d | PeriodAll

record AzureUsageCounterRow =
  row_name :: string
  row_count :: int

record AzureWorkItemMetrics =
  wim_total :: int
  wim_states :: "AzureUsageCounterRow list"
  wim_types :: "AzureUsageCounterRow list"
  wim_limited :: bool

record AzureBuild =
  bld_id :: int
  bld_build_number :: "string option"
  bld_definition :: "string option"
  bld_status :: "string option"
  bld_result :: "string option"
  bld_source_branch :: "string option"
  bld_requested_for :: "string option"
  bld_queue_time :: "string option"
  bld_start_time :: "string option"
  bld_finish_time :: "string option"
  bld_web_url :: "string option"

record AzureUsagePayload =
  usage_project :: string
  usage_period :: AzureUsagePeriod
  usage_work_items :: AzureWorkItemMetrics
  usage_recent_builds :: "AzureBuild list"

record Workspace =
  wk_id :: string
  wk_label :: string
  wk_path :: string
  wk_current_branch :: "string option"
  wk_remote_url :: "string option"
  wk_is_dirty :: bool
  wk_azure_project :: "string option"
  wk_azure_repo :: "string option"
  wk_created_at :: "string option"
  wk_updated_at :: "string option"

record WorkspacesPayload =
  wsp_workspaces :: "Workspace list"

record WorkspaceCreate =
  wsc_path :: string
  wsc_label :: "string option"
  wsc_azure_project :: "string option"
  wsc_azure_repo :: "string option"

record Repository =
  repo_full_name :: string
  repo_project :: "string option"
  repo_name :: "string option"
  repo_id :: "string option"
  repo_default_branch :: "string option"
  repo_web_url :: "string option"
  repo_private :: "bool option"

record AzureProject =
  azp_id :: string
  azp_name :: string
  azp_description :: "string option"
  azp_state :: "string option"

record AzurePullRequest =
  apr_id :: int
  apr_title :: string
  apr_status :: string
  apr_is_draft :: bool
  apr_author :: "string option"
  apr_author_email :: "string option"
  apr_created_date :: "string option"
  apr_source_branch :: "string option"
  apr_target_branch :: "string option"
  apr_repo :: "string option"
  apr_project :: string
  apr_web_url :: "string option"

record ReposPayload =
  rp_repositories :: "Repository list"
  rp_installations :: "jsval list option"

datatype ReviewStyleStatus = StyleIdle | StyleRunning | StyleCompleted | StyleFailed

record ReviewStyle =
  rs_full_name :: string
  rs_owner :: "string option"
  rs_name :: "string option"
  rs_status :: ReviewStyleStatus
  rs_custom_prompt :: "string option"
  rs_analysis_summary :: "string option"
  rs_top_reviewers :: "string list"
  rs_prs_sampled :: int
  rs_reviews_sampled :: int
  rs_analysis_thread_id :: "string option"
  rs_analysis_run_id :: "string option"
  rs_error :: "string option"
  rs_created_by :: "string option"
  rs_created_at :: "string option"
  rs_updated_at :: "string option"

record AgentInstructions =
  ai_full_name :: string
  ai_owner :: "string option"
  ai_name :: "string option"
  ai_instructions :: string
  ai_created_by :: "string option"
  ai_created_at :: "string option"
  ai_updated_at :: "string option"

record CatalogModel =
  cm_id :: string
  cm_provider :: string
  cm_label :: string
  cm_available :: bool
  cm_max_input_tokens :: "int option"
  cm_efforts :: "string list option"
  cm_default_effort :: "string option"

record CatalogProvider =
  cp_id :: string
  cp_label :: string
  cp_models :: "CatalogModel list"

record ModelCatalog =
  cat_providers :: "CatalogProvider list"

end
