(* ===== verification/Api_Client.thy ===== *)
theory Api_Client
  imports Api_Types Agent_Types
begin

text \<open>
  The two HTTP clients of the dashboard, \<open>lib/api.ts\<close> and \<open>lib/agents/api.ts\<close>: the requests they
  build, and how a response becomes a value or a thrown error. \<open>fetch\<close> is an argument: it gives a
  response, or rejects. Every method of the objects \<open>api\<close> and \<open>agentsApi\<close> is a constructor of a
  datatype, and one function gives the path and the options of its request.
\<close>

section \<open>encodeURIComponent\<close>

definition hex_upper :: "nat \<Rightarrow> char" where
  "hex_upper d = (if d < 10 then char_of (48 + d) else char_of (55 + d))"

definition pct :: "nat \<Rightarrow> string" where
  "pct n = [CHR ''%'', hex_upper (n div 16), hex_upper (n mod 16)]"

definition unreserved :: "char \<Rightarrow> bool" where
  "unreserved c =
     (let n = code c in
      (48 \<le> n \<and> n \<le> 57) \<or> (65 \<le> n \<and> n \<le> 90) \<or> (97 \<le> n \<and> n \<le> 122)
      \<or> c \<in> {CHR ''-'', CHR ''_'', CHR ''.'', CHR ''!'', CHR ''~'', CHR ''*'', CHR 0x27, CHR ''('', CHR '')''})"

text \<open>A character of the upper half of Latin-1 has two bytes in UTF-8.\<close>

definition encode_char :: "char \<Rightarrow> string" where
  "encode_char c =
     (let n = code c in
      if unreserved c then [c]
      else if n < 128 then pct n
      else pct (192 + n div 64) @ pct (128 + n mod 64))"

definition encodeURIComponent :: "string \<Rightarrow> string" where
  "encodeURIComponent s = concat (map encode_char s)"

text \<open>The reference decoder of the standard, on the encodings of this range.\<close>

definition hex_read :: "char \<Rightarrow> nat" where
  "hex_read c = (if code c < 58 then code c - 48 else code c - 55)"

fun decode_uri :: "string \<Rightarrow> string" where
  "decode_uri (c # h # l # s) =
     (if c \<noteq> CHR ''%'' then c # decode_uri (h # l # s)
      else let n = 16 * hex_read h + hex_read l in
        if n < 128 then char_of n # decode_uri s
        else (case s of
                p # h' # l' # s' \<Rightarrow>
                  char_of ((n - 192) * 64 + (16 * hex_read h' + hex_read l' - 128)) # decode_uri s'
              | _ \<Rightarrow> []))"
| "decode_uri s = s"

section \<open>Requests and responses\<close>

record RequestInit =
  init_method :: "string option"
  init_body :: "string option"
  init_headers :: "(string, string) js_map option"

record HttpRequest =
  req_url :: string
  req_method :: string
  req_body :: "string option"
  req_credentials :: string
  req_headers :: "(string, string) js_map"

record Response =
  res_status :: int
  res_statusText :: string
  res_json :: "jsval option"

text \<open>\<open>res.ok\<close>; \<open>res_json\<close> is \<open>None\<close> where \<open>res.json()\<close> throws.\<close>

definition res_ok :: "Response \<Rightarrow> bool" where
  "res_ok res = (200 \<le> res_status res \<and> res_status res \<le> 299)"

datatype js_error = ApiError int string | AgentsApiError int string | OtherError string

type_synonym fetch = "HttpRequest \<Rightarrow> js_error + Response"

definition strip_slash :: "string \<Rightarrow> string" where
  "strip_slash s = (if s \<noteq> [] \<and> last s = CHR ''/'' then butlast s else s)"

definition API_BASE :: "string option \<Rightarrow> string" where
  "API_BASE env = strip_slash (nullish env [])"

definition spread_headers :: "(string, string) js_map \<Rightarrow> (string, string) js_map \<Rightarrow> (string, string) js_map" where
  "spread_headers base extra = fold (\<lambda>(k, v) m. map_set k v m) extra base"

definition http_request :: "string \<Rightarrow> string \<Rightarrow> RequestInit \<Rightarrow> HttpRequest" where
  "http_request base path init =
     \<lparr>req_url = base @ ''/dashboard/api'' @ path, req_method = nullish (init_method init) ''GET'',
      req_body = init_body init, req_credentials = ''include'',
      req_headers = spread_headers [(''Content-Type'', ''application/json'')] (nullish (init_headers init) [])\<rparr>"

definition error_message :: "Response \<Rightarrow> string" where
  "error_message res =
     (case res_json res of
        None \<Rightarrow> res_statusText res
      | Some body \<Rightarrow>
          (let detail = get_prop body ''detail'' in
           if js_truthy detail then
             (case detail of JStr s \<Rightarrow> s | _ \<Rightarrow> stringify_val detail)
           else res_statusText res))"

definition decode_response :: "(int \<Rightarrow> string \<Rightarrow> js_error) \<Rightarrow> Response \<Rightarrow> js_error + jsval" where
  "decode_response err res =
     (if \<not> res_ok res then Inl (err (res_status res) (error_message res))
      else if res_status res = 204 then Inr JUndefined
      else (case res_json res of None \<Rightarrow> Inl (OtherError ''SyntaxError'') | Some v \<Rightarrow> Inr v))"

definition request :: "fetch \<Rightarrow> string \<Rightarrow> string \<Rightarrow> RequestInit \<Rightarrow> js_error + jsval" where
  "request fetch base path init =
     (case fetch (http_request base path init) of
        Inl e \<Rightarrow> Inl e
      | Inr res \<Rightarrow> decode_response ApiError res)"

definition agentsRequest :: "fetch \<Rightarrow> string \<Rightarrow> string \<Rightarrow> RequestInit \<Rightarrow> js_error + jsval" where
  "agentsRequest fetch base path init =
     (case fetch (http_request base path init) of
        Inl e \<Rightarrow> Inl e
      | Inr res \<Rightarrow> decode_response AgentsApiError res)"

fun isGithubReauthError :: "js_error \<Rightarrow> bool" where
  "isGithubReauthError (ApiError status message) =
     (status = 401
      \<or> str_includes (toLowerCase message) ''github token''
      \<or> str_includes (toLowerCase message) ''re-login required'')"
| "isGithubReauthError _ = False"

section \<open>The object \<open>api\<close>\<close>

definition no_init :: RequestInit where
  "no_init = \<lparr>init_method = None, init_body = None, init_headers = None\<rparr>"

definition with_method :: "string \<Rightarrow> RequestInit" where
  "with_method me = no_init\<lparr>init_method := Some me\<rparr>"

definition with_body :: "string \<Rightarrow> jsval \<Rightarrow> RequestInit" where
  "with_body me body = (with_method me)\<lparr>init_body := stringify body\<rparr>"

fun period_str :: "AzureUsagePeriod \<Rightarrow> string" where
  "period_str Period7d = ''7d''"
| "period_str Period30d = ''30d''"
| "period_str PeriodAll = ''all''"

datatype ApiCall =
    Me | Options | GetModelCatalog | GetProfile | SaveProfile jsval | Repos "string option"
  | AzureProjects | AzurePullRequests string | AzureUsage string "AzureUsagePeriod option"
  | Workspaces | RegisterWorkspace jsval | PickWorkspace
  | ListReviewStyles | CreateReviewStyle string | GetReviewStyle string
  | SaveReviewStylePrompt string string | AnalyzeReviewStyle string | CancelReviewStyle string
  | DeleteReviewStyle string
  | ListAgentInstructions | CreateAgentInstructions string | GetAgentInstructions string
  | SaveAgentInstructions string string | DeleteAgentInstructions string
  | GetTeamSettings | SaveTeamSettings jsval | GetTeamCredentials
  | ConnectDatadog jsval | DisconnectDatadog | ConnectLangSmith jsval | DisconnectLangSmith
  | ListEnabledReviewRepos | SetEnabledReviewRepo string bool | Logout

fun api :: "ApiCall \<Rightarrow> string \<times> RequestInit" where
  "api Me = (''/me'', no_init)"
| "api Options = (''/options'', no_init)"
| "api GetModelCatalog = (''/model-catalog'', no_init)"
| "api GetProfile = (''/profile'', no_init)"
| "api (SaveProfile body) = (''/profile'', with_body ''PUT'' body)"
| "api (Repos project) =
     (''/azure/repos'' @ (if truthy_str project then ''?project='' @ encodeURIComponent (the project) else []), no_init)"
| "api AzureProjects = (''/azure/projects'', no_init)"
| "api (AzurePullRequests project) = (''/azure/pull-requests?project='' @ encodeURIComponent project, no_init)"
| "api (AzureUsage project period) =
     (''/azure/usage?project='' @ encodeURIComponent project @ ''&period=''
        @ encodeURIComponent (period_str (nullish period Period30d)), no_init)"
| "api Workspaces = (''/workspaces'', no_init)"
| "api (RegisterWorkspace body) = (''/workspaces'', with_body ''POST'' body)"
| "api PickWorkspace = (''/workspaces/pick'', with_method ''POST'')"
| "api ListReviewStyles = (''/review-styles'', no_init)"
| "api (CreateReviewStyle full_name) =
     (''/review-styles'', with_body ''POST'' (JObj [(''full_name'', JStr full_name)]))"
| "api (GetReviewStyle full_name) = (''/review-styles/'' @ encodeURIComponent full_name, no_init)"
| "api (SaveReviewStylePrompt full_name custom_prompt) =
     (''/review-styles/'' @ encodeURIComponent full_name,
      with_body ''PUT'' (JObj [(''custom_prompt'', JStr custom_prompt)]))"
| "api (AnalyzeReviewStyle full_name) =
     (''/review-styles/'' @ encodeURIComponent full_name @ ''/analyze'', with_method ''POST'')"
| "api (CancelReviewStyle full_name) =
     (''/review-styles/'' @ encodeURIComponent full_name @ ''/cancel'', with_method ''POST'')"
| "api (DeleteReviewStyle full_name) =
     (''/review-styles/'' @ encodeURIComponent full_name, with_method ''DELETE'')"
| "api ListAgentInstructions = (''/agent-instructions'', no_init)"
| "api (CreateAgentInstructions full_name) =
     (''/agent-instructions'', with_body ''POST'' (JObj [(''full_name'', JStr full_name)]))"
| "api (GetAgentInstructions full_name) = (''/agent-instructions/'' @ encodeURIComponent full_name, no_init)"
| "api (SaveAgentInstructions full_name instructions) =
     (''/agent-instructions/'' @ encodeURIComponent full_name,
      with_body ''PUT'' (JObj [(''instructions'', JStr instructions)]))"
| "api (DeleteAgentInstructions full_name) =
     (''/agent-instructions/'' @ encodeURIComponent full_name, with_method ''DELETE'')"
| "api GetTeamSettings = (''/team-settings'', no_init)"
| "api (SaveTeamSettings body) = (''/team-settings'', with_body ''PUT'' body)"
| "api GetTeamCredentials = (''/team-credentials'', no_init)"
| "api (ConnectDatadog body) = (''/team-credentials/datadog'', with_body ''PUT'' body)"
| "api DisconnectDatadog = (''/team-credentials/datadog'', with_method ''DELETE'')"
| "api (ConnectLangSmith body) = (''/team-credentials/langsmith'', with_body ''PUT'' body)"
| "api DisconnectLangSmith = (''/team-credentials/langsmith'', with_method ''DELETE'')"
| "api ListEnabledReviewRepos = (''/enabled-review-repos'', no_init)"
| "api (SetEnabledReviewRepo full_name enabled) =
     (''/enabled-review-repos'',
      with_body ''PUT'' (JObj [(''full_name'', JStr full_name), (''enabled'', JBool enabled)]))"
| "api Logout = (''/auth/logout'', with_method ''POST'')"

definition api_call :: "fetch \<Rightarrow> string \<Rightarrow> ApiCall \<Rightarrow> js_error + jsval" where
  "api_call fetch base c = (case api c of (path, init) \<Rightarrow> request fetch base path init)"

text \<open>\<open>origin\<close> is \<open>window.location.origin\<close>.\<close>

definition loginUrl :: "string \<Rightarrow> string \<Rightarrow> string option \<Rightarrow> string" where
  "loginUrl base origin redirectTo =
     (let target = nullish redirectTo origin;
          qs = (if target = [] then [] else ''?redirect_to='' @ encodeURIComponent target)
      in base @ ''/dashboard/api/entra/login'' @ qs)"

section \<open>The object \<open>agentsApi\<close>\<close>

text \<open>A field of type \<open>T | null\<close> that may also be left out: absent, null, or a value.\<close>

type_synonym 'a maybe_null = "'a option option"

record ThreadMessageRequest =
  tmr_content :: string
  tmr_images :: "ImageData list option"
  tmr_model_id :: "string maybe_null"
  tmr_effort :: "string maybe_null"

record QueuedThreadMessage =
  qm_id :: string
  qm_text :: string
  qm_image_count :: int
  qm_has_images :: bool

record QueuedThreadMessagesPayload =
  qp_count :: int
  qp_messages :: "QueuedThreadMessage list"

datatype ContinueStatus = ContinueStarted | ContinueEmpty | ContinueDirected

record ContinueQueuedThreadPayload =
  cq_status :: ContinueStatus
  cq_run_id :: "string option"
  cq_queued :: QueuedThreadMessagesPayload

record ScheduleCreateRequest =
  scr_prompt :: string
  scr_schedule :: string
  scr_name :: "string maybe_null"
  scr_repo :: "string maybe_null"
  scr_model_id :: "string maybe_null"
  scr_effort :: "string maybe_null"

record ScheduleUpdateRequest =
  sur_prompt :: "string maybe_null"
  sur_schedule :: "string maybe_null"
  sur_name :: "string maybe_null"
  sur_repo :: "string maybe_null"
  sur_model_id :: "string maybe_null"
  sur_effort :: "string maybe_null"
  sur_enabled :: "bool maybe_null"

text \<open>A body as the JSON object that is sent; an absent field is left out of it.\<close>

definition opt_json :: "('a \<Rightarrow> jsval) \<Rightarrow> 'a maybe_null \<Rightarrow> jsval" where
  "opt_json js x = (case x of None \<Rightarrow> JUndefined | Some None \<Rightarrow> JNull | Some (Some v) \<Rightarrow> js v)"

definition image_json :: "ImageData \<Rightarrow> jsval" where
  "image_json i =
     JObj [(''kind'', JStr ''image''), (''base64'', JStr (img_base64 i)), (''mimeType'', JStr (img_mimeType i)),
           (''fileName'', opt_json JStr (map_option Some (img_fileName i)))]"

definition message_json :: "ThreadMessageRequest \<Rightarrow> jsval" where
  "message_json b =
     JObj [(''content'', JStr (tmr_content b)),
           (''images'', case tmr_images b of None \<Rightarrow> JUndefined | Some is \<Rightarrow> JArr (map image_json is)),
           (''model_id'', opt_json JStr (tmr_model_id b)), (''effort'', opt_json JStr (tmr_effort b))]"

definition schedule_create_json :: "ScheduleCreateRequest \<Rightarrow> jsval" where
  "schedule_create_json b =
     JObj [(''prompt'', JStr (scr_prompt b)), (''schedule'', JStr (scr_schedule b)),
           (''name'', opt_json JStr (scr_name b)), (''repo'', opt_json JStr (scr_repo b)),
           (''model_id'', opt_json JStr (scr_model_id b)), (''effort'', opt_json JStr (scr_effort b))]"

definition schedule_update_json :: "ScheduleUpdateRequest \<Rightarrow> jsval" where
  "schedule_update_json b =
     JObj [(''prompt'', opt_json JStr (sur_prompt b)), (''schedule'', opt_json JStr (sur_schedule b)),
           (''name'', opt_json JStr (sur_name b)), (''repo'', opt_json JStr (sur_repo b)),
           (''model_id'', opt_json JStr (sur_model_id b)), (''effort'', opt_json JStr (sur_effort b)),
           (''enabled'', opt_json JBool (sur_enabled b))]"

datatype Decision = Approve | Reject

definition decision_json :: "Decision \<Rightarrow> jsval" where
  "decision_json d = JObj [(''type'', JStr (case d of Approve \<Rightarrow> ''approve'' | Reject \<Rightarrow> ''reject''))]"

datatype AgentsCall =
    ListThreads | ListSchedules | CreateSchedule ScheduleCreateRequest
  | UpdateSchedule string ScheduleUpdateRequest | DeleteSchedule string
  | GetThread string "bool option" | QueueMessage string ThreadMessageRequest
  | GetQueuedMessages string | ContinueQueuedMessages string | ResumeInterrupt string "Decision list"
  | ClearQueuedMessages string | DeleteQueuedMessage string string | DirectQueuedMessage string string
  | CancelThread string | DeleteThread string | GetThreadPrDiff string | SnapshotWorkspace string

definition thread_path :: "string \<Rightarrow> string" where
  "thread_path threadId = ''/threads/'' @ encodeURIComponent threadId"

fun agentsApi :: "AgentsCall \<Rightarrow> string \<times> RequestInit" where
  "agentsApi ListThreads = (''/threads'', no_init)"
| "agentsApi ListSchedules = (''/schedules'', no_init)"
| "agentsApi (CreateSchedule body) = (''/schedules'', with_body ''POST'' (schedule_create_json body))"
| "agentsApi (UpdateSchedule scheduleId body) =
     (''/schedules/'' @ encodeURIComponent scheduleId, with_body ''PATCH'' (schedule_update_json body))"
| "agentsApi (DeleteSchedule scheduleId) =
     (''/schedules/'' @ encodeURIComponent scheduleId, with_method ''DELETE'')"
| "agentsApi (GetThread threadId markViewed) =
     (thread_path threadId @ (if markViewed = Some False then ''?mark_viewed=false'' else []), no_init)"
| "agentsApi (QueueMessage threadId body) =
     (thread_path threadId @ ''/messages'', with_body ''POST'' (message_json body))"
| "agentsApi (GetQueuedMessages threadId) = (thread_path threadId @ ''/queued'', no_init)"
| "agentsApi (ContinueQueuedMessages threadId) =
     (thread_path threadId @ ''/queued/continue'', with_method ''POST'')"
| "agentsApi (ResumeInterrupt threadId decisions) =
     (thread_path threadId @ ''/resume'',
      with_body ''POST'' (JObj [(''decisions'', JArr (map decision_json decisions))]))"
| "agentsApi (ClearQueuedMessages threadId) = (thread_path threadId @ ''/queued'', with_method ''DELETE'')"
| "agentsApi (DeleteQueuedMessage threadId messageId) =
     (thread_path threadId @ ''/queued/'' @ encodeURIComponent messageId, with_method ''DELETE'')"
| "agentsApi (DirectQueuedMessage threadId messageId) =
     (thread_path threadId @ ''/queued/'' @ encodeURIComponent messageId @ ''/direct'', with_method ''POST'')"
| "agentsApi (CancelThread threadId) = (thread_path threadId @ ''/cancel'', with_method ''POST'')"
| "agentsApi (DeleteThread threadId) = (thread_path threadId, with_method ''DELETE'')"
| "agentsApi (GetThreadPrDiff threadId) = (thread_path threadId @ ''/pr-diff'', no_init)"
| "agentsApi (SnapshotWorkspace threadId) =
     (thread_path threadId @ ''/workspace/snapshot'', with_method ''POST'')"

definition agents_call :: "fetch \<Rightarrow> string \<Rightarrow> AgentsCall \<Rightarrow> js_error + jsval" where
  "agents_call fetch base c = (case agentsApi c of (path, init) \<Rightarrow> agentsRequest fetch base path init)"

definition agentsLangGraphApiUrl :: "string \<Rightarrow> string" where
  "agentsLangGraphApiUrl base = base @ ''/dashboard/api''"

definition streamUrl :: "string \<Rightarrow> string \<Rightarrow> string" where
  "streamUrl base threadId = base @ ''/dashboard/api'' @ thread_path threadId @ ''/stream''"

section \<open>Encoding\<close>

lemma code_less_256 [simp]: "code c < 256"
  by (simp add: code_def)

lemma char_of_code [simp]: "char_of (code c) = c"
  by (simp add: code_def)

lemma code_char_of [simp]: "n < 256 \<Longrightarrow> code (char_of n) = n"
  by (simp add: code_def)

lemma hex_read_upper [simp]: "d < 16 \<Longrightarrow> hex_read (hex_upper d) = d"
  by (auto simp: hex_read_def hex_upper_def)

lemma unreserved_not_pct: "unreserved c \<Longrightarrow> c \<noteq> CHR ''%''"
  by (auto simp: unreserved_def code_def Let_def)

lemma decode_plain: "c \<noteq> CHR ''%'' \<Longrightarrow> decode_uri (c # s) = c # decode_uri s"
  by (cases s rule: decode_uri.cases) auto

lemma decode_encode_char: "decode_uri (encode_char c @ s) = c # decode_uri s"
proof -
  consider "unreserved c" | "\<not> unreserved c" "code c < 128" | "\<not> unreserved c" "128 \<le> code c" by linarith
  then show ?thesis
  proof cases
    case 1
    then show ?thesis by (simp add: encode_char_def decode_plain unreserved_not_pct)
  next
    case 2
    then show ?thesis by (simp add: encode_char_def pct_def Let_def)
  next
    case 3
    let ?n = "code c"
    have d: "?n div 64 < 4" by (simp add: less_mult_imp_div_less)
    have b: "192 + ?n div 64 < 256" "128 + ?n mod 64 < 256" using d by (simp_all add: add.commute)
    have e: "16 * (k div 16) + k mod 16 = k" for k :: nat by simp
    have "decode_uri (encode_char c @ s) = char_of (?n div 64 * 64 + ?n mod 64) # decode_uri s"
      using 3 b by (simp add: encode_char_def pct_def Let_def e less_mult_imp_div_less)
    then show ?thesis by simp
  qed
qed

lemma decode_encode: "decode_uri (encodeURIComponent s) = s"
proof -
  have "decode_uri (encodeURIComponent s @ []) = s"
    by (induction s) (simp_all add: encodeURIComponent_def decode_encode_char)
  then show ?thesis by simp
qed

text \<open>What the encoding can hold: none of the characters that separate the parts of a URL.\<close>

definition url_safe :: "char \<Rightarrow> bool" where
  "url_safe c = (unreserved c \<or> c = CHR ''%'')"

lemma hex_upper_unreserved: "d < 16 \<Longrightarrow> unreserved (hex_upper d)"
  by (auto simp: unreserved_def hex_upper_def Let_def)

lemma encode_safe: "c \<in> set (encodeURIComponent s) \<Longrightarrow> url_safe c"
proof -
  have q: "code d div 64 < 4" for d by (simp add: less_mult_imp_div_less)
  have "192 + code d div 64 < 256" "128 + code d mod 64 < 256" for d
    using q [of d] by simp_all
  then have "c \<in> set (encode_char d) \<Longrightarrow> url_safe c" for d
    using q [of d] by (auto simp: encode_char_def pct_def url_safe_def hex_upper_unreserved Let_def less_mult_imp_div_less
        split: if_splits)
  then show "c \<in> set (encodeURIComponent s) \<Longrightarrow> url_safe c" by (auto simp: encodeURIComponent_def)
qed

lemma encode_no_sep [simp]:
  "CHR ''/'' \<notin> set (encodeURIComponent s)" "CHR ''?'' \<notin> set (encodeURIComponent s)"
  "CHR ''&'' \<notin> set (encodeURIComponent s)" "CHR ''='' \<notin> set (encodeURIComponent s)"
  "CHR ''#'' \<notin> set (encodeURIComponent s)"
  using encode_safe [of _ s] by (fastforce simp: url_safe_def unreserved_def code_def Let_def)+

section \<open>Routes\<close>

text \<open>
  The text of a path: every segment after a slash, and the parameters after a question mark, all of
  them encoded. This is the text that is given to \<open>fetch\<close>. What is done with it afterwards is not part
  of the client: \<open>fetch\<close> takes segments \<open>.\<close> and \<open>..\<close> out of it, which the encoding leaves as they are
  (\<open>dot_segment_kept\<close>), and the server decodes an encoded slash before it looks for a route.
\<close>

definition write_param :: "string \<times> string \<Rightarrow> string" where
  "write_param kv = encodeURIComponent (fst kv) @ ''='' @ encodeURIComponent (snd kv)"

fun write_params :: "(string \<times> string) list \<Rightarrow> string" where
  "write_params [] = []"
| "write_params [kv] = write_param kv"
| "write_params (kv # kvs) = write_param kv @ ''&'' @ write_params kvs"

definition write_path :: "string list \<Rightarrow> (string \<times> string) list \<Rightarrow> string" where
  "write_path segments params =
     concat (map (\<lambda>x. ''/'' @ encodeURIComponent x) segments)
     @ (if params = [] then [] else ''?'' @ write_params params)"

text \<open>The inverse on such texts: cut at the separators and decode the pieces.\<close>

definition path_part :: "string \<Rightarrow> string" where
  "path_part p = hd (split_on (CHR ''?'') p)"

definition query_part :: "string \<Rightarrow> string list" where
  "query_part p = tl (split_on (CHR ''?'') p)"

definition path_segments :: "string \<Rightarrow> string list" where
  "path_segments p = map decode_uri (tl (split_on (CHR ''/'') (path_part p)))"

definition path_params :: "string \<Rightarrow> (string \<times> string) list" where
  "path_params p =
     concat (map (\<lambda>q. map (\<lambda>kv. case split_on (CHR ''='') kv of
                                    k # v # _ \<Rightarrow> (decode_uri k, decode_uri v) | k # [] \<Rightarrow> (decode_uri k, [])
                                  | [] \<Rightarrow> ([], []))
                       (split_on (CHR ''&'') q)) (query_part p))"

text \<open>The segments and the parameters of every call.\<close>

fun agents_route :: "AgentsCall \<Rightarrow> string list" where
  "agents_route ListThreads = [''threads'']"
| "agents_route ListSchedules = [''schedules'']"
| "agents_route (CreateSchedule _) = [''schedules'']"
| "agents_route (UpdateSchedule i _) = [''schedules'', i]"
| "agents_route (DeleteSchedule i) = [''schedules'', i]"
| "agents_route (GetThread i _) = [''threads'', i]"
| "agents_route (QueueMessage i _) = [''threads'', i, ''messages'']"
| "agents_route (GetQueuedMessages i) = [''threads'', i, ''queued'']"
| "agents_route (ContinueQueuedMessages i) = [''threads'', i, ''queued'', ''continue'']"
| "agents_route (ResumeInterrupt i _) = [''threads'', i, ''resume'']"
| "agents_route (ClearQueuedMessages i) = [''threads'', i, ''queued'']"
| "agents_route (DeleteQueuedMessage i m) = [''threads'', i, ''queued'', m]"
| "agents_route (DirectQueuedMessage i m) = [''threads'', i, ''queued'', m, ''direct'']"
| "agents_route (CancelThread i) = [''threads'', i, ''cancel'']"
| "agents_route (DeleteThread i) = [''threads'', i]"
| "agents_route (GetThreadPrDiff i) = [''threads'', i, ''pr-diff'']"
| "agents_route (SnapshotWorkspace i) = [''threads'', i, ''workspace'', ''snapshot'']"

fun agents_query :: "AgentsCall \<Rightarrow> (string \<times> string) list" where
  "agents_query (GetThread _ (Some False)) = [(''mark_viewed'', ''false'')]"
| "agents_query _ = []"

lemma split_on_append_seg:
  "c \<notin> set s \<Longrightarrow> split_on c (s @ t) = (s @ hd (split_on c t)) # tl (split_on c t)"
proof (induction s)
  case Nil
  then show ?case by (cases "split_on c t") simp_all
next
  case (Cons x s)
  then show ?case by auto
qed

lemmas route_simps = path_part_def query_part_def path_segments_def path_params_def thread_path_def
  split_on_append_seg split_on_no_sep decode_encode decode_plain

text \<open>The names in the routes are written as they are.\<close>

lemma encode_names:
  "encodeURIComponent ''threads'' = ''threads''" "encodeURIComponent ''schedules'' = ''schedules''"
  "encodeURIComponent ''messages'' = ''messages''" "encodeURIComponent ''queued'' = ''queued''"
  "encodeURIComponent ''continue'' = ''continue''" "encodeURIComponent ''resume'' = ''resume''"
  "encodeURIComponent ''direct'' = ''direct''" "encodeURIComponent ''cancel'' = ''cancel''"
  "encodeURIComponent ''pr-diff'' = ''pr-diff''" "encodeURIComponent ''workspace'' = ''workspace''"
  "encodeURIComponent ''snapshot'' = ''snapshot''" "encodeURIComponent ''mark_viewed'' = ''mark_viewed''"
  "encodeURIComponent ''false'' = ''false''" "encodeURIComponent ''me'' = ''me''"
  "encodeURIComponent ''options'' = ''options''" "encodeURIComponent ''model-catalog'' = ''model-catalog''"
  "encodeURIComponent ''profile'' = ''profile''" "encodeURIComponent ''azure'' = ''azure''"
  "encodeURIComponent ''repos'' = ''repos''" "encodeURIComponent ''projects'' = ''projects''"
  "encodeURIComponent ''pull-requests'' = ''pull-requests''" "encodeURIComponent ''usage'' = ''usage''"
  "encodeURIComponent ''workspaces'' = ''workspaces''" "encodeURIComponent ''pick'' = ''pick''"
  "encodeURIComponent ''review-styles'' = ''review-styles''" "encodeURIComponent ''analyze'' = ''analyze''"
  "encodeURIComponent ''agent-instructions'' = ''agent-instructions''"
  "encodeURIComponent ''team-settings'' = ''team-settings''"
  "encodeURIComponent ''team-credentials'' = ''team-credentials''" "encodeURIComponent ''datadog'' = ''datadog''"
  "encodeURIComponent ''langsmith'' = ''langsmith''"
  "encodeURIComponent ''enabled-review-repos'' = ''enabled-review-repos''" "encodeURIComponent ''auth'' = ''auth''"
  "encodeURIComponent ''logout'' = ''logout''" "encodeURIComponent ''project'' = ''project''"
  "encodeURIComponent ''period'' = ''period''"
  by code_simp+

lemma agents_path_segments: "path_segments (fst (agentsApi c)) = agents_route c"
  by (cases c) (simp_all add: route_simps)

lemma agents_path_params: "path_params (fst (agentsApi c)) = agents_query c"
  by (cases c rule: agents_query.cases) (simp_all add: route_simps)

lemma agents_path_written: "fst (agentsApi c) = write_path (agents_route c) (agents_query c)"
  by (cases c rule: agents_query.cases) (simp_all add: write_path_def write_param_def thread_path_def encode_names)

fun api_route :: "ApiCall \<Rightarrow> string list" where
  "api_route Me = [''me'']"
| "api_route Options = [''options'']"
| "api_route GetModelCatalog = [''model-catalog'']"
| "api_route GetProfile = [''profile'']"
| "api_route (SaveProfile _) = [''profile'']"
| "api_route (Repos _) = [''azure'', ''repos'']"
| "api_route AzureProjects = [''azure'', ''projects'']"
| "api_route (AzurePullRequests _) = [''azure'', ''pull-requests'']"
| "api_route (AzureUsage _ _) = [''azure'', ''usage'']"
| "api_route Workspaces = [''workspaces'']"
| "api_route (RegisterWorkspace _) = [''workspaces'']"
| "api_route PickWorkspace = [''workspaces'', ''pick'']"
| "api_route ListReviewStyles = [''review-styles'']"
| "api_route (CreateReviewStyle _) = [''review-styles'']"
| "api_route (GetReviewStyle r) = [''review-styles'', r]"
| "api_route (SaveReviewStylePrompt r _) = [''review-styles'', r]"
| "api_route (AnalyzeReviewStyle r) = [''review-styles'', r, ''analyze'']"
| "api_route (CancelReviewStyle r) = [''review-styles'', r, ''cancel'']"
| "api_route (DeleteReviewStyle r) = [''review-styles'', r]"
| "api_route ListAgentInstructions = [''agent-instructions'']"
| "api_route (CreateAgentInstructions _) = [''agent-instructions'']"
| "api_route (GetAgentInstructions r) = [''agent-instructions'', r]"
| "api_route (SaveAgentInstructions r _) = [''agent-instructions'', r]"
| "api_route (DeleteAgentInstructions r) = [''agent-instructions'', r]"
| "api_route GetTeamSettings = [''team-settings'']"
| "api_route (SaveTeamSettings _) = [''team-settings'']"
| "api_route GetTeamCredentials = [''team-credentials'']"
| "api_route (ConnectDatadog _) = [''team-credentials'', ''datadog'']"
| "api_route DisconnectDatadog = [''team-credentials'', ''datadog'']"
| "api_route (ConnectLangSmith _) = [''team-credentials'', ''langsmith'']"
| "api_route DisconnectLangSmith = [''team-credentials'', ''langsmith'']"
| "api_route ListEnabledReviewRepos = [''enabled-review-repos'']"
| "api_route (SetEnabledReviewRepo _ _) = [''enabled-review-repos'']"
| "api_route Logout = [''auth'', ''logout'']"

fun api_query :: "ApiCall \<Rightarrow> (string \<times> string) list" where
  "api_query (Repos (Some p)) = (if p = [] then [] else [(''project'', p)])"
| "api_query (AzurePullRequests p) = [(''project'', p)]"
| "api_query (AzureUsage p period) = [(''project'', p), (''period'', period_str (nullish period Period30d))]"
| "api_query _ = []"

lemma api_path_segments: "path_segments (fst (api c)) = api_route c"
  by (cases c) (simp_all add: route_simps)

lemma api_path_params: "path_params (fst (api c)) = api_query c"
  by (cases c rule: api_query.cases) (auto simp: route_simps)

lemma api_path_written: "fst (api c) = write_path (api_route c) (api_query c)"
  by (cases c rule: api_query.cases) (auto simp: write_path_def write_param_def encode_names)

lemma no_slash_filter: "CHR ''/'' \<notin> set s \<Longrightarrow> filter (\<lambda>x. x = CHR ''/'') s = []"
  by (induction s) auto

lemma write_params_slashes: "filter (\<lambda>x. x = CHR ''/'') (write_params kvs) = []"
  by (induction kvs rule: write_params.induct) (simp_all add: write_param_def no_slash_filter)

lemma write_path_slashes: "length (filter (\<lambda>x. x = CHR ''/'') (write_path segments params)) = length segments"
proof -
  have "length (filter (\<lambda>x. x = CHR ''/'') (concat (map (\<lambda>x. ''/'' @ encodeURIComponent x) segments))) = length segments"
    by (induction segments) (simp_all add: no_slash_filter)
  then show ?thesis by (simp add: write_path_def write_params_slashes)
qed

lemma agents_same_path:
  "(fst (agentsApi c) = fst (agentsApi c')) = (agents_route c = agents_route c' \<and> agents_query c = agents_query c')"
  using agents_path_segments [of c] agents_path_segments [of c'] agents_path_params [of c] agents_path_params [of c']
    agents_path_written [of c] agents_path_written [of c'] by metis

lemma api_same_path:
  "(fst (api d) = fst (api d')) = (api_route d = api_route d' \<and> api_query d = api_query d')"
  using api_path_segments [of d] api_path_segments [of d'] api_path_params [of d] api_path_params [of d']
    api_path_written [of d] api_path_written [of d'] by metis

text \<open>An identifier of two dots is written as it is, so the path has a segment that \<open>fetch\<close> takes away.\<close>

lemma dot_segment_kept: "fst (agentsApi (CancelThread ''..'')) = ''/threads/../cancel''"
  by code_simp

lemma request_not_ok:
  "request fetch base path init = Inl e \<Longrightarrow> fetch (http_request base path init) = Inr res \<Longrightarrow>
     e = (if res_ok res then OtherError ''SyntaxError'' else ApiError (res_status res) (error_message res))"
  by (auto simp: request_def decode_response_def split: if_splits option.splits)

section \<open>Properties\<close>

text \<open>
  C13. A value put into a URL stays a value of it: for every call of the two clients and all
  identifiers, repository names and projects, the path given to \<open>fetch\<close> is the route of that call with
  every segment and parameter encoded, so no value adds a slash, a question mark or a parameter; and two
  calls are given the same path only if their routes and all the values in them are the same. (What
  \<open>fetch\<close> and the server do with the path is not part of this.)
\<close>

theorem client_routes:
  "fst (agentsApi c) = write_path (agents_route c) (agents_query c)
   \<and> fst (api d) = write_path (api_route d) (api_query d)
   \<and> (fst (agentsApi c) = fst (agentsApi c')) = (agents_route c = agents_route c' \<and> agents_query c = agents_query c')
   \<and> (fst (api d) = fst (api d')) = (api_route d = api_route d' \<and> api_query d = api_query d')
   \<and> length (filter (\<lambda>x. x = CHR ''/'') (fst (agentsApi c))) = length (agents_route c)
   \<and> length (filter (\<lambda>x. x = CHR ''/'') (fst (api d))) = length (api_route d)"
  by (intro conjI agents_path_written api_path_written agents_same_path api_same_path)
     (simp_all add: agents_path_written api_path_written write_path_slashes)

text \<open>
  C38. How a response becomes a result, for both clients: a status outside 200 to 299 is thrown with
  that status, 204 gives undefined, any other success gives the parsed body, and a body that is not
  JSON is an error only on success. The thrown error of a client is never one with a success status.
\<close>

theorem client_results:
  "(case request fetch base path init of
      Inl (ApiError status message) \<Rightarrow>
        (\<exists>res. fetch (http_request base path init) = Inr res \<and> status = res_status res \<and> \<not> res_ok res
             \<and> message = error_message res)
        \<or> fetch (http_request base path init) = Inl (ApiError status message)
    | Inl e \<Rightarrow> fetch (http_request base path init) = Inl e
        \<or> (\<exists>res. fetch (http_request base path init) = Inr res \<and> res_ok res \<and> res_status res \<noteq> 204 \<and> res_json res = None)
    | Inr v \<Rightarrow> \<exists>res. fetch (http_request base path init) = Inr res \<and> res_ok res
        \<and> v = (if res_status res = 204 then JUndefined else the (res_json res)))
   \<and> agentsRequest fetch base path init =
       map_sum (\<lambda>e. case fetch (http_request base path init) of
                     Inr _ \<Rightarrow> (case e of ApiError s t \<Rightarrow> AgentsApiError s t | _ \<Rightarrow> e) | Inl _ \<Rightarrow> e) id
         (request fetch base path init)"
proof (cases "fetch (http_request base path init)")
  case (Inl e)
  then show ?thesis by (cases e) (simp_all add: request_def agentsRequest_def)
next
  case (Inr res)
  then show ?thesis
    by (cases "res_ok res"; cases "res_status res = 204"; cases "res_json res")
      (simp_all add: request_def agentsRequest_def decode_response_def)
qed

end
