(* ===== verification/Thread_Queries.thy ===== *)
theory Thread_Queries
  imports Api_Client
begin

text \<open>
  \<open>lib/agents/queries.ts\<close>, \<open>lib/profile.ts\<close> and \<open>lib/session.ts\<close>: the queries and mutations of the
  dashboard. The query cache is a library: what the code does to it is the list of cache operations
  each callback performs, in order. A query is its key, its request and its options.
\<close>

section \<open>Cache operations and queries\<close>

type_synonym query_key = "string list"

datatype cache_op =
    SetThread query_key AgentThread "int option"
  | SetData query_key jsval
  | InvalidateQueries query_key bool
  | RemoveQueries query_key
  | Navigate string

text \<open>\<open>removeQueries\<close> and an inexact \<open>invalidateQueries\<close> match every key that starts with theirs.\<close>

definition key_matches :: "bool \<Rightarrow> query_key \<Rightarrow> query_key \<Rightarrow> bool" where
  "key_matches exact k key = (if exact then key = k else take (length k) key = k)"

record 'r query =
  query_key :: query_key
  query_fn :: 'r
  query_enabled :: bool
  query_staleTime :: int
  query_retry :: nat

text \<open>The defaults of \<open>makeQueryClient\<close>.\<close>

definition default_query :: "query_key \<Rightarrow> 'r \<Rightarrow> 'r query" where
  "default_query k f =
     \<lparr>query_key = k, query_fn = f, query_enabled = True, query_staleTime = 30000, query_retry = 1\<rparr>"

section \<open>Threads\<close>

definition threads_key :: query_key where
  "threads_key = [''agent-threads'']"

definition detail_key :: "string \<Rightarrow> query_key" where
  "detail_key threadId = [''agent-threads'', threadId]"

definition prDiff_key :: "string \<Rightarrow> query_key" where
  "prDiff_key threadId = [''agent-threads'', threadId, ''pr-diff'']"

definition schedules_key :: query_key where
  "schedules_key = [''agent-schedules'']"

definition useSeedAgentThreadDetails :: "AgentThread list \<Rightarrow> string option \<Rightarrow> cache_op list" where
  "useSeedAgentThreadDetails threads activeThreadId =
     concat (map (\<lambda>t. if Some (th_id t) = activeThreadId then [] else [SetThread (detail_key (th_id t)) t (Some 0)]) threads)"

definition useAgentThreads :: "AgentsCall query" where
  "useAgentThreads = default_query threads_key ListThreads"

text \<open>\<open>refetchInterval\<close>: the threads are polled while one of them runs; \<open>None\<close> is \<open>false\<close>.\<close>

definition refetchInterval :: "AgentThread list option \<Rightarrow> int option" where
  "refetchInterval data =
     (case data of None \<Rightarrow> None | Some ts \<Rightarrow> if \<exists>t \<in> set ts. th_status t = Running then Some 2000 else None)"

definition useAgentThread :: "string \<Rightarrow> AgentsCall query" where
  "useAgentThread threadId = (default_query (detail_key threadId) (GetThread threadId None))\<lparr>query_staleTime := 30000\<rparr>"

definition useAgentThreadPrDiff :: "string \<Rightarrow> bool \<Rightarrow> AgentsCall query" where
  "useAgentThreadPrDiff threadId enabled =
     (default_query (prDiff_key threadId) (GetThreadPrDiff threadId))
       \<lparr>query_enabled := enabled, query_staleTime := 30000, query_retry := 0\<rparr>"

definition useAgentSchedules :: "AgentsCall query" where
  "useAgentSchedules = default_query schedules_key ListSchedules"

text \<open>A mutation: its request, and what \<open>onSuccess\<close> does to the cache.\<close>

definition useCreateAgentSchedule :: "ScheduleCreateRequest \<Rightarrow> AgentsCall \<times> cache_op list" where
  "useCreateAgentSchedule body = (CreateSchedule body, [InvalidateQueries schedules_key False])"

definition useUpdateAgentSchedule :: "string \<Rightarrow> ScheduleUpdateRequest \<Rightarrow> AgentsCall \<times> cache_op list" where
  "useUpdateAgentSchedule scheduleId body = (UpdateSchedule scheduleId body, [InvalidateQueries schedules_key False])"

definition useDeleteAgentSchedule :: "string \<Rightarrow> AgentsCall \<times> cache_op list" where
  "useDeleteAgentSchedule scheduleId = (DeleteSchedule scheduleId, [InvalidateQueries schedules_key False])"

record CreateAgentThreadVariables =
  cv_prompt :: string
  cv_images :: "ImageData list option"
  cv_repo :: "string option"
  cv_repo_explicitly_none :: "bool option"
  cv_workspace_id :: "string option"
  cv_workspace_label :: "string option"
  cv_model_id :: "string option"
  cv_effort :: "string option"

text \<open>\<open>now\<close> is the clock's reading and \<open>nowIso\<close> the same time as an ISO string.\<close>

definition optimisticThread :: "int \<Rightarrow> string \<Rightarrow> string \<Rightarrow> CreateAgentThreadVariables \<Rightarrow> AgentThread" where
  "optimisticThread now nowIso threadId vars =
     (let text = trim (cv_prompt vars);
          repoFullName = nullish (cv_repo vars) [];
          chunks = map ImageChunk (nullish (cv_images vars) []) @ (if text = [] then [] else [TextChunk text]);
          message = \<lparr>msg_id = ''optimistic-user-'' @ threadId, msg_author = UserAuthor, msg_timestamp = nowIso,
                     msg_chunks = chunks, msg_hidden = None\<rparr>
      in \<lparr>th_id = threadId,
          th_title = (if take 80 text = [] then ''New agent'' else take 80 text),
          th_repo = (case split_on (CHR ''/'') repoFullName of _ # r # _ \<Rightarrow> r | _ \<Rightarrow> []),
          th_repoFullName = repoFullName, th_branch = ''main'',
          th_model = nullish (cv_model_id vars) ''Default'', th_effort = cv_effort vars,
          th_source = Some FromDashboard, th_status = Running, th_errorMessage = None,
          th_viewed = True, th_viewedAt = Some now, th_createdAt = now, th_updatedAt = now, th_traceUrl = None,
          th_workspaceId = cv_workspace_id vars, th_workspaceLabel = cv_workspace_label vars,
          th_workspaceBranch = None,
          th_messages = (if length (msg_chunks message) > 0 then [message] else []),
          th_pr = None, th_diffStats = None, th_changedFiles = None\<rparr>)"

definition useCancelAgentThread :: "string \<Rightarrow> AgentsCall \<times> (AgentThread \<Rightarrow> cache_op list)" where
  "useCancelAgentThread threadId =
     (CancelThread threadId,
      \<lambda>thread. [SetThread (detail_key threadId) thread None, InvalidateQueries threads_key True])"

text \<open>\<open>path\<close> is \<open>window.location.pathname\<close> when the deletion succeeds.\<close>

definition useDeleteAgentThread :: "string \<Rightarrow> AgentsCall \<times> (string \<Rightarrow> cache_op list)" where
  "useDeleteAgentThread threadId =
     (DeleteThread threadId,
      \<lambda>path. [RemoveQueries (detail_key threadId), InvalidateQueries threads_key True]
        @ (if str_includes path (''/agents/'' @ threadId) then [Navigate ''/agents''] else []))"

section \<open>Session and profile\<close>

definition null_on_401 :: "js_error + jsval \<Rightarrow> js_error + jsval" where
  "null_on_401 r =
     (case r of
        Inr v \<Rightarrow> Inr v
      | Inl (ApiError status message) \<Rightarrow> if status = 401 then Inr JNull else r
      | Inl e \<Rightarrow> Inl e)"

definition useSession :: "fetch \<Rightarrow> string \<Rightarrow> (js_error + jsval) query" where
  "useSession fetch base =
     (default_query [''session''] (null_on_401 (api_call fetch base Me)))
       \<lparr>query_staleTime := 60000, query_retry := 0\<rparr>"

definition useProfile :: "bool \<Rightarrow> ApiCall query" where
  "useProfile signedIn = (default_query [''profile''] GetProfile)\<lparr>query_enabled := signedIn\<rparr>"

definition useOptions :: "bool \<Rightarrow> ApiCall query" where
  "useOptions signedIn = (default_query [''options''] Options)\<lparr>query_enabled := signedIn\<rparr>"

definition useWorkspaces :: "bool \<Rightarrow> ApiCall query" where
  "useWorkspaces signedIn = (default_query [''workspaces''] Workspaces)\<lparr>query_enabled := signedIn\<rparr>"

definition empty_on_denied :: "js_error + jsval \<Rightarrow> js_error + jsval" where
  "empty_on_denied r =
     (case r of
        Inr v \<Rightarrow> Inr v
      | Inl (ApiError status message) \<Rightarrow>
          if status = 403 \<or> status = 401 then Inr (JObj [(''repositories'', JArr [])]) else r
      | Inl e \<Rightarrow> Inl e)"

definition useRepos :: "fetch \<Rightarrow> string \<Rightarrow> bool \<Rightarrow> (js_error + jsval) query" where
  "useRepos fetch base signedIn =
     (default_query [''repos''] (empty_on_denied (api_call fetch base (Repos None))))
       \<lparr>query_enabled := signedIn, query_staleTime := 5 * 60 * 1000\<rparr>"

definition usePickWorkspace :: "ApiCall \<times> cache_op list" where
  "usePickWorkspace = (PickWorkspace, [InvalidateQueries [''workspaces''] False])"

definition useSaveProfile :: "jsval \<Rightarrow> ApiCall \<times> (jsval \<Rightarrow> cache_op list)" where
  "useSaveProfile body = (SaveProfile body, \<lambda>saved. [SetData [''profile''] saved])"

text \<open>
  \<open>buildProfileUpdate\<close>: an object literal followed by the spread of the patch, so the body is the
  list of its properties in insertion order.
\<close>

definition str_or_null :: "string option \<Rightarrow> jsval" where
  "str_or_null x = (case x of None \<Rightarrow> JNull | Some s \<Rightarrow> JStr s)"

definition bool_or_null :: "bool option \<Rightarrow> jsval" where
  "bool_or_null x = (case x of None \<Rightarrow> JNull | Some b \<Rightarrow> JBool b)"

definition no_profile :: Profile where
  "no_profile =
     \<lparr>prof_login = None, prof_email = None, prof_default_model = None, prof_reasoning_effort = None,
      prof_default_subagent_model = None, prof_subagent_reasoning_effort = None, prof_default_repo = None,
      prof_base_branch = None, prof_branch_prefix = None, prof_auto_fix_ci = None, prof_create_prs = None,
      prof_review_draft_prs = None, prof_updated_at = None\<rparr>"

definition profile_fields :: "Profile \<Rightarrow> string \<Rightarrow> string \<Rightarrow> (string, jsval) js_map" where
  "profile_fields c fallbackModel fallbackEffort =
     [(''default_model'', JStr (nullish (prof_default_model c) fallbackModel)),
      (''reasoning_effort'', JStr (nullish (prof_reasoning_effort c) fallbackEffort)),
      (''default_subagent_model'',
         JStr (nullish (nullish_opt (prof_default_subagent_model c) (prof_default_model c)) fallbackModel)),
      (''subagent_reasoning_effort'',
         JStr (nullish (nullish_opt (prof_subagent_reasoning_effort c) (prof_reasoning_effort c)) fallbackEffort)),
      (''default_repo'', str_or_null (prof_default_repo c)),
      (''base_branch'', str_or_null (prof_base_branch c)),
      (''branch_prefix'', str_or_null (prof_branch_prefix c)),
      (''auto_fix_ci'', JBool (nullish (prof_auto_fix_ci c) True)),
      (''create_prs'', JBool (nullish (prof_create_prs c) False)),
      (''review_draft_prs'', bool_or_null (prof_review_draft_prs c))]"

definition spread :: "(string, jsval) js_map \<Rightarrow> (string, jsval) js_map \<Rightarrow> (string, jsval) js_map" where
  "spread base patch = fold (\<lambda>(k, v) m. map_set k v m) patch base"

definition buildProfileUpdate ::
  "Profile option \<Rightarrow> (string, jsval) js_map \<Rightarrow> string \<Rightarrow> string \<Rightarrow> (string, jsval) js_map" where
  "buildProfileUpdate current patch fallbackModel fallbackEffort =
     spread (profile_fields (nullish current no_profile) fallbackModel fallbackEffort) patch"

section \<open>Facts\<close>

lemma map_get_spread: "distinct (map fst patch) \<Longrightarrow> map_get (spread base patch) = map_get base ++ map_of patch"
proof (induction patch arbitrary: base)
  case (Cons kv patch)
  obtain k v where kv: "kv = (k, v)" by force
  with Cons have "map_of patch k = None" by (auto simp: map_of_eq_None_iff)
  then have "(map_get base)(k \<mapsto> v) ++ map_of patch = map_get base ++ map_of (kv # patch)"
    by (auto simp: kv map_add_def fun_eq_iff split: option.splits)
  moreover have "map_get (spread base (kv # patch)) = map_get (spread (map_set k v base) patch)"
    by (simp only: spread_def kv fold_Cons prod.case o_apply)
  moreover have "map_get (spread (map_set k v base) patch) = (map_get base)(k \<mapsto> v) ++ map_of patch"
    using Cons by (simp only: list.map distinct.simps map_get_set)
  ultimately show ?case by (metis (no_types))
qed (simp add: spread_def)

lemma keys_spread:
  "distinct (map fst base) \<Longrightarrow> set (map fst patch) \<subseteq> set (map fst base) \<Longrightarrow>
     map fst (spread base patch) = map fst base"
proof (induction patch arbitrary: base)
  case (Cons kv patch)
  obtain k v where kv: "kv = (k, v)" by force
  have "map fst (map_set k v base) = map fst base" using Cons.prems kv by (auto simp: update_keys)
  moreover from this have "map fst (spread (map_set k v base) patch) = map fst (map_set k v base)"
    using Cons.prems kv by (intro Cons.IH) auto
  ultimately show ?case by (simp add: spread_def kv)
qed (simp add: spread_def)

lemma profile_fields_distinct: "distinct (map fst (profile_fields c m e))"
  by (simp add: profile_fields_def)

lemma key_matches_thread:
  "key_matches False (detail_key i) (detail_key j) \<longleftrightarrow> i = j"
  "key_matches False (detail_key i) (prDiff_key j) \<longleftrightarrow> i = j"
  "\<not> key_matches False (detail_key i) threads_key"
  "\<not> key_matches False (detail_key i) schedules_key"
  by (auto simp: key_matches_def detail_key_def prDiff_key_def threads_key_def schedules_key_def)

section \<open>Properties\<close>

text \<open>
  Saving one field loses no other: for a patch of known fields the body sent has exactly the ten
  fields of a profile, each once; a field of the patch has the patch's value and every other field
  has the cached profile's value, or its default where the profile has none.
\<close>

theorem profile_update_merges:
  assumes "distinct (map fst patch)" "set (map fst patch) \<subseteq> set (map fst (profile_fields no_profile m e))"
  shows "map fst (buildProfileUpdate current patch m e) = map fst (profile_fields no_profile m e)
    \<and> map_get (buildProfileUpdate current patch m e) k =
        (case map_of patch k of Some v \<Rightarrow> Some v
         | None \<Rightarrow> map_of (profile_fields (nullish current no_profile) m e) k)"
proof -
  let ?f = "profile_fields (nullish current no_profile) m e"
  have f: "map fst ?f = map fst (profile_fields no_profile m e)" by (simp add: profile_fields_def)
  have "map fst (spread ?f patch) = map fst ?f"
    using assms(2) unfolding f [symmetric] by (rule keys_spread [OF profile_fields_distinct])
  then show ?thesis using assms(1) f by (simp add: buildProfileUpdate_def map_get_spread map_add_def)
qed

theorem profile_update_merges_witness:
  "map_get (buildProfileUpdate (Some (no_profile\<lparr>prof_default_repo := Some ''acme/app''\<rparr>))
      [(''create_prs'', JBool True)] ''m'' ''low'') ''default_repo'' = Some (JStr ''acme/app'')"
  using profile_update_merges [of "[(''create_prs'', JBool True)]" "''m''" "''low''"
      "Some (no_profile\<lparr>prof_default_repo := Some ''acme/app''\<rparr>)" "''default_repo''"]
  by (simp add: profile_fields_def str_or_null_def)

text \<open>
  Deleting a thread drops the cached detail and pull request diff of that thread and of no other,
  and keeps the cached list, which is only marked stale; seeding the details from the list never
  writes the entry of the open thread, and writes every other thread of the list, already stale.
\<close>

theorem thread_cache_precise:
  "(let ops = snd (useDeleteAgentThread i) path in
      (\<exists>k. RemoveQueries k \<in> set ops \<and> key_matches False k (detail_key j)) = (i = j)
      \<and> (\<exists>k. RemoveQueries k \<in> set ops \<and> key_matches False k (prDiff_key j)) = (i = j)
      \<and> \<not> (\<exists>k. RemoveQueries k \<in> set ops \<and> key_matches False k threads_key)
      \<and> (Navigate ''/agents'' \<in> set ops) = str_includes path (''/agents/'' @ i))
   \<and> (SetThread k t u \<in> set (useSeedAgentThreadDetails threads active)) =
       (t \<in> set threads \<and> Some (th_id t) \<noteq> active \<and> k = detail_key (th_id t) \<and> u = Some 0)"
  by (auto simp: useDeleteAgentThread_def useSeedAgentThreadDetails_def key_matches_thread Let_def split: if_splits)

text \<open>
  Signed out is not an error: the session query answers null exactly when the server says 401
  (or answers null itself) and throws every other error; the repository query turns 401 and 403, and
  no other error, into an empty list.
\<close>

theorem signed_out_degrades:
  "(query_fn (useSession fetch base) = Inl err) =
     (api_call fetch base Me = Inl err \<and> (\<forall>msg. err \<noteq> ApiError 401 msg))
   \<and> (query_fn (useSession fetch base) = Inr JNull) =
       (api_call fetch base Me = Inr JNull \<or> (\<exists>msg. api_call fetch base Me = Inl (ApiError 401 msg)))
   \<and> (query_fn (useRepos fetch base signedIn) = Inl err) =
       (api_call fetch base (Repos None) = Inl err \<and> (\<forall>msg. err \<noteq> ApiError 401 msg \<and> err \<noteq> ApiError 403 msg))"
  by (auto simp: useSession_def useRepos_def default_query_def null_on_401_def empty_on_denied_def
      split: sum.splits js_error.splits if_splits)

end
