(* ===== verification/Thread_Groups.thy ===== *)
theory Thread_Groups
  imports Agent_Types
begin

text \<open>
  \<open>groupThreads\<close> of \<open>lib/agents/api.ts\<close>: the threads of the sidebar, newest first, cut into four
  groups by age. The start of the local day and the two readings of the clock are arguments.
\<close>

datatype ThreadGroup = Today | Last7 | Last30 | Older

record thread_groups =
  tg_today :: "AgentThread list"
  tg_last7 :: "AgentThread list"
  tg_last30 :: "AgentThread list"
  tg_older :: "AgentThread list"

definition newer_first :: "AgentThread \<Rightarrow> AgentThread \<Rightarrow> bool" where
  "newer_first a b = (th_updatedAt b - th_updatedAt a \<le> 0)"

definition day_ms :: int where
  "day_ms = 24 * 60 * 60 * 1000"

definition push_thread :: "int \<Rightarrow> int \<Rightarrow> int \<Rightarrow> thread_groups \<Rightarrow> AgentThread \<Rightarrow> thread_groups" where
  "push_thread todayStart sevenDaysAgo thirtyDaysAgo groups thread =
     (if th_updatedAt thread \<ge> todayStart then groups\<lparr>tg_today := tg_today groups @ [thread]\<rparr>
      else if th_updatedAt thread \<ge> sevenDaysAgo then groups\<lparr>tg_last7 := tg_last7 groups @ [thread]\<rparr>
      else if th_updatedAt thread \<ge> thirtyDaysAgo then groups\<lparr>tg_last30 := tg_last30 groups @ [thread]\<rparr>
      else groups\<lparr>tg_older := tg_older groups @ [thread]\<rparr>)"

definition groupThreads :: "int \<Rightarrow> int \<Rightarrow> int \<Rightarrow> AgentThread list \<Rightarrow> thread_groups" where
  "groupThreads todayStart now1 now2 threads =
     (let sevenDaysAgo = now1 - 7 * day_ms;
          thirtyDaysAgo = now2 - 30 * day_ms
      in foldl (push_thread todayStart sevenDaysAgo thirtyDaysAgo)
           \<lparr>tg_today = [], tg_last7 = [], tg_last30 = [], tg_older = []\<rparr> (sort_by newer_first threads))"

section \<open>Facts\<close>

interpretation by_updated: comparator newer_first
  by unfold_locales (auto simp: newer_first_def)

fun group_of :: "ThreadGroup \<Rightarrow> thread_groups \<Rightarrow> AgentThread list" where
  "group_of Today g = tg_today g"
| "group_of Last7 g = tg_last7 g"
| "group_of Last30 g = tg_last30 g"
| "group_of Older g = tg_older g"

text \<open>The group a thread belongs to: the most recent period it was updated in.\<close>

definition period_of :: "int \<Rightarrow> int \<Rightarrow> int \<Rightarrow> AgentThread \<Rightarrow> ThreadGroup" where
  "period_of todayStart seven thirty t =
     (if todayStart \<le> th_updatedAt t then Today
      else if seven \<le> th_updatedAt t then Last7
      else if thirty \<le> th_updatedAt t then Last30 else Older)"

lemma group_of_push:
  "group_of k (push_thread a b c g t) = group_of k g @ (if period_of a b c t = k then [t] else [])"
  by (cases k) (auto simp: push_thread_def period_of_def)

lemma group_of_foldl:
  "group_of k (foldl (push_thread a b c) g ts) = group_of k g @ filter (\<lambda>t. period_of a b c t = k) ts"
  by (induction ts arbitrary: g) (auto simp: group_of_push)

lemma group_of_groupThreads:
  "group_of k (groupThreads a n1 n2 ts) =
     filter (\<lambda>t. period_of a (n1 - 7 * day_ms) (n2 - 30 * day_ms) t = k) (sort_by newer_first ts)"
proof -
  have "group_of k \<lparr>tg_today = [], tg_last7 = [], tg_last30 = [], tg_older = []\<rparr> = []" by (cases k) simp_all
  then show ?thesis by (simp add: groupThreads_def group_of_foldl)
qed

lemma four_parts:
  "mset (filter (\<lambda>t. f t = Today) ts) + mset (filter (\<lambda>t. f t = Last7) ts)
     + mset (filter (\<lambda>t. f t = Last30) ts) + mset (filter (\<lambda>t. f t = Older) ts) = mset ts"
proof (induction ts)
  case (Cons t ts)
  then show ?case by (cases "f t") simp_all
qed simp

lemma groups_mset:
  "mset (tg_today (groupThreads a n1 n2 ts)) + mset (tg_last7 (groupThreads a n1 n2 ts))
     + mset (tg_last30 (groupThreads a n1 n2 ts)) + mset (tg_older (groupThreads a n1 n2 ts)) = mset ts"
  using four_parts [of "period_of a (n1 - 7 * day_ms) (n2 - 30 * day_ms)" "sort_by newer_first ts"]
  by (simp flip: group_of_groupThreads)

section \<open>Properties\<close>

text \<open>
  C29. The four groups partition the threads: every thread is in exactly one group, as often as it
  was given, and it is the group of the most recent period the thread was updated in. Each group is
  ordered from the newest update to the oldest, and threads updated at the same time keep the order
  they were given in.
\<close>

theorem groupThreads_partition:
  "let g = groupThreads todayStart now1 now2 threads in
   mset (tg_today g) + mset (tg_last7 g) + mset (tg_last30 g) + mset (tg_older g) = mset threads
   \<and> list_all (\<lambda>t. period_of todayStart (now1 - 7 * day_ms) (now2 - 30 * day_ms) t = k) (group_of k g)
   \<and> sorted_wrt (\<lambda>a b. th_updatedAt b \<le> th_updatedAt a) (group_of k g)
   \<and> filter (\<lambda>t. th_updatedAt t = u) (group_of k g) =
       filter (\<lambda>t. th_updatedAt t = u \<and> period_of todayStart (now1 - 7 * day_ms) (now2 - 30 * day_ms) t = k) threads"
proof -
  let ?g = "groupThreads todayStart now1 now2 threads"
  let ?p = "period_of todayStart (now1 - 7 * day_ms) (now2 - 30 * day_ms)"
  let ?s = "sort_by newer_first threads"
  have grp: "group_of j ?g = filter (\<lambda>t. ?p t = j) ?s" for j
    by (simp add: group_of_groupThreads)
  have "mset (tg_today ?g) + mset (tg_last7 ?g) + mset (tg_last30 ?g) + mset (tg_older ?g) = mset threads"
    by (rule groups_mset)
  moreover have "sorted_wrt (\<lambda>a b. th_updatedAt b \<le> th_updatedAt a) (group_of k ?g)"
    using sorted_wrt_filter [OF by_updated.sorted_sort_by, of "\<lambda>t. ?p t = k" threads]
    by (simp add: grp newer_first_def [abs_def])
  moreover have "filter (\<lambda>t. th_updatedAt t = u) (group_of k ?g) =
      filter (\<lambda>t. ?p t = k) (filter (\<lambda>t. th_updatedAt t = u) ?s)"
    by (simp add: grp conj_commute)
  moreover have "filter (\<lambda>t. th_updatedAt t = u) ?s = filter (\<lambda>t. th_updatedAt t = u) threads"
    by (rule by_updated.stable_sort_by) (simp add: newer_first_def)
  ultimately show ?thesis by (auto simp: Let_def grp list_all_iff conj_commute)
qed

end
