(* ===== verification/Display.thy ===== *)
theory Display
  imports Api_Client
begin

text \<open>
  The small text functions of the dashboard: \<open>lib/repo.ts\<close> (repository names),
  \<open>lib/sessionDisplay.ts\<close> (how the signed-in user is shown) and \<open>formatRelativeTime\<close> of
  \<open>lib/utils.ts\<close>, with the English \<open>Intl.RelativeTimeFormat\<close> it uses.
\<close>

section \<open>Repository names\<close>

definition strip_prefix :: "string \<Rightarrow> string \<Rightarrow> string" where
  "strip_prefix v prefix = (if startsWith (toLowerCase v) prefix then drop (length prefix) v else v)"

definition github_prefixes :: "string list" where
  "github_prefixes = [''https://github.com/'', ''http://github.com/'', ''github.com/'']"

definition strip_git :: "string \<Rightarrow> string" where
  "strip_git v = (if endsWith v ''.git'' then take (length v - 4) v else v)"

definition normalizeRepoFullName :: "string \<Rightarrow> string option" where
  "normalizeRepoFullName raw =
     (let v = foldl strip_prefix (trim raw) github_prefixes;
          v = strip_git (strip_slash v);
          parts = filter (\<lambda>p. p \<noteq> []) (split_on (CHR ''/'') v)
      in if length parts \<noteq> 2 then None else Some (parts ! 0 @ ''/'' @ parts ! 1))"

section \<open>The signed-in user\<close>

definition clean :: "string option \<Rightarrow> string option" where
  "clean v = (case v of None \<Rightarrow> None | Some s \<Rightarrow> if trim s = [] then None else Some (trim s))"

definition sessionDisplayName :: "SessionUser \<Rightarrow> string" where
  "sessionDisplayName user = nullish (nullish_opt (clean (su_name user)) (clean (su_email user))) (su_login user)"

definition sessionSecondaryText :: "SessionUser \<Rightarrow> string option" where
  "sessionSecondaryText user =
     (let display = toLowerCase (sessionDisplayName user);
          email = clean (su_email user)
      in if truthy_str email \<and> toLowerCase (the email) \<noteq> display then email
         else if su_auth_provider user = Some ''entra'' then Some ''Microsoft Entra''
         else clean (Some (su_login user)))"

text \<open>\<open>replace(/@.*/, "")\<close>: from the first at sign to the end of its line.\<close>

definition line_end :: "char \<Rightarrow> bool" where
  "line_end c = (code c = 10 \<or> code c = 13)"

definition cut_at :: "string \<Rightarrow> string" where
  "cut_at s =
     takeWhile (\<lambda>c. c \<noteq> CHR ''@'') s @ dropWhile (\<lambda>c. \<not> line_end c) (dropWhile (\<lambda>c. c \<noteq> CHR ''@'') s)"

definition sessionInitials :: "SessionUser \<Rightarrow> string" where
  "sessionInitials user =
     (let source = sessionDisplayName user;
          parts = filter (\<lambda>p. p \<noteq> []) (split_ws (cut_at source))
      in case parts of
           (a # _) # (b # _) # _ \<Rightarrow> toUpperCase [a, b]
         | _ \<Rightarrow> toUpperCase (take 2 source))"

section \<open>Relative times\<close>

datatype time_unit = Second | Minute | Hour | Day | Week | Month | Year

fun unit_name :: "time_unit \<Rightarrow> string" where
  "unit_name Second = ''second''" | "unit_name Minute = ''minute''" | "unit_name Hour = ''hour''"
| "unit_name Day = ''day''" | "unit_name Week = ''week''" | "unit_name Month = ''month''"
| "unit_name Year = ''year''"

text \<open>The words that \<open>numeric: "auto"\<close> uses in English.\<close>

fun auto_words :: "time_unit \<Rightarrow> int \<Rightarrow> string option" where
  "auto_words Second n = (if n = 0 then Some ''now'' else None)"
| "auto_words Minute n = (if n = 0 then Some ''this minute'' else None)"
| "auto_words Hour n = (if n = 0 then Some ''this hour'' else None)"
| "auto_words Day n =
     (if n = 0 then Some ''today'' else if n = 1 then Some ''tomorrow'' else if n = -1 then Some ''yesterday'' else None)"
| "auto_words u n =
     (if n = 0 then Some (''this '' @ unit_name u) else if n = 1 then Some (''next '' @ unit_name u)
      else if n = -1 then Some (''last '' @ unit_name u) else None)"

fun group_rev :: "string \<Rightarrow> string" where
  "group_rev (a # b # c # d # s) = a # b # c # CHR '','' # group_rev (d # s)"
| "group_rev s = s"

definition grouped :: "nat \<Rightarrow> string" where
  "grouped n = rev (group_rev (rev (nat_str n)))"

definition rtf_format :: "int \<Rightarrow> time_unit \<Rightarrow> string" where
  "rtf_format n u =
     (case auto_words u n of
        Some w \<Rightarrow> w
      | None \<Rightarrow>
          (let k = grouped (nat \<bar>n\<bar>);
               name = unit_name u @ (if \<bar>n\<bar> = 1 then [] else ''s'')
           in if n < 0 then k @ '' '' @ name @ '' ago'' else ''in '' @ k @ '' '' @ name))"

text \<open>\<open>Math.round(x / y)\<close> for whole \<open>x\<close> and \<open>y\<close>: halves are rounded up.\<close>

definition round_div :: "int \<Rightarrow> int \<Rightarrow> int" where
  "round_div x y = (2 * x + y) div (2 * y)"

definition relative_unit :: "int \<Rightarrow> int \<Rightarrow> int \<times> time_unit" where
  "relative_unit ts now =
     (let diffMs = ts - now; absMs = \<bar>diffMs\<bar> in
      if absMs < 60000 then (round_div diffMs 1000, Second)
      else if absMs < 60 * 60000 then (round_div diffMs 60000, Minute)
      else if absMs < 24 * 60 * 60000 then (round_div diffMs (60 * 60000), Hour)
      else if absMs < 7 * 24 * 60 * 60000 then (round_div diffMs (24 * 60 * 60000), Day)
      else if absMs < 30 * 24 * 60 * 60000 then (round_div diffMs (7 * 24 * 60 * 60000), Week)
      else if absMs < 365 * 24 * 60 * 60000 then (round_div diffMs (30 * 24 * 60 * 60000), Month)
      else (round_div diffMs (365 * 24 * 60 * 60000), Year))"

definition formatRelativeTime :: "int \<Rightarrow> int \<Rightarrow> string" where
  "formatRelativeTime now ts = (case relative_unit ts now of (n, u) \<Rightarrow> rtf_format n u)"

section \<open>Facts on repository names\<close>

definition repo_word :: "string \<Rightarrow> bool" where
  "repo_word s = (s \<noteq> [] \<and> list_all (\<lambda>c. c \<noteq> CHR ''/'' \<and> \<not> is_ws c) s)"

lemma code_cong: "code c = code d \<longleftrightarrow> c = d"
  by (metis char_of_code)

lemma lower_slash [simp]: "lower_char c = CHR ''/'' \<longleftrightarrow> c = CHR ''/''"
proof -
  have "code (CHR ''/'') = 47" by (simp add: code_def)
  then have "c = CHR ''/'' \<longleftrightarrow> code c = 47" for c by (metis code_cong)
  then show ?thesis by (auto simp: lower_char_def Let_def)
qed

lemma lower_Nil [simp]: "toLowerCase s = [] \<longleftrightarrow> s = []"
  by (simp add: toLowerCase_def)

lemma split_on_lower: "split_on (CHR ''/'') (toLowerCase s) = map toLowerCase (split_on (CHR ''/'') s)"
  by (induction s) (auto simp: toLowerCase_def split: list.splits)

lemma startsWith_segments:
  assumes "startsWith s (p @ [c])"
  shows "\<exists>rest. split_on c s = split_on c p @ rest \<and> rest \<noteq> []"
proof -
  have s: "s = (p @ [c]) @ drop (length (p @ [c])) s" using assms by (rule startsWithE)
  have "split_on c (p @ c # t) = split_on c p @ split_on c t" for t
    by (induction p) (auto split: list.splits)
  with s show ?thesis by (metis append.assoc append_Cons append_Nil split_on_not_Nil)
qed

lemma github_prefix_segments:
  "split_on (CHR ''/'') ''https://github.com'' = [''https:'', [], ''github.com'']"
  "split_on (CHR ''/'') ''http://github.com'' = [''http:'', [], ''github.com'']"
  "split_on (CHR ''/'') ''github.com'' = [''github.com'']"
  by simp_all

text \<open>Only a first segment \<open>github.com\<close>, or an empty second segment, makes a prefix apply.\<close>

lemma strip_prefix_keeps:
  assumes "split_on (CHR ''/'') w = a # b # rest" "b \<noteq> []" "toLowerCase a \<noteq> ''github.com''"
    and "p \<in> set github_prefixes"
  shows "strip_prefix w p = w"
proof -
  have seg: "split_on (CHR ''/'') (toLowerCase w) = toLowerCase a # toLowerCase b # map toLowerCase rest"
    using assms(1) by (simp add: split_on_lower)
  have "\<not> startsWith (toLowerCase w) (q @ ''/'')" if "q \<in> {''https://github.com'', ''http://github.com'', ''github.com''}" for q
    using startsWith_segments [of "toLowerCase w" q "CHR ''/''"] that assms(2,3)
    by (auto simp: seg github_prefix_segments lower_Nil simp del: split_on.simps)
  from this [of "''https://github.com''"] this [of "''http://github.com''"] this [of "''github.com''"]
  show ?thesis using assms(4) by (auto simp: strip_prefix_def github_prefixes_def)
qed

lemma strip_prefix_strips: "toLowerCase p = p \<Longrightarrow> strip_prefix (p @ w) p = w"
  by (simp add: strip_prefix_def toLowerCase_def)

lemma strip_all_keeps:
  assumes "split_on (CHR ''/'') w = a # b # rest" "b \<noteq> []" "toLowerCase a \<noteq> ''github.com''"
    and "set ps \<subseteq> set github_prefixes"
  shows "foldl strip_prefix w ps = w"
  using assms(4) by (induction ps) (auto simp: strip_prefix_keeps [OF assms(1-3)])

lemma toLowerCase_prefix:
  "p \<in> set github_prefixes \<Longrightarrow> toLowerCase p = p"
  by (auto simp: github_prefixes_def toLowerCase_def lower_char_def code_def)

lemma strip_all:
  assumes w: "split_on (CHR ''/'') w = a # b # rest" "b \<noteq> []" "toLowerCase a \<noteq> ''github.com''"
    and p: "p \<in> set ([] # github_prefixes)"
  shows "foldl strip_prefix (p @ w) github_prefixes = w"
proof -
  have k: "foldl strip_prefix w ps = w" if "set ps \<subseteq> set github_prefixes" for ps
    using strip_all_keeps [OF w that] .
  have s: "strip_prefix (p @ w) p = w" if "p \<in> set github_prefixes" for p
    using that by (intro strip_prefix_strips toLowerCase_prefix)
  have n: "strip_prefix (''http://github.com/'' @ w) ''https://github.com/'' = ''http://github.com/'' @ w"
    "strip_prefix (''github.com/'' @ w) ''https://github.com/'' = ''github.com/'' @ w"
    "strip_prefix (''github.com/'' @ w) ''http://github.com/'' = ''github.com/'' @ w"
    by (simp_all add: strip_prefix_def startsWith_def toLowerCase_def lower_char_def code_def)
  have g: "foldl strip_prefix v github_prefixes =
      strip_prefix (strip_prefix (strip_prefix v ''https://github.com/'') ''http://github.com/'') ''github.com/''" for v
    by (simp add: github_prefixes_def)
  consider "p = []" | "p = ''https://github.com/''" | "p = ''http://github.com/''" | "p = ''github.com/''"
    using p by (auto simp: github_prefixes_def)
  then show ?thesis
  proof cases
    case 1
    then show ?thesis using k by simp
  next
    case 2
    then show ?thesis using s [of p] k [of "tl github_prefixes"] by (simp add: github_prefixes_def)
  next
    case 3
    then show ?thesis using s [of p] k [of "tl (tl github_prefixes)"] n(1) by (simp add: g) (simp add: github_prefixes_def)
  next
    case 4
    then show ?thesis using s [of p] n by (simp add: g) (simp add: github_prefixes_def)
  qed
qed

lemma strip_ends:
  assumes "name \<noteq> []" "CHR ''/'' \<notin> set name" "\<not> endsWith name ''.git''"
    and "suffix \<in> {[], ''/'', ''.git'', ''.git/''}"
  shows "strip_git (strip_slash (u @ ''/'' @ name @ suffix)) = u @ ''/'' @ name"
proof -
  have l: "last name \<noteq> CHR ''/''" using assms(1,2) last_in_set by metis
  have e: "\<not> endsWith (u @ ''/'' @ name) ''.git''"
  proof
    let ?s = "u @ ''/'' @ name" and ?k = "length u + length name - 3"
    assume "endsWith ?s ''.git''"
    then have d: "drop ?k ?s = ''.git''" by (simp add: endsWith_def numeral_3_eq_3)
    show False
    proof (cases "4 \<le> length name")
      case True
      with d have "drop (length name - 4) name = ''.git''" by (simp add: drop_Cons')
      with True have "endsWith name ''.git''" by (simp add: endsWith_def eval_nat_numeral)
      with assms(3) show False ..
    next
      case False
      then have "CHR ''/'' \<in> set (drop ?k ?s)" by simp
      then show False unfolding d by simp
    qed
  qed
  then show ?thesis
    using assms(1,4) l by (auto simp: strip_git_def strip_slash_def endsWith_iff butlast_append)
qed

section \<open>Facts on relative times\<close>

lemma round_div_bounds:
  assumes "0 < y" "\<bar>x\<bar> \<le> k * y"
  shows "\<bar>round_div x y\<bar> \<le> k"
proof -
  have "2 * x + y \<le> 2 * y * k + y" "2 * y * (- k) + y \<le> 2 * x + y" using assms(2) by (auto simp: algebra_simps abs_le_iff)
  then have b: "2 * x + y \<le> y + 2 * y * k" "y + 2 * y * (- k) \<le> 2 * x + y" by linarith+
  have "(2 * x + y) div (2 * y) \<le> (y + 2 * y * k) div (2 * y)" "(y + 2 * y * (- k)) div (2 * y) \<le> (2 * x + y) div (2 * y)"
    using zdiv_mono1 [OF b(1), of "2 * y"] zdiv_mono1 [OF b(2), of "2 * y"] assms(1) by simp_all
  moreover have e: "(y + 2 * y * c) div (2 * y) = c" for c
    using assms(1) by (simp add: div_mult_self2)
  ultimately show ?thesis
    using e [of k] e [of "- k"] unfolding round_div_def abs_le_iff by linarith
qed

lemma round_div_nonzero:
  assumes "0 < y" "y \<le> \<bar>x\<bar>"
  shows "round_div x y \<noteq> 0 \<and> (0 < round_div x y \<longleftrightarrow> 0 < x)"
proof (cases "0 < x")
  case True
  then have "0 < round_div x y" using assms by (simp add: round_div_def pos_imp_zdiv_pos_iff)
  then show ?thesis using True by simp
next
  case False
  then have "2 * x + y < 0" using assms by linarith
  then have "round_div x y < 0" using assms(1) by (simp add: round_div_def div_neg_pos_less0)
  then show ?thesis using False by simp
qed

section \<open>Properties\<close>

text \<open>
  Every usual way of writing a GitHub repository is read as the same owner and name: bare or
  with one of the three prefixes, with or without a trailing slash and the suffix .git, and with
  blanks around it.
\<close>

theorem repo_spellings_agree:
  assumes "repo_word owner" "repo_word name" "toLowerCase owner \<noteq> ''github.com''" "\<not> endsWith name ''.git''"
    and "prefix \<in> set ([] # github_prefixes)" "suffix \<in> {[], ''/'', ''.git'', ''.git/''}"
    and "trim raw = prefix @ owner @ ''/'' @ name @ suffix"
  shows "normalizeRepoFullName raw = Some (owner @ ''/'' @ name)"
proof -
  have o: "owner \<noteq> []" "CHR ''/'' \<notin> set owner" and n: "name \<noteq> []" "CHR ''/'' \<notin> set name"
    using assms(1,2) by (auto simp: repo_word_def list_all_iff)
  have "split_on (CHR ''/'') (owner @ ''/'' @ name @ suffix) = owner # (name @ hd (split_on (CHR ''/'') suffix)) # tl (split_on (CHR ''/'') suffix)"
    using o n by (simp add: split_on_append split_on_append_seg)
  then have "foldl strip_prefix (trim raw) github_prefixes = owner @ ''/'' @ name @ suffix"
    unfolding assms(7) using strip_all assms(3,5) n by blast
  moreover have "split_on (CHR ''/'') (owner @ ''/'' @ name) = [owner, name]"
    using o n by (simp add: split_on_append split_on_no_sep)
  ultimately show ?thesis
    using strip_ends [OF n assms(4,6), of owner] o n by (simp add: normalizeRepoFullName_def Let_def)
qed

theorem repo_spellings_agree_witness:
  "normalizeRepoFullName '' https://github.com/acme/app.git/ '' = Some ''acme/app''"
  by (rule repo_spellings_agree [of "''acme''" "''app''" "''https://github.com/''" "''.git/''", simplified]) code_simp+

text \<open>
  A relative time names its unit and direction correctly: the count never exceeds 60 seconds, 60
  minutes, 24 hours, 7 days, 4 weeks or 12 months, it is never zero beyond the seconds, and from the
  minutes on it is positive exactly for a time in the future.
\<close>

theorem relative_time_counts:
  "case relative_unit ts now of (n, u) \<Rightarrow>
     (case u of Second \<Rightarrow> \<bar>n\<bar> \<le> 60 | Minute \<Rightarrow> \<bar>n\<bar> \<le> 60 | Hour \<Rightarrow> \<bar>n\<bar> \<le> 24 | Day \<Rightarrow> \<bar>n\<bar> \<le> 7
      | Week \<Rightarrow> \<bar>n\<bar> \<le> 4 | Month \<Rightarrow> \<bar>n\<bar> \<le> 12 | Year \<Rightarrow> True)
     \<and> (u = Second \<or> (n \<noteq> 0 \<and> (0 < n \<longleftrightarrow> now < ts)))"
proof -
  let ?d = "ts - now"
  have b: "\<bar>?d\<bar> < k * y \<Longrightarrow> 0 < y \<Longrightarrow> \<bar>round_div ?d y\<bar> \<le> k" for k y
    by (rule round_div_bounds) auto
  have w: "\<bar>?d\<bar> < 2592000000 \<Longrightarrow> \<bar>round_div ?d 604800000\<bar> \<le> 4" "\<bar>?d\<bar> < 31536000000 \<Longrightarrow> \<bar>round_div ?d 2592000000\<bar> \<le> 12"
    by (auto simp: round_div_def abs_le_iff)
  have n: "0 < y \<Longrightarrow> y \<le> \<bar>?d\<bar> \<Longrightarrow> round_div ?d y \<noteq> 0 \<and> (0 < round_div ?d y \<longleftrightarrow> now < ts)" for y
    using round_div_nonzero [of y ?d] by simp
  show ?thesis
    using b [of 60 1000] b [of 60 60000] b [of 24 3600000] b [of 7 86400000] w
      n [of 60000] n [of 3600000] n [of 86400000] n [of 604800000] n [of 2592000000] n [of 31536000000]
    by (simp add: relative_unit_def Let_def)
qed

text \<open>The examples of the source comment.\<close>

lemma grouped_1: "grouped 1 = ''1''"
  by code_simp

lemma relative_time_examples:
  "formatRelativeTime now now = ''now''"
  "formatRelativeTime now (now - 1000) = ''1 second ago''"
  "formatRelativeTime now (now - 24 * 60 * 60 * 1000) = ''yesterday''"
  "formatRelativeTime now (now - 7 * 24 * 60 * 60 * 1000) = ''last week''"
  by (simp_all add: formatRelativeTime_def relative_unit_def round_div_def rtf_format_def grouped_1 [simplified])

end
