(* ===== verification/Theme_State.thy ===== *)
theory Theme_State
  imports Prelude
begin

text \<open>
  \<open>lib/theme.ts\<close> and the script of \<open>routes/__root.tsx\<close> that runs before the first paint: the
  chosen theme, the theme it resolves to, the class of the root element and the stored choice. The
  state holds the hook's state, the browser's storage, the system's preference and the page.
\<close>

datatype Theme = Light | Dark | System
datatype ResolvedTheme = RLight | RDark

fun theme_str :: "Theme \<Rightarrow> string" where
  "theme_str Light = ''light''" | "theme_str Dark = ''dark''" | "theme_str System = ''system''"

definition isTheme :: "string option \<Rightarrow> bool" where
  "isTheme v = (v = Some ''light'' \<or> v = Some ''dark'' \<or> v = Some ''system'')"

definition theme_of :: "string option \<Rightarrow> Theme" where
  "theme_of v = (if v = Some ''light'' then Light else if v = Some ''dark'' then Dark else System)"

definition readStoredTheme :: "string option \<Rightarrow> Theme" where
  "readStoredTheme stored = (if isTheme stored then theme_of stored else System)"

definition resolveTheme :: "bool \<Rightarrow> Theme \<Rightarrow> ResolvedTheme" where
  "resolveTheme prefersDark t =
     (case t of System \<Rightarrow> if prefersDark then RDark else RLight | Light \<Rightarrow> RLight | Dark \<Rightarrow> RDark)"

record theme_state =
  theme :: Theme
  resolvedTheme :: ResolvedTheme
  themeRef :: Theme
  listening :: bool
  storage :: "string option"
  prefersDark :: bool
  domDark :: bool
  domScheme :: ResolvedTheme
  observed :: "ResolvedTheme option"

text \<open>The theme read off the root element, as \<open>useResolvedTheme\<close> does.\<close>

definition readDomResolvedTheme :: "theme_state \<Rightarrow> ResolvedTheme" where
  "readDomResolvedTheme s = (if domDark s then RDark else RLight)"

text \<open>
  The class list of the root element changes in \<open>applyTheme\<close> and the mutation observer of a mounted
  \<open>useResolvedTheme\<close> then reads it.
\<close>

definition notify_observer :: "theme_state \<Rightarrow> theme_state" where
  "notify_observer s = (if observed s = None then s else s\<lparr>observed := Some (readDomResolvedTheme s)\<rparr>)"

definition applyTheme :: "ResolvedTheme \<Rightarrow> theme_state \<Rightarrow> theme_state" where
  "applyTheme resolved s = notify_observer (s\<lparr>domDark := (resolved = RDark), domScheme := resolved\<rparr>)"

text \<open>The script of the document head, run before the application.\<close>

definition themeInitScript :: "theme_state \<Rightarrow> theme_state" where
  "themeInitScript s =
     (let d = (storage s = Some ''dark''
               \<or> ((\<not> truthy_str (storage s) \<or> storage s = Some ''system'') \<and> prefersDark s))
      in s\<lparr>domDark := d, domScheme := (if d then RDark else RLight)\<rparr>)"

definition page_load :: "string option \<Rightarrow> bool \<Rightarrow> theme_state" where
  "page_load stored dark = themeInitScript
     \<lparr>theme = System, resolvedTheme = RLight, themeRef = System, listening = False,
      storage = stored, prefersDark = dark, domDark = False, domScheme = RLight, observed = None\<rparr>"

text \<open>The effect of \<open>useTheme\<close> on mount, and its cleanup.\<close>

definition mount_theme :: "theme_state \<Rightarrow> theme_state" where
  "mount_theme s =
     (let stored = readStoredTheme (storage s);
          resolved = resolveTheme (prefersDark s) stored
      in (applyTheme resolved (s\<lparr>themeRef := stored, theme := stored, resolvedTheme := resolved\<rparr>))\<lparr>listening := True\<rparr>)"

definition unmount_theme :: "theme_state \<Rightarrow> theme_state" where
  "unmount_theme s = s\<lparr>listening := False, theme := System, resolvedTheme := RLight, themeRef := System\<rparr>"

definition onChange :: "theme_state \<Rightarrow> theme_state" where
  "onChange s =
     (if themeRef s \<noteq> System then s
      else let next = (if prefersDark s then RDark else RLight)
           in applyTheme next (s\<lparr>resolvedTheme := next\<rparr>))"

text \<open>The system's preference changes; the listener runs where it is registered.\<close>

definition system_change :: "bool \<Rightarrow> theme_state \<Rightarrow> theme_state" where
  "system_change dark s =
     (let s' = s\<lparr>prefersDark := dark\<rparr> in if listening s then onChange s' else s')"

definition setTheme :: "Theme \<Rightarrow> theme_state \<Rightarrow> theme_state" where
  "setTheme next s =
     (let resolved = resolveTheme (prefersDark s) next
      in applyTheme resolved
           (s\<lparr>storage := Some (theme_str next), themeRef := next, theme := next, resolvedTheme := resolved\<rparr>))"

definition toggleTheme :: "theme_state \<Rightarrow> theme_state" where
  "toggleTheme s = setTheme (if resolvedTheme s = RDark then Light else Dark) s"

definition observe :: "theme_state \<Rightarrow> theme_state" where
  "observe s = s\<lparr>observed := Some (readDomResolvedTheme s)\<rparr>"

section \<open>Runs\<close>

inductive theme_step :: "theme_state \<Rightarrow> theme_state \<Rightarrow> bool" where
  step_mount: "\<not> listening s \<Longrightarrow> theme_step s (mount_theme s)"
| step_unmount: "listening s \<Longrightarrow> theme_step s (unmount_theme s)"
| step_system: "theme_step s (system_change dark s)"
| step_set: "listening s \<Longrightarrow> theme_step s (setTheme next s)"
| step_toggle: "listening s \<Longrightarrow> theme_step s (toggleTheme s)"
| step_observe: "theme_step s (observe s)"

code_pred theme_step .

inductive_cases theme_stepE: "theme_step s s'"

definition theme_inv :: "theme_state \<Rightarrow> bool" where
  "theme_inv s \<longleftrightarrow>
     domScheme s = readDomResolvedTheme s
     \<and> observed s \<in> {None, Some (readDomResolvedTheme s)}
     \<and> (listening s \<longrightarrow>
          theme s = readStoredTheme (storage s) \<and> themeRef s = theme s
          \<and> resolvedTheme s = resolveTheme (prefersDark s) (theme s)
          \<and> readDomResolvedTheme s = resolvedTheme s)"

lemma readStored_str [simp]: "readStoredTheme (Some (theme_str t)) = t"
  by (cases t) (simp_all add: readStoredTheme_def isTheme_def theme_of_def)

lemmas theme_defs = applyTheme_def notify_observer_def readDomResolvedTheme_def resolveTheme_def Let_def

lemma theme_inv_apply:
  assumes "resolved = resolveTheme (prefersDark s) (theme s)" "resolvedTheme s = resolved"
    and "theme s = readStoredTheme (storage s)" "themeRef s = theme s"
  shows "theme_inv (applyTheme resolved s)" "theme_inv ((applyTheme resolved s)\<lparr>listening := True\<rparr>)"
  using assms by (auto simp: theme_inv_def applyTheme_def notify_observer_def readDomResolvedTheme_def
      resolveTheme_def split: Theme.splits)

lemma theme_inv_setTheme: "theme_inv (setTheme next s)"
  unfolding setTheme_def Let_def by (rule theme_inv_apply) simp_all

lemma theme_inv_mount: "theme_inv (mount_theme s)"
  unfolding mount_theme_def Let_def by (rule theme_inv_apply) simp_all

lemma theme_inv_system:
  assumes "theme_inv s"
  shows "theme_inv (system_change dark s)"
proof (cases "listening s \<and> themeRef s = System")
  case True
  with assms have "theme s = System" "readStoredTheme (storage s) = System" by (auto simp: theme_inv_def)
  with True show ?thesis
    by (auto simp: system_change_def onChange_def Let_def resolveTheme_def intro!: theme_inv_apply)
next
  case False
  with assms show ?thesis
    by (auto simp: system_change_def onChange_def Let_def theme_inv_def readDomResolvedTheme_def resolveTheme_def
        split: Theme.splits if_splits)
qed

lemma theme_inv_step: "theme_step s s' \<Longrightarrow> theme_inv s \<Longrightarrow> theme_inv s'"
proof (induction rule: theme_step.induct)
  case (step_unmount s)
  then show ?case by (auto simp: theme_inv_def unmount_theme_def readDomResolvedTheme_def)
next
  case (step_observe s)
  then show ?case by (auto simp: theme_inv_def observe_def readDomResolvedTheme_def)
qed (simp_all add: theme_inv_mount theme_inv_system theme_inv_setTheme toggleTheme_def)

lemma theme_inv_load: "theme_inv (page_load stored dark)"
  by (simp add: theme_inv_def page_load_def themeInitScript_def readDomResolvedTheme_def Let_def)

lemma theme_inv_run: "theme_step\<^sup>*\<^sup>* s s' \<Longrightarrow> theme_inv s \<Longrightarrow> theme_inv s'"
  by (induction rule: rtranclp_induct) (auto intro: theme_inv_step)

section \<open>Properties\<close>

text \<open>
  C36. Within one tab, in every state reached from a page load by mounting and unmounting the hook,
  changes of the system's preference, choices and toggles: the class and the colour scheme of the root
  element agree with each other and with every observer of them, mounted or not; and while the hook is
  mounted, its theme and its reference are the stored theme, it is resolved by the system's present
  preference, and the root element shows what it resolves to. While no hook is mounted the root element
  keeps what it showed and can fall behind the preference, until the next mount.
\<close>

theorem theme_in_step:
  assumes "theme_step\<^sup>*\<^sup>* (page_load stored dark) s"
  shows "domScheme s = readDomResolvedTheme s
    \<and> observed s \<in> {None, Some (readDomResolvedTheme s)}
    \<and> (listening s \<longrightarrow>
         theme s = readStoredTheme (storage s) \<and> themeRef s = theme s
         \<and> resolvedTheme s = resolveTheme (prefersDark s) (theme s)
         \<and> readDomResolvedTheme s = resolvedTheme s)"
  using theme_inv_run [OF assms theme_inv_load] by (simp add: theme_inv_def)

theorem theme_in_step_witness:
  "let s = toggleTheme (mount_theme (page_load (Some ''system'') True)) in
     listening s \<and> theme s = Light \<and> storage s = Some ''light''
     \<and> readDomResolvedTheme s = resolveTheme (prefersDark s) (theme s)"
proof -
  let ?s = "page_load (Some ''system'') True"
  have "theme_step ?s (mount_theme ?s)"
    by (rule step_mount) (simp add: page_load_def themeInitScript_def Let_def)
  moreover have "theme_step (mount_theme ?s) (toggleTheme (mount_theme ?s))"
    by (rule step_toggle) (simp add: mount_theme_def Let_def)
  ultimately have "theme_step\<^sup>*\<^sup>* ?s (toggleTheme (mount_theme ?s))"
    by (meson converse_rtranclp_into_rtranclp rtranclp.rtrancl_refl)
  from theme_in_step [OF this] show ?thesis
    by (simp add: Let_def) (code_simp)
qed

text \<open>Without a mounted hook a change of the system's preference does not reach the page.\<close>

lemma unmounted_page_lags:
  "let s = system_change True (page_load (Some ''system'') False) in
     readDomResolvedTheme s \<noteq> resolveTheme (prefersDark s) (readStoredTheme (storage s))"
  by code_simp

lemma load_dom:
  "domDark (page_load (map_option theme_str choice) dark) =
     (resolveTheme dark (case choice of None \<Rightarrow> System | Some t \<Rightarrow> t) = RDark)"
  "domScheme (page_load (map_option theme_str choice) dark) =
     resolveTheme dark (case choice of None \<Rightarrow> System | Some t \<Rightarrow> t)"
proof -
  have "domDark (page_load (map_option theme_str choice) dark) =
      (resolveTheme dark (case choice of None \<Rightarrow> System | Some t \<Rightarrow> t) = RDark)
    \<and> domScheme (page_load (map_option theme_str choice) dark) =
      resolveTheme dark (case choice of None \<Rightarrow> System | Some t \<Rightarrow> t)"
  proof (cases choice)
    case (Some t)
    then show ?thesis
      by (cases t) (simp_all add: page_load_def themeInitScript_def resolveTheme_def Let_def)
  qed (simp add: page_load_def themeInitScript_def resolveTheme_def Let_def)
  then show
    "domDark (page_load (map_option theme_str choice) dark) =
      (resolveTheme dark (case choice of None \<Rightarrow> System | Some t \<Rightarrow> t) = RDark)"
    "domScheme (page_load (map_option theme_str choice) dark) =
      resolveTheme dark (case choice of None \<Rightarrow> System | Some t \<Rightarrow> t)"
    by blast+
qed

lemma mount_dom:
  "domDark (mount_theme s) = (resolveTheme (prefersDark s) (readStoredTheme (storage s)) = RDark)"
  "domScheme (mount_theme s) = resolveTheme (prefersDark s) (readStoredTheme (storage s))"
  "resolvedTheme (mount_theme s) = resolveTheme (prefersDark s) (readStoredTheme (storage s))"
  by (auto simp: mount_theme_def applyTheme_def notify_observer_def Let_def split: option.split)

lemma toggle_dom:
  "domDark (toggleTheme s) = (resolvedTheme s \<noteq> RDark)" "resolvedTheme (toggleTheme s) = (if resolvedTheme s = RDark then RLight else RDark)"
  by (auto simp: toggleTheme_def setTheme_def theme_defs split: option.split)

text \<open>
  No flash on load: the script of the document head paints the same theme as the hook does on
  mount, for every stored value the application writes and where nothing is stored; a toggle
  after that shows the other theme, and toggling twice comes back to it.
\<close>

theorem theme_load_and_toggle:
  "let s = page_load (map_option theme_str choice) dark; m = mount_theme s in
     domDark m = domDark s \<and> domScheme m = domScheme s
     \<and> domDark (toggleTheme m) = (\<not> domDark m) \<and> domDark (toggleTheme (toggleTheme m)) = domDark m"
proof -
  define s where "s = page_load (map_option theme_str choice) dark"
  have stored: "readStoredTheme (storage s) = (case choice of None \<Rightarrow> System | Some t \<Rightarrow> t)" "prefersDark s = dark"
  proof -
    have "storage s = map_option theme_str choice"
      by (simp add: s_def page_load_def themeInitScript_def Let_def)
    then show "readStoredTheme (storage s) = (case choice of None \<Rightarrow> System | Some t \<Rightarrow> t)"
      by (cases choice) (simp_all, simp add: readStoredTheme_def isTheme_def)
    show "prefersDark s = dark"
      by (simp add: s_def page_load_def themeInitScript_def Let_def)
  qed
  have "domDark s = (resolveTheme dark (case choice of None \<Rightarrow> System | Some t \<Rightarrow> t) = RDark)"
    "domScheme s = resolveTheme dark (case choice of None \<Rightarrow> System | Some t \<Rightarrow> t)"
    unfolding s_def by (rule load_dom)+
  then show ?thesis
    unfolding Let_def s_def [symmetric]
    by (simp add: mount_dom stored toggle_dom)
qed

end
