(* ===== verification/Stream_Messages.thy ===== *)
theory Stream_Messages
  imports Agent_Types
begin

text \<open>
  \<open>lib/agents/streamMessagesToUi.ts\<close>: the conversion of the streamed LangChain messages, the
  assembled tool calls and the discovered subagents into the transcript shown by the dashboard.
  The message classes of the SDK are records of the fields the source reads; the getter
  \<open>contentBlocks\<close>, which may throw, is an option, and the clock of \<open>new Date()\<close> an argument:
  \<open>now i\<close> is the time read while the message at index \<open>i\<close> is converted.
\<close>

section \<open>What the SDK hands over\<close>

record ToolCall =
  call_name :: string
  call_id :: "string option"
  call_args :: jsval

datatype AssembledStatus = ACRunning | ACFinished | ACError

record AssembledToolCall =
  atc_id :: "string option"
  atc_callId :: "string option"
  atc_status :: AssembledStatus
  atc_output :: jsval

datatype SubagentStatus = SubRunning | SubComplete | SubError

record SubagentDiscoverySnapshot =
  sub_id :: string
  sub_status :: SubagentStatus
  sub_namespace :: "string list"

record ContentBlock =
  block_type :: string
  block_reasoning :: jsval

record ToolMsg =
  tm_tool_call_id :: jsval
  tm_status :: string
  tm_text :: string
  tm_artifact :: jsval

datatype MessageBody =
    Human jsval
  | AI "ToolCall list option" "ContentBlock list option"
  | ToolResult ToolMsg
  | OtherMessage

record BaseMessage =
  bm_id :: jsval
  bm_created_at :: jsval
  bm_response_metadata :: jsval
  bm_text :: string
  bm_body :: MessageBody

section \<open>Tool names, titles and arguments\<close>

definition READ_TOOLS :: "string list" where
  "READ_TOOLS = [''read_file'', ''read'', ''glob'', ''grep'']"

definition EDIT_TOOLS :: "string list" where
  "EDIT_TOOLS = [''write_file'', ''edit_file'', ''str_replace'', ''write'', ''edit'', ''patch'']"

definition EXECUTE_TOOLS :: "string list" where
  "EXECUTE_TOOLS = [''execute'', ''bash'', ''shell'', ''run_terminal_cmd'']"

definition SEARCH_TOOLS :: "string list" where
  "SEARCH_TOOLS = [''glob'', ''grep'', ''web_search'', ''fetch_url'', ''search'']"

definition INTERNAL_TOOLS :: "string list" where
  "INTERNAL_TOOLS = [''confirming_completion'', ''no_op'']"

definition toolKind :: "string \<Rightarrow> AcpToolKind" where
  "toolKind name =
     (let lowered = toLowerCase name in
      if lowered = ''task'' then TaskK
      else if lowered = ''slack_thread_reply'' then SlackK
      else if lowered = ''linear_comment'' then LinearK
      else if lowered \<in> set EDIT_TOOLS
              \<or> (\<exists>t \<in> set [''edit'', ''write'', ''replace'']. str_includes lowered t) then EditK
      else if lowered \<in> set EXECUTE_TOOLS then ExecuteK
      else if lowered \<in> set SEARCH_TOOLS then SearchK
      else if lowered \<in> set READ_TOOLS \<or> str_includes lowered ''read'' then ReadK
      else if lowered = ''think'' then ThinkK
      else if lowered \<in> set [''fetch'', ''fetch_url'', ''http_request''] then FetchK
      else OtherK)"

definition path_arg :: "jsval \<Rightarrow> jsval" where
  "path_arg args =
     jnullish (get_prop args ''path'')
       (jnullish (get_prop args ''file_path'') (get_prop args ''target_file''))"

definition toolTitle :: "string \<Rightarrow> jsval \<Rightarrow> string" where
  "toolTitle name args =
     (let fallback = (let t = trim (map (\<lambda>c. if c = CHR ''_'' then CHR '' '' else c) name)
                      in if t = [] then ''Tool'' else t);
          by_command =
            (case as_string (get_prop args ''command'') of
               Some command \<Rightarrow>
                 (if trim command \<noteq> []
                  then take 120 (hd (split_on (char_of (10::nat)) (trim command)))
                  else fallback)
             | None \<Rightarrow> fallback)
      in case as_string (path_arg args) of
           Some path \<Rightarrow> (if trim path \<noteq> [] then name @ '' '' @ trim path else by_command)
         | None \<Rightarrow> by_command)"

definition parseToolArgs :: "jsval \<Rightarrow> jsval" where
  "parseToolArgs raw =
     (case raw of
        JObj kvs \<Rightarrow> JObj kvs
      | JStr s \<Rightarrow>
          (case json_parse s of
             Some (JObj kvs) \<Rightarrow> JObj kvs
           | _ \<Rightarrow> JObj [(''raw'', JStr s)])
      | _ \<Rightarrow> JObj [])"

text \<open>\<open>Math.max(newContent.split("\n").length, 1)\<close>.\<close>

definition line_count :: "string \<Rightarrow> jsval" where
  "line_count s = JNum (int (max (length (split_on (char_of (10::nat)) s)) 1))"

definition maybeDiffFromArgs :: "jsval \<Rightarrow> DiffData option" where
  "maybeDiffFromArgs args =
     (case as_string (path_arg args) of
        None \<Rightarrow> None
      | Some path \<Rightarrow>
          (if trim path = [] then None
           else
             (let oldContent = jnullish (get_prop args ''old_string'') (get_prop args ''original_content'');
                  newC = jnullish (get_prop args ''new_string'')
                           (jnullish (get_prop args ''content'') (get_prop args ''new_content''))
              in case as_string newC of
                   None \<Rightarrow> None
                 | Some new \<Rightarrow>
                     (let original = as_string oldContent in
                      Some \<lparr>originalContent = original, newContent = new, filePath = trim path,
                            isNewFile = (original = None), isBinary = False, isTruncated = False,
                            totalLines = line_count new\<rparr>))))"

text \<open>Of several text chunks only the last one stays; every other chunk keeps its place.\<close>

definition text_indices :: "Chunk list \<Rightarrow> nat list" where
  "text_indices chunks = filter (\<lambda>i. chunk_kind (chunks ! i) = KText) [0..<length chunks]"

definition mergeTextChunks :: "Chunk list \<Rightarrow> Chunk list" where
  "mergeTextChunks chunks =
     (let textIndices = text_indices chunks in
      if length textIndices \<le> 1 then chunks
      else (let lastText = last textIndices in
            map snd (filter (\<lambda>(i, c). chunk_kind c \<noteq> KText \<or> i = lastText)
                       (zip [0..<length chunks] chunks))))"

section \<open>Reading one message\<close>

definition messageTimestamp :: "string \<Rightarrow> BaseMessage \<Rightarrow> string" where
  "messageTimestamp now raw =
     (case as_string (bm_created_at raw) of
        Some (c # cs) \<Rightarrow> c # cs
      | _ \<Rightarrow>
          (let md = bm_response_metadata raw in
           if js_truthy md \<and> typeof_object md then
             (case as_string (get_prop md ''created_at'') of
                Some (c # cs) \<Rightarrow> c # cs
              | _ \<Rightarrow> now)
           else now))"

fun reasoning_loop :: "string \<Rightarrow> ContentBlock list \<Rightarrow> string" where
  "reasoning_loop text [] = text"
| "reasoning_loop text (b # bs) =
     (if block_type b \<noteq> ''reasoning'' then reasoning_loop text bs
      else (case as_string (block_reasoning b) of
              Some r \<Rightarrow> reasoning_loop (text @ r) bs
            | None \<Rightarrow> reasoning_loop text bs))"

definition reasoningText :: "ContentBlock list option \<Rightarrow> string" where
  "reasoningText blocks = (case blocks of None \<Rightarrow> [] | Some bs \<Rightarrow> trim (reasoning_loop [] bs))"

text \<open>
  \<open>/^data:(image\/[^;]+);base64,(.+)$/s\<close>: the media type runs to the first semicolon after a
  non-empty subtype, and the payload is not empty.
\<close>

definition match_data_url :: "string \<Rightarrow> (string \<times> string) option" where
  "match_data_url url =
     (if \<not> startsWith url ''data:image/'' then None
      else (let rest = drop (length ''data:image/'') url;
                sub = takeWhile (\<lambda>c. c \<noteq> CHR '';'') rest;
                tail = dropWhile (\<lambda>c. c \<noteq> CHR '';'') rest
            in if sub = [] \<or> \<not> startsWith tail '';base64,'' then None
               else (let payload = drop (length '';base64,'') tail in
                     if payload = [] then None else Some (''image/'' @ sub, payload))))"

definition image_source :: "jsval \<Rightarrow> (string \<times> string) option" where
  "image_source block =
     (let type = get_prop block ''type'' in
      if type = JStr ''image'' then
        (case (as_string (jnullish (get_prop block ''data'') (get_prop block ''base64'')),
               as_string (jnullish (get_prop block ''mime_type'') (get_prop block ''mimeType''))) of
           (Some data, Some mime) \<Rightarrow> Some (data, mime)
         | _ \<Rightarrow> None)
      else if type = JStr ''image_url'' then
        (let imageUrl = get_prop block ''image_url'';
             url = (if js_truthy imageUrl \<and> typeof_object imageUrl
                    then get_prop imageUrl ''url'' else JUndefined)
         in case as_string url of
              Some u \<Rightarrow> map_option (\<lambda>(mime, data). (data, mime)) (match_data_url u)
            | None \<Rightarrow> None)
      else None)"

definition image_chunk :: "jsval \<Rightarrow> Chunk list" where
  "image_chunk item =
     (case item of
        JObj kvs \<Rightarrow>
          (case image_source item of
             Some (base64, mimeType) \<Rightarrow>
               (if base64 \<noteq> [] \<and> mimeType \<noteq> [] then
                  (let fileName = jnullish (get_prop item ''fileName'') (get_prop item ''file_name'') in
                   [ImageChunk \<lparr>img_base64 = base64, img_mimeType = mimeType,
                      img_fileName = (case as_string fileName of
                                        Some (c # cs) \<Rightarrow> Some (c # cs) | _ \<Rightarrow> None)\<rparr>])
                else [])
           | None \<Rightarrow> [])
      | _ \<Rightarrow> [])"

definition imageChunks :: "jsval \<Rightarrow> Chunk list" where
  "imageChunks content =
     (case content of JArr items \<Rightarrow> concat (map image_chunk items) | _ \<Rightarrow> [])"

section \<open>Status, output and diff of a tool call\<close>

definition toolStatus :: "AssembledToolCall option \<Rightarrow> ToolMsg option \<Rightarrow> AcpToolStatus" where
  "toolStatus assembled toolMessage =
     (case assembled of
        Some a \<Rightarrow>
          (case atc_status a of
             ACFinished \<Rightarrow> CompletedS | ACError \<Rightarrow> ErrorS | ACRunning \<Rightarrow> InProgressS)
      | None \<Rightarrow>
          (case toolMessage of
             Some m \<Rightarrow> (if tm_status m = ''error'' then ErrorS else CompletedS)
           | None \<Rightarrow> InProgressS))"

definition subagentStatus :: "SubagentDiscoverySnapshot \<Rightarrow> AcpToolStatus" where
  "subagentStatus snapshot =
     (case sub_status snapshot of
        SubComplete \<Rightarrow> CompletedS | SubError \<Rightarrow> ErrorS | SubRunning \<Rightarrow> InProgressS)"

definition nonempty :: "string \<Rightarrow> string option" where
  "nonempty s = (if s = [] then None else Some s)"

definition toolOutputText :: "AssembledToolCall option \<Rightarrow> ToolMsg option \<Rightarrow> string option" where
  "toolOutputText assembled toolMessage =
     (let value = (case assembled of Some a \<Rightarrow> atc_output a | None \<Rightarrow> JUndefined) in
      if \<not> is_nullish value then
        (case as_string value of
           Some s \<Rightarrow> nonempty (trim s)
         | None \<Rightarrow> stringify value)
      else
        (case toolMessage of
           Some m \<Rightarrow> nonempty (trim (tm_text m))
         | None \<Rightarrow> None))"

definition diffFromArtifact :: "jsval \<Rightarrow> DiffData option" where
  "diffFromArtifact artifact =
     (if \<not> js_truthy artifact \<or> \<not> typeof_object artifact then None
      else
        (let candidate = jnullish (get_prop artifact ''diff'')
                           (jnullish (get_prop artifact ''diffData'') artifact)
         in if candidate = JNull \<or> \<not> typeof_object candidate then None
            else
              (case (as_string (get_prop candidate ''filePath''),
                     as_string (get_prop candidate ''newContent'')) of
                 (Some fp, Some nc) \<Rightarrow>
                   (let oc = as_string (get_prop candidate ''originalContent'');
                        tl = get_prop candidate ''totalLines''
                    in Some
                      \<lparr>originalContent = oc, newContent = nc, filePath = trim fp,
                       isNewFile = nullish (as_bool (get_prop candidate ''isNewFile'')) (oc = None),
                       isBinary = nullish (as_bool (get_prop candidate ''isBinary'')) False,
                       isTruncated = nullish (as_bool (get_prop candidate ''isTruncated'')) False,
                       totalLines = (case tl of JNum n \<Rightarrow> JNum n | JDec d \<Rightarrow> JDec d
                                     | _ \<Rightarrow> line_count nc)\<rparr>)
               | _ \<Rightarrow> None)))"

section \<open>The transcript\<close>

text \<open>The three indexes the conversion builds first.\<close>

record stream_index =
  ix_calls :: "(string, AssembledToolCall) js_map"
  ix_subagents :: "(string, SubagentDiscoverySnapshot) js_map"
  ix_results :: "(string, ToolMsg) js_map"

text \<open>\<open>a || b\<close> on optional strings: the empty string is falsy.\<close>

definition str_or :: "string option \<Rightarrow> string option \<Rightarrow> string option" where
  "str_or a b = (if truthy_str a then a else b)"

definition assembled_key :: "AssembledToolCall \<Rightarrow> string option" where
  "assembled_key t = Option.bind (str_or (atc_id t) (atc_callId t)) nonempty"

definition subagent_key :: "SubagentDiscoverySnapshot \<Rightarrow> string option" where
  "subagent_key s = nonempty (sub_id s)"

fun tool_msg_of :: "BaseMessage \<Rightarrow> ToolMsg option" where
  "tool_msg_of m = (case bm_body m of ToolResult t \<Rightarrow> Some t | _ \<Rightarrow> None)"

definition tool_msgs :: "BaseMessage list \<Rightarrow> ToolMsg list" where
  "tool_msgs messages = List.map_filter tool_msg_of messages"

definition result_key :: "ToolMsg \<Rightarrow> string option" where
  "result_key t = as_string (tm_tool_call_id t)"

definition build_index ::
  "BaseMessage list \<Rightarrow> AssembledToolCall list \<Rightarrow> SubagentDiscoverySnapshot list \<Rightarrow> stream_index" where
  "build_index messages toolCalls subagents =
     \<lparr>ix_calls = index_by assembled_key toolCalls [],
      ix_subagents = index_by subagent_key subagents [],
      ix_results = index_by result_key (tool_msgs messages) []\<rparr>"

definition call_name_of :: "ToolCall \<Rightarrow> string" where
  "call_name_of tc = (if call_name tc = [] then ''tool'' else call_name tc)"

definition call_id_of :: "nat \<Rightarrow> nat \<Rightarrow> ToolCall \<Rightarrow> string" where
  "call_id_of index pos tc =
     (case call_id tc of
        Some (c # cs) \<Rightarrow> c # cs
      | _ \<Rightarrow> ''tool-'' @ nat_str index @ ''-'' @ nat_str pos)"

text \<open>The body of the loop over \<open>raw.tool_calls\<close> for one call shown with id \<open>tcid\<close>.\<close>

definition tool_chunk :: "stream_index \<Rightarrow> string \<Rightarrow> ToolCall \<Rightarrow> ToolExecutionChunk" where
  "tool_chunk ix tcid tc =
     (let name = call_name_of tc;
          args = parseToolArgs (call_args tc);
          assembled = map_get (ix_calls ix) tcid;
          toolMessage = map_get (ix_results ix) tcid;
          chunk = bare_tool_chunk tcid (toolTitle name args) (toolKind name) (Some args)
                    (toolStatus assembled toolMessage);
          output = toolOutputText assembled toolMessage;
          chunk1 = (if truthy_str output then chunk\<lparr>tc_output := output\<rparr> else chunk);
          artifact = (case toolMessage of Some m \<Rightarrow> tm_artifact m | None \<Rightarrow> JUndefined);
          diffData = nullish_opt (diffFromArtifact artifact) (maybeDiffFromArgs args);
          chunk2 = (case diffData of Some d \<Rightarrow> chunk1\<lparr>tc_diffData := Some d\<rparr> | None \<Rightarrow> chunk1)
      in case map_get (ix_subagents ix) tcid of
           Some subagent \<Rightarrow>
             chunk2\<lparr>tc_subagentNamespace := Some (sub_namespace subagent),
                    tc_status := subagentStatus subagent\<rparr>
         | None \<Rightarrow> chunk2)"

fun tool_calls_loop :: "stream_index \<Rightarrow> nat \<Rightarrow> Chunk list \<Rightarrow> ToolCall list \<Rightarrow> Chunk list" where
  "tool_calls_loop ix index chunks [] = chunks"
| "tool_calls_loop ix index chunks (tc # tcs) =
     (if call_name_of tc \<in> set INTERNAL_TOOLS then tool_calls_loop ix index chunks tcs
      else tool_calls_loop ix index
             (chunks @ [ToolChunk (tool_chunk ix (call_id_of index (length chunks) tc) tc)]) tcs)"

definition ai_head :: "BaseMessage \<Rightarrow> ContentBlock list option \<Rightarrow> Chunk list" where
  "ai_head raw blocks =
     (let reasoning = reasoningText blocks; text = trim (bm_text raw) in
      (if reasoning \<noteq> [] then [ReasoningChunk reasoning] else [])
      @ (if text \<noteq> [] then [TextChunk text] else []))"

definition ai_chunks ::
  "stream_index \<Rightarrow> nat \<Rightarrow> BaseMessage \<Rightarrow> ToolCall list option \<Rightarrow> ContentBlock list option \<Rightarrow> Chunk list" where
  "ai_chunks ix index raw calls blocks =
     tool_calls_loop ix index (ai_head raw blocks) (nullish calls [])"

definition human_chunks :: "BaseMessage \<Rightarrow> jsval \<Rightarrow> Chunk list" where
  "human_chunks raw content =
     imageChunks content
     @ (let text = trim (bm_text raw) in if text \<noteq> [] then [TextChunk text] else [])"

definition message_id :: "nat \<Rightarrow> BaseMessage \<Rightarrow> string" where
  "message_id index raw =
     (case as_string (bm_id raw) of
        Some (c # cs) \<Rightarrow> c # cs
      | _ \<Rightarrow> ''msg-'' @ nat_str index)"

text \<open>The state of the loop over the messages: what is shown so far and the open agent turn.\<close>

record AgentTurn =
  turn_id :: string
  turn_timestamp :: string
  turn_chunks :: "Chunk list"

record transcript =
  uiMessages :: "Message list"
  agentTurn :: "AgentTurn option"

definition turn_message :: "AgentTurn \<Rightarrow> Message" where
  "turn_message t =
     \<lparr>msg_id = turn_id t, msg_author = AgentAuthor, msg_timestamp = turn_timestamp t,
      msg_chunks = mergeTextChunks (turn_chunks t), msg_hidden = None\<rparr>"

definition flushAgentTurn :: "transcript \<Rightarrow> transcript" where
  "flushAgentTurn s =
     (case agentTurn s of
        None \<Rightarrow> s
      | Some t \<Rightarrow> s\<lparr>uiMessages := uiMessages s @ [turn_message t], agentTurn := None\<rparr>)"

definition appendAgentChunks :: "string \<Rightarrow> string \<Rightarrow> Chunk list \<Rightarrow> transcript \<Rightarrow> transcript" where
  "appendAgentChunks mid ts chunks s =
     (case agentTurn s of
        None \<Rightarrow> s\<lparr>agentTurn := Some \<lparr>turn_id = mid, turn_timestamp = ts, turn_chunks = chunks\<rparr>\<rparr>
      | Some t \<Rightarrow>
          s\<lparr>agentTurn := Some (t\<lparr>turn_timestamp := ts, turn_chunks := turn_chunks t @ chunks\<rparr>)\<rparr>)"

definition on_message :: "(nat \<Rightarrow> string) \<Rightarrow> stream_index \<Rightarrow> nat \<Rightarrow> BaseMessage \<Rightarrow> transcript \<Rightarrow> transcript" where
  "on_message now ix index raw s =
     (let msgId = message_id index raw; timestamp = messageTimestamp (now index) raw in
      case bm_body raw of
        Human content \<Rightarrow>
          (let s1 = flushAgentTurn s; chunks = human_chunks raw content in
           if chunks = [] then s1
           else s1\<lparr>uiMessages := uiMessages s1 @
                  [\<lparr>msg_id = msgId, msg_author = UserAuthor, msg_timestamp = timestamp,
                    msg_chunks = chunks, msg_hidden = None\<rparr>]\<rparr>)
      | AI calls blocks \<Rightarrow>
          (let chunks = ai_chunks ix index raw calls blocks in
           if chunks \<noteq> [] then appendAgentChunks msgId timestamp chunks s else s)
      | _ \<Rightarrow> s)"

fun messages_loop :: "(nat \<Rightarrow> string) \<Rightarrow> stream_index \<Rightarrow> nat \<Rightarrow> BaseMessage list \<Rightarrow> transcript \<Rightarrow> transcript" where
  "messages_loop now ix index [] s = s"
| "messages_loop now ix index (m # ms) s =
     messages_loop now ix (Suc index) ms (on_message now ix index m s)"

definition streamMessagesToUi ::
  "(nat \<Rightarrow> string) \<Rightarrow> BaseMessage list \<Rightarrow> AssembledToolCall list \<Rightarrow> SubagentDiscoverySnapshot list \<Rightarrow> Message list" where
  "streamMessagesToUi now messages toolCalls subagents =
     uiMessages (flushAgentTurn
       (messages_loop now (build_index messages toolCalls subagents) 0 messages
          \<lparr>uiMessages = [], agentTurn = None\<rparr>))"

section \<open>Merging the text chunks\<close>

definition is_text :: "Chunk \<Rightarrow> bool" where
  "is_text c = (chunk_kind c = KText)"

lemma is_text_simps [simp]:
  "is_text (TextChunk t)" "\<not> is_text (ReasoningChunk t)" "\<not> is_text (ToolChunk x)"
  "\<not> is_text (ImageChunk i)" "\<not> is_text (CodeChunk t l)" "\<not> is_text (ErrorChunk t)"
  "\<not> is_text (ListChunk ls)" "\<not> is_text (TodoChunk ts)"
  by (simp_all add: is_text_def)

text \<open>The reference: a text chunk followed by another text chunk is dropped.\<close>

fun keep_last_text :: "Chunk list \<Rightarrow> Chunk list" where
  "keep_last_text [] = []"
| "keep_last_text (c # cs) =
     (if is_text c \<and> (\<exists>d \<in> set cs. is_text d) then keep_last_text cs else c # keep_last_text cs)"

lemma text_indices_Nil [simp]: "text_indices [] = []"
  by (simp add: text_indices_def)

lemma text_indices_Cons:
  "text_indices (c # cs) = (if is_text c then [0] else []) @ map Suc (text_indices cs)"
proof -
  have "[0..<length (c # cs)] = 0 # map Suc [0..<length cs]"
    by (simp add: upt_conv_Cons map_Suc_upt del: upt_Suc)
  then show ?thesis by (simp add: text_indices_def is_text_def filter_map comp_def)
qed

lemma text_indices_Nil_iff: "text_indices cs = [] \<longleftrightarrow> (\<forall>d \<in> set cs. \<not> is_text d)"
  by (induction cs) (auto simp: text_indices_Cons)

lemma zip_upt_Cons: "zip [0..<length (c # cs)] (c # cs) = (0, c) # map (apfst Suc) (zip [0..<length cs] cs)"
proof -
  have "[0..<length (c # cs)] = 0 # map Suc [0..<length cs]"
    by (simp add: upt_conv_Cons map_Suc_upt del: upt_Suc)
  then show ?thesis by (simp add: zip_map1 apfst_def map_prod_def)
qed

lemma keep_last_text_no_text: "\<forall>d \<in> set cs. \<not> is_text d \<Longrightarrow> keep_last_text cs = cs"
  by (induction cs) auto

lemma filter_index_none:
  "\<forall>d \<in> set cs. \<not> is_text d \<Longrightarrow>
   map snd (filter (\<lambda>(i, c). chunk_kind c \<noteq> KText \<or> P i) (zip is cs)) = map snd (zip is cs)"
  by (induction "is" cs rule: list_induct2') (auto simp: is_text_def)

lemma filter_last_index:
  "text_indices cs \<noteq> [] \<Longrightarrow>
   map snd (filter (\<lambda>(i, c). chunk_kind c \<noteq> KText \<or> i = last (text_indices cs))
              (zip [0..<length cs] cs)) = keep_last_text cs"
proof (induction cs)
  case (Cons c cs)
  let ?z = "zip [0..<length cs] cs"
  show ?case
  proof (cases "text_indices cs = []")
    case True
    then have none: "\<forall>d \<in> set cs. \<not> is_text d" by (simp add: text_indices_Nil_iff)
    with Cons.prems True have c: "is_text c" by (auto simp: text_indices_Cons split: if_splits)
    have "map snd (filter (\<lambda>(i, d). chunk_kind d \<noteq> KText \<or> i = 0) (map (apfst Suc) ?z)) = cs"
      using filter_index_none [OF none, of "\<lambda>i. Suc i = 0" "[0..<length cs]"]
      by (simp add: filter_map comp_def case_prod_unfold)
    with True c none show ?thesis
      by (simp only: zip_upt_Cons) (simp add: text_indices_Cons keep_last_text_no_text)
  next
    case False
    then have some: "\<exists>d \<in> set cs. is_text d" by (simp add: text_indices_Nil_iff)
    have l: "last (text_indices (c # cs)) = Suc (last (text_indices cs))"
      using False by (simp add: text_indices_Cons last_map)
    have "map snd (filter (\<lambda>(i, d). chunk_kind d \<noteq> KText \<or> i = Suc (last (text_indices cs)))
            (map (apfst Suc) ?z)) = keep_last_text cs"
      using Cons.IH [OF False] by (simp add: filter_map comp_def case_prod_unfold)
    with some show ?thesis
      by (simp only: zip_upt_Cons l) (simp add: is_text_def)
  qed
qed simp

lemma mergeTextChunks_keep: "mergeTextChunks cs = keep_last_text cs"
proof (cases "length (text_indices cs) \<le> 1")
  case True
  have "length (text_indices cs) \<le> 1 \<Longrightarrow> keep_last_text cs = cs"
    by (induction cs) (auto simp: text_indices_Cons text_indices_Nil_iff le_Suc_eq split: if_splits)
  with True show ?thesis by (simp add: mergeTextChunks_def)
next
  case False
  then have "text_indices cs \<noteq> []" by auto
  with False filter_last_index [of cs] show ?thesis by (simp add: mergeTextChunks_def)
qed

lemma texts_of_Nil_iff: "texts_of cs = [] \<longleftrightarrow> (\<forall>d \<in> set cs. \<not> is_text d)"
  by (induction cs rule: texts_of.induct) auto

lemma texts_of_Cons: "texts_of (c # cs) = (case c of TextChunk t \<Rightarrow> [t] | _ \<Rightarrow> []) @ texts_of cs"
  by (cases c) auto

lemma texts_of_keep: "texts_of (keep_last_text cs) = (if texts_of cs = [] then [] else [last (texts_of cs)])"
proof (induction cs)
  case (Cons c cs)
  then show ?case
    by (cases c) (auto simp: texts_of_Nil_iff texts_of_Cons)
qed simp

lemma filter_nontext_keep: "filter (\<lambda>c. \<not> is_text c) (keep_last_text cs) = filter (\<lambda>c. \<not> is_text c) cs"
  by (induction cs) auto

lemma tools_of_keep [simp]: "tools_of (keep_last_text cs) = tools_of cs"
proof (induction cs)
  case (Cons c cs)
  then show ?case by (cases c) auto
qed simp

lemma keep_last_text_Nil_iff [simp]: "keep_last_text cs = [] \<longleftrightarrow> cs = []"
  by (induction cs) auto

section \<open>The transcript against a reference by segments\<close>

text \<open>
  The reference cuts the message list at the human messages. Each segment in between gives at most
  one agent message: its identifier is that of the first message of the segment with something to
  show, its timestamp that of the last one, its chunks all of theirs, text merged.
\<close>

definition is_human :: "nat \<times> BaseMessage \<Rightarrow> bool" where
  "is_human im = (case bm_body (snd im) of Human _ \<Rightarrow> True | _ \<Rightarrow> False)"

definition agent_entry ::
  "(nat \<Rightarrow> string) \<Rightarrow> stream_index \<Rightarrow> nat \<times> BaseMessage \<Rightarrow> (string \<times> string \<times> Chunk list) list" where
  "agent_entry now ix im =
     (case bm_body (snd im) of
        AI calls blocks \<Rightarrow>
          (let chunks = ai_chunks ix (fst im) (snd im) calls blocks in
           if chunks = [] then []
           else [(message_id (fst im) (snd im), messageTimestamp (now (fst im)) (snd im), chunks)])
      | _ \<Rightarrow> [])"

definition open_turn :: "(string \<times> string \<times> Chunk list) list \<Rightarrow> AgentTurn option" where
  "open_turn es =
     (if es = [] then None
      else Some \<lparr>turn_id = fst (hd es), turn_timestamp = fst (snd (last es)),
                 turn_chunks = concat (map (snd \<circ> snd) es)\<rparr>)"

definition segment_message :: "(string \<times> string \<times> Chunk list) list \<Rightarrow> Message list" where
  "segment_message es = (case open_turn es of None \<Rightarrow> [] | Some t \<Rightarrow> [turn_message t])"

definition user_message :: "(nat \<Rightarrow> string) \<Rightarrow> nat \<times> BaseMessage \<Rightarrow> Message list" where
  "user_message now im =
     (case bm_body (snd im) of
        Human content \<Rightarrow>
          (if human_chunks (snd im) content = [] then []
           else [\<lparr>msg_id = message_id (fst im) (snd im), msg_author = UserAuthor,
                   msg_timestamp = messageTimestamp (now (fst im)) (snd im),
                   msg_chunks = human_chunks (snd im) content, msg_hidden = None\<rparr>])
      | _ \<Rightarrow> [])"

function ref_transcript :: "(nat \<Rightarrow> string) \<Rightarrow> stream_index \<Rightarrow> (nat \<times> BaseMessage) list \<Rightarrow> Message list" where
  "ref_transcript now ix ims =
     segment_message (concat (map (agent_entry now ix) (takeWhile (\<lambda>im. \<not> is_human im) ims)))
     @ (case dropWhile (\<lambda>im. \<not> is_human im) ims of
          [] \<Rightarrow> []
        | h # rest \<Rightarrow> user_message now h @ ref_transcript now ix rest)"
  by pat_completeness auto
termination
proof (relation "measure (\<lambda>(now, ix, ims). length ims)", goal_cases)
  case (2 now ix ims h rest)
  have "length (dropWhile (\<lambda>im. \<not> is_human im) ims) \<le> length ims" by (rule length_dropWhile_le)
  with 2 show ?case by simp
qed simp

declare ref_transcript.simps [simp del]

text \<open>The same with the open segment as an accumulator, as the loop has it.\<close>

fun acc_transcript ::
  "(nat \<Rightarrow> string) \<Rightarrow> stream_index \<Rightarrow> (string \<times> string \<times> Chunk list) list \<Rightarrow> (nat \<times> BaseMessage) list \<Rightarrow> Message list" where
  "acc_transcript now ix es [] = segment_message es"
| "acc_transcript now ix es (im # ims) =
     (if is_human im then segment_message es @ user_message now im @ acc_transcript now ix [] ims
      else acc_transcript now ix (es @ agent_entry now ix im) ims)"

lemma acc_transcript_segments:
  "acc_transcript now ix es ims =
     segment_message (es @ concat (map (agent_entry now ix) (takeWhile (\<lambda>im. \<not> is_human im) ims)))
     @ (case dropWhile (\<lambda>im. \<not> is_human im) ims of
          [] \<Rightarrow> []
        | h # rest \<Rightarrow> user_message now h @ acc_transcript now ix [] rest)"
  by (induction ims arbitrary: es) auto

lemma acc_transcript_ref: "acc_transcript now ix [] ims = ref_transcript now ix ims"
proof (induction "length ims" arbitrary: ims rule: less_induct)
  case less
  show ?case
  proof (cases "dropWhile (\<lambda>im. \<not> is_human im) ims")
    case Nil
    then show ?thesis
      by (subst acc_transcript_segments, subst ref_transcript.simps)
         (simp del: dropWhile_eq_Nil_conv)
  next
    case (Cons h rest)
    then have "length rest < length ims"
      using length_dropWhile_le [of "\<lambda>im. \<not> is_human im" ims] by simp
    with less Cons show ?thesis
      by (subst acc_transcript_segments, subst ref_transcript.simps) simp
  qed
qed

lemma flush_uiMessages:
  "agentTurn s = open_turn es \<Longrightarrow>
   flushAgentTurn s = \<lparr>uiMessages = uiMessages s @ segment_message es, agentTurn = None\<rparr>"
  by (cases s) (auto simp: flushAgentTurn_def segment_message_def split: option.splits)

lemma append_open_turn:
  "agentTurn s = open_turn es \<Longrightarrow>
   appendAgentChunks mid ts cs s = s\<lparr>agentTurn := open_turn (es @ [(mid, ts, cs)])\<rparr>"
  by (auto simp: appendAgentChunks_def open_turn_def)

lemma on_message_human:
  assumes "agentTurn s = open_turn es" and "is_human (i, m)"
  shows "on_message now ix i m s =
     \<lparr>uiMessages = uiMessages s @ segment_message es @ user_message now (i, m), agentTurn = None\<rparr>"
  using assms
  by (auto simp: on_message_def is_human_def user_message_def flush_uiMessages
      split: MessageBody.splits)

lemma on_message_agent:
  assumes "agentTurn s = open_turn es" and "\<not> is_human (i, m)"
  shows "on_message now ix i m s = s\<lparr>agentTurn := open_turn (es @ agent_entry now ix (i, m))\<rparr>"
  using assms
  by (cases s) (auto simp: on_message_def is_human_def agent_entry_def append_open_turn Let_def
      split: MessageBody.splits)

lemma messages_loop_acc:
  "agentTurn s = open_turn es \<Longrightarrow>
   uiMessages (flushAgentTurn (messages_loop now ix i ms s)) =
     uiMessages s @ acc_transcript now ix es (enumerate i ms)"
proof (induction ms arbitrary: i s es)
  case Nil
  then show ?case by (simp add: flush_uiMessages)
next
  case (Cons m ms)
  show ?case
  proof (cases "is_human (i, m)")
    case True
    have "agentTurn (on_message now ix i m s) = open_turn []"
      by (simp add: on_message_human [OF Cons.prems True] open_turn_def)
    from Cons.IH [OF this] True show ?thesis
      by (simp add: on_message_human [OF Cons.prems True])
  next
    case False
    have "agentTurn (on_message now ix i m s) = open_turn (es @ agent_entry now ix (i, m))"
      by (simp add: on_message_agent [OF Cons.prems False])
    from Cons.IH [OF this] False show ?thesis
      by (simp add: on_message_agent [OF Cons.prems False])
  qed
qed

lemma streamMessagesToUi_acc:
  "streamMessagesToUi now ms calls subs =
     acc_transcript now (build_index ms calls subs) [] (enumerate 0 ms)"
  unfolding streamMessagesToUi_def
  by (subst messages_loop_acc [where es = "[]"]) (simp_all add: open_turn_def)

subsection \<open>Facts on the reference\<close>

lemma segment_message_simps [simp]:
  "segment_message [] = []"
  "es \<noteq> [] \<Longrightarrow> segment_message es =
     [\<lparr>msg_id = fst (hd es), msg_author = AgentAuthor, msg_timestamp = fst (snd (last es)),
       msg_chunks = mergeTextChunks (concat (map (snd \<circ> snd) es)), msg_hidden = None\<rparr>]"
  by (simp_all add: segment_message_def open_turn_def turn_message_def)

lemma agent_entry_chunks: "e \<in> set (agent_entry now ix im) \<Longrightarrow> snd (snd e) \<noteq> []"
  by (auto simp: agent_entry_def Let_def split: MessageBody.splits if_splits)

lemma user_message_props:
  "m \<in> set (user_message now im) \<Longrightarrow> msg_author m = UserAuthor \<and> msg_chunks m \<noteq> [] \<and> msg_hidden m = None"
  by (auto simp: user_message_def split: MessageBody.splits if_splits)

lemma segment_message_props:
  "m \<in> set (segment_message es) \<Longrightarrow> (\<And>e. e \<in> set es \<Longrightarrow> snd (snd e) \<noteq> []) \<Longrightarrow>
   msg_author m = AgentAuthor \<and> msg_chunks m \<noteq> [] \<and> length (texts_of (msg_chunks m)) \<le> 1
   \<and> msg_hidden m = None"
proof (cases es)
  case (Cons e es')
  assume "m \<in> set (segment_message es)" and "\<And>e. e \<in> set es \<Longrightarrow> snd (snd e) \<noteq> []"
  with Cons have "snd (snd e) \<noteq> []"
    and "m = \<lparr>msg_id = fst e, msg_author = AgentAuthor, msg_timestamp = fst (snd (last es)),
              msg_chunks = keep_last_text (snd (snd e) @ concat (map (snd \<circ> snd) es')), msg_hidden = None\<rparr>"
    by (auto simp: mergeTextChunks_keep)
  then show ?thesis by (simp add: texts_of_keep)
qed simp

definition well_shown :: "Message \<Rightarrow> bool" where
  "well_shown m \<longleftrightarrow>
     msg_chunks m \<noteq> [] \<and> msg_hidden m = None
     \<and> (msg_author m = UserAuthor
        \<or> msg_author m = AgentAuthor \<and> length (texts_of (msg_chunks m)) \<le> 1)"

lemma acc_transcript_well_shown:
  "(\<And>e. e \<in> set es \<Longrightarrow> snd (snd e) \<noteq> []) \<Longrightarrow>
   m \<in> set (acc_transcript now ix es ims) \<Longrightarrow> well_shown m"
proof (induction ims arbitrary: es)
  case Nil
  then show ?case using segment_message_props [of m es] by (auto simp: well_shown_def)
next
  case (Cons im ims)
  show ?case
  proof (cases "is_human im")
    case True
    with Cons.prems(2) consider "m \<in> set (segment_message es)" | "m \<in> set (user_message now im)"
      | "m \<in> set (acc_transcript now ix [] ims)" by auto
    then show ?thesis
    proof cases
      case 1
      with Cons.prems(1) show ?thesis using segment_message_props [of m es] by (auto simp: well_shown_def)
    next
      case 2
      then show ?thesis using user_message_props by (auto simp: well_shown_def)
    next
      case 3
      then show ?thesis using Cons.IH [of "[]"] by simp
    qed
  next
    case False
    with Cons.prems have "m \<in> set (acc_transcript now ix (es @ agent_entry now ix im) ims)" by simp
    moreover have "snd (snd e) \<noteq> []" if "e \<in> set (es @ agent_entry now ix im)" for e
      using that Cons.prems(1) agent_entry_chunks by (metis Un_iff set_append)
    ultimately show ?thesis by (rule Cons.IH [rotated])
  qed
qed

section \<open>The tool calls of the transcript\<close>

lemma tools_of_ai_head [simp]: "tools_of (ai_head raw blocks) = []"
  by (simp add: ai_head_def Let_def)

lemma tools_of_map_filter_images [simp]: "tools_of (image_chunk item) = []"
  by (auto simp: image_chunk_def Let_def split: jsval.splits option.splits)

lemma tools_of_human_chunks [simp]: "tools_of (human_chunks raw content) = []"
proof -
  have "tools_of (concat (map image_chunk items)) = []" for items
    by (induction items) auto
  then show ?thesis
    by (auto simp: human_chunks_def imageChunks_def Let_def split: jsval.splits)
qed

definition entry_tools :: "(string \<times> string \<times> Chunk list) list \<Rightarrow> ToolExecutionChunk list" where
  "entry_tools es = concat (map (\<lambda>e. tools_of (snd (snd e))) es)"

definition message_tools :: "stream_index \<Rightarrow> nat \<times> BaseMessage \<Rightarrow> ToolExecutionChunk list" where
  "message_tools ix im =
     (case bm_body (snd im) of
        AI calls blocks \<Rightarrow> tools_of (ai_chunks ix (fst im) (snd im) calls blocks)
      | _ \<Rightarrow> [])"

lemma entry_tools_agent_entry [simp]: "entry_tools (agent_entry now ix im) = message_tools ix im"
  by (auto simp: entry_tools_def agent_entry_def message_tools_def Let_def split: MessageBody.splits)

lemma entry_tools_append [simp]:
  "entry_tools [] = []" "entry_tools (es @ es') = entry_tools es @ entry_tools es'"
  by (simp_all add: entry_tools_def)

abbreviation shown_tools :: "Message list \<Rightarrow> ToolExecutionChunk list" where
  "shown_tools ui \<equiv> tools_of (concat (map msg_chunks ui))"

lemma shown_tools_segment [simp]: "shown_tools (segment_message es) = entry_tools es"
  by (cases "es = []")
     (simp_all add: entry_tools_def mergeTextChunks_keep tools_of_concat comp_def)

lemma shown_tools_user [simp]: "shown_tools (user_message now im) = []"
  by (simp add: user_message_def split: MessageBody.splits)

lemma message_tools_human: "is_human im \<Longrightarrow> message_tools ix im = []"
  by (auto simp: is_human_def message_tools_def split: MessageBody.splits)

lemma shown_tools_acc:
  "shown_tools (acc_transcript now ix es ims) = entry_tools es @ concat (map (message_tools ix) ims)"
  by (induction ims arbitrary: es) (auto simp: message_tools_human)

text \<open>The identifiers of the calls a message makes that are not internal, where every call has one.\<close>

definition visible_calls :: "BaseMessage \<Rightarrow> ToolCall list" where
  "visible_calls m =
     (case bm_body m of
        AI (Some calls) blocks \<Rightarrow> filter (\<lambda>tc. call_name_of tc \<notin> set INTERNAL_TOOLS) calls
      | _ \<Rightarrow> [])"

text \<open>
  The same calls with the identifier each is shown under: its own when it is not empty, otherwise one
  made of the index of the message and of the number of chunks before it, the reasoning and the text
  of the message included.
\<close>

definition message_calls :: "nat \<Rightarrow> BaseMessage \<Rightarrow> (string \<times> ToolCall) list" where
  "message_calls i m =
     (case bm_body m of
        AI calls blocks \<Rightarrow>
          map (\<lambda>(n, tc). (call_id_of i n tc, tc))
            (enumerate (length (ai_head m blocks)) (visible_calls m))
      | _ \<Rightarrow> [])"

lemma map_enumerate: "map (\<lambda>(n, x). f x) (enumerate k xs) = map f xs"
  by (induction xs arbitrary: k) simp_all

lemma message_calls_visible [simp]: "map snd (message_calls i m) = visible_calls m"
  by (auto simp: message_calls_def visible_calls_def comp_def case_prod_unfold split: MessageBody.splits)

lemma tool_chunk_id [simp]: "tc_toolCallId (tool_chunk ix tcid tc) = tcid"
  by (simp add: tool_chunk_def Let_def split: option.splits)

lemma tools_of_loop:
  "tools_of (tool_calls_loop ix i cs tcs) =
     tools_of cs
     @ map (\<lambda>(n, tc). tool_chunk ix (call_id_of i n tc) tc)
         (enumerate (length cs) (filter (\<lambda>tc. call_name_of tc \<notin> set INTERNAL_TOOLS) tcs))"
  by (induction tcs arbitrary: cs) simp_all

lemma message_tools_calls:
  "message_tools ix = (\<lambda>im. map (\<lambda>(tcid, tc). tool_chunk ix tcid tc) (message_calls (fst im) (snd im)))"
  by (rule ext, auto simp: message_tools_def message_calls_def visible_calls_def ai_chunks_def tools_of_loop
      ai_head_def Let_def comp_def case_prod_unfold nullish_def split: MessageBody.splits option.splits)

lemma tool_chunk_fields:
  "tc_title (tool_chunk ix tcid tc) = toolTitle (call_name_of tc) (parseToolArgs (call_args tc))
   \<and> tc_toolKind (tool_chunk ix tcid tc) = toolKind (call_name_of tc)
   \<and> tc_input (tool_chunk ix tcid tc) = Some (parseToolArgs (call_args tc))"
  by (simp add: tool_chunk_def bare_tool_chunk_def Let_def split: option.splits)

lemma message_tools_member:
  "t \<in> set (message_tools ix im) \<Longrightarrow> \<exists>tc. t = tool_chunk ix (tc_toolCallId t) tc"
proof -
  have "t \<in> set (tools_of (tool_calls_loop ix i cs tcs)) \<Longrightarrow>
        t \<in> set (tools_of cs) \<or> (\<exists>tcid tc. t = tool_chunk ix tcid tc)" for i cs tcs
    by (induction tcs arbitrary: cs) (fastforce split: if_splits)+
  then show "t \<in> set (message_tools ix im) \<Longrightarrow> \<exists>tc. t = tool_chunk ix (tc_toolCallId t) tc"
    by (force simp: message_tools_def ai_chunks_def split: MessageBody.splits)
qed

lemma tool_chunk_status:
  "tc_status (tool_chunk ix tcid tc) =
     (case map_get (ix_subagents ix) tcid of
        Some s \<Rightarrow> subagentStatus s
      | None \<Rightarrow> toolStatus (map_get (ix_calls ix) tcid) (map_get (ix_results ix) tcid))"
  by (simp add: tool_chunk_def Let_def split: option.splits)

section \<open>Properties\<close>

text \<open>
  C1. The one pass loop of \<open>streamMessagesToUi\<close>, with its mutable open turn, computes the reference
  transcript: the messages are cut at the human messages, each human message with something to show
  is a user message, and each segment between them is at most one agent message, with the identifier
  of its first contributing message, the timestamp of its last one and all their chunks in order.
\<close>

theorem stream_equals_reference:
  "streamMessagesToUi now ms calls subs =
     ref_transcript now (build_index ms calls subs) (enumerate 0 ms)"
  by (simp add: streamMessagesToUi_acc acc_transcript_ref)

text \<open>
  \<open>mergeTextChunks\<close> keeps exactly the last text chunk of a turn (every earlier text is dropped)
  and every chunk of another kind, in order.
\<close>

theorem mergeTextChunks_spec:
  "texts_of (mergeTextChunks cs) = (if texts_of cs = [] then [] else [last (texts_of cs)])
   \<and> filter (\<lambda>c. \<not> is_text c) (mergeTextChunks cs) = filter (\<lambda>c. \<not> is_text c) cs"
  by (simp add: mergeTextChunks_keep texts_of_keep filter_nontext_keep)

text \<open>
  C39. Every message of the transcript has something to show, is not hidden, and is written by the
  user or by the agent; an agent message has at most one text chunk.
\<close>

theorem transcript_well_shown: "list_all well_shown (streamMessagesToUi now ms calls subs)"
  unfolding list_all_iff streamMessagesToUi_acc
  using acc_transcript_well_shown [of "[]"] by simp

text \<open>
  C2. No tool call is lost, repeated or reordered: the tool chunks of the transcript are, in order and
  one each, the chunks of the calls of the messages that are not internal. Each stands under the
  identifier of its call, or under \<open>tool-i-n\<close> where the call has none, with the title, kind and
  arguments of that call.
\<close>

theorem transcript_tool_calls_complete:
  "shown_tools (streamMessagesToUi now ms calls subs) =
     map (\<lambda>(tcid, tc). tool_chunk (build_index ms calls subs) tcid tc)
       (concat (map (\<lambda>(i, m). message_calls i m) (enumerate 0 ms)))
   \<and> map (\<lambda>t. (tc_toolCallId t, tc_title t, tc_toolKind t, tc_input t))
       (shown_tools (streamMessagesToUi now ms calls subs)) =
     map (\<lambda>(tcid, tc). (tcid, toolTitle (call_name_of tc) (parseToolArgs (call_args tc)),
                        toolKind (call_name_of tc), Some (parseToolArgs (call_args tc))))
       (concat (map (\<lambda>(i, m). message_calls i m) (enumerate 0 ms)))
   \<and> map snd (concat (map (\<lambda>(i, m). message_calls i m) (enumerate 0 ms))) =
     concat (map visible_calls ms)"
proof -
  let ?ix = "build_index ms calls subs" and ?cs = "concat (map (\<lambda>(i, m). message_calls i m) (enumerate 0 ms))"
  have t: "shown_tools (streamMessagesToUi now ms calls subs) = map (\<lambda>(tcid, tc). tool_chunk ?ix tcid tc) ?cs"
    by (simp add: streamMessagesToUi_acc shown_tools_acc message_tools_calls map_concat comp_def
        case_prod_unfold)
  have "map snd ?cs = concat (map (\<lambda>(i, m). visible_calls m) (enumerate 0 ms))"
    by (simp add: map_concat comp_def case_prod_unfold)
  then have "map snd ?cs = concat (map visible_calls ms)" by (simp add: map_enumerate)
  with t show ?thesis by (simp add: tool_chunk_fields comp_def case_prod_unfold)
qed

definition sample_ai :: BaseMessage where
  "sample_ai =
     \<lparr>bm_id = JStr ''m1'', bm_created_at = JStr ''t1'', bm_response_metadata = JUndefined,
      bm_text = '' reading '',
      bm_body = AI (Some [\<lparr>call_name = ''read_file'', call_id = Some ''c1'',
                           call_args = JObj [(''path'', JStr ''/a'')]\<rparr>,
                         \<lparr>call_name = ''no_op'', call_id = None, call_args = JNull\<rparr>]) None\<rparr>"

definition sample_result :: BaseMessage where
  "sample_result =
     \<lparr>bm_id = JStr ''m2'', bm_created_at = JUndefined, bm_response_metadata = JUndefined,
      bm_text = ''ok'',
      bm_body = ToolResult \<lparr>tm_tool_call_id = JStr ''c1'', tm_status = ''success'', tm_text = ''ok'',
                            tm_artifact = JUndefined\<rparr>\<rparr>"

text \<open>
  C6. A tool call is shown as completed only on evidence for its identifier: a subagent snapshot that
  is complete, an assembled call that has finished, or a tool result whose status is not an error.
\<close>

theorem completed_needs_evidence:
  assumes "t \<in> set (shown_tools (streamMessagesToUi now ms calls subs))"
    and "tc_status t = CompletedS"
  shows "(\<exists>s \<in> set subs. sub_id s = tc_toolCallId t \<and> sub_status s = SubComplete)
       \<or> (\<exists>a \<in> set calls. assembled_key a = Some (tc_toolCallId t) \<and> atc_status a = ACFinished)
       \<or> (\<exists>r \<in> set (tool_msgs ms). tm_tool_call_id r = JStr (tc_toolCallId t) \<and> tm_status r \<noteq> ''error'')"
proof -
  let ?ix = "build_index ms calls subs"
  from assms(1) obtain im where "t \<in> set (message_tools ?ix im)"
    by (auto simp: streamMessagesToUi_acc shown_tools_acc)
  then obtain tc where "t = tool_chunk ?ix (tc_toolCallId t) tc"
    using message_tools_member by blast
  with assms(2) have st: "(case map_get (ix_subagents ?ix) (tc_toolCallId t) of
        Some s \<Rightarrow> subagentStatus s
      | None \<Rightarrow> toolStatus (map_get (ix_calls ?ix) (tc_toolCallId t))
                          (map_get (ix_results ?ix) (tc_toolCallId t))) = CompletedS"
    by (metis tool_chunk_status)
  note sub = index_by_Some [of subagent_key subs "tc_toolCallId t"]
    and call = index_by_Some [of assembled_key calls "tc_toolCallId t"]
    and res = index_by_Some [of result_key "tool_msgs ms" "tc_toolCallId t"]
  from st show ?thesis
    by (auto simp: build_index_def subagentStatus_def toolStatus_def subagent_key_def nonempty_def
          result_key_def
        dest!: sub call res
        split: option.splits SubagentStatus.splits AssembledStatus.splits if_splits)
qed

theorem completed_needs_evidence_witness:
  "\<exists>t. t \<in> set (shown_tools (streamMessagesToUi (\<lambda>_. ''now'') [sample_ai, sample_result] [] []))
     \<and> tc_status t = CompletedS
     \<and> (\<exists>r \<in> set (tool_msgs [sample_ai, sample_result]).
          tm_tool_call_id r = JStr (tc_toolCallId t) \<and> tm_status r \<noteq> ''error'')"
proof -
  let ?ui = "streamMessagesToUi (\<lambda>_. ''now'') [sample_ai, sample_result] [] []"
  have a: "list_all (\<lambda>t. tc_status t = CompletedS) (shown_tools ?ui)" by code_simp
  have b: "shown_tools ?ui \<noteq> []" by code_simp
  then have t: "hd (shown_tools ?ui) \<in> set (shown_tools ?ui)" by (rule hd_in_set)
  with a have c: "tc_status (hd (shown_tools ?ui)) = CompletedS" by (simp add: list_all_iff)
  from completed_needs_evidence [OF t c] t c show ?thesis by auto
qed

end
