(* ===== verification/Model_Options.thy ===== *)
theory Model_Options
  imports Api_Types
begin

text \<open>
  \<open>lib/agents/provider/useModelOptions.ts\<close>: which model and effort a new run uses, and how a selection
  is shown. The two queries are their data, if loaded, and whether they are loading.
\<close>

record ModelSelection =
  sel_modelId :: string
  sel_effort :: string

record ModelOptionsResult =
  mor_models :: "ModelOption list"
  mor_defaultSelection :: "ModelSelection option"
  mor_isLoading :: bool

definition supports :: "ModelOption list \<Rightarrow> string \<Rightarrow> string \<Rightarrow> bool" where
  "supports models modelId effort = list_ex (\<lambda>m. mo_id m = modelId \<and> effort \<in> set (mo_efforts m)) models"

definition toSupportedSelection ::
  "ModelOption list \<Rightarrow> string option \<Rightarrow> string option \<Rightarrow> ModelSelection option" where
  "toSupportedSelection models modelId effort =
     (if \<not> truthy_str modelId \<or> \<not> truthy_str effort then None
      else if supports models (the modelId) (the effort)
      then Some \<lparr>sel_modelId = the modelId, sel_effort = the effort\<rparr> else None)"

definition useModelOptions ::
  "OptionsPayload option \<Rightarrow> bool \<Rightarrow> Profile option \<Rightarrow> bool \<Rightarrow> ModelOptionsResult" where
  "useModelOptions options optionsLoading profile profileLoading =
     (let models = (case options of Some d \<Rightarrow> op_models d | None \<Rightarrow> []);
          profileSelection = toSupportedSelection models
            (Option.bind profile prof_default_model) (Option.bind profile prof_reasoning_effort);
          teamDefaultSelection = toSupportedSelection models
            (map_option op_default_agent_model options) (map_option op_default_agent_reasoning_effort options);
          firstSelection =
            (case models of [] \<Rightarrow> None
             | m # _ \<Rightarrow> Some \<lparr>sel_modelId = mo_id m, sel_effort = mo_default_effort m\<rparr>);
          defaultSelection =
            (if options \<noteq> None \<and> \<not> profileLoading
             then nullish_opt (nullish_opt profileSelection teamDefaultSelection) firstSelection else None)
      in \<lparr>mor_models = models, mor_defaultSelection = defaultSelection,
          mor_isLoading = (optionsLoading \<or> profileLoading)\<rparr>)"

definition EFFORT_LABELS :: "(string, string) js_map" where
  "EFFORT_LABELS =
     [(''none'', ''None''), (''low'', ''Low''), (''medium'', ''Medium''), (''high'', ''High''),
      (''xhigh'', ''XHigh''), (''max'', ''Max'')]"

definition formatModelSelection :: "ModelOption list \<Rightarrow> ModelSelection option \<Rightarrow> string" where
  "formatModelSelection models selection =
     (case selection of
        None \<Rightarrow> ''Default''
      | Some s \<Rightarrow>
          (let model = find (\<lambda>m. mo_id m = sel_modelId s) models;
               modelLabel = nullish (map_option mo_label model) (sel_modelId s);
               effortLabel = nullish (map_get EFFORT_LABELS (sel_effort s)) (sel_effort s)
           in modelLabel @ '' '' @ effortLabel))"

section \<open>Facts\<close>

text \<open>The options the server sends name a default effort each model has.\<close>

definition options_ok :: "OptionsPayload \<Rightarrow> bool" where
  "options_ok d = list_all (\<lambda>m. mo_default_effort m \<in> set (mo_efforts m)) (op_models d)"

lemma toSupportedSelection_supported:
  "toSupportedSelection models i e = Some s \<Longrightarrow> supports models (sel_modelId s) (sel_effort s)"
  by (auto simp: toSupportedSelection_def split: if_splits)

section \<open>Properties\<close>

text \<open>
  The default of a new run is always one the server supports: once the options are loaded, with
  well-formed options, the selection names a listed model and one of its efforts; the user's own
  choice wins wherever it is supported, and there is a selection whenever a model is listed.
\<close>

theorem default_selection_supported:
  assumes "options_ok d"
  shows "(case mor_defaultSelection (useModelOptions (Some d) ol profile pl) of
       Some s \<Rightarrow> supports (op_models d) (sel_modelId s) (sel_effort s) \<and> \<not> pl
     | None \<Rightarrow> pl \<or> op_models d = [])
   \<and> (toSupportedSelection (op_models d) (Option.bind profile prof_default_model)
        (Option.bind profile prof_reasoning_effort) = Some s \<and> \<not> pl
      \<longrightarrow> mor_defaultSelection (useModelOptions (Some d) ol profile pl) = Some s)"
proof -
  have "op_models d = m # ms \<Longrightarrow> supports (m # ms) (mo_id m) (mo_default_effort m)" for m ms
    using assms by (simp add: options_ok_def supports_def)
  then show ?thesis
    using toSupportedSelection_supported [of "op_models d"]
    by (auto simp: useModelOptions_def nullish_opt_def Let_def split: option.splits list.splits)
qed

definition sample_options :: OptionsPayload where
  "sample_options =
     \<lparr>op_models = [\<lparr>mo_id = ''m1'', mo_label = ''Model 1'', mo_efforts = [''low'', ''high''],
                    mo_default_effort = ''low'', mo_supports_images = True\<rparr>],
      op_default_agent_model = ''gone'', op_default_agent_reasoning_effort = ''low'',
      op_default_agent_subagent_model = ''m1'', op_default_agent_subagent_reasoning_effort = ''low''\<rparr>"

theorem default_selection_supported_witness:
  "case mor_defaultSelection (useModelOptions (Some sample_options) False None False) of
     Some s \<Rightarrow> supports (op_models sample_options) (sel_modelId s) (sel_effort s) | None \<Rightarrow> False"
proof -
  have "options_ok sample_options" by code_simp
  moreover have "op_models sample_options \<noteq> []" by (simp add: sample_options_def)
  ultimately show ?thesis
    using default_selection_supported [of sample_options False False None, THEN conjunct1]
    by (auto split: option.splits)
qed

end
