(* ===== verification/Submit_Message.thy ===== *)
theory Submit_Message
  imports Thread_Queries
begin

text \<open>
  Sending a message: \<open>lib/agents/provider/useSubmitAgentMessage.ts\<close>, and the callbacks of
  \<open>lib/agents/AgentThreadStreamProvider.tsx\<close> that continue the queue when a run completes. The
  results of the requests are arguments; a handler returns the requests it made, in order, with the
  cache operations and events, and its result. The stream library's \<open>submit\<close> is one of the actions.
\<close>

record SendAgentMessageVariables =
  sv_content :: string
  sv_images :: "ImageData list option"
  sv_model_id :: "string option"
  sv_effort :: "string option"

definition image_block :: "ImageData \<Rightarrow> jsval" where
  "image_block img =
     JObj ([(''type'', JStr ''image''), (''base64'', JStr (img_base64 img)), (''mime_type'', JStr (img_mimeType img))]
       @ (if truthy_str (img_fileName img) then [(''file_name'', JStr (the (img_fileName img)))] else []))"

definition text_block :: "string \<Rightarrow> jsval" where
  "text_block text = JObj [(''type'', JStr ''text''), (''text'', JStr text)]"

definition messageContent :: "SendAgentMessageVariables \<Rightarrow> jsval list" where
  "messageContent vars =
     (let text = trim (sv_content vars);
          imageBlocks = map image_block (nullish (sv_images vars) [])
      in imageBlocks @ (if text = [] then [] else [text_block text]))"

datatype action =
    Call AgentsCall
  | StreamSubmit "jsval list" "(string \<times> string) option"
  | Cache cache_op
  | QueuedContinued string
  | Warn js_error

record submit_result =
  sr_queued :: bool
  sr_content :: string
  sr_images :: "ImageData list"

definition queue_request :: "SendAgentMessageVariables \<Rightarrow> ThreadMessageRequest" where
  "queue_request vars =
     \<lparr>tmr_content = sv_content vars, tmr_images = sv_images vars,
      tmr_model_id = Some (sv_model_id vars), tmr_effort = Some (sv_effort vars)\<rparr>"

definition submit_config :: "SendAgentMessageVariables \<Rightarrow> (string \<times> string) option" where
  "submit_config vars =
     (if \<not> truthy_str (sv_model_id vars) \<or> \<not> truthy_str (sv_effort vars) then None
      else Some (the (sv_model_id vars), the (sv_effort vars)))"

definition not_busy :: "js_error \<Rightarrow> bool" where
  "not_busy e = (case e of AgentsApiError status _ \<Rightarrow> status = 409 | _ \<Rightarrow> False)"

text \<open>
  \<open>mutationFn\<close>: \<open>queueRes\<close> is the answer to \<open>queueMessage\<close> and \<open>submitRes\<close> that of
  \<open>stream.submit\<close>, where it is called.
\<close>

definition submit_message ::
  "string \<Rightarrow> bool \<Rightarrow> js_error + jsval \<Rightarrow> js_error + unit \<Rightarrow> SendAgentMessageVariables \<Rightarrow>
   action list \<times> (js_error + submit_result)" where
  "submit_message threadId isLoading queueRes submitRes vars =
     (let queue = Call (QueueMessage threadId (queue_request vars));
          done = (\<lambda>queued. \<lparr>sr_queued = queued, sr_content = sv_content vars, sr_images = nullish (sv_images vars) []\<rparr>)
      in if isLoading then
           (case queueRes of Inl e \<Rightarrow> ([queue], Inl e) | Inr _ \<Rightarrow> ([queue], Inr (done True)))
         else
           (case queueRes of
              Inr _ \<Rightarrow> ([queue], Inr (done True))
            | Inl e \<Rightarrow>
                if \<not> not_busy e then ([queue], Inl e)
                else
                  (let acts = [queue, StreamSubmit (messageContent vars) (submit_config vars)]
                   in case submitRes of Inl e' \<Rightarrow> (acts, Inl e') | Inr _ \<Rightarrow> (acts, Inr (done False)))))"

text \<open>\<open>onSuccess\<close>, on the cached detail of the thread.\<close>

definition submit_onSuccess :: "string \<Rightarrow> AgentThread option \<Rightarrow> AgentThread option \<times> cache_op list" where
  "submit_onSuccess threadId prev =
     (map_option (\<lambda>t. t\<lparr>th_status := Running\<rparr>) prev, [InvalidateQueries threads_key True])"

section \<open>The stream provider\<close>

definition toAbsoluteApiUrl :: "string \<Rightarrow> string \<Rightarrow> string" where
  "toAbsoluteApiUrl origin url =
     (if startsWith url ''http://'' \<or> startsWith url ''https://'' then url
      else origin @ (if startsWith url ''/'' then [] else ''/'') @ url)"

definition onCreated :: "action list" where
  "onCreated = [Cache (InvalidateQueries threads_key True)]"

text \<open>
  The asynchronous part of \<open>onCompleted\<close>: \<open>queued\<close> and \<open>continued\<close> are the answers to the two
  requests.
\<close>

definition continue_queue ::
  "string \<Rightarrow> js_error + QueuedThreadMessagesPayload \<Rightarrow> js_error + ContinueQueuedThreadPayload \<Rightarrow> action list" where
  "continue_queue i queued continued =
     (let warn = (\<lambda>e. if not_busy e then [] else [Warn e]) in
      [Call (GetQueuedMessages i)]
      @ (case queued of
           Inl e \<Rightarrow> warn e
         | Inr q \<Rightarrow>
             if qp_count q > 0 then
               [Call (ContinueQueuedMessages i)]
               @ (case continued of
                    Inl e \<Rightarrow> warn e
                  | Inr c \<Rightarrow>
                      (if cq_status c \<noteq> ContinueDirected then [QueuedContinued i] else [])
                      @ [Cache (InvalidateQueries (detail_key i) False), Cache (InvalidateQueries threads_key True)])
             else []))"

definition onCompleted :: "string option \<Rightarrow> action list \<times> string option" where
  "onCompleted threadId =
     (if truthy_str threadId
      then ([Cache (InvalidateQueries (detail_key (the threadId)) False), Cache (InvalidateQueries threads_key True)], threadId)
      else ([Cache (InvalidateQueries threads_key True)], None))"

text \<open>
  The callback with its asynchronous part: all that the completion of a run does, in order. The first
  request is made before the callback goes on to the list of threads.
\<close>

definition run_completed ::
  "string option \<Rightarrow> js_error + QueuedThreadMessagesPayload \<Rightarrow> js_error + ContinueQueuedThreadPayload \<Rightarrow> action list" where
  "run_completed threadId queued continued =
     (if truthy_str threadId
      then (let rest = continue_queue (the threadId) queued continued in
            [Cache (InvalidateQueries (detail_key (the threadId)) False), hd rest, Cache (InvalidateQueries threads_key True)]
            @ tl rest)
      else [Cache (InvalidateQueries threads_key True)])"

section \<open>Facts\<close>

definition starts_run :: "action \<Rightarrow> bool" where
  "starts_run a = (case a of StreamSubmit _ _ \<Rightarrow> True | _ \<Rightarrow> False)"

definition queue_calls :: "action list \<Rightarrow> action list" where
  "queue_calls as = filter (\<lambda>a. case a of Call (QueueMessage _ _) \<Rightarrow> True | _ \<Rightarrow> False) as"

section \<open>Properties\<close>

text \<open>
  C3. A message is delivered once, and a run is never started beside a running one: every send first
  posts the message to the thread's queue, exactly once. A run is started only when the view is idle
  and the server answered 409, at most once, after that answer; a send succeeds as queued exactly
  when the server took the message, and as a run exactly when the run was started; every other
  error is thrown with no run started.
\<close>

theorem submit_once:
  "case submit_message threadId isLoading queueRes submitRes vars of (as, r) \<Rightarrow>
     queue_calls as = [Call (QueueMessage threadId (queue_request vars))]
     \<and> hd as = Call (QueueMessage threadId (queue_request vars))
     \<and> length (filter starts_run as) = (if \<not> isLoading \<and> (\<exists>msg. queueRes = Inl (AgentsApiError 409 msg)) then 1 else 0)
     \<and> (\<exists>res. r = Inr res \<and> sr_queued res) = (\<exists>v. queueRes = Inr v)
     \<and> (\<exists>res. r = Inr res \<and> \<not> sr_queued res) =
         (\<not> isLoading \<and> (\<exists>msg. queueRes = Inl (AgentsApiError 409 msg)) \<and> submitRes = Inr ())
     \<and> (\<exists>e. r = Inl e \<and> \<not> not_busy e \<and> queueRes = Inl e) = (\<exists>e. queueRes = Inl e \<and> \<not> not_busy e)"
  by (cases queueRes)
    (auto simp: submit_message_def queue_calls_def starts_run_def not_busy_def Let_def
      split: sum.splits js_error.splits)

text \<open>
  C25. When a run completes the queue is continued only if it holds messages, with one request, and
  the queue rows are cleared only when the server did not hold the messages back for a directed one;
  a busy thread is silently left alone and every other failure is reported.
\<close>

theorem queue_continuation:
  "(Call (ContinueQueuedMessages i) \<in> set (continue_queue i queued continued)) = (\<exists>q. queued = Inr q \<and> qp_count q > 0)
   \<and> (QueuedContinued j \<in> set (continue_queue i queued continued)) =
       (i = j \<and> (\<exists>q c. queued = Inr q \<and> qp_count q > 0 \<and> continued = Inr c \<and> cq_status c \<noteq> ContinueDirected))
   \<and> (Warn e \<in> set (continue_queue i queued continued)) =
       (\<not> not_busy e \<and> (queued = Inl e \<or> (\<exists>q. queued = Inr q \<and> qp_count q > 0 \<and> continued = Inl e)))
   \<and> length (filter (\<lambda>a. a = Call (ContinueQueuedMessages i)) (continue_queue i queued continued)) \<le> 1"
  by (cases queued; cases continued) (auto simp: continue_queue_def Let_def split: if_splits)

end
