(* ===== verification/Thread_View.thy ===== *)
theory Thread_View
  imports Stream_Messages Model_Options Submit_Message
begin

text \<open>
  \<open>components/agents/AgentThreadView.tsx\<close>: the page of one thread. The state holds the queue rows,
  the optimistic bubbles of directed messages, the interrupt already answered, the model chosen and
  the state of the refresh button. Each effect and each part of a handler between two awaits is a
  function; a handler also returns the requests and cache operations it performs.
\<close>

section \<open>State\<close>

record QueuedFollowUp =
  fu_id :: string
  fu_text :: string
  fu_imageCount :: int

record view_state =
  snapshotting :: bool
  snapshotError :: "string option"
  selection :: "ModelSelection option"
  queuedFollowUps :: "QueuedFollowUp list"
  directedOptimistic :: "Message list"
  resolvedInterruptId :: "string option"

definition init_view :: view_state where
  "init_view =
     \<lparr>snapshotting = False, snapshotError = None, selection = None, queuedFollowUps = [],
      directedOptimistic = [], resolvedInterruptId = None\<rparr>"

text \<open>What the view reads of the stream: transcript, run state, error and pending interrupt.\<close>

datatype stream_error = NoError | ErrorObject string | ErrorString string | OtherTruthy

record interrupt =
  int_id :: "string option"
  int_actions :: "jsval list option"

record stream_view =
  sv_live :: "Message list"
  sv_isLoading :: bool
  sv_isThreadLoading :: bool
  sv_error :: stream_error
  sv_interrupt :: "interrupt option"

fun error_truthy :: "stream_error \<Rightarrow> bool" where
  "error_truthy NoError = False"
| "error_truthy (ErrorObject _) = True"
| "error_truthy (ErrorString s) = (s \<noteq> [])"
| "error_truthy OtherTruthy = True"

definition userMessageText :: "Message \<Rightarrow> string" where
  "userMessageText message = trim (concat (texts_of (msg_chunks message)))"

section \<open>Refreshing the workspace changes\<close>

definition refresh_begin :: "string \<Rightarrow> view_state \<Rightarrow> view_state \<times> action list" where
  "refresh_begin threadId s =
     (s\<lparr>snapshotting := True, snapshotError := None\<rparr>, [Call (SnapshotWorkspace threadId)])"

definition refresh_end :: "string \<Rightarrow> js_error + jsval \<Rightarrow> view_state \<Rightarrow> view_state \<times> action list" where
  "refresh_end threadId res s =
     (case res of
        Inr _ \<Rightarrow>
          (s\<lparr>snapshotting := False\<rparr>,
           [Cache (InvalidateQueries (detail_key threadId) False), Cache (InvalidateQueries threads_key True)])
      | Inl err \<Rightarrow>
          (s\<lparr>snapshotError :=
               Some (case err of AgentsApiError _ message \<Rightarrow> message | _ \<Rightarrow> ''workspace_snapshot_failed''),
             snapshotting := False\<rparr>, []))"

section \<open>Model selection\<close>

definition threadSelection :: "ModelOption list \<Rightarrow> AgentThread \<Rightarrow> ModelSelection option" where
  "threadSelection models thread =
     (if th_model thread = [] \<or> \<not> truthy_str (th_effort thread) then None
      else if \<not> supports models (th_model thread) (nullish (th_effort thread) []) then None
      else Some \<lparr>sel_modelId = th_model thread, sel_effort = the (th_effort thread)\<rparr>)"

definition activeSelection ::
  "ModelOptionsResult \<Rightarrow> AgentThread \<Rightarrow> view_state \<Rightarrow> ModelSelection option" where
  "activeSelection opts thread s =
     nullish_opt (nullish_opt (selection s) (threadSelection (mor_models opts) thread)) (mor_defaultSelection opts)"

section \<open>The transcript shown\<close>

definition user_texts :: "Message list \<Rightarrow> string list" where
  "user_texts ms =
     filter (\<lambda>t. t \<noteq> []) (map userMessageText (filter (\<lambda>m. msg_author m = UserAuthor) ms))"

definition unseen :: "Message list \<Rightarrow> Message list \<Rightarrow> Message list" where
  "unseen ms directed =
     filter (\<lambda>m. msg_id m \<notin> set (map msg_id ms) \<and> userMessageText m \<notin> set (user_texts ms)) directed"

definition base_transcript :: "stream_view \<Rightarrow> AgentThread \<Rightarrow> Message list" where
  "base_transcript stream thread =
     (let live = sv_live stream in
      if length live > 0 then live else if length (th_messages thread) > 0 then th_messages thread else live)"

definition baseMessages :: "stream_view \<Rightarrow> AgentThread \<Rightarrow> view_state \<Rightarrow> Message list" where
  "baseMessages stream thread s =
     (let base = base_transcript stream thread in
      if length (directedOptimistic s) = 0 then base
      else let pending = unseen base (directedOptimistic s)
           in if length pending > 0 then base @ pending else base)"

section \<open>Effects\<close>

text \<open>Prune the optimistic bubbles when the stream changes.\<close>

definition prune_directed :: "stream_view \<Rightarrow> view_state \<Rightarrow> view_state" where
  "prune_directed stream s =
     (let current = directedOptimistic s in
      if length current = 0 then s
      else let next = unseen (sv_live stream) current
           in if length next = length current then s else s\<lparr>directedOptimistic := next\<rparr>)"

text \<open>A change of thread: the first part runs at once, the second when the queue has been loaded.\<close>

definition thread_changed :: "view_state \<Rightarrow> view_state" where
  "thread_changed s = s\<lparr>directedOptimistic := [], resolvedInterruptId := None\<rparr>"

definition follow_up :: "QueuedThreadMessage \<Rightarrow> QueuedFollowUp" where
  "follow_up message =
     \<lparr>fu_id = qm_id message, fu_text = trim (qm_text message), fu_imageCount = qm_image_count message\<rparr>"

definition queue_loaded :: "bool \<Rightarrow> js_error + QueuedThreadMessagesPayload \<Rightarrow> view_state \<Rightarrow> view_state" where
  "queue_loaded cancelled res s =
     (case res of
        Inr queued \<Rightarrow> if cancelled then s else s\<lparr>queuedFollowUps := map follow_up (qp_messages queued)\<rparr>
      | Inl _ \<Rightarrow> s)"

definition refreshQueuedFollowUps :: "js_error + QueuedThreadMessagesPayload \<Rightarrow> view_state \<Rightarrow> view_state" where
  "refreshQueuedFollowUps res s =
     (case res of
        Inr queued \<Rightarrow> s\<lparr>queuedFollowUps := map follow_up (qp_messages queued)\<rparr>
      | Inl _ \<Rightarrow> s)"

text \<open>Rows whose text is already a user message of the transcript are taken off the queue.\<close>

definition drop_committed :: "Message list \<Rightarrow> view_state \<Rightarrow> view_state" where
  "drop_committed base s =
     (let committedUserTexts = user_texts base in
      if committedUserTexts = [] then s
      else let next = filter (\<lambda>f. fu_text f = [] \<or> fu_text f \<notin> set committedUserTexts) (queuedFollowUps s)
           in if length next = length (queuedFollowUps s) then s else s\<lparr>queuedFollowUps := next\<rparr>)"

definition handleQueuedContinuation :: "AgentThread \<Rightarrow> string option \<Rightarrow> view_state \<Rightarrow> view_state" where
  "handleQueuedContinuation thread detailId s =
     (if detailId = Some (th_id thread) then s\<lparr>queuedFollowUps := []\<rparr> else s)"

section \<open>Run state\<close>

definition view_streaming :: "stream_view \<Rightarrow> AgentThread \<Rightarrow> bool" where
  "view_streaming stream thread = (th_status thread = Running \<or> sv_isLoading stream)"

definition settingUpSandbox :: "stream_view \<Rightarrow> AgentThread \<Rightarrow> view_state \<Rightarrow> bool" where
  "settingUpSandbox stream thread s = (sv_isLoading stream \<and> length (baseMessages stream thread s) = 0)"

definition runStopped :: "stream_view \<Rightarrow> AgentThread \<Rightarrow> bool" where
  "runStopped stream thread = (\<not> view_streaming stream thread \<and> th_status thread = Interrupted)"

definition default_run_error :: string where
  "default_run_error = ''El modelo o el sandbox fallaron. Revisa la traza o reintenta.''"

definition runError :: "stream_view \<Rightarrow> AgentThread \<Rightarrow> string option" where
  "runError stream thread =
     (if \<not> view_streaming stream thread \<and> \<not> runStopped stream thread
         \<and> (error_truthy (sv_error stream) \<or> th_status thread = Errored)
      then Some (if truthy_str (th_errorMessage thread) then the (th_errorMessage thread)
                 else case sv_error stream of
                        ErrorObject message \<Rightarrow> message
                      | ErrorString e \<Rightarrow> if e \<noteq> [] then e else default_run_error
                      | _ \<Rightarrow> default_run_error)
      else None)"

definition lastUserText :: "Message list \<Rightarrow> string" where
  "lastUserText base =
     (case find (\<lambda>m. msg_author m = UserAuthor) (rev base) of Some m \<Rightarrow> userMessageText m | None \<Rightarrow> [])"

definition isWorkspaceThread :: "AgentThread \<Rightarrow> bool" where
  "isWorkspaceThread thread = truthy_str (nullish_opt (th_workspaceId thread) (th_workspaceLabel thread))"

definition send_vars :: "ModelSelection option \<Rightarrow> string \<Rightarrow> ImageData list \<Rightarrow> SendAgentMessageVariables" where
  "send_vars sel content images =
     \<lparr>sv_content = content, sv_images = Some images,
      sv_model_id = map_option sel_modelId sel, sv_effort = map_option sel_effort sel\<rparr>"

definition handleRetry ::
  "ModelOptionsResult \<Rightarrow> stream_view \<Rightarrow> AgentThread \<Rightarrow> bool \<Rightarrow> view_state \<Rightarrow> SendAgentMessageVariables option" where
  "handleRetry opts stream thread isPending s =
     (let t = lastUserText (baseMessages stream thread s) in
      if t = [] \<or> view_streaming stream thread \<or> isPending then None
      else Some (send_vars (activeSelection opts thread s) t []))"

section \<open>The approval gate\<close>

definition approvalActions :: "stream_view \<Rightarrow> jsval list" where
  "approvalActions stream = (case sv_interrupt stream of None \<Rightarrow> [] | Some i \<Rightarrow> nullish (int_actions i) [])"

definition currentInterruptId :: "stream_view \<Rightarrow> string option" where
  "currentInterruptId stream = Option.bind (sv_interrupt stream) int_id"

definition showApproval :: "stream_view \<Rightarrow> view_state \<Rightarrow> bool" where
  "showApproval stream s =
     (length (approvalActions stream) > 0 \<and> currentInterruptId stream \<noteq> resolvedInterruptId s)"

definition handleApproval :: "stream_view \<Rightarrow> string \<Rightarrow> Decision \<Rightarrow> view_state \<Rightarrow> view_state \<times> action list" where
  "handleApproval stream threadId type s =
     (let n = length (approvalActions stream);
          cnt = (if n = 0 then 1 else n);
          decisions = replicate cnt type
      in (s\<lparr>resolvedInterruptId := currentInterruptId stream\<rparr>, [Call (ResumeInterrupt threadId decisions)]))"

section \<open>The queue rows\<close>

definition handleClearQueuedFollowUps :: "js_error + jsval \<Rightarrow> view_state \<Rightarrow> view_state" where
  "handleClearQueuedFollowUps res s = (case res of Inr _ \<Rightarrow> s\<lparr>queuedFollowUps := []\<rparr> | Inl _ \<Rightarrow> s)"

definition handleDiscardQueuedFollowUp :: "js_error + QueuedThreadMessagesPayload \<Rightarrow> view_state \<Rightarrow> view_state" where
  "handleDiscardQueuedFollowUp res s =
     (case res of Inr r \<Rightarrow> s\<lparr>queuedFollowUps := map follow_up (qp_messages r)\<rparr> | Inl _ \<Rightarrow> s)"

text \<open>The part of \<open>handleDirectQueuedFollowUp\<close> before the request; \<open>now\<close> is the time as an ISO string.\<close>

definition direct_begin :: "string \<Rightarrow> string \<Rightarrow> view_state \<Rightarrow> view_state" where
  "direct_begin now messageId s =
     (case find (\<lambda>f. fu_id f = messageId) (queuedFollowUps s) of
        None \<Rightarrow> s
      | Some followUp \<Rightarrow>
          if fu_text followUp = [] then s
          else s\<lparr>directedOptimistic :=
                   filter (\<lambda>m. msg_id m \<noteq> messageId) (directedOptimistic s)
                   @ [\<lparr>msg_id = messageId, msg_author = UserAuthor, msg_timestamp = now,
                       msg_chunks = [TextChunk (fu_text followUp)], msg_hidden = None\<rparr>]\<rparr>)"

text \<open>
  The part after it: \<open>res\<close> is the answer, \<open>refreshed\<close> that of the reload it may need. A failed
  reload is caught by the same handler. The second component is the error thrown on, if any.
\<close>

definition direct_failed :: "string \<Rightarrow> js_error \<Rightarrow> view_state \<Rightarrow> view_state \<times> js_error option" where
  "direct_failed messageId e s =
     (s\<lparr>directedOptimistic := filter (\<lambda>m. msg_id m \<noteq> messageId) (directedOptimistic s)\<rparr>,
      if not_busy e then None else Some e)"

definition direct_end ::
  "string \<Rightarrow> js_error + ContinueQueuedThreadPayload \<Rightarrow> js_error + QueuedThreadMessagesPayload \<Rightarrow>
   view_state \<Rightarrow> view_state \<times> js_error option" where
  "direct_end messageId res refreshed s =
     (case res of
        Inr result \<Rightarrow>
          if cq_status result = ContinueStarted \<or> cq_status result = ContinueEmpty then
            (case refreshed of
               Inr _ \<Rightarrow> (refreshQueuedFollowUps refreshed s, None)
             | Inl e \<Rightarrow> direct_failed messageId e s)
          else
            (s\<lparr>queuedFollowUps :=
                 map follow_up (filter (\<lambda>m. qm_id m \<noteq> messageId) (qp_messages (cq_queued result)))\<rparr>, None)
      | Inl e \<Rightarrow> direct_failed messageId e s)"

section \<open>The page\<close>

datatype page_view =
    MessagesPage "Message list" "jsval option" "string option" bool
  | HydratingPage
  | EmptyPage

text \<open>
  What the body of the page shows: the messages with the approval card (its first action), the error
  banner and the note of a stopped run; or one of the two placeholders.
\<close>

definition page_body :: "stream_view \<Rightarrow> AgentThread \<Rightarrow> view_state \<Rightarrow> page_view" where
  "page_body stream thread s =
     (let base = baseMessages stream thread s in
      if length base > 0 then
        MessagesPage base
          (if showApproval stream s then Some (hd (approvalActions stream)) else None)
          (if truthy_str (runError stream thread) then runError stream thread else None) (runStopped stream thread)
      else if sv_isThreadLoading stream then HydratingPage
      else EmptyPage)"

section \<open>Runs of the view\<close>

datatype view_event =
    RefreshBegin string
  | RefreshEnd string "js_error + jsval"
  | Select "ModelSelection option"
  | StreamChanged stream_view
  | ThreadChanged
  | QueueLoaded bool "js_error + QueuedThreadMessagesPayload"
  | QueueRefreshed "js_error + QueuedThreadMessagesPayload"
  | TranscriptChanged "Message list"
  | Continued AgentThread "string option"
  | Approval stream_view string Decision
  | Cleared "js_error + jsval"
  | Discarded "js_error + QueuedThreadMessagesPayload"
  | DirectBegin string string
  | DirectEnd string "js_error + ContinueQueuedThreadPayload" "js_error + QueuedThreadMessagesPayload"

fun view_step :: "view_state \<Rightarrow> view_event \<Rightarrow> view_state" where
  "view_step s (RefreshBegin t) = fst (refresh_begin t s)"
| "view_step s (RefreshEnd t res) = fst (refresh_end t res s)"
| "view_step s (Select sel) = s\<lparr>selection := sel\<rparr>"
| "view_step s (StreamChanged stream) = prune_directed stream s"
| "view_step s ThreadChanged = thread_changed s"
| "view_step s (QueueLoaded cancelled res) = queue_loaded cancelled res s"
| "view_step s (QueueRefreshed res) = refreshQueuedFollowUps res s"
| "view_step s (TranscriptChanged base) = drop_committed base s"
| "view_step s (Continued thread detailId) = handleQueuedContinuation thread detailId s"
| "view_step s (Approval stream t type) = fst (handleApproval stream t type s)"
| "view_step s (Cleared res) = handleClearQueuedFollowUps res s"
| "view_step s (Discarded res) = handleDiscardQueuedFollowUp res s"
| "view_step s (DirectBegin now i) = direct_begin now i s"
| "view_step s (DirectEnd i res refreshed) = fst (direct_end i res refreshed s)"

abbreviation view_run :: "view_event list \<Rightarrow> view_state" where
  "view_run es \<equiv> foldl view_step init_view es"

text \<open>
  The invariant: a queue row shows a trimmed text; the optimistic bubbles are user messages with one
  text chunk that is not blank, under pairwise distinct ids.
\<close>

definition bubble :: "Message \<Rightarrow> bool" where
  "bubble m = (msg_author m = UserAuthor \<and> userMessageText m \<noteq> [] \<and> msg_chunks m = [TextChunk (userMessageText m)])"

definition view_inv :: "view_state \<Rightarrow> bool" where
  "view_inv s =
     (list_all (\<lambda>f. trim (fu_text f) = fu_text f) (queuedFollowUps s)
      \<and> distinct (map msg_id (directedOptimistic s)) \<and> list_all bubble (directedOptimistic s))"

lemma trimmed_follow_ups: "list_all (\<lambda>f. trim (fu_text f) = fu_text f) (map follow_up ms)"
  by (induction ms) (auto simp: follow_up_def)

lemma view_inv_rows:
  "view_inv s \<Longrightarrow> view_inv (s\<lparr>queuedFollowUps := map follow_up ms\<rparr>)"
  "view_inv s \<Longrightarrow> view_inv (s\<lparr>queuedFollowUps := filter P (queuedFollowUps s)\<rparr>)"
  "view_inv s \<Longrightarrow> view_inv (s\<lparr>queuedFollowUps := []\<rparr>)"
  using trimmed_follow_ups [of ms] by (auto simp: view_inv_def list_all_iff)

lemma view_inv_bubbles: "view_inv s \<Longrightarrow> view_inv (s\<lparr>directedOptimistic := filter P (directedOptimistic s)\<rparr>)"
  by (auto simp: view_inv_def list_all_iff distinct_map_filter)

lemma view_inv_direct_begin:
  assumes "view_inv s"
  shows "view_inv (direct_begin now i s)"
proof -
  have "trim (fu_text f) = fu_text f" if "find (\<lambda>f. fu_id f = i) (queuedFollowUps s) = Some f" for f
    using that assms by (auto simp: view_inv_def list_all_iff find_Some_iff)
  then show ?thesis
    using assms
    by (auto simp: direct_begin_def view_inv_def list_all_iff bubble_def userMessageText_def distinct_map_filter
        split: option.splits)
qed

lemma view_inv_step: "view_inv s \<Longrightarrow> view_inv (view_step s e)"
proof (cases e)
  case (DirectEnd i res refreshed)
  assume "view_inv s"
  with DirectEnd show ?thesis
    by (auto simp: direct_end_def direct_failed_def refreshQueuedFollowUps_def view_inv_rows view_inv_bubbles split: sum.splits)
next
  case (StreamChanged stream)
  assume "view_inv s"
  with StreamChanged show ?thesis by (auto simp: prune_directed_def unseen_def Let_def view_inv_bubbles)
next
  case (TranscriptChanged base)
  assume "view_inv s"
  with TranscriptChanged show ?thesis by (auto simp: drop_committed_def Let_def view_inv_rows)
next
  case (RefreshEnd t res)
  assume "view_inv s"
  with RefreshEnd show ?thesis by (auto simp: refresh_end_def view_inv_def split: sum.splits)
qed (auto simp: view_inv_rows view_inv_direct_begin refreshQueuedFollowUps_def queue_loaded_def
    handleClearQueuedFollowUps_def handleDiscardQueuedFollowUp_def handleQueuedContinuation_def split: sum.splits,
    auto simp: view_inv_def refresh_begin_def thread_changed_def handleApproval_def Let_def)

lemma view_inv_run: "view_inv (view_run es)"
proof -
  have "view_inv s \<Longrightarrow> view_inv (foldl view_step s es)" for s
    by (induction es arbitrary: s) (simp_all add: view_inv_step)
  then show ?thesis by (simp add: view_inv_def init_view_def)
qed

lemma drop_committed_rows:
  "queuedFollowUps (drop_committed base s) =
     filter (\<lambda>f. fu_text f = [] \<or> fu_text f \<notin> set (user_texts base)) (queuedFollowUps s)"
proof -
  have "length (filter P xs) = length xs \<Longrightarrow> filter P xs = xs" for P and xs :: "QueuedFollowUp list"
    by (metis filter_id_conv length_filter_less less_irrefl)
  from this [symmetric] show ?thesis by (simp add: drop_committed_def Let_def del: filter_id_conv)
qed

lemma baseMessages_append: "baseMessages stream thread s = base_transcript stream thread @ unseen (base_transcript stream thread) (directedOptimistic s)"
  by (auto simp: baseMessages_def Let_def unseen_def)

section \<open>Properties\<close>

text \<open>
  C7. In every state the view can reach, the page shows the whole transcript, followed only by
  messages the user directed and that it does not hold yet: their ids are new and pairwise distinct,
  their texts are not blank and are not those of user messages of the transcript.
\<close>

theorem transcript_shown:
  "let s = view_run es; base = base_transcript stream thread in
   \<exists>pending. baseMessages stream thread s = base @ pending
     \<and> set pending \<subseteq> set (directedOptimistic s) \<and> list_all bubble pending
     \<and> distinct (map msg_id pending) \<and> set (map msg_id pending) \<inter> set (map msg_id base) = {}
     \<and> set (map userMessageText pending) \<inter> set (user_texts base) = {}"
proof -
  have "view_inv (view_run es)" by (rule view_inv_run)
  then show ?thesis
    unfolding Let_def baseMessages_append
    by (intro exI [of _ "unseen (base_transcript stream thread) (directedOptimistic (view_run es))"])
      (auto simp: unseen_def view_inv_def list_all_iff distinct_map_filter)
qed

text \<open>
  The error that directing a message ends with, if any: that of the request, or that of the reload of
  the queue, which is made after the answers \<open>started\<close> and \<open>empty\<close>.
\<close>

definition direct_error ::
  "js_error + ContinueQueuedThreadPayload \<Rightarrow> js_error + QueuedThreadMessagesPayload \<Rightarrow> js_error option" where
  "direct_error res refreshed =
     (case res of
        Inl e \<Rightarrow> Some e
      | Inr r \<Rightarrow>
          if cq_status r = ContinueDirected then None
          else (case refreshed of Inl e \<Rightarrow> Some e | Inr _ \<Rightarrow> None))"

text \<open>The rows the server leaves queued, where there was no error.\<close>

definition rows_left ::
  "string \<Rightarrow> js_error + ContinueQueuedThreadPayload \<Rightarrow> js_error + QueuedThreadMessagesPayload \<Rightarrow> QueuedThreadMessage list" where
  "rows_left i res refreshed =
     (case (res, refreshed) of
        (Inr r, q) \<Rightarrow>
          if cq_status r = ContinueDirected then filter (\<lambda>m. qm_id m \<noteq> i) (qp_messages (cq_queued r))
          else (case q of Inr p \<Rightarrow> qp_messages p | Inl _ \<Rightarrow> [])
      | _ \<Rightarrow> [])"

text \<open>
  C14. Directing a queued message, for every answer. If the request fails, or the reload of the queue that
  follows the answers \<open>started\<close> and \<open>empty\<close> fails, the bubble is taken back and nothing else has changed,
  and that error is thrown unless it is the busy answer 409; so a failed reload undoes the bubble of a
  message that the server has taken. Otherwise nothing is thrown, the rows are those the server reports (after
  \<open>directed\<close> without the message's own row), and where the row had a text its bubble is the last one
  and shows that text.
\<close>

theorem direct_queued_message:
  "case direct_end i res refreshed (direct_begin now i s) of (s', thrown) \<Rightarrow>
     (case direct_error res refreshed of
        Some e \<Rightarrow>
          s' = s\<lparr>directedOptimistic := filter (\<lambda>m. msg_id m \<noteq> i) (directedOptimistic s)\<rparr>
          \<and> thrown = (if not_busy e then None else Some e)
      | None \<Rightarrow>
          thrown = None \<and> queuedFollowUps s' = map follow_up (rows_left i res refreshed)
          \<and> (case res of
               Inr r \<Rightarrow> (case cq_status r of
                          ContinueDirected \<Rightarrow> i \<notin> set (map fu_id (queuedFollowUps s')) | _ \<Rightarrow> True)
             | Inl _ \<Rightarrow> False)
          \<and> (case find (\<lambda>f. fu_id f = i) (queuedFollowUps s) of
               None \<Rightarrow> directedOptimistic s' = directedOptimistic s
             | Some f \<Rightarrow>
                 if fu_text f = [] then directedOptimistic s' = directedOptimistic s
                 else directedOptimistic s' \<noteq> [] \<and> msg_id (last (directedOptimistic s')) = i
                   \<and> userMessageText (last (directedOptimistic s')) = trim (fu_text f)))"
proof -
  have begun: "directedOptimistic (direct_begin now i s) =
      (case find (\<lambda>f. fu_id f = i) (queuedFollowUps s) of
         None \<Rightarrow> directedOptimistic s
       | Some f \<Rightarrow> if fu_text f = [] then directedOptimistic s
                   else filter (\<lambda>m. msg_id m \<noteq> i) (directedOptimistic s)
                     @ [\<lparr>msg_id = i, msg_author = UserAuthor, msg_timestamp = now,
                         msg_chunks = [TextChunk (fu_text f)], msg_hidden = None\<rparr>])"
    by (simp add: direct_begin_def split: option.splits)
  have failed: "direct_failed i e (direct_begin now i s) =
      (s\<lparr>directedOptimistic := filter (\<lambda>m. msg_id m \<noteq> i) (directedOptimistic s)\<rparr>,
       if not_busy e then None else Some e)" for e
    by (auto simp: direct_failed_def direct_begin_def split: option.splits)
  have reloads: "(cq_status r = ContinueStarted \<or> cq_status r = ContinueEmpty) = (cq_status r \<noteq> ContinueDirected)" for r
    by (cases "cq_status r") simp_all
  show ?thesis
    by (cases res; cases refreshed; cases "find (\<lambda>f. fu_id f = i) (queuedFollowUps s)")
      (auto simp: direct_end_def reloads failed begun direct_error_def rows_left_def refreshQueuedFollowUps_def
        follow_up_def userMessageText_def split: ContinueStatus.splits)
qed

text \<open>
  C12. The approval gate: a decision sends one request with exactly one decision per pending action
  (one where none is listed), all of the chosen kind, and hides the card of that interrupt; the card comes back exactly for
  another interrupt with actions. A paused run whose interrupt has no id never shows the card before
  some other interrupt was answered.
\<close>

theorem approval_gate:
  "case handleApproval stream threadId type s of (s', as) \<Rightarrow>
     as = [Call (ResumeInterrupt threadId (replicate (max 1 (length (approvalActions stream))) type))]
     \<and> \<not> showApproval stream s'
     \<and> showApproval stream' s' =
         (approvalActions stream' \<noteq> [] \<and> currentInterruptId stream' \<noteq> currentInterruptId stream)
     \<and> s'\<lparr>resolvedInterruptId := resolvedInterruptId s\<rparr> = s
     \<and> \<not> (currentInterruptId stream' = None \<and> showApproval stream' (thread_changed s))"
  by (cases "approvalActions stream") (auto simp: handleApproval_def showApproval_def thread_changed_def Let_def)

text \<open>
  Exactly one run state is shown: while the thread runs there is neither an error nor a stop
  note, the two never appear together, a stopped run is not shown as a failure whatever error the
  stream holds, and a thread whose status is an error shows an error unless it is running.
\<close>

theorem run_banners:
  "(runError stream thread \<noteq> None) =
     (\<not> view_streaming stream thread \<and> \<not> runStopped stream thread
      \<and> (error_truthy (sv_error stream) \<or> th_status thread = Errored))
   \<and> \<not> (runStopped stream thread \<and> view_streaming stream thread)
   \<and> \<not> (runStopped stream thread \<and> runError stream thread \<noteq> None)
   \<and> \<not> (th_status thread = Errored \<and> \<not> sv_isLoading stream \<and> runError stream thread = None)
   \<and> \<not> (th_status thread = Interrupted \<and> \<not> sv_isLoading stream \<and> \<not> runStopped stream thread)"
  by (auto simp: runError_def runStopped_def view_streaming_def)

text \<open>
  The effect that tidies the queue keeps a row exactly when its text is blank or is no user
  message of the transcript: rows are matched by text and not by id, so a queued message that
  repeats an earlier one is taken off the list while it is still queued.
\<close>

theorem queue_rows_kept:
  "queuedFollowUps (drop_committed base s) =
     filter (\<lambda>f. \<not> (fu_text f \<noteq> [] \<and> fu_text f \<in> set (user_texts base))) (queuedFollowUps s)
   \<and> (let m = \<lparr>msg_id = ''m1'', msg_author = UserAuthor, msg_timestamp = ''t'', msg_chunks = [TextChunk t], msg_hidden = None\<rparr>;
          row = \<lparr>fu_id = ''q2'', fu_text = trim t, fu_imageCount = 0\<rparr>
      in (row \<in> set (queuedFollowUps (drop_committed [m] (s\<lparr>queuedFollowUps := [row]\<rparr>)))) = (trim t = []))"
proof -
  let ?m = "\<lparr>msg_id = ''m1'', msg_author = UserAuthor, msg_timestamp = ''t'', msg_chunks = [TextChunk t], msg_hidden = None\<rparr>"
  have "user_texts [?m] = (if trim t = [] then [] else [trim t])"
    by (simp add: user_texts_def userMessageText_def)
  then show ?thesis by (simp add: drop_committed_rows Let_def)
qed

end
