(* ===== verification/Agents_Home.thy ===== *)
theory Agents_Home
  imports Model_Options Submit_Message
begin

text \<open>
  \<open>components/agents/AgentsHome.tsx\<close>: the home page, from which a run is started. The state holds the
  choices made on the page and the draft kept until the stream has made the thread's id. The host
  name of a URL is read by the platform's URL parser, an argument that gives \<open>None\<close> where it throws.
\<close>

section \<open>Azure remotes\<close>

definition WORKSPACE_NOT_AZURE_MESSAGE :: string where
  "WORKSPACE_NOT_AZURE_MESSAGE =
     ''Solo puedes seleccionar repositorios de Azure DevOps como workspace. Este repositorio no apunta a Azure DevOps.''"

text \<open>The regular expression of the fallback, on the lower case text.\<close>

definition azure_pattern :: "string \<Rightarrow> bool" where
  "azure_pattern url =
     (let l = toLowerCase url; hosts = [''dev.azure.com'', ''ssh.dev.azure.com''] in
      list_ex (\<lambda>h. startsWith l h \<or> str_includes l (''@'' @ h) \<or> str_includes l (''//'' @ h)) hosts
      \<or> str_includes l ''.visualstudio.com'')"

definition isAzureRemote :: "(string \<Rightarrow> string option) \<Rightarrow> string option \<Rightarrow> bool" where
  "isAzureRemote hostname url =
     (if \<not> truthy_str url then False
      else (case hostname (if str_includes (the url) ''://'' then the url else ''ssh://'' @ the url) of
              Some h \<Rightarrow>
                (let host = toLowerCase h in
                 host = ''dev.azure.com'' \<or> host = ''ssh.dev.azure.com'' \<or> endsWith host ''.visualstudio.com'')
            | None \<Rightarrow> azure_pattern (the url)))"

text \<open>The messages for the errors of the workspace preparation; \<open>[CHR 0xF3]\<close> is an o with acute accent.\<close>

definition workspace_error_labels :: "(string, string) js_map" where
  "workspace_error_labels =
     [(''workspace_path_not_azure_repo'', WORKSPACE_NOT_AZURE_MESSAGE),
      (''workspace_path_wrong_azure_org'',
         ''El repositorio pertenece a otra organizaci'' @ [CHR 0xF3] @ ''n de Azure DevOps.''),
      (''workspace_source_dirty'',
         ''Tu repositorio tiene cambios sin commitear. Haz commit o stash antes de iniciar.''),
      (''workspace_integration_branch_missing'',
         ''No existe la rama de integraci'' @ [CHR 0xF3] @ ''n (develop) en origin. Verifica el remoto.''),
      (''workspace_base_branch_required'',
         ''Tu repositorio est'' @ [CHR 0xE1] @ '' en HEAD desacoplado. Cambia a una rama nombrada.''),
      (''workspace_integration_merge_conflict'',
         ''Tu rama tiene conflictos con develop. Resu'' @ [CHR 0xE9] @ ''lvelos antes de usar el workspace.''),
      (''workspace_fetch_failed'',
         ''No se pudo traer el '' @ [CHR 0xFA] @ ''ltimo develop desde origin (red/credenciales). El agente debe partir del ''
           @ [CHR 0xFA] @ ''ltimo develop.''),
      (''workspace_snapshot_failed'',
         ''No se pudo calcular el snapshot del workspace (worktree inaccesible).'')]"

definition workspaceRunErrorMessage :: "string \<Rightarrow> string" where
  "workspaceRunErrorMessage detail =
     nullish (map_get workspace_error_labels detail) ''No se pudo preparar el workspace para esta corrida.''"

definition promptContent :: "string \<Rightarrow> ImageData list \<Rightarrow> jsval list" where
  "promptContent text images =
     (let trimmed = trim text in map image_block images @ (if trimmed = [] then [] else [text_block trimmed]))"

section \<open>State\<close>

datatype BaseMode = Integration | LocalBranch

fun base_mode_str :: "BaseMode \<Rightarrow> string" where
  "base_mode_str Integration = ''integration''" | "base_mode_str LocalBranch = ''local_branch''"

record home_state =
  home_selection :: "ModelSelection option"
  submitting :: bool
  selectedWorkspaceId :: "string option"
  repoOverride :: "string option option"
  baseMode :: BaseMode
  composeError :: "string option"
  draft :: "CreateAgentThreadVariables option"

text \<open>What the page reads of its queries.\<close>

record home_data =
  hd_options :: ModelOptionsResult
  hd_profile :: "Profile option"
  hd_workspaces :: "Workspace list option"
  hd_session :: "SessionUser option"

definition init_home :: "string option \<Rightarrow> home_state" where
  "init_home stored =
     \<lparr>home_selection = None, submitting = False, selectedWorkspaceId = stored, repoOverride = None,
      baseMode = Integration, composeError = None, draft = None\<rparr>"

definition home_activeSelection :: "home_data \<Rightarrow> home_state \<Rightarrow> ModelSelection option" where
  "home_activeSelection d s = nullish_opt (home_selection s) (mor_defaultSelection (hd_options d))"

definition selectedWorkspace :: "home_data \<Rightarrow> home_state \<Rightarrow> Workspace option" where
  "selectedWorkspace d s =
     Option.bind (hd_workspaces d) (find (\<lambda>w. Some (wk_id w) = selectedWorkspaceId s))"

definition allowNonAzure :: "home_data \<Rightarrow> bool" where
  "allowNonAzure d = nullish (Option.bind (hd_session d) su_allow_nonazure_workspace) False"

definition workspaceNotAzure :: "(string \<Rightarrow> string option) \<Rightarrow> home_data \<Rightarrow> home_state \<Rightarrow> bool" where
  "workspaceNotAzure hostname d s =
     (case selectedWorkspace d s of
        None \<Rightarrow> False
      | Some w \<Rightarrow> \<not> allowNonAzure d \<and> \<not> isAzureRemote hostname (wk_remote_url w))"

definition home_repo :: "home_data \<Rightarrow> home_state \<Rightarrow> string option" where
  "home_repo d s =
     (if selectedWorkspace d s \<noteq> None then None
      else case repoOverride s of
             None \<Rightarrow> Option.bind (hd_profile d) prof_default_repo
           | Some r \<Rightarrow> r)"

section \<open>Handlers\<close>

definition syncSelectedWorkspace :: "string option \<Rightarrow> home_state \<Rightarrow> home_state" where
  "syncSelectedWorkspace stored s = s\<lparr>selectedWorkspaceId := stored\<rparr>"

definition home_draft :: "home_data \<Rightarrow> home_state \<Rightarrow> string \<Rightarrow> ImageData list \<Rightarrow> CreateAgentThreadVariables" where
  "home_draft d s prompt images =
     (let w = selectedWorkspace d s; sel = home_activeSelection d s in
      \<lparr>cv_prompt = prompt, cv_images = Some images, cv_repo = home_repo d s,
       cv_repo_explicitly_none = Some (if w \<noteq> None then True else repoOverride s = Some None),
       cv_workspace_id = map_option wk_id w, cv_workspace_label = map_option wk_label w,
       cv_model_id = map_option sel_modelId sel, cv_effort = map_option sel_effort sel\<rparr>)"

definition configurable :: "home_data \<Rightarrow> home_state \<Rightarrow> (string, jsval) js_map" where
  "configurable d s =
     (let w = selectedWorkspace d s; sel = home_activeSelection d s; repo = home_repo d s in
      (case sel of
         Some x \<Rightarrow> if sel_modelId x \<noteq> [] \<and> sel_effort x \<noteq> []
                   then [(''agent_model_id'', JStr (sel_modelId x)), (''agent_effort'', JStr (sel_effort x))] else []
       | None \<Rightarrow> [])
      @ (if w = None \<and> truthy_str repo then [(''repo'', JStr (the repo))] else [])
      @ (if w \<noteq> None \<or> repoOverride s = Some None then [(''repo_explicitly_none'', JBool True)] else [])
      @ (case w of
           Some x \<Rightarrow> if wk_id x \<noteq> []
                     then [(''workspace_id'', JStr (wk_id x)), (''base_mode'', JStr (base_mode_str (baseMode s)))] else []
         | None \<Rightarrow> []))"

text \<open>\<open>handleSubmit\<close>: the new state and the run started, its content and configuration, if any.\<close>

definition home_submit ::
  "(string \<Rightarrow> string option) \<Rightarrow> home_data \<Rightarrow> string \<Rightarrow> ImageData list \<Rightarrow> home_state \<Rightarrow>
   home_state \<times> (jsval list \<times> (string, jsval) js_map) option" where
  "home_submit hostname d prompt images s =
     (if workspaceNotAzure hostname d s then (s\<lparr>composeError := Some WORKSPACE_NOT_AZURE_MESSAGE\<rparr>, None)
      else (s\<lparr>composeError := None, draft := Some (home_draft d s prompt images), submitting := True\<rparr>,
            Some (promptContent prompt images, configurable d s)))"

text \<open>The rejection of \<open>stream.submit\<close>; \<open>threadId\<close> is the stream's id at that time.\<close>

definition submit_error_message :: "js_error \<Rightarrow> string" where
  "submit_error_message err =
     (let detail = (case err of AgentsApiError _ message \<Rightarrow> message | _ \<Rightarrow> []) in
      if startsWith detail ''workspace'' then workspaceRunErrorMessage detail
      else ''No se pudo iniciar la corrida. Intenta de nuevo.'')"

definition home_submit_failed :: "js_error \<Rightarrow> home_state \<Rightarrow> home_state" where
  "home_submit_failed err s =
     s\<lparr>composeError := Some (submit_error_message err), draft := None, submitting := False\<rparr>"

definition mark_failed :: "js_error \<Rightarrow> AgentThread option \<Rightarrow> AgentThread option" where
  "mark_failed err prev =
     map_option (\<lambda>t. t\<lparr>th_status := Errored, th_errorMessage := Some (submit_error_message err)\<rparr>) prev"

text \<open>
  The effect on a thread id: seed the caches from the draft, once, and go to the thread. The router
  gets the id as a parameter of the route, and \<open>encode\<close> is how it writes it into the path.
\<close>

definition prepend_thread :: "AgentThread \<Rightarrow> AgentThread list option \<Rightarrow> AgentThread list" where
  "prepend_thread thread prev = thread # filter (\<lambda>t. th_id t \<noteq> th_id thread) (nullish prev [])"

definition thread_created ::
  "(string \<Rightarrow> string) \<Rightarrow> int \<Rightarrow> string \<Rightarrow> string option \<Rightarrow> home_state \<Rightarrow> home_state \<times> (AgentThread \<times> cache_op list) option" where
  "thread_created encode now nowIso threadId s =
     (case draft s of
        None \<Rightarrow> (s, None)
      | Some v \<Rightarrow>
          if \<not> truthy_str threadId then (s, None)
          else (let thread = optimisticThread now nowIso (the threadId) v in
                (s\<lparr>draft := None\<rparr>,
                 Some (thread, [SetThread (detail_key (the threadId)) thread None, Navigate (''/agents/'' @ encode (the threadId))]))))"

section \<open>Runs of the page\<close>

datatype home_event =
    PickModel ModelSelection
  | PickRepo "string option"
  | PickBase BaseMode
  | StorageChanged "string option"
  | SubmitPrompt home_data string "ImageData list"
  | SubmitFailed js_error
  | ThreadId "string option"

datatype home_output = RunStarted "(string, jsval) js_map" | WentTo string

text \<open>A navigation is recorded by its thread, so the clock and the writing of the path play no role here.\<close>

fun home_step :: "(string \<Rightarrow> string option) \<Rightarrow> home_state \<Rightarrow> home_event \<Rightarrow> home_state \<times> home_output list" where
  "home_step hostname s (PickModel sel) = (s\<lparr>home_selection := Some sel\<rparr>, [])"
| "home_step hostname s (PickRepo r) = (s\<lparr>repoOverride := Some r\<rparr>, [])"
| "home_step hostname s (PickBase b) = (s\<lparr>baseMode := b\<rparr>, [])"
| "home_step hostname s (StorageChanged stored) = (syncSelectedWorkspace stored s, [])"
| "home_step hostname s (SubmitPrompt d prompt images) =
     (case home_submit hostname d prompt images s of
        (s', None) \<Rightarrow> (s', []) | (s', Some (content, conf)) \<Rightarrow> (s', [RunStarted conf]))"
| "home_step hostname s (SubmitFailed err) = (home_submit_failed err s, [])"
| "home_step hostname s (ThreadId threadId) =
     (case thread_created (\<lambda>i. i) 0 [] threadId s of
        (s', None) \<Rightarrow> (s', []) | (s', Some (thread, ops)) \<Rightarrow> (s', [WentTo (th_id thread)]))"

fun home_run :: "(string \<Rightarrow> string option) \<Rightarrow> home_state \<Rightarrow> home_event list \<Rightarrow> home_state \<times> home_output list" where
  "home_run hostname s [] = (s, [])"
| "home_run hostname s (e # es) =
     (case home_step hostname s e of (s', out) \<Rightarrow>
      case home_run hostname s' es of (s'', out') \<Rightarrow> (s'', out @ out'))"

definition runs :: "home_output list \<Rightarrow> nat" where
  "runs out = length (filter (\<lambda>p. case p of RunStarted _ \<Rightarrow> True | _ \<Rightarrow> False) out)"

definition visits :: "home_output list \<Rightarrow> nat" where
  "visits out = length (filter (\<lambda>p. case p of WentTo _ \<Rightarrow> True | _ \<Rightarrow> False) out)"

definition credit :: "home_state \<Rightarrow> nat" where
  "credit s = (if draft s = None then 0 else 1)"

lemma runs_visits_append [simp]: "runs (a @ b) = runs a + runs b" "visits (a @ b) = visits a + visits b"
  by (simp_all add: runs_def visits_def)

lemma step_credit: "home_step hostname s e = (s', out) \<Longrightarrow> visits out + credit s' \<le> runs out + credit s"
  by (cases e) (auto simp: syncSelectedWorkspace_def home_submit_def home_submit_failed_def thread_created_def
      runs_def visits_def credit_def Let_def split: option.splits if_splits)

lemma run_credit: "home_run hostname s es = (s', out) \<Longrightarrow> visits out + credit s' \<le> runs out + credit s"
proof (induction es arbitrary: s s' out)
  case (Cons e es)
  then show ?case using step_credit by (fastforce split: prod.splits)
qed (simp add: runs_def visits_def)

text \<open>The keys of a run's configuration, one by one.\<close>

lemma configurable_get:
  "map_get (configurable d s) ''repo'' =
     (if selectedWorkspace d s = None \<and> truthy_str (home_repo d s) then Some (JStr (the (home_repo d s))) else None)"
  "map_get (configurable d s) ''repo_explicitly_none'' =
     (if selectedWorkspace d s \<noteq> None \<or> repoOverride s = Some None then Some (JBool True) else None)"
  "map_get (configurable d s) ''workspace_id'' =
     (case selectedWorkspace d s of Some w \<Rightarrow> if wk_id w = [] then None else Some (JStr (wk_id w)) | None \<Rightarrow> None)"
  "map_get (configurable d s) ''base_mode'' =
     (case selectedWorkspace d s of
        Some w \<Rightarrow> if wk_id w = [] then None else Some (JStr (base_mode_str (baseMode s))) | None \<Rightarrow> None)"
  by (cases "selectedWorkspace d s"; cases "home_activeSelection d s"; simp add: configurable_def Let_def)+

lemma configurable_distinct: "distinct (map fst (configurable d s))"
  by (cases "selectedWorkspace d s"; cases "home_activeSelection d s") (auto simp: configurable_def Let_def)

section \<open>Properties\<close>


text \<open>
  C28. One navigation per run: whatever the user does and whenever the stream reports a thread id, the
  page goes to a thread at most once per run it started. A thread reported before the start of the run
  fails is gone to; once the start has failed there is no draft left, and the page goes to no thread
  until it has started another run, and then again at most once per run.
\<close>

theorem home_navigates_once:
  "case home_run hostname (init_home stored) es of (s, out) \<Rightarrow>
     visits out \<le> runs out
     \<and> (let failed = fst (home_step hostname s (SubmitFailed err)) in
        draft failed = None
        \<and> (case home_run hostname failed es' of (s', out') \<Rightarrow> visits out' \<le> runs out'))"
proof (cases "home_run hostname (init_home stored) es")
  case (Pair s out)
  obtain s' out' where "home_run hostname (home_submit_failed err s) es' = (s', out')" by (rule prod.exhaust)
  with Pair show ?thesis
    using run_credit [OF Pair] run_credit [of hostname "home_submit_failed err s" es' s' out']
    by (simp add: credit_def init_home_def home_submit_failed_def)
qed

end
