(* ===== verification/Prompt_Bar.thy ===== *)
theory Prompt_Bar
  imports Model_Options Submit_Message
begin

text \<open>
  \<open>components/agents/ported/CloudPromptBar.tsx\<close>: the prompt with its attached images, the rows of the
  queue and the button that sends or stops. A handler with an await is two functions, the part
  before it and the part after it.
\<close>

section \<open>Attached images\<close>

definition MAX_IMAGE_COUNT :: nat where "MAX_IMAGE_COUNT = 5"
definition MAX_IMAGE_BYTES :: nat where "MAX_IMAGE_BYTES = 10 * 1024 * 1024"

definition SUPPORTED_IMAGE_TYPES :: "string list" where
  "SUPPORTED_IMAGE_TYPES = [''image/png'', ''image/jpeg'', ''image/gif'', ''image/webp'']"

text \<open>A chosen file; reading it gives a data URL, or fails.\<close>

record File =
  file_name :: string
  file_type :: string
  file_size :: nat
  file_dataUrl :: "string option"

definition fileToImageChunk :: "File \<Rightarrow> ImageData option" where
  "fileToImageChunk file =
     (if file_type file \<notin> set SUPPORTED_IMAGE_TYPES \<or> file_size file > MAX_IMAGE_BYTES then None
      else (case file_dataUrl file of
              None \<Rightarrow> None
            | Some dataUrl \<Rightarrow>
                (case split_on (CHR '','') dataUrl of
                   _ # base64 # _ \<Rightarrow>
                     if base64 = [] then None
                     else Some \<lparr>img_base64 = base64, img_mimeType = file_type file, img_fileName = Some (file_name file)\<rparr>
                 | _ \<Rightarrow> None)))"

section \<open>State\<close>

record bar_state =
  bar_value :: string
  pendingImages :: "ImageData list"
  isDragOver :: bool
  modelDropdownOpen :: bool
  queuedMenuOpen :: "string option"
  queuedActionPending :: bool
  dragDepth :: nat

definition init_bar :: bar_state where
  "init_bar =
     \<lparr>bar_value = [], pendingImages = [], isDragOver = False, modelDropdownOpen = False, queuedMenuOpen = None,
      queuedActionPending = False, dragDepth = 0\<rparr>"

definition combos :: "ModelOption list \<Rightarrow> ModelSelection list" where
  "combos models = concat (map (\<lambda>m. map (\<lambda>e. \<lparr>sel_modelId = mo_id m, sel_effort = e\<rparr>) (mo_efforts m)) models)"

definition canSubmit :: "bool \<Rightarrow> bar_state \<Rightarrow> bool" where
  "canSubmit disabled s = (\<not> disabled \<and> (length (trim (bar_value s)) > 0 \<or> length (pendingImages s) > 0))"

text \<open>What a handler asks its parent to do.\<close>

datatype bar_output = Submitted string "ImageData list" | Discard string | Direct string | ClearAll

definition handleSubmit :: "bool \<Rightarrow> bar_state \<Rightarrow> bar_state \<times> bar_output list" where
  "handleSubmit disabled s =
     (if \<not> canSubmit disabled s then (s, [])
      else (s\<lparr>bar_value := [], pendingImages := []\<rparr>, [Submitted (trim (bar_value s)) (pendingImages s)]))"

definition handleKeyDown :: "bool \<Rightarrow> string \<Rightarrow> bool \<Rightarrow> bar_state \<Rightarrow> bar_state \<times> bar_output list" where
  "handleKeyDown disabled key shift s =
     (if key = ''Enter'' \<and> \<not> shift \<and> canSubmit disabled s then handleSubmit disabled s else (s, []))"

text \<open>\<open>handleQueuedAction\<close>: refused while another action is pending; the flag is reset in any case.\<close>

definition queued_action_begin :: "bar_output option \<Rightarrow> bar_state \<Rightarrow> bar_state \<times> bar_output list" where
  "queued_action_begin act s =
     (case act of
        None \<Rightarrow> (s, [])
      | Some a \<Rightarrow> if queuedActionPending s then (s, []) else (s\<lparr>queuedActionPending := True\<rparr>, [a]))"

definition queued_action_end :: "bar_state \<Rightarrow> bar_state" where
  "queued_action_end s = s\<lparr>queuedActionPending := False\<rparr>"

text \<open>\<open>handleQueuedReplace\<close>: the text and the images are read before the await; \<open>hasDiscard\<close> says whether
  the parent has given \<open>onQueuedDiscard\<close>.\<close>

definition replace_begin :: "bool \<Rightarrow> bool \<Rightarrow> string \<Rightarrow> bar_state \<Rightarrow> bar_state \<times> bar_output list \<times> (string \<times> ImageData list) option" where
  "replace_begin hasDiscard disabled i s =
     (if \<not> canSubmit disabled s \<or> \<not> hasDiscard \<or> queuedActionPending s then (s, [], None)
      else (s\<lparr>queuedActionPending := True\<rparr>, [Discard i], Some (trim (bar_value s), pendingImages s)))"

definition replace_end :: "bool \<Rightarrow> string \<times> ImageData list \<Rightarrow> bar_state \<Rightarrow> bar_state \<times> bar_output list" where
  "replace_end ok snapshot s =
     (if ok then
        (s\<lparr>bar_value := [], pendingImages := [], queuedMenuOpen := None, queuedActionPending := False\<rparr>,
         [Submitted (fst snapshot) (snd snapshot)])
      else (s\<lparr>queuedActionPending := False\<rparr>, []))"

definition addFiles :: "File list \<Rightarrow> bar_state \<Rightarrow> bar_state" where
  "addFiles files s =
     (let validImages = List.map_filter fileToImageChunk files in
      if length validImages = 0 then s
      else s\<lparr>pendingImages := take MAX_IMAGE_COUNT (pendingImages s @ validImages)\<rparr>)"

definition removeImage :: "nat \<Rightarrow> bar_state \<Rightarrow> bar_state" where
  "removeImage index s = s\<lparr>pendingImages := nths (pendingImages s) {i. i \<noteq> index}\<rparr>"

definition handleDragEnter :: "bool \<Rightarrow> bar_state \<Rightarrow> bar_state" where
  "handleDragEnter hasFiles s =
     (if hasFiles then s\<lparr>dragDepth := dragDepth s + 1, isDragOver := True\<rparr> else s)"

definition handleDragOver :: "bool \<Rightarrow> bar_state \<Rightarrow> bar_state" where
  "handleDragOver hasFiles s = (if hasFiles then s\<lparr>isDragOver := True\<rparr> else s)"

definition handleDragLeave :: "bool \<Rightarrow> bar_state \<Rightarrow> bar_state" where
  "handleDragLeave hasFiles s =
     (if hasFiles then
        (let n = dragDepth s - 1; s' = s\<lparr>dragDepth := n\<rparr> in if n = 0 then s'\<lparr>isDragOver := False\<rparr> else s')
      else s)"

text \<open>\<open>files\<close> is \<open>None\<close> where the drag carries no files; the files are read after the drop.\<close>

definition handleDrop :: "File list option \<Rightarrow> bar_state \<Rightarrow> bar_state" where
  "handleDrop files s =
     (case files of
        None \<Rightarrow> s
      | Some fs \<Rightarrow> addFiles fs (s\<lparr>dragDepth := 0, isDragOver := False\<rparr>))"

definition toggleQueuedMenu :: "string \<Rightarrow> bar_state \<Rightarrow> bar_state" where
  "toggleQueuedMenu i s = s\<lparr>queuedMenuOpen := (if queuedMenuOpen s = Some i then None else Some i)\<rparr>"

definition textarea_height :: "nat \<Rightarrow> nat \<times> bool" where
  "textarea_height scrollHeight = (min scrollHeight 200, scrollHeight > 200)"

section \<open>The stop button\<close>

datatype stop_effect =
    StopCall AgentsCall
  | StreamStop
  | MarkInterrupted string
  | StopCache cache_op
  | ClearRows string

text \<open>
  \<open>handleStop\<close> on the stream's thread: \<open>stopOk\<close> says whether \<open>stream.stop\<close> succeeds. A failure to
  clear the queue is ignored.
\<close>

definition handleStop :: "bool \<Rightarrow> string option \<Rightarrow> bool \<Rightarrow> stop_effect list" where
  "handleStop stopping threadId stopOk =
     (if stopping then []
      else (if truthy_str threadId then [StopCall (ClearQueuedMessages (the threadId))] else [])
        @ [StreamStop]
        @ (if stopOk \<and> truthy_str threadId then
             [MarkInterrupted (the threadId), StopCache (InvalidateQueries threads_key True), ClearRows (the threadId)]
           else []))"

text \<open>Which button is shown: send, or stop while a run is in flight and nothing is typed.\<close>

definition shows_stop :: "bool \<Rightarrow> bool \<Rightarrow> bool \<Rightarrow> bool" where
  "shows_stop inAgentThreadStream isLoading canSub = (inAgentThreadStream \<and> \<not> (\<not> isLoading \<or> canSub))"

section \<open>Runs of the bar\<close>

datatype bar_event =
    Typed string
  | SubmitClick bool
  | KeyDown bool string bool
  | Files "File list"
  | RemoveImage nat
  | DragEnter bool
  | DragOver bool
  | DragLeave bool
  | Drop "File list option"
  | ActionBegin "bar_output option"
  | ActionEnd
  | ReplaceBegin bool bool string
  | ReplaceEnd bool "string \<times> ImageData list"
  | ToggleMenu string
  | ToggleModels
  | CloseModels

fun bar_step :: "bar_state \<Rightarrow> bar_event \<Rightarrow> bar_state" where
  "bar_step s (Typed t) = s\<lparr>bar_value := t\<rparr>"
| "bar_step s (SubmitClick disabled) = fst (handleSubmit disabled s)"
| "bar_step s (KeyDown disabled key shift) = fst (handleKeyDown disabled key shift s)"
| "bar_step s (Files fs) = addFiles fs s"
| "bar_step s (RemoveImage i) = removeImage i s"
| "bar_step s (DragEnter f) = handleDragEnter f s"
| "bar_step s (DragOver f) = handleDragOver f s"
| "bar_step s (DragLeave f) = handleDragLeave f s"
| "bar_step s (Drop fs) = handleDrop fs s"
| "bar_step s (ActionBegin a) = fst (queued_action_begin a s)"
| "bar_step s ActionEnd = queued_action_end s"
| "bar_step s (ReplaceBegin hasDiscard disabled i) = fst (replace_begin hasDiscard disabled i s)"
| "bar_step s (ReplaceEnd ok snap) = fst (replace_end ok snap s)"
| "bar_step s (ToggleMenu i) = toggleQueuedMenu i s"
| "bar_step s ToggleModels = s\<lparr>modelDropdownOpen := \<not> modelDropdownOpen s\<rparr>"
| "bar_step s CloseModels = s\<lparr>modelDropdownOpen := False\<rparr>"

abbreviation bar_run :: "bar_event list \<Rightarrow> bar_state" where
  "bar_run es \<equiv> foldl bar_step init_bar es"

definition good_image :: "ImageData \<Rightarrow> bool" where
  "good_image i = (img_mimeType i \<in> set SUPPORTED_IMAGE_TYPES \<and> img_base64 i \<noteq> [] \<and> CHR '','' \<notin> set (img_base64 i))"

definition bar_inv :: "bar_state \<Rightarrow> bool" where
  "bar_inv s = (length (pendingImages s) \<le> MAX_IMAGE_COUNT \<and> list_all good_image (pendingImages s)
     \<and> \<not> (dragDepth s > 0 \<and> \<not> isDragOver s))"

lemma fileToImageChunk_good: "fileToImageChunk f = Some i \<Longrightarrow> good_image i"
proof -
  have "b \<in> set (split_on (CHR '','') u) \<Longrightarrow> CHR '','' \<notin> set b" for b u by (rule split_on_parts)
  then show "fileToImageChunk f = Some i \<Longrightarrow> good_image i"
    by (auto simp: fileToImageChunk_def good_image_def split: if_splits option.splits list.splits)
      (metis list.set_intros)+
qed

lemma good_valid: "list_all good_image (List.map_filter fileToImageChunk fs)"
  using fileToImageChunk_good by (auto simp: list_all_iff map_filter_def)

lemma good_addFiles: "list_all good_image (pendingImages s) \<Longrightarrow> list_all good_image (pendingImages (addFiles fs s))"
  using good_valid [of fs] by (auto simp: addFiles_def Let_def list_all_iff dest: in_set_takeD)

lemma addFiles_other [simp]: "dragDepth (addFiles fs s) = dragDepth s" "isDragOver (addFiles fs s) = isDragOver s"
  by (simp_all add: addFiles_def Let_def)

lemma length_addFiles: "length (pendingImages s) \<le> MAX_IMAGE_COUNT \<Longrightarrow> length (pendingImages (addFiles fs s)) \<le> MAX_IMAGE_COUNT"
  by (auto simp: addFiles_def Let_def simp del: take_append)

lemma bar_inv_addFiles: "bar_inv s \<Longrightarrow> bar_inv (addFiles fs s)"
  by (simp add: bar_inv_def good_addFiles length_addFiles)

lemma length_nths_le: "length (nths xs A) \<le> length xs"
  by (simp add: length_nths card_mono order_trans [OF card_mono [where B = "{..<length xs}"]] subset_iff)

lemma bar_inv_step: "bar_inv s \<Longrightarrow> bar_inv (bar_step s e)"
proof (cases e)
  case (Drop fs)
  assume "bar_inv s"
  then have "bar_inv (s\<lparr>dragDepth := 0, isDragOver := False\<rparr>)" by (simp add: bar_inv_def)
  with Drop \<open>bar_inv s\<close> show ?thesis
    by (cases fs) (simp_all add: handleDrop_def bar_inv_addFiles)
next
  case (RemoveImage i)
  assume "bar_inv s"
  with RemoveImage show ?thesis
    using length_nths_le [of "pendingImages s" "{j. j \<noteq> i}"] set_nths_subset [of "pendingImages s"]
    by (auto simp: bar_inv_def removeImage_def list_all_iff)
next
  case (DragLeave f)
  assume "bar_inv s"
  with DragLeave show ?thesis by (auto simp: bar_inv_def handleDragLeave_def Let_def)
qed (auto simp: bar_inv_addFiles, auto simp: bar_inv_def handleSubmit_def handleKeyDown_def handleDragEnter_def
    handleDragOver_def queued_action_begin_def queued_action_end_def replace_begin_def replace_end_def
    toggleQueuedMenu_def split: option.splits)

lemma bar_inv_run: "bar_inv (bar_run es)"
proof -
  have "bar_inv s \<Longrightarrow> bar_inv (foldl bar_step s es)" for s
    by (induction es arbitrary: s) (simp_all add: bar_inv_step)
  then show ?thesis by (simp add: bar_inv_def init_bar_def)
qed

section \<open>Properties\<close>

text \<open>
  After any sequence of events at most five images are attached, each of a supported type with
  data that is not empty; a submission is made exactly when something was typed or attached and the
  bar is enabled, it carries the trimmed text and all attached images, and leaves the bar empty.
\<close>

theorem prompt_bar_submission:
  "let s = bar_run es in
     length (pendingImages s) \<le> MAX_IMAGE_COUNT \<and> list_all good_image (pendingImages s)
     \<and> snd (handleSubmit disabled s) =
         (if disabled \<or> (trim (bar_value s) = [] \<and> pendingImages s = []) then []
          else [Submitted (trim (bar_value s)) (pendingImages s)])
     \<and> \<not> canSubmit disabled' (if snd (handleSubmit disabled s) = [] then init_bar else fst (handleSubmit disabled s))"
  using bar_inv_run [of es] by (auto simp: bar_inv_def handleSubmit_def canSubmit_def Let_def init_bar_def)

text \<open>
  Stopping clears the queue before it stops the run, so that the completion of the run finds
  nothing to continue; it stops the run exactly once, also where the queue could not be cleared or
  there is no thread yet, and marks the thread as interrupted only after the run has stopped.
\<close>

theorem stop_order:
  "handleStop True threadId stopOk = []
   \<and> length (filter (\<lambda>a. a = StreamStop) (handleStop False threadId stopOk)) = 1
   \<and> takeWhile (\<lambda>a. a \<noteq> StreamStop) (handleStop False threadId stopOk) =
       (if truthy_str threadId then [StopCall (ClearQueuedMessages (the threadId))] else [])
   \<and> (MarkInterrupted i \<in> set (handleStop False threadId stopOk)) = (stopOk \<and> threadId = Some i \<and> i \<noteq> [])"
  by (cases threadId) (auto simp: handleStop_def)

text \<open>
  One queue action at a time: while one is pending no other is started, by the row buttons or by
  replacing. A replacement sends what stood in the bar when it was started and then empties the bar,
  so what was typed or attached while the queued message was being discarded is dropped.
\<close>

theorem queue_actions_exclusive:
  "(let s' = fst (queued_action_begin (Some a) s) in
      queuedActionPending s' \<and> snd (queued_action_begin b s') = [] \<and> fst (snd (replace_begin hasDiscard disabled i s')) = [])
   \<and> (case replace_begin hasDiscard disabled i s of
        (s', out, Some snap) \<Rightarrow>
          out = [Discard i] \<and> snd (queued_action_begin b s') = []
          \<and> snd (replace_end True snap (bar_step s' (Typed later))) = [Submitted (trim (bar_value s)) (pendingImages s)]
          \<and> bar_value (fst (replace_end True snap (bar_step s' (Typed later)))) = []
          \<and> bar_value (fst (replace_end False snap (bar_step s' (Typed later)))) = later
      | (s', out, None) \<Rightarrow> s' = s \<and> out = [] \<and> \<not> (canSubmit disabled s \<and> hasDiscard \<and> \<not> queuedActionPending s))"
  by (auto simp: queued_action_begin_def replace_begin_def replace_end_def Let_def split: option.splits)

end
