(* ===== verification/Source_Tree.thy ===== *)
theory Source_Tree
  imports Changed_Files
begin

text \<open>
  The file tree of \<open>components/agents/ported/SourceControlTile.tsx\<close>: \<open>buildFileTree\<close>,
  \<open>insertTreeNode\<close>, \<open>getAncestorPaths\<close>, and the components \<open>FileTree\<close> and \<open>TreeNode\<close> with their set of
  expanded directories. The mutable tree is a value that every insertion returns changed;
  \<open>localeCompare\<close> is an argument, as in \<open>Changed_Files\<close>.
\<close>

section \<open>Data\<close>

record FileDiff =
  fd_path :: string
  fd_entry :: GitStatusEntry
  fd_original :: string
  fd_modified :: string
  fd_additions :: int
  fd_deletions :: int

datatype FileTreeNode =
  TreeNode (node_name: string) (node_path: string) (node_children: "FileTreeNode list") (node_diff: "FileDiff option")

text \<open>Backslashes become slashes, and the slashes at the end of the project path are cut off.\<close>

definition to_slashes :: "string \<Rightarrow> string" where
  "to_slashes s = map (\<lambda>c. if c = CHR 0x5C then CHR ''/'' else c) s"

definition strip_end_slashes :: "string \<Rightarrow> string" where
  "strip_end_slashes s = rev (dropWhile (\<lambda>c. c = CHR ''/'') (rev s))"

definition stripProjectPath :: "string \<Rightarrow> string option \<Rightarrow> string" where
  "stripProjectPath path projectPath =
     (if \<not> truthy_str projectPath then path
      else (let normalizedPath = to_slashes path;
                normalizedProjectPath = strip_end_slashes (to_slashes (the projectPath))
            in if \<not> startsWith normalizedPath (normalizedProjectPath @ ''/'') then path
               else drop (length normalizedProjectPath + 1) normalizedPath))"

definition path_parts :: "string \<Rightarrow> string list" where
  "path_parts p = filter (\<lambda>x. x \<noteq> []) (split_on (CHR ''/'') p)"

section \<open>Building the tree\<close>

definition child_path :: "string \<Rightarrow> string \<Rightarrow> string" where
  "child_path parentPath part = (if parentPath \<noteq> [] then parentPath @ ''/'' @ part else part)"

text \<open>\<open>nodes.find\<close> by name, with a new node pushed where there is none, and the change of that node.\<close>

fun change_node :: "string \<Rightarrow> string \<Rightarrow> (FileTreeNode \<Rightarrow> FileTreeNode) \<Rightarrow> FileTreeNode list \<Rightarrow> FileTreeNode list" where
  "change_node part path f [] = [f (TreeNode part path [] None)]"
| "change_node part path f (n # ns) = (if node_name n = part then f n # ns else n # change_node part path f ns)"

fun set_diff :: "FileDiff \<Rightarrow> FileTreeNode \<Rightarrow> FileTreeNode" where
  "set_diff d (TreeNode name path cs _) = TreeNode name path cs (Some d)"

fun map_children :: "(FileTreeNode list \<Rightarrow> FileTreeNode list) \<Rightarrow> FileTreeNode \<Rightarrow> FileTreeNode" where
  "map_children f (TreeNode name path cs d) = TreeNode name path (f cs) d"

fun insertTreeNode :: "string list \<Rightarrow> FileDiff \<Rightarrow> string \<Rightarrow> FileTreeNode list \<Rightarrow> FileTreeNode list" where
  "insertTreeNode [] diff parentPath nodes = nodes"
| "insertTreeNode (part # rest) diff parentPath nodes =
     (if part = [] then nodes
      else (let path = child_path parentPath part in
            change_node part path
              (\<lambda>node. if rest = [] then set_diff diff node
                      else map_children (insertTreeNode rest diff path) node)
              nodes))"

fun is_directory :: "FileTreeNode \<Rightarrow> bool" where
  "is_directory (TreeNode _ _ cs d) = (length cs > 0 \<and> d = None)"

definition node_le :: "(string \<Rightarrow> string \<Rightarrow> bool) \<Rightarrow> FileTreeNode \<Rightarrow> FileTreeNode \<Rightarrow> bool" where
  "node_le le a b =
     (if is_directory a \<noteq> is_directory b then is_directory a else le (node_name a) (node_name b))"

fun sort_node :: "(string \<Rightarrow> string \<Rightarrow> bool) \<Rightarrow> FileTreeNode \<Rightarrow> FileTreeNode" where
  "sort_node le (TreeNode name path cs d) = TreeNode name path (sort_by (node_le le) (map (sort_node le) cs)) d"

definition sortNodes :: "(string \<Rightarrow> string \<Rightarrow> bool) \<Rightarrow> FileTreeNode list \<Rightarrow> FileTreeNode list" where
  "sortNodes le nodes = sort_by (node_le le) (map (sort_node le) nodes)"

definition diff_parts :: "string option \<Rightarrow> FileDiff \<Rightarrow> string list" where
  "diff_parts projectPath d = path_parts (stripProjectPath (fd_path d) projectPath)"

definition insert_all :: "string option \<Rightarrow> FileDiff list \<Rightarrow> FileTreeNode list" where
  "insert_all projectPath fileDiffs =
     foldl (\<lambda>root d. insertTreeNode (diff_parts projectPath d) d [] root) [] fileDiffs"

definition buildFileTree ::
  "(string \<Rightarrow> string \<Rightarrow> bool) \<Rightarrow> FileDiff list \<Rightarrow> string option \<Rightarrow> FileTreeNode list" where
  "buildFileTree le fileDiffs projectPath = sortNodes le (insert_all projectPath fileDiffs)"

section \<open>Showing the tree\<close>

fun ancestors_from :: "string \<Rightarrow> string list \<Rightarrow> string list" where
  "ancestors_from current [] = []"
| "ancestors_from current (part # parts) =
     (let next = child_path current part in next # ancestors_from next parts)"

definition getAncestorPaths :: "string \<Rightarrow> string list" where
  "getAncestorPaths path = ancestors_from [] (butlast (path_parts path))"

text \<open>The effect on the selected path, and the toggle of a directory; the set is a list of paths.\<close>

definition expand_selected :: "string option \<Rightarrow> string list \<Rightarrow> string list" where
  "expand_selected selectedPath expanded =
     (if \<not> truthy_str selectedPath then expanded
      else (let ancestors = getAncestorPaths (the selectedPath) in
            if ancestors = [] then expanded
            else foldl (\<lambda>next a. if a \<in> set next then next else next @ [a]) expanded ancestors))"

definition toggleDirectory :: "string \<Rightarrow> string list \<Rightarrow> string list" where
  "toggleDirectory path expanded =
     (if path \<in> set expanded then filter (\<lambda>p. p \<noteq> path) expanded else expanded @ [path])"

record tree_row =
  row_path :: string
  row_name :: string
  row_depth :: nat
  row_isDirectory :: bool
  row_status :: "GitFileStatus option"
  row_selected :: bool

text \<open>The rows shown, from the top: the children of a directory only where it is expanded.\<close>

fun node_rows :: "string list \<Rightarrow> string option \<Rightarrow> nat \<Rightarrow> FileTreeNode \<Rightarrow> tree_row list" where
  "node_rows expanded selectedPath depth (TreeNode name path cs d) =
     \<lparr>row_path = path, row_name = name, row_depth = depth,
      row_isDirectory = is_directory (TreeNode name path cs d),
      row_status = map_option (gs_status \<circ> fd_entry) d, row_selected = (selectedPath = Some path)\<rparr>
     # (if is_directory (TreeNode name path cs d) \<and> path \<in> set expanded
        then concat (map (node_rows expanded selectedPath (depth + 1)) cs) else [])"

definition tree_rows :: "string list \<Rightarrow> string option \<Rightarrow> FileTreeNode list \<Rightarrow> tree_row list" where
  "tree_rows expanded selectedPath nodes = concat (map (node_rows expanded selectedPath 0) nodes)"

section \<open>The tree as a map from paths to diffs\<close>

fun tree_lookup :: "FileTreeNode list \<Rightarrow> string list \<Rightarrow> FileDiff option" where
  "tree_lookup nodes [] = None"
| "tree_lookup nodes (p # ps) =
     (case find (\<lambda>n. node_name n = p) nodes of
        None \<Rightarrow> None
      | Some n \<Rightarrow> if ps = [] then node_diff n else tree_lookup (node_children n) ps)"

lemma find_change_node:
  assumes "\<And>n. node_name (f n) = node_name n"
  shows "find (\<lambda>n. node_name n = q) (change_node part path f ns) =
    (if q = part
     then Some (f (case find (\<lambda>n. node_name n = part) ns of Some n \<Rightarrow> n | None \<Rightarrow> TreeNode part path [] None))
     else find (\<lambda>n. node_name n = q) ns)"
  by (induction ns) (use assms in auto)

lemma node_simps [simp]:
  "node_name (set_diff d n) = node_name n" "node_path (set_diff d n) = node_path n"
  "node_children (set_diff d n) = node_children n" "node_diff (set_diff d n) = Some d"
  "node_name (map_children f n) = node_name n" "node_path (map_children f n) = node_path n"
  "node_children (map_children f n) = f (node_children n)" "node_diff (map_children f n) = node_diff n"
  by (cases n; simp)+

text \<open>An insertion is an update of the map.\<close>

lemma tree_lookup_insert:
  "parts \<noteq> [] \<Longrightarrow> [] \<notin> set parts \<Longrightarrow>
     tree_lookup (insertTreeNode parts d pp ns) = (tree_lookup ns)(parts \<mapsto> d)"
proof (induction parts arbitrary: pp ns)
  case (Cons part rest)
  have nil: "tree_lookup [] q = None" for q by (cases q) simp_all
  show ?case
  proof
    fix q
    show "tree_lookup (insertTreeNode (part # rest) d pp ns) q = ((tree_lookup ns)(part # rest \<mapsto> d)) q"
    proof (cases q)
      case (Cons p ps)
      let ?f = "\<lambda>node. if rest = [] then set_diff d node
        else map_children (insertTreeNode rest d (child_path pp part)) node"
      have f: "node_name (?f n) = node_name n" for n by simp
      show ?thesis
        using Cons Cons.prems Cons.IH [of "child_path pp part"] nil
        by (auto simp: Let_def find_change_node [where f = ?f, OF f] split: option.splits)
    qed simp
  qed
qed simp

section \<open>Well-formed trees\<close>

text \<open>
  Siblings have distinct names, a name is one path segment, the path of a node is that of its
  parent with its name, and a node without children carries a diff.
\<close>

definition segment :: "string \<Rightarrow> bool" where
  "segment s = (s \<noteq> [] \<and> CHR ''/'' \<notin> set s)"

fun wf_node :: "string \<Rightarrow> FileTreeNode \<Rightarrow> bool" where
  "wf_node pp (TreeNode name path cs d) =
     (segment name \<and> path = child_path pp name \<and> distinct (map node_name cs)
      \<and> list_all (wf_node path) cs \<and> \<not> (cs = [] \<and> d = None))"

definition wf_tree :: "string \<Rightarrow> FileTreeNode list \<Rightarrow> bool" where
  "wf_tree pp ns = (distinct (map node_name ns) \<and> list_all (wf_node pp) ns)"

lemma path_parts_segments: "list_all segment (path_parts p)"
  by (auto simp: path_parts_def segment_def list_all_iff dest: split_on_parts)

lemma names_change_node:
  assumes "\<And>n. node_name (f n) = node_name n"
  shows "map node_name (change_node part path f ns) =
    (if part \<in> set (map node_name ns) then map node_name ns else map node_name ns @ [part])"
  by (induction ns) (use assms in auto)

lemma wf_change_node:
  assumes "wf_tree pp ns" "\<And>n. node_name (f n) = node_name n"
    and "\<And>n. n \<in> set ns \<Longrightarrow> node_name n = part \<Longrightarrow> wf_node pp (f n)" "wf_node pp (f (TreeNode part path [] None))"
  shows "wf_tree pp (change_node part path f ns)"
proof -
  have "distinct (map node_name (change_node part path f ns))"
    using assms(1) by (simp add: names_change_node [OF assms(2)] wf_tree_def)
  moreover have "list_all (wf_node pp) (change_node part path f ns)"
    using assms(1,3,4) unfolding wf_tree_def by (induction ns) auto
  ultimately show ?thesis by (simp add: wf_tree_def)
qed

lemma wf_node_iff:
  "wf_node pp n \<longleftrightarrow> segment (node_name n) \<and> node_path n = child_path pp (node_name n)
     \<and> wf_tree (node_path n) (node_children n) \<and> \<not> (node_children n = [] \<and> node_diff n = None)"
  by (cases n) (auto simp: wf_tree_def)

lemma change_node_not_Nil [simp]: "change_node part path f ns \<noteq> []"
  by (cases ns) simp_all

lemma insert_not_Nil: "rest \<noteq> [] \<Longrightarrow> list_all segment rest \<Longrightarrow> insertTreeNode rest d pp ns \<noteq> []"
  by (cases rest) (auto simp: Let_def segment_def)

lemma wf_insert: "list_all segment parts \<Longrightarrow> wf_tree pp ns \<Longrightarrow> wf_tree pp (insertTreeNode parts d pp ns)"
proof (induction parts arbitrary: pp ns)
  case (Cons part rest)
  let ?path = "child_path pp part"
  let ?f = "\<lambda>node. if rest = [] then set_diff d node else map_children (insertTreeNode rest d ?path) node"
  have empty: "wf_tree ?path []" by (simp add: wf_tree_def)
  have ok: "wf_node pp (?f n)" if n: "segment (node_name n)" "node_path n = child_path pp (node_name n)"
    "node_name n = part" "wf_tree (node_path n) (node_children n)" for n
  proof (cases "rest = []")
    case True
    with n show ?thesis by (simp add: wf_node_iff)
  next
    case False
    moreover have "wf_tree ?path (insertTreeNode rest d ?path (node_children n))"
      using Cons.IH Cons.prems n by simp
    moreover have "insertTreeNode rest d ?path (node_children n) \<noteq> []"
      using False Cons.prems insert_not_Nil by simp
    ultimately show ?thesis using n by (simp add: wf_node_iff)
  qed
  have "wf_tree pp (change_node part ?path ?f ns)"
  proof (rule wf_change_node [OF Cons.prems(2)])
    fix n assume "n \<in> set ns" "node_name n = part"
    then have "wf_node pp n" using Cons.prems(2) by (simp add: wf_tree_def list_all_iff)
    then show "wf_node pp (?f n)" using \<open>node_name n = part\<close> by (intro ok) (auto simp: wf_node_iff)
  next
    show "wf_node pp (?f (TreeNode part ?path [] None))"
      using Cons.prems(1) empty by (intro ok) simp_all
  qed simp
  then show ?case using Cons.prems by (simp add: Let_def segment_def)
qed simp

lemma wf_insert_all: "wf_tree [] (insert_all projectPath ds)"
proof -
  have "wf_tree [] ns \<Longrightarrow> wf_tree [] (foldl (\<lambda>root d. insertTreeNode (diff_parts projectPath d) d [] root) ns ds)" for ns
    by (induction ds arbitrary: ns) (simp_all add: wf_insert diff_parts_def path_parts_segments)
  then show ?thesis by (simp add: insert_all_def wf_tree_def)
qed

section \<open>Sorting\<close>

lemma sort_node_simps [simp]:
  "node_name (sort_node le n) = node_name n" "node_path (sort_node le n) = node_path n"
  "node_diff (sort_node le n) = node_diff n" "node_children (sort_node le n) = sortNodes le (node_children n)"
  by (cases n; simp add: sortNodes_def)+

lemma find_name_iff:
  "distinct (map node_name ns) \<Longrightarrow>
     find (\<lambda>n. node_name n = q) ns = Some n \<longleftrightarrow> n \<in> set ns \<and> node_name n = q"
  by (induction ns) force+

lemma names_sortNodes: "mset (map node_name (sortNodes le ns)) = mset (map node_name ns)"
  by (simp add: sortNodes_def multiset.map_comp comp_def)

lemma distinct_sortNodes: "distinct (map node_name (sortNodes le ns)) = distinct (map node_name ns)"
  by (metis names_sortNodes mset_eq_imp_distinct_iff)

lemma find_sortNodes:
  assumes "distinct (map node_name ns)"
  shows "find (\<lambda>n. node_name n = q) (sortNodes le ns) = map_option (sort_node le) (find (\<lambda>n. node_name n = q) ns)"
proof (cases "find (\<lambda>n. node_name n = q) ns")
  case None
  then have "\<forall>n \<in> set (sortNodes le ns). node_name n \<noteq> q" by (auto simp: find_None_iff sortNodes_def)
  then have "find (\<lambda>n. node_name n = q) (sortNodes le ns) = None" by (auto simp: find_None_iff)
  with None show ?thesis by simp
next
  case (Some n)
  then have "n \<in> set ns \<and> node_name n = q" using find_name_iff [OF assms] by blast
  then have "sort_node le n \<in> set (sortNodes le ns) \<and> node_name (sort_node le n) = q" by (simp add: sortNodes_def)
  then have "find (\<lambda>n. node_name n = q) (sortNodes le ns) = Some (sort_node le n)"
    using assms find_name_iff [of "sortNodes le ns"] by (simp add: distinct_sortNodes)
  with Some show ?thesis by simp
qed

lemma wf_child: "wf_tree pp ns \<Longrightarrow> find (\<lambda>n. node_name n = q) ns = Some n \<Longrightarrow> wf_node pp n \<and> n \<in> set ns \<and> node_name n = q"
  by (auto simp: wf_tree_def list_all_iff find_name_iff)

lemma tree_lookup_sort: "wf_tree pp ns \<Longrightarrow> tree_lookup (sortNodes le ns) q = tree_lookup ns q"
proof (induction q arbitrary: pp ns)
  case (Cons p ps)
  have f: "find (\<lambda>n. node_name n = p) (sortNodes le ns) = map_option (sort_node le) (find (\<lambda>n. node_name n = p) ns)"
    using Cons.prems by (intro find_sortNodes) (simp add: wf_tree_def)
  show ?case
  proof (cases "find (\<lambda>n. node_name n = p) ns")
    case (Some n)
    then have "wf_tree (node_path n) (node_children n)" using wf_child Cons.prems wf_node_iff by blast
    with Cons.IH Some f show ?thesis by simp
  qed (simp add: f)
qed simp

lemma set_sortNodes: "set (sortNodes le ns) = sort_node le ` set ns"
  by (simp add: sortNodes_def)

lemma sortNodes_Nil [simp]: "sortNodes le ns = [] \<longleftrightarrow> ns = []"
  by (metis length_0_conv length_map length_sort_by sortNodes_def)

lemma wf_sort_node: "wf_node pp n \<Longrightarrow> wf_node pp (sort_node le n)"
proof (induction n arbitrary: pp)
  case (TreeNode name path cs d)
  then have "wf_tree path (sortNodes le cs)"
    by (auto simp only: wf_tree_def distinct_sortNodes list_all_iff set_sortNodes wf_node.simps)
  with TreeNode.prems show ?case
    unfolding wf_node_iff [of pp "sort_node le (TreeNode name path cs d)"] sort_node_simps by auto
qed

lemma wf_sort: "wf_tree pp ns \<Longrightarrow> wf_tree pp (sortNodes le ns)"
  by (auto simp only: wf_tree_def distinct_sortNodes list_all_iff set_sortNodes wf_sort_node)

lemma comparator_node_le: "comparator le \<Longrightarrow> comparator (node_le le)"
  by unfold_locales (auto simp: node_le_def dest: comparator.le_total comparator.le_trans split: if_splits)

fun sorted_node :: "(string \<Rightarrow> string \<Rightarrow> bool) \<Rightarrow> FileTreeNode \<Rightarrow> bool" where
  "sorted_node le (TreeNode _ _ cs _) = (sorted_wrt (node_le le) cs \<and> list_all (sorted_node le) cs)"

lemma sorted_sort_node: "comparator le \<Longrightarrow> sorted_node le (sort_node le n)"
proof (induction n)
  case (TreeNode name path cs d)
  then show ?case
    by (auto simp: list_all_iff intro!: comparator.sorted_sort_by comparator_node_le)
qed

section \<open>Visible rows\<close>

lemma in_concat_map: "x \<in> set xs \<Longrightarrow> y \<in> set (f x) \<Longrightarrow> y \<in> set (concat (map f xs))"
  by auto

text \<open>A diff whose ancestors are expanded has a row, unless one of its ancestors is a diff itself.\<close>

lemma row_shown:
  assumes "wf_tree pp ns" "tree_lookup ns parts = Some d"
    and "\<And>k. 0 < k \<Longrightarrow> k < length parts \<Longrightarrow> tree_lookup ns (take k parts) = None"
    and "set (ancestors_from pp (butlast parts)) \<subseteq> set expanded"
  shows "\<exists>row \<in> set (concat (map (node_rows expanded sel depth) ns)).
    row_path row = foldl child_path pp parts \<and> row_status row = Some (gs_status (fd_entry d))"
  using assms
proof (induction parts arbitrary: pp ns depth)
  case (Cons p ps)
  then obtain n where n: "find (\<lambda>n. node_name n = p) ns = Some n" by (auto split: option.splits)
  then have w: "wf_node pp n" "n \<in> set ns" "node_name n = p" using wf_child Cons.prems(1) by blast+
  obtain path cs dd where nn: "n = TreeNode p path cs dd" using w(3) by (cases n) auto
  have path: "path = child_path pp p" using w nn by simp
  show ?case
  proof (cases "ps = []")
    case True
    then have "dd = Some d" using Cons.prems(2) n nn by simp
    then have "\<exists>row \<in> set (node_rows expanded sel depth n).
        row_path row = foldl child_path pp (p # ps) \<and> row_status row = Some (gs_status (fd_entry d))"
      using nn path True by simp
    then show ?thesis using w(2) by auto
  next
    case False
    have lk: "tree_lookup cs ps = Some d" using Cons.prems(2) n nn False by simp
    have "tree_lookup ns (take 1 (p # ps)) = None" using Cons.prems(3) [of 1] False by simp
    then have dd: "dd = None" using n nn by simp
    have cs: "cs \<noteq> []" using lk by (cases ps) auto
    have pre: "tree_lookup cs (take k ps) = None" if "0 < k" "k < length ps" for k
      using Cons.prems(3) [of "Suc k"] that n nn by (cases "take k ps") auto
    have anc: "path \<in> set expanded" "set (ancestors_from path (butlast ps)) \<subseteq> set expanded"
      using Cons.prems(4) False path by (auto simp: Let_def)
    have "wf_tree path cs" using w(1) nn by (auto simp: wf_tree_def)
    from Cons.IH [OF this lk pre anc(2), of "depth + 1"] obtain row
      where row: "row \<in> set (concat (map (node_rows expanded sel (depth + 1)) cs))"
        "row_path row = foldl child_path path ps" "row_status row = Some (gs_status (fd_entry d))" by auto
    then have "row \<in> set (node_rows expanded sel depth n)" using nn dd cs anc(1) by simp
    with row w(2) path show ?thesis by auto
  qed
qed simp

lemma foldl_child_path:
  "list_all segment parts \<Longrightarrow> pp \<noteq> [] \<Longrightarrow> foldl child_path pp parts = join ''/'' (pp # parts)"
proof (induction parts arbitrary: pp)
  case (Cons a parts)
  have "foldl child_path pp (a # parts) = join ''/'' ((pp @ ''/'' @ a) # parts)"
    using Cons.IH [of "pp @ ''/'' @ a"] Cons.prems by (simp add: child_path_def [of pp])
  then show ?case by (cases parts) simp_all
qed simp

lemma foldl_child_path_root: "list_all segment parts \<Longrightarrow> foldl child_path [] parts = join ''/'' parts"
  by (cases parts) (auto simp: child_path_def segment_def foldl_child_path)

lemma path_parts_join: "list_all segment parts \<Longrightarrow> path_parts (join ''/'' parts) = parts"
proof (cases "parts = []")
  case False
  assume "list_all segment parts"
  then have "split_on (CHR ''/'') (join ''/'' parts) = parts" "filter (\<lambda>x. x \<noteq> []) parts = parts"
    using False by (auto simp: split_on_join list_all_iff segment_def filter_id_conv)
  then show ?thesis by (simp add: path_parts_def)
qed (simp add: path_parts_def)

lemma expand_selected_ancestors:
  "p \<noteq> [] \<Longrightarrow> set (getAncestorPaths p) \<subseteq> set (expand_selected (Some p) expanded)"
proof -
  have "set xs \<union> set as \<subseteq> set (foldl (\<lambda>next a. if a \<in> set next then next else next @ [a]) xs as)" for xs as :: "string list"
    by (induction as arbitrary: xs) (simp_all, fastforce+)
  then show "p \<noteq> [] \<Longrightarrow> set (getAncestorPaths p) \<subseteq> set (expand_selected (Some p) expanded)"
    by (auto simp: expand_selected_def Let_def)
qed

lemma wf_lookup_segments: "wf_tree pp ns \<Longrightarrow> tree_lookup ns parts = Some d \<Longrightarrow> list_all segment parts \<and> parts \<noteq> []"
proof (induction parts arbitrary: pp ns)
  case (Cons p ps)
  then obtain n where n: "find (\<lambda>n. node_name n = p) ns = Some n" by (auto split: option.splits)
  then have "wf_node pp n" "node_name n = p" using wf_child Cons.prems(1) by blast+
  then show ?case using Cons.IH [of "node_path n" "node_children n"] Cons.prems(2) n
    by (auto simp: wf_node_iff split: if_splits)
qed simp

lemma tree_lookup_insert_all:
  "tree_lookup (insert_all projectPath ds) =
     map_of (rev (filter (\<lambda>(k, _). k \<noteq> []) (map (\<lambda>d. (diff_parts projectPath d, d)) ds)))"
proof (induction ds rule: rev_induct)
  case Nil
  have "tree_lookup [] q = None" for q by (cases q) simp_all
  then show ?case by (auto simp: insert_all_def)
next
  case (snoc d ds)
  have seg: "[] \<notin> set (diff_parts projectPath d)"
    using path_parts_segments [of "stripProjectPath (fd_path d) projectPath"]
    by (auto simp: diff_parts_def list_all_iff segment_def)
  show ?case
  proof (cases "diff_parts projectPath d = []")
    case False
    with snoc seg show ?thesis by (simp add: insert_all_def tree_lookup_insert)
  qed (use snoc in \<open>simp add: insert_all_def\<close>)
qed

section \<open>Properties\<close>

text \<open>
  C11. The file tree refines a map: read as a map from path segments to diffs, the sorted tree is the
  map that the list of diffs defines, the last diff of a path winning; and the tree is well formed:
  distinct siblings, paths that are those of the parent with the name, and no empty directory.
\<close>

theorem file_tree_refines_map:
  "tree_lookup (buildFileTree le ds projectPath) =
     map_of (rev (filter (\<lambda>(k, _). k \<noteq> []) (map (\<lambda>d. (diff_parts projectPath d, d)) ds)))
   \<and> wf_tree [] (buildFileTree le ds projectPath)"
proof -
  have "tree_lookup (buildFileTree le ds projectPath) = tree_lookup (insert_all projectPath ds)"
    using tree_lookup_sort [OF wf_insert_all] by (auto simp: buildFileTree_def)
  then show ?thesis by (simp add: tree_lookup_insert_all buildFileTree_def wf_sort wf_insert_all)
qed

text \<open>
  Selecting a changed file reveals it: whatever directories were open, after the effect of the
  selection the tree shows a row for the file with its status, provided that no directory above it
  is itself listed as a changed file.
\<close>

theorem file_tree_reveals:
  assumes "tree_lookup (buildFileTree le ds projectPath) parts = Some d"
    and "\<And>k. 0 < k \<Longrightarrow> k < length parts \<Longrightarrow> tree_lookup (buildFileTree le ds projectPath) (take k parts) = None"
  shows "\<exists>row \<in> set (tree_rows (expand_selected (Some (join ''/'' parts)) expanded) sel (buildFileTree le ds projectPath)).
    row_path row = join ''/'' parts \<and> row_status row = Some (gs_status (fd_entry d))"
proof -
  let ?t = "buildFileTree le ds projectPath"
  have wf: "wf_tree [] ?t" by (simp add: buildFileTree_def wf_sort wf_insert_all)
  then have seg: "list_all segment parts" "parts \<noteq> []" using wf_lookup_segments assms(1) by blast+
  have "join ''/'' parts \<noteq> []" using seg path_parts_join [of parts] by (auto simp: path_parts_def)
  from expand_selected_ancestors [OF this, of expanded]
  have "set (ancestors_from [] (butlast parts)) \<subseteq> set (expand_selected (Some (join ''/'' parts)) expanded)"
    by (simp add: getAncestorPaths_def path_parts_join [OF seg(1)])
  from row_shown [OF wf assms this, of sel 0] show ?thesis
    by (simp add: tree_rows_def foldl_child_path_root [OF seg(1)])
qed

definition sample_diff :: "string \<Rightarrow> FileDiff" where
  "sample_diff p =
     \<lparr>fd_path = p, fd_entry = \<lparr>gs_path = p, gs_status = Modified, gs_staged = False, gs_originalPath = None\<rparr>,
      fd_original = ''x'', fd_modified = ''y'', fd_additions = 1, fd_deletions = 1\<rparr>"

theorem file_tree_reveals_witness:
  "\<exists>row \<in> set (tree_rows (expand_selected (Some ''a/b'') []) None
      (buildFileTree (\<lambda>_ _. True) [sample_diff ''a/b'', sample_diff ''c''] None)).
    row_path row = ''a/b'' \<and> row_status row = Some Modified"
proof -
  let ?t = "buildFileTree (\<lambda>_ _. True) [sample_diff ''a/b'', sample_diff ''c''] None"
  have leaf: "tree_lookup ?t [''a'', ''b''] = Some (sample_diff ''a/b'')" by code_simp
  have dir: "tree_lookup ?t [''a''] = None" by code_simp
  have above: "tree_lookup ?t (take k [''a'', ''b'']) = None" if "0 < k" "k < length [''a'', ''b'']" for k
  proof -
    have "take k [''a'', ''b''] = [''a'']" using that by (cases k) simp_all
    then show ?thesis by (simp only: dir)
  qed
  from file_tree_reveals [OF leaf above, of "[]" None]
  have "\<exists>row \<in> set (tree_rows (expand_selected (Some (join ''/'' [''a'', ''b''])) []) None ?t).
      row_path row = join ''/'' [''a'', ''b''] \<and> row_status row = Some (gs_status (fd_entry (sample_diff ''a/b'')))" .
  then show ?thesis by (simp add: sample_diff_def)
qed

text \<open>
  The proviso matters: where a changed file was replaced by a directory, the files below it have no
  row, whatever is expanded.
\<close>

lemma tree_hides_below_diff:
  "map row_path (tree_rows expanded sel (buildFileTree le [sample_diff ''a'', sample_diff ''a/b''] None)) = [''a'']"
  by (simp add: buildFileTree_def insert_all_def diff_parts_def path_parts_def stripProjectPath_def sample_diff_def
      child_path_def sortNodes_def tree_rows_def Let_def)

end
