(* ===== verification/Source_Control.thy ===== *)
theory Source_Control
  imports Source_Tree Js_Number
begin

text \<open>
  The source control panel of \<open>components/agents/ported/SourceControlTile.tsx\<close>. The host's \<open>window.git\<close>
  is not part of the repository: a call to it is a task that the panel waits for, and its answer is an
  argument of the definition that continues the handler after the \<open>await\<close>. Answers come in any order.
  The panel is then a transition system over its state and the tasks under way.
\<close>

section \<open>Statuses\<close>

fun STATUS_LABELS :: "GitFileStatus \<Rightarrow> string" where
  "STATUS_LABELS IndexModified = ''M''" | "STATUS_LABELS IndexAdded = ''A''"
| "STATUS_LABELS IndexDeleted = ''D''" | "STATUS_LABELS IndexRenamed = ''R''"
| "STATUS_LABELS IndexCopied = ''C''" | "STATUS_LABELS Modified = ''M''"
| "STATUS_LABELS Deleted = ''D''" | "STATUS_LABELS Untracked = ''U''"
| "STATUS_LABELS Ignored = ''!''" | "STATUS_LABELS TypeChanged = ''T''"
| "STATUS_LABELS IntentToAdd = ''A''" | "STATUS_LABELS BothModified = ''!''"
| "STATUS_LABELS BothAdded = ''!''" | "STATUS_LABELS AddedByUs = ''!''"
| "STATUS_LABELS AddedByThem = ''!''" | "STATUS_LABELS DeletedByUs = ''!''"
| "STATUS_LABELS DeletedByThem = ''!''" | "STATUS_LABELS BothDeleted = ''!''"

datatype StatusColor = Yellow | Green | Red | Blue | Gray | Orange

fun STATUS_COLORS :: "GitFileStatus \<Rightarrow> StatusColor" where
  "STATUS_COLORS IndexModified = Yellow" | "STATUS_COLORS IndexAdded = Green"
| "STATUS_COLORS IndexDeleted = Red" | "STATUS_COLORS IndexRenamed = Blue"
| "STATUS_COLORS IndexCopied = Blue" | "STATUS_COLORS Modified = Yellow"
| "STATUS_COLORS Deleted = Red" | "STATUS_COLORS Untracked = Green"
| "STATUS_COLORS Ignored = Gray" | "STATUS_COLORS TypeChanged = Yellow"
| "STATUS_COLORS IntentToAdd = Green" | "STATUS_COLORS BothModified = Orange"
| "STATUS_COLORS BothAdded = Orange" | "STATUS_COLORS AddedByUs = Orange"
| "STATUS_COLORS AddedByThem = Orange" | "STATUS_COLORS DeletedByUs = Orange"
| "STATUS_COLORS DeletedByThem = Orange" | "STATUS_COLORS BothDeleted = Orange"

definition isUntracked :: "GitFileStatus \<Rightarrow> bool" where
  "isUntracked status = (status = Untracked)"

definition isConflict :: "GitFileStatus \<Rightarrow> bool" where
  "isConflict status =
     (status = BothModified \<or> status = BothAdded \<or> status = BothDeleted \<or> status = AddedByUs
      \<or> status = AddedByThem \<or> status = DeletedByUs \<or> status = DeletedByThem)"

definition countChanges :: "diff_parser \<Rightarrow> string \<Rightarrow> string \<Rightarrow> string \<Rightarrow> LineChanges" where
  "countChanges hunks old new path = countLineChanges hunks (Some old) new path"

section \<open>State\<close>

record SyncStatus =
  ahead :: int
  behind :: int
  remote :: "string option"
  branchName :: "string option"

text \<open>The calls to the host under way, each with what the rest of its handler has captured.\<close>

datatype git_task =
    StatusTask string
  | DiffsTask string "GitStatusEntry list"
  | PollTask string
  | StageAllTask string
  | DiscardAllTask string
  | UnstageAllTask string
  | CommitTask string string
  | PushTask string
  | PullTask string
  | CreatePRTask string
  | CreateBranchTask string string

text \<open>
  \<open>timers\<close> are the timeouts of the status message that may still fire, \<open>resizers\<close> the installed mouse
  listeners with the position and the width at their start.
\<close>

record sc_state =
  activePath :: "string option"
  mainProjectPath :: "string option"
  entries :: "GitStatusEntry list"
  syncStatus :: "SyncStatus option"
  fileDiffs :: "FileDiff list"
  loading :: bool
  statusMsg :: "(string \<times> bool) option"
  statusTimerRef :: "nat option"
  timers :: "nat list"
  nextTimer :: nat
  fileExplorerOpen :: bool
  fileExplorerWidth :: rat
  gitActionsOpen :: bool
  commitDialogOpen :: bool
  commitMessage :: string
  committing :: bool
  pushing :: bool
  pulling :: bool
  createBranchOpen :: bool
  newBranchName :: string
  selectedDiffPath :: "string option"
  initialLoadDone :: bool
  activePollPath :: "string option"
  resizers :: "(rat \<times> rat) list"
  pending :: "git_task list"

definition FILE_EXPLORER_MIN_WIDTH :: rat where "FILE_EXPLORER_MIN_WIDTH = 220"
definition FILE_EXPLORER_MAX_WIDTH :: rat where "FILE_EXPLORER_MAX_WIDTH = 520"

definition rootPath :: "sc_state \<Rightarrow> string option" where
  "rootPath s = (if truthy_str (mainProjectPath s) then mainProjectPath s else activePath s)"

definition await_git :: "git_task \<Rightarrow> sc_state \<Rightarrow> sc_state" where
  "await_git t s = s\<lparr>pending := pending s @ [t]\<rparr>"

definition showStatus :: "string \<Rightarrow> bool \<Rightarrow> sc_state \<Rightarrow> sc_state" where
  "showStatus text error s =
     s\<lparr>statusMsg := Some (text, error),
       timers := filter (\<lambda>i. statusTimerRef s \<noteq> Some i) (timers s) @ [nextTimer s],
       statusTimerRef := Some (nextTimer s), nextTimer := Suc (nextTimer s)\<rparr>"

definition status_timeout :: "nat \<Rightarrow> sc_state \<Rightarrow> sc_state" where
  "status_timeout i s = s\<lparr>timers := removeAll i (timers s), statusMsg := None\<rparr>"

section \<open>Loading\<close>

text \<open>\<open>refresh\<close> of the path captured by the handler, up to its first \<open>await\<close>.\<close>

definition refresh :: "string option \<Rightarrow> sc_state \<Rightarrow> sc_state" where
  "refresh path s = (if \<not> truthy_str path then s else await_git (StatusTask (the path)) (s\<lparr>loading := True\<rparr>))"

definition diffable :: "GitStatusEntry list \<Rightarrow> GitStatusEntry list" where
  "diffable statusEntries = filter (\<lambda>e. \<not> isConflict (gs_status e)) statusEntries"

text \<open>The status has come: \<open>loadDiffs\<close> asks for the diffs of every entry without conflict.\<close>

definition refresh_loaded :: "string \<Rightarrow> GitStatusEntry list \<Rightarrow> SyncStatus option \<Rightarrow> sc_state \<Rightarrow> sc_state" where
  "refresh_loaded path statusEntries sync s =
     await_git (DiffsTask path (diffable statusEntries)) (s\<lparr>entries := statusEntries, syncStatus := sync\<rparr>)"

definition refresh_failed :: "sc_state \<Rightarrow> sc_state" where
  "refresh_failed s = s\<lparr>entries := [], syncStatus := None, fileDiffs := [], loading := False\<rparr>"

text \<open>One answer of \<open>diffFile\<close>; \<open>None\<close> where it is null or the call threw, which skips the file.\<close>

fun file_diff :: "diff_parser \<Rightarrow> GitStatusEntry \<times> (string \<times> string) option \<Rightarrow> FileDiff option" where
  "file_diff hunks (entry, None) = None"
| "file_diff hunks (entry, Some (original, modified)) =
     (let n = countChanges hunks original modified (gs_path entry) in
      Some \<lparr>fd_path = gs_path entry, fd_entry = entry, fd_original = original, fd_modified = modified,
            fd_additions = additions n, fd_deletions = deletions n\<rparr>)"

definition path_le :: "(string \<Rightarrow> string \<Rightarrow> bool) \<Rightarrow> FileDiff \<Rightarrow> FileDiff \<Rightarrow> bool" where
  "path_le le a b = le (fd_path a) (fd_path b)"

text \<open>All answers, in the order in which they came; the diffs are pushed in that order and sorted.\<close>

definition diffs_loaded ::
  "(string \<Rightarrow> string \<Rightarrow> bool) \<Rightarrow> diff_parser \<Rightarrow> (GitStatusEntry \<times> (string \<times> string) option) list \<Rightarrow> sc_state \<Rightarrow> sc_state" where
  "diffs_loaded le hunks answers s =
     s\<lparr>fileDiffs := sort_by (path_le le) (List.map_filter (file_diff hunks) answers), loading := False\<rparr>"

text \<open>
  A render with new properties: the first load, and the reload where the path is another one. With
  a path that arrives after the first render both conditions hold, and two loads start.
\<close>

definition sc_render :: "string option \<Rightarrow> string option \<Rightarrow> sc_state \<Rightarrow> sc_state" where
  "sc_render path mainPath s0 =
     (let s1 = s0\<lparr>activePath := path, mainProjectPath := mainPath\<rparr>;
          s2 = (if \<not> initialLoadDone s1 \<and> truthy_str path then refresh path (s1\<lparr>initialLoadDone := True\<rparr>) else s1)
      in if activePollPath s2 \<noteq> path
         then (let s3 = s2\<lparr>activePollPath := path, initialLoadDone := False\<rparr> in
               if truthy_str path then refresh path (s3\<lparr>initialLoadDone := True\<rparr>) else s3)
         else s2)"

definition mount_sc :: "string option \<Rightarrow> string option \<Rightarrow> sc_state" where
  "mount_sc path mainPath = sc_render path mainPath
     \<lparr>activePath = path, mainProjectPath = mainPath, entries = [], syncStatus = None, fileDiffs = [],
      loading = False, statusMsg = None, statusTimerRef = None, timers = [], nextTimer = 0,
      fileExplorerOpen = True, fileExplorerWidth = 288, gitActionsOpen = False, commitDialogOpen = False,
      commitMessage = [], committing = False, pushing = False, pulling = False, createBranchOpen = False,
      newBranchName = [], selectedDiffPath = None, initialLoadDone = False, activePollPath = path,
      resizers = [], pending = []\<rparr>"

text \<open>The interval polls the status of the path of the last render; equal entries are kept.\<close>

definition poll :: "sc_state \<Rightarrow> sc_state" where
  "poll s = (if \<not> truthy_str (activePollPath s) then s else await_git (PollTask (the (activePollPath s))) s)"

definition poll_loaded :: "GitStatusEntry list \<Rightarrow> SyncStatus option \<Rightarrow> sc_state \<Rightarrow> sc_state" where
  "poll_loaded statusEntries sync s = s\<lparr>entries := statusEntries, syncStatus := sync\<rparr>"

section \<open>Groups of entries\<close>

definition stagedEntries :: "sc_state \<Rightarrow> GitStatusEntry list" where
  "stagedEntries s = filter (\<lambda>e. gs_staged e \<and> \<not> isConflict (gs_status e)) (entries s)"

definition changedEntries :: "sc_state \<Rightarrow> GitStatusEntry list" where
  "changedEntries s =
     filter (\<lambda>e. \<not> gs_staged e \<and> \<not> isConflict (gs_status e) \<and> \<not> isUntracked (gs_status e)) (entries s)"

definition untrackedEntries :: "sc_state \<Rightarrow> GitStatusEntry list" where
  "untrackedEntries s = filter (\<lambda>e. isUntracked (gs_status e)) (entries s)"

definition totalUnstaged :: "sc_state \<Rightarrow> nat" where
  "totalUnstaged s = length (changedEntries s) + length (untrackedEntries s)"

definition totalChanges :: "sc_state \<Rightarrow> nat" where
  "totalChanges s = length (entries s)"

section \<open>Handlers\<close>

text \<open>A handler up to its \<open>await\<close>; then its rest, with the path it captured and the host's result.\<close>

record git_result =
  success :: bool
  result_error :: "string option"

definition handleStageAll :: "sc_state \<Rightarrow> sc_state" where
  "handleStageAll s = (if \<not> truthy_str (activePath s) then s else await_git (StageAllTask (the (activePath s))) s)"

definition handleDiscardAll :: "sc_state \<Rightarrow> sc_state" where
  "handleDiscardAll s = (if \<not> truthy_str (activePath s) then s else await_git (DiscardAllTask (the (activePath s))) s)"

definition handleUnstageAll :: "sc_state \<Rightarrow> sc_state" where
  "handleUnstageAll s = (if \<not> truthy_str (activePath s) then s else await_git (UnstageAllTask (the (activePath s))) s)"

definition handleCommit :: "sc_state \<Rightarrow> sc_state" where
  "handleCommit s =
     (if \<not> truthy_str (activePath s) \<or> trim (commitMessage s) = [] then s
      else if length (stagedEntries s) = 0 then showStatus ''No staged changes to commit'' True s
      else await_git (CommitTask (the (activePath s)) (trim (commitMessage s))) (s\<lparr>committing := True\<rparr>))"

definition handlePush :: "sc_state \<Rightarrow> sc_state" where
  "handlePush s =
     (if \<not> truthy_str (activePath s) then s else await_git (PushTask (the (activePath s))) (s\<lparr>pushing := True\<rparr>))"

definition handlePull :: "sc_state \<Rightarrow> sc_state" where
  "handlePull s =
     (if \<not> truthy_str (activePath s) then s else await_git (PullTask (the (activePath s))) (s\<lparr>pulling := True\<rparr>))"

definition handleCreatePR :: "sc_state \<Rightarrow> sc_state" where
  "handleCreatePR s = (if \<not> truthy_str (activePath s) then s else await_git (CreatePRTask (the (activePath s))) s)"

definition handleCreateBranch :: "sc_state \<Rightarrow> sc_state" where
  "handleCreateBranch s =
     (if \<not> truthy_str (activePath s) \<or> trim (newBranchName s) = [] then s
      else await_git (CreateBranchTask (the (activePath s)) (trim (newBranchName s))) s)"

text \<open>The branches after \<open>stageAll\<close>, \<open>discardAll\<close> and \<open>unstageAll\<close> differ in the message only.\<close>

definition all_done :: "string \<Rightarrow> string \<Rightarrow> git_result \<Rightarrow> sc_state \<Rightarrow> sc_state" where
  "all_done failed path r s =
     (if \<not> success r then showStatus (nullish (result_error r) failed) True s else refresh (Some path) s)"

definition commit_done :: "string \<Rightarrow> git_result \<Rightarrow> sc_state \<Rightarrow> sc_state" where
  "commit_done path r s =
     (let s' = s\<lparr>committing := False\<rparr> in
      if success r
      then refresh (Some path)
             (showStatus ''Committed successfully'' False (s'\<lparr>commitMessage := [], commitDialogOpen := False\<rparr>))
      else showStatus (nullish (result_error r) ''Commit failed'') True s')"

definition push_done :: "string \<Rightarrow> git_result \<Rightarrow> sc_state \<Rightarrow> sc_state" where
  "push_done path r s =
     (let s' = s\<lparr>pushing := False\<rparr> in
      if success r
      then refresh (Some path) ((showStatus ''Pushed successfully'' False s')\<lparr>gitActionsOpen := False\<rparr>)
      else showStatus (nullish (result_error r) ''Push failed'') True s')"

definition pull_done :: "string \<Rightarrow> git_result \<Rightarrow> sc_state \<Rightarrow> sc_state" where
  "pull_done path r s =
     (let s' = s\<lparr>pulling := False\<rparr> in
      if success r
      then refresh (Some path) ((showStatus ''Pulled successfully'' False s')\<lparr>gitActionsOpen := False\<rparr>)
      else showStatus (nullish (result_error r) ''Pull failed'') True s')"

definition createPR_done :: "git_result \<Rightarrow> sc_state \<Rightarrow> sc_state" where
  "createPR_done r s =
     (let s' = s\<lparr>gitActionsOpen := False\<rparr> in
      if \<not> success r then showStatus (nullish (result_error r) ''Failed to create PR'') True s'
      else showStatus ''Opening PR in browser...'' False s')"

definition createBranch_done :: "string \<Rightarrow> string \<Rightarrow> git_result \<Rightarrow> sc_state \<Rightarrow> sc_state" where
  "createBranch_done path branch r s =
     (if success r
      then refresh (Some path)
             (showStatus (''Created branch: '' @ branch) False
                (s\<lparr>newBranchName := [], createBranchOpen := False, gitActionsOpen := False\<rparr>))
      else showStatus (nullish (result_error r) ''Failed to create branch'') True s)"

fun task_done :: "git_task \<Rightarrow> git_result \<Rightarrow> sc_state \<Rightarrow> sc_state" where
  "task_done (StageAllTask path) r s = all_done ''Stage all failed'' path r s"
| "task_done (DiscardAllTask path) r s = all_done ''Discard all failed'' path r s"
| "task_done (UnstageAllTask path) r s = all_done ''Unstage all failed'' path r s"
| "task_done (CommitTask path _) r s = commit_done path r s"
| "task_done (PushTask path) r s = push_done path r s"
| "task_done (PullTask path) r s = pull_done path r s"
| "task_done (CreatePRTask _) r s = createPR_done r s"
| "task_done (CreateBranchTask path branch) r s = createBranch_done path branch r s"
| "task_done _ r s = s"

section \<open>Diff cards and the selection\<close>

record DiffCardData =
  card_key :: string
  displayPath :: string
  card_original :: string
  card_modified :: string
  card_additions :: int
  card_deletions :: int

definition diff_card :: "string option \<Rightarrow> FileDiff \<Rightarrow> DiffCardData" where
  "diff_card path d =
     \<lparr>card_key = (if gs_staged (fd_entry d) then ''s'' else ''c'') @ ''-'' @ fd_path d,
      displayPath = stripProjectPath (fd_path d) path, card_original = fd_original d,
      card_modified = fd_modified d, card_additions = fd_additions d, card_deletions = fd_deletions d\<rparr>"

definition diffCards :: "sc_state \<Rightarrow> DiffCardData list" where
  "diffCards s = map (diff_card (activePath s)) (fileDiffs s)"

definition fileTree :: "(string \<Rightarrow> string \<Rightarrow> bool) \<Rightarrow> sc_state \<Rightarrow> FileTreeNode list" where
  "fileTree le s = buildFileTree le (fileDiffs s) (activePath s)"

definition diffPaths :: "sc_state \<Rightarrow> string list" where
  "diffPaths s = map displayPath (diffCards s)"

definition effectiveSelectedDiffPath :: "sc_state \<Rightarrow> string option" where
  "effectiveSelectedDiffPath s =
     (if truthy_str (selectedDiffPath s) \<and> the (selectedDiffPath s) \<in> set (diffPaths s) then selectedDiffPath s
      else (case diffPaths s of [] \<Rightarrow> None | p # _ \<Rightarrow> Some p))"

text \<open>\<open>focusDiff\<close>; the card it scrolls to is the one registered under the path, if any.\<close>

definition focusDiff :: "string \<Rightarrow> sc_state \<Rightarrow> sc_state" where
  "focusDiff path s = s\<lparr>selectedDiffPath := Some path\<rparr>"

definition scroll_card :: "string \<Rightarrow> sc_state \<Rightarrow> string option" where
  "scroll_card path s = (if path \<in> set (diffPaths s) then Some path else None)"

text \<open>A click on a card selects it and flips its own \<open>expanded\<close>.\<close>

definition diff_card_click :: "DiffCardData \<Rightarrow> bool \<Rightarrow> sc_state \<Rightarrow> sc_state \<times> bool" where
  "diff_card_click c expanded s = (focusDiff (displayPath c) s, \<not> expanded)"

section \<open>Resizing\<close>

definition handleResizeStart :: "rat \<Rightarrow> sc_state \<Rightarrow> sc_state" where
  "handleResizeStart clientX s = s\<lparr>resizers := resizers s @ [(clientX, fileExplorerWidth s)]\<rparr>"

definition resize_to :: "rat \<Rightarrow> rat \<times> rat \<Rightarrow> rat" where
  "resize_to clientX r =
     (case r of (startX, startWidth) \<Rightarrow>
      min FILE_EXPLORER_MAX_WIDTH (max FILE_EXPLORER_MIN_WIDTH (startWidth + (clientX - startX))))"

text \<open>A mouse move runs every installed listener, in order; a mouse up removes them all.\<close>

definition handleMouseMove :: "rat \<Rightarrow> sc_state \<Rightarrow> sc_state" where
  "handleMouseMove clientX s = foldl (\<lambda>s r. s\<lparr>fileExplorerWidth := resize_to clientX r\<rparr>) s (resizers s)"

definition handleMouseUp :: "sc_state \<Rightarrow> sc_state" where
  "handleMouseUp s = s\<lparr>resizers := []\<rparr>"

section \<open>Views\<close>

datatype AheadBehind = AheadAndBehind int int | OnlyAhead int | OnlyBehind int

definition aheadBehind :: "sc_state \<Rightarrow> AheadBehind option" where
  "aheadBehind s =
     (case syncStatus s of
        None \<Rightarrow> None
      | Some y \<Rightarrow> if ahead y > 0 \<and> behind y > 0 then Some (AheadAndBehind (ahead y) (behind y))
                  else if ahead y > 0 then Some (OnlyAhead (ahead y))
                  else if behind y > 0 then Some (OnlyBehind (behind y)) else None)"

record SourceHeader =
  sh_branch :: "string option"
  sh_aheadBehind :: "AheadBehind option"
  sh_changes :: "string option"
  sh_explorerToggle :: "bool option"
  sh_spinning :: bool

definition source_header :: "sc_state \<Rightarrow> SourceHeader" where
  "source_header s =
     (let b = nullish (Option.bind (syncStatus s) branchName) []; n = totalChanges s in
      \<lparr>sh_branch = (if b \<noteq> [] then Some b else None), sh_aheadBehind = aheadBehind s,
       sh_changes = (if n > 0 then Some (nat_str n @ '' change'' @ (if n = 1 then [] else ''s'')) else None),
       sh_explorerToggle = (if n > 0 then Some (fileExplorerOpen s) else None), sh_spinning = loading s\<rparr>)"

record ActionsMenu =
  am_staged :: "nat option"
  am_push :: string
  am_pushDisabled :: bool
  am_ahead :: "int option"
  am_pull :: string
  am_pullDisabled :: bool
  am_behind :: "int option"

definition actions_menu :: "sc_state \<Rightarrow> ActionsMenu option" where
  "actions_menu s =
     (if \<not> gitActionsOpen s then None
      else (let n = length (stagedEntries s) in
            Some \<lparr>am_staged = (if n > 0 then Some n else None),
                  am_push = (if pushing s then ''Pushing...'' else ''Push''), am_pushDisabled = pushing s,
                  am_ahead = (case syncStatus s of Some y \<Rightarrow> if ahead y > 0 then Some (ahead y) else None | None \<Rightarrow> None),
                  am_pull = (if pulling s then ''Pulling...'' else ''Pull''), am_pullDisabled = pulling s,
                  am_behind = (case syncStatus s of Some y \<Rightarrow> if behind y > 0 then Some (behind y) else None | None \<Rightarrow> None)\<rparr>))"

datatype ActionButton = RevertAllButton | StageAllButton | UnstageAllButton

definition action_bar :: "sc_state \<Rightarrow> ActionButton list" where
  "action_bar s =
     (if totalUnstaged s > 0 then [RevertAllButton, StageAllButton] else [])
     @ (if totalUnstaged s = 0 \<and> length (stagedEntries s) > 0 then [UnstageAllButton] else [])"

record ChangesView =
  chv_tree :: "(rat \<times> FileTreeNode list \<times> string option) option"
  chv_hint :: bool
  chv_cards :: "(DiffCardData \<times> bool) list"
  chv_actions :: "ActionButton list"

datatype SourceBody = NoProject | NoChanges | LoadingBlank | ChangesBody ChangesView

definition source_body :: "(string \<Rightarrow> string \<Rightarrow> bool) \<Rightarrow> sc_state \<Rightarrow> SourceBody" where
  "source_body le s =
     (if \<not> truthy_str (rootPath s) then NoProject
      else if totalChanges s = 0 then (if \<not> loading s then NoChanges else LoadingBlank)
      else ChangesBody
        \<lparr>chv_tree = (if fileExplorerOpen s
                     then Some (fileExplorerWidth s, fileTree le s, effectiveSelectedDiffPath s) else None),
         chv_hint = (length (diffCards s) = 0 \<and> \<not> loading s),
         chv_cards = map (\<lambda>c. (c, effectiveSelectedDiffPath s = Some (displayPath c))) (diffCards s),
         chv_actions = action_bar s\<rparr>)"

record CommitDialog =
  cd_warning :: bool
  cd_staged :: string
  cd_message :: string
  cd_disabled :: bool
  cd_label :: string

definition commit_dialog :: "sc_state \<Rightarrow> CommitDialog option" where
  "commit_dialog s =
     (if \<not> commitDialogOpen s then None
      else (let n = length (stagedEntries s) in
            Some \<lparr>cd_warning = (n = 0), cd_staged = nat_str n @ '' file'' @ (if n \<noteq> 1 then ''s'' else []) @ '' staged'',
                  cd_message = commitMessage s,
                  cd_disabled = (committing s \<or> trim (commitMessage s) = [] \<or> n = 0),
                  cd_label = (if committing s then ''Committing...'' else ''Commit'')\<rparr>))"

text \<open>The name in the branch dialog and whether its button is disabled.\<close>

definition branch_dialog :: "sc_state \<Rightarrow> (string \<times> bool) option" where
  "branch_dialog s = (if createBranchOpen s then Some (newBranchName s, trim (newBranchName s) = []) else None)"

section \<open>Transitions\<close>

datatype sc_event =
    Rendered "string option" "string option"
  | Interval
  | TreeSelect string
  | ResizeStart rat
  | MouseMove rat
  | MouseUp
  | RootClick
  | ToggleExplorer
  | ToggleActions
  | RefreshClick
  | OpenCommit
  | CloseCommit
  | EditMessage string
  | CommitClick
  | CommitKey
  | PushClick
  | PullClick
  | CreatePRClick
  | OpenBranch
  | CloseBranch
  | EditBranch string
  | BranchClick
  | BranchKey
  | ActionClick ActionButton

definition root_click :: "sc_state \<Rightarrow> sc_state" where
  "root_click s = (if gitActionsOpen s then s\<lparr>gitActionsOpen := False\<rparr> else s)"

fun action_click :: "ActionButton \<Rightarrow> sc_state \<Rightarrow> sc_state" where
  "action_click RevertAllButton s = handleDiscardAll s"
| "action_click StageAllButton s = handleStageAll s"
| "action_click UnstageAllButton s = handleUnstageAll s"

definition body_shown :: "sc_state \<Rightarrow> bool" where
  "body_shown s = (truthy_str (rootPath s) \<and> totalChanges s > 0)"

text \<open>What the user and the platform can do in a state; \<open>None\<close> where the control is not there or is disabled.\<close>

fun sc_user :: "sc_event \<Rightarrow> sc_state \<Rightarrow> sc_state option" where
  "sc_user (Rendered p m) s = Some (sc_render p m s)"
| "sc_user Interval s = Some (poll s)"
| "sc_user (TreeSelect p) s = (if body_shown s then Some (root_click (focusDiff p s)) else None)"
| "sc_user (ResizeStart x) s = (if body_shown s \<and> fileExplorerOpen s then Some (handleResizeStart x s) else None)"
| "sc_user (MouseMove x) s = Some (handleMouseMove x s)"
| "sc_user MouseUp s = Some (handleMouseUp s)"
| "sc_user RootClick s = Some (root_click s)"
| "sc_user ToggleExplorer s =
     (if totalChanges s > 0 then Some (s\<lparr>fileExplorerOpen := \<not> fileExplorerOpen s\<rparr>) else None)"
| "sc_user ToggleActions s = Some (s\<lparr>gitActionsOpen := \<not> gitActionsOpen s\<rparr>)"
| "sc_user RefreshClick s = Some (refresh (activePath s) s)"
| "sc_user OpenCommit s =
     (if gitActionsOpen s then Some (s\<lparr>commitDialogOpen := True, gitActionsOpen := False\<rparr>) else None)"
| "sc_user CloseCommit s = (if commitDialogOpen s then Some (s\<lparr>commitDialogOpen := False\<rparr>) else None)"
| "sc_user (EditMessage t) s = (if commitDialogOpen s then Some (s\<lparr>commitMessage := t\<rparr>) else None)"
| "sc_user CommitClick s =
     (case commit_dialog s of None \<Rightarrow> None | Some d \<Rightarrow> if cd_disabled d then None else Some (handleCommit s))"
| "sc_user CommitKey s = (if commitDialogOpen s then Some (handleCommit s) else None)"
| "sc_user PushClick s = (if gitActionsOpen s \<and> \<not> pushing s then Some (handlePush s) else None)"
| "sc_user PullClick s = (if gitActionsOpen s \<and> \<not> pulling s then Some (handlePull s) else None)"
| "sc_user CreatePRClick s = (if gitActionsOpen s then Some (handleCreatePR s) else None)"
| "sc_user OpenBranch s =
     (if gitActionsOpen s then Some (s\<lparr>createBranchOpen := True, gitActionsOpen := False\<rparr>) else None)"
| "sc_user CloseBranch s = (if createBranchOpen s then Some (s\<lparr>createBranchOpen := False\<rparr>) else None)"
| "sc_user (EditBranch t) s = (if createBranchOpen s then Some (s\<lparr>newBranchName := t\<rparr>) else None)"
| "sc_user BranchClick s =
     (case branch_dialog s of None \<Rightarrow> None | Some (_, d) \<Rightarrow> if d then None else Some (handleCreateBranch s))"
| "sc_user BranchKey s = (if createBranchOpen s then Some (handleCreateBranch s) else None)"
| "sc_user (ActionClick b) s = (if body_shown s \<and> b \<in> set (action_bar s) then Some (action_click b s) else None)"

fun is_command :: "git_task \<Rightarrow> bool" where
  "is_command (StatusTask _) = False" | "is_command (DiffsTask _ _) = False" | "is_command (PollTask _) = False"
| "is_command _ = True"

text \<open>
  The answer to one of the calls under way, or the rejection of its promise; the diffs of
  \<open>Promise.all\<close> come in any order. \<open>refresh\<close> and the poll catch a rejection. The handlers of the
  commands do not: nothing after their \<open>await\<close> runs, and what they had set stays set. The first
  component of a configuration is a history that the panel does not have: the commands whose promise
  was rejected so far.
\<close>

type_synonym sc_config = "git_task list \<times> sc_state"

inductive sc_answer :: "(string \<Rightarrow> string \<Rightarrow> bool) \<Rightarrow> diff_parser \<Rightarrow> sc_config \<Rightarrow> sc_config \<Rightarrow> bool"
  for le :: "string \<Rightarrow> string \<Rightarrow> bool" and hunks :: diff_parser where
  status_answer: "pending s = us @ StatusTask p # vs \<Longrightarrow>
    sc_answer le hunks (rs, s) (rs, refresh_loaded p es sync (s\<lparr>pending := us @ vs\<rparr>))"
| status_failed: "pending s = us @ StatusTask p # vs \<Longrightarrow>
    sc_answer le hunks (rs, s) (rs, refresh_failed (s\<lparr>pending := us @ vs\<rparr>))"
| diffs_answer: "pending s = us @ DiffsTask p es # vs \<Longrightarrow> mset (map fst answers) = mset es \<Longrightarrow>
    sc_answer le hunks (rs, s) (rs, diffs_loaded le hunks answers (s\<lparr>pending := us @ vs\<rparr>))"
| poll_answer: "pending s = us @ PollTask p # vs \<Longrightarrow>
    sc_answer le hunks (rs, s) (rs, poll_loaded es sync (s\<lparr>pending := us @ vs\<rparr>))"
| poll_failed: "pending s = us @ PollTask p # vs \<Longrightarrow> sc_answer le hunks (rs, s) (rs, s\<lparr>pending := us @ vs\<rparr>)"
| command_answer: "pending s = us @ t # vs \<Longrightarrow> is_command t \<Longrightarrow>
    sc_answer le hunks (rs, s) (rs, task_done t r (s\<lparr>pending := us @ vs\<rparr>))"
| command_rejected: "pending s = us @ t # vs \<Longrightarrow> is_command t \<Longrightarrow>
    sc_answer le hunks (rs, s) (rs @ [t], s\<lparr>pending := us @ vs\<rparr>)"

inductive sc_step :: "(string \<Rightarrow> string \<Rightarrow> bool) \<Rightarrow> diff_parser \<Rightarrow> sc_config \<Rightarrow> sc_config \<Rightarrow> bool"
  for le :: "string \<Rightarrow> string \<Rightarrow> bool" and hunks :: diff_parser where
  user_step: "sc_user ev s = Some s' \<Longrightarrow> sc_step le hunks (rs, s) (rs, s')"
| answer_step: "sc_answer le hunks c c' \<Longrightarrow> sc_step le hunks c c'"
| timeout_step: "i \<in> set (timers s) \<Longrightarrow> sc_step le hunks (rs, s) (rs, status_timeout i s)"

inductive sc_reachable :: "(string \<Rightarrow> string \<Rightarrow> bool) \<Rightarrow> diff_parser \<Rightarrow> sc_config \<Rightarrow> bool"
  for le :: "string \<Rightarrow> string \<Rightarrow> bool" and hunks :: diff_parser where
  mounted: "sc_reachable le hunks ([], mount_sc path mainPath)"
| stepped: "sc_reachable le hunks c \<Longrightarrow> sc_step le hunks c c' \<Longrightarrow> sc_reachable le hunks c'"

inductive_cases sc_answerE: "sc_answer le hunks (rs, s) c'"
inductive_cases sc_stepE: "sc_step le hunks (rs, s) c'"

section \<open>Invariants\<close>

lemmas sc_handlers =
  handleStageAll_def handleDiscardAll_def handleUnstageAll_def handleCommit_def handlePush_def handlePull_def
  handleCreatePR_def handleCreateBranch_def

lemmas sc_local =
  root_click_def focusDiff_def handleResizeStart_def handleMouseUp_def poll_def

lemmas sc_replies =
  all_done_def commit_done_def push_done_def pull_done_def createPR_done_def createBranch_done_def
  refresh_failed_def diffs_loaded_def poll_loaded_def Let_def

lemma action_click_eq:
  "action_click b s =
     (case b of RevertAllButton \<Rightarrow> handleDiscardAll s | StageAllButton \<Rightarrow> handleStageAll s
      | UnstageAllButton \<Rightarrow> handleUnstageAll s)"
  by (cases b) simp_all

text \<open>What the shared helpers leave alone.\<close>

lemma await_fields [simp]:
  "pending (await_git t s) = pending s @ [t]" "loading (await_git t s) = loading s"
  "committing (await_git t s) = committing s" "pushing (await_git t s) = pushing s" "pulling (await_git t s) = pulling s"
  "statusMsg (await_git t s) = statusMsg s" "statusTimerRef (await_git t s) = statusTimerRef s"
  "timers (await_git t s) = timers s" "fileDiffs (await_git t s) = fileDiffs s"
  "fileExplorerWidth (await_git t s) = fileExplorerWidth s" "initialLoadDone (await_git t s) = initialLoadDone s"
  "activePollPath (await_git t s) = activePollPath s"
  by (simp_all add: await_git_def)

lemma showStatus_fields [simp]:
  "pending (showStatus m e s) = pending s" "loading (showStatus m e s) = loading s"
  "committing (showStatus m e s) = committing s" "pushing (showStatus m e s) = pushing s"
  "pulling (showStatus m e s) = pulling s" "fileDiffs (showStatus m e s) = fileDiffs s"
  "fileExplorerWidth (showStatus m e s) = fileExplorerWidth s" "initialLoadDone (showStatus m e s) = initialLoadDone s"
  "activePollPath (showStatus m e s) = activePollPath s"
  by (simp_all add: showStatus_def)

lemma refresh_fields [simp]:
  "pending (refresh p s) = pending s @ (if truthy_str p then [StatusTask (the p)] else [])"
  "loading (refresh p s) = (loading s \<or> truthy_str p)"
  "committing (refresh p s) = committing s" "pushing (refresh p s) = pushing s" "pulling (refresh p s) = pulling s"
  "statusMsg (refresh p s) = statusMsg s" "statusTimerRef (refresh p s) = statusTimerRef s"
  "timers (refresh p s) = timers s" "fileDiffs (refresh p s) = fileDiffs s"
  "fileExplorerWidth (refresh p s) = fileExplorerWidth s" "initialLoadDone (refresh p s) = initialLoadDone s"
  "activePollPath (refresh p s) = activePollPath s"
  by (simp_all add: refresh_def)

lemma render_fields [simp]:
  "committing (sc_render p m s) = committing s" "pushing (sc_render p m s) = pushing s"
  "pulling (sc_render p m s) = pulling s" "statusMsg (sc_render p m s) = statusMsg s"
  "statusTimerRef (sc_render p m s) = statusTimerRef s" "timers (sc_render p m s) = timers s"
  "fileDiffs (sc_render p m s) = fileDiffs s" "fileExplorerWidth (sc_render p m s) = fileExplorerWidth s"
  by (simp_all add: sc_render_def Let_def)

lemma render_loads:
  "\<exists>n. pending (sc_render p m s) = pending s @ replicate n (StatusTask (the p))
     \<and> loading (sc_render p m s) = (loading s \<or> 0 < n) \<and> (0 < n \<longrightarrow> truthy_str p)"
  by (rule exI [of _ "(if \<not> initialLoadDone s \<and> truthy_str p then 1 else 0)
      + (if activePollPath s \<noteq> p \<and> truthy_str p then 1 else 0)"])
    (auto simp: sc_render_def Let_def numeral_2_eq_2)

lemma handleMouseMove_eq:
  "handleMouseMove x s =
     (if resizers s = [] then s else s\<lparr>fileExplorerWidth := resize_to x (last (resizers s))\<rparr>)"
proof -
  have "foldl (\<lambda>s r. s\<lparr>fileExplorerWidth := resize_to x r\<rparr>) s rs =
      (if rs = [] then s else s\<lparr>fileExplorerWidth := resize_to x (last rs)\<rparr>)" for rs
    by (induction rs rule: rev_induct) auto
  then show ?thesis by (simp add: handleMouseMove_def)
qed

text \<open>A message is shown as long as its own timer is the one under way.\<close>

fun toast_inv :: "(string \<times> bool) option \<Rightarrow> nat option \<Rightarrow> nat list \<Rightarrow> bool" where
  "toast_inv None _ live = (live = [])"
| "toast_inv (Some _) timer live = (timer \<noteq> None \<and> live = [the timer])"

definition toast_ok :: "sc_state \<Rightarrow> bool" where
  "toast_ok s = toast_inv (statusMsg s) (statusTimerRef s) (timers s)"

text \<open>
  Every flag that disables a control or spins has a call under way that will reset it, or belongs to
  a command whose promise was rejected. A push and a pull are there once at most: their button is
  disabled from the click on, so a rejection disables it for good. A commit can be started again with
  the keyboard, and its answer then resets the flag.
\<close>

fun is_load :: "git_task \<Rightarrow> bool" where
  "is_load (StatusTask _) = True" | "is_load (DiffsTask _ _) = True" | "is_load _ = False"

fun is_commit :: "git_task \<Rightarrow> bool" where
  "is_commit (CommitTask _ _) = True" | "is_commit _ = False"

fun is_push :: "git_task \<Rightarrow> bool" where
  "is_push (PushTask _) = True" | "is_push _ = False"

fun is_pull :: "git_task \<Rightarrow> bool" where
  "is_pull (PullTask _) = True" | "is_pull _ = False"

definition awaited :: "bool \<Rightarrow> (git_task \<Rightarrow> bool) \<Rightarrow> git_task list \<Rightarrow> bool" where
  "awaited flag P ts = (flag \<longrightarrow> list_ex P ts)"

definition exactly_once :: "bool \<Rightarrow> (git_task \<Rightarrow> bool) \<Rightarrow> git_task list \<Rightarrow> bool" where
  "exactly_once flag P ts = (length (filter P ts) = (if flag then 1 else 0))"

definition busy_ok :: "git_task list \<Rightarrow> sc_state \<Rightarrow> bool" where
  "busy_ok rs s =
     (awaited (loading s) is_load (pending s) \<and> awaited (committing s) is_commit (rs @ pending s)
      \<and> exactly_once (pushing s) is_push (rs @ pending s) \<and> exactly_once (pulling s) is_pull (rs @ pending s))"

text \<open>What the host is asked to do is well formed.\<close>

fun task_ok :: "git_task \<Rightarrow> bool" where
  "task_ok (CommitTask p m) = (p \<noteq> [] \<and> m \<noteq> [] \<and> trim m = m)"
| "task_ok (CreateBranchTask p b) = (p \<noteq> [] \<and> b \<noteq> [] \<and> trim b = b)"
| "task_ok (DiffsTask p es) = (p \<noteq> [] \<and> list_all (\<lambda>e. \<not> isConflict (gs_status e)) es)"
| "task_ok (StatusTask p) = (p \<noteq> [])" | "task_ok (PollTask p) = (p \<noteq> [])"
| "task_ok (StageAllTask p) = (p \<noteq> [])" | "task_ok (DiscardAllTask p) = (p \<noteq> [])"
| "task_ok (UnstageAllTask p) = (p \<noteq> [])" | "task_ok (PushTask p) = (p \<noteq> [])"
| "task_ok (PullTask p) = (p \<noteq> [])" | "task_ok (CreatePRTask p) = (p \<noteq> [])"

definition tasks_ok :: "sc_state \<Rightarrow> bool" where
  "tasks_ok s = list_all task_ok (pending s)"

definition width_ok_sc :: "sc_state \<Rightarrow> bool" where
  "width_ok_sc s = (FILE_EXPLORER_MIN_WIDTH \<le> fileExplorerWidth s \<and> fileExplorerWidth s \<le> FILE_EXPLORER_MAX_WIDTH)"

definition diffs_ok :: "(string \<Rightarrow> string \<Rightarrow> bool) \<Rightarrow> sc_state \<Rightarrow> bool" where
  "diffs_ok le s =
     (list_all (\<lambda>d. \<not> isConflict (gs_status (fd_entry d)) \<and> fd_path d = gs_path (fd_entry d)) (fileDiffs s)
      \<and> sorted_wrt (path_le le) (fileDiffs s))"

definition sc_inv :: "(string \<Rightarrow> string \<Rightarrow> bool) \<Rightarrow> git_task list \<Rightarrow> sc_state \<Rightarrow> bool" where
  "sc_inv le rs s = (toast_ok s \<and> busy_ok rs s \<and> tasks_ok s \<and> width_ok_sc s \<and> diffs_ok le s)"

lemma toast_showStatus [simp]: "toast_ok s \<Longrightarrow> toast_ok (showStatus m e s)"
  by (cases "statusMsg s") (auto simp: toast_ok_def showStatus_def)

lemma awaited_simps [simp]:
  "awaited flag P ts \<Longrightarrow> awaited flag P (ts @ us)" "P t \<Longrightarrow> awaited flag P (ts @ [t])" "awaited False P ts"
  "awaited flag P (ts @ us) \<Longrightarrow> awaited flag P (ts @ us @ vs)" "P t \<Longrightarrow> awaited flag P (ts @ us @ [t])"
  by (auto simp: awaited_def)

lemma awaited_replicate: "awaited flag P ts \<Longrightarrow> P t \<Longrightarrow> awaited (flag \<or> 0 < n) P (ts @ replicate n t)"
  by (auto simp: awaited_def list_ex_iff)

text \<open>An answer takes a task away; only the flag that waits for it may lose it.\<close>

lemma awaited_remove: "awaited flag P (us @ t # vs) \<Longrightarrow> \<not> P t \<Longrightarrow> awaited flag P (us @ vs)"
  by (auto simp: awaited_def)

lemma exactly_once_simps [simp]:
  "\<not> P t \<Longrightarrow> exactly_once flag P (ts @ [t]) = exactly_once flag P ts"
  "\<not> P t \<Longrightarrow> exactly_once flag P (ts @ us @ t # vs) = exactly_once flag P (ts @ us @ vs)"
  "\<not> P t \<Longrightarrow> exactly_once flag P (ts @ us @ [t]) = exactly_once flag P (ts @ us)"
  "\<not> P t \<Longrightarrow> exactly_once flag P (ts @ us @ vs @ [t]) = exactly_once flag P (ts @ us @ vs)"
  "\<not> P t \<Longrightarrow> exactly_once flag P (ts @ us @ replicate n t) = exactly_once flag P (ts @ us)"
  "exactly_once False P (ts @ us) \<Longrightarrow> P t \<Longrightarrow> exactly_once True P (ts @ us @ [t])"
  by (simp_all add: exactly_once_def)

lemma exactly_once_move: "exactly_once flag P (ts @ us @ t # vs) = exactly_once flag P ((ts @ [t]) @ us @ vs)"
  by (simp add: exactly_once_def)

lemma exactly_once_done: "exactly_once flag P (ts @ us @ t # vs) \<Longrightarrow> P t \<Longrightarrow> exactly_once False P (ts @ us @ vs)"
  by (auto simp: exactly_once_def split: if_splits)

lemma exactly_once_iff: "exactly_once flag P ts \<Longrightarrow> flag = list_ex P ts"
proof -
  assume "exactly_once flag P ts"
  then have "flag = (filter P ts \<noteq> [])" by (auto simp: exactly_once_def split: if_splits)
  then show ?thesis by (simp add: list_ex_iff filter_empty_conv)
qed

lemma busy_render: "busy_ok rs s \<Longrightarrow> busy_ok rs (sc_render p m s)"
proof -
  assume busy: "busy_ok rs s"
  obtain n where n: "pending (sc_render p m s) = pending s @ replicate n (StatusTask (the p))"
      "loading (sc_render p m s) = (loading s \<or> 0 < n)"
    using render_loads by blast
  show ?thesis
    using busy awaited_replicate [of "loading s" is_load "pending s" "StatusTask (the p)" n]
    unfolding busy_ok_def n by simp
qed

lemma tasks_render: "tasks_ok s \<Longrightarrow> tasks_ok (sc_render p m s)"
  using render_loads [of p m s] by (auto simp: tasks_ok_def truthy_str_iff list_all_iff)

lemmas user_cases = sc_handlers sc_local handleMouseMove_eq action_click_eq

lemmas user_splits = if_splits option.splits ActionButton.splits

lemma toast_user: "sc_user ev s = Some s' \<Longrightarrow> toast_ok s \<Longrightarrow> toast_ok s'"
proof (cases ev)
  case (Rendered p m)
  then show "sc_user ev s = Some s' \<Longrightarrow> toast_ok s \<Longrightarrow> toast_ok s'" by (auto simp: toast_ok_def)
qed (auto simp: user_cases split: user_splits; simp add: toast_ok_def)+

lemma busy_user: "sc_user ev s = Some s' \<Longrightarrow> busy_ok rs s \<Longrightarrow> busy_ok rs s'"
proof (cases ev)
  case (Rendered p m)
  then show "sc_user ev s = Some s' \<Longrightarrow> busy_ok rs s \<Longrightarrow> busy_ok rs s'" by (auto simp: busy_render)
qed (auto simp: user_cases busy_ok_def split: user_splits)+

lemma tasks_user: "sc_user ev s = Some s' \<Longrightarrow> tasks_ok s \<Longrightarrow> tasks_ok s'"
proof (cases ev)
  case (Rendered p m)
  then show "sc_user ev s = Some s' \<Longrightarrow> tasks_ok s \<Longrightarrow> tasks_ok s'" by (auto simp: tasks_render)
qed (auto simp: user_cases tasks_ok_def truthy_str_iff split: user_splits)+

interpretation explorer_width: clamped FILE_EXPLORER_MIN_WIDTH FILE_EXPLORER_MAX_WIDTH
  by unfold_locales (simp add: FILE_EXPLORER_MIN_WIDTH_def FILE_EXPLORER_MAX_WIDTH_def)

lemma resize_bounds: "FILE_EXPLORER_MIN_WIDTH \<le> resize_to x r" "resize_to x r \<le> FILE_EXPLORER_MAX_WIDTH"
  using explorer_width.clamp_in_range by (auto simp: resize_to_def explorer_width.in_range_def split: prod.splits)

lemma width_user: "sc_user ev s = Some s' \<Longrightarrow> width_ok_sc s \<Longrightarrow> width_ok_sc s'"
  by (cases ev) (auto simp: user_cases width_ok_sc_def resize_bounds split: user_splits)

lemma diffs_user: "sc_user ev s = Some s' \<Longrightarrow> fileDiffs s' = fileDiffs s"
  by (cases ev) (auto simp: user_cases split: user_splits)

lemma toast_frame [simp]:
  "toast_ok (refresh p s) = toast_ok s" "toast_ok (s\<lparr>gitActionsOpen := b\<rparr>) = toast_ok s"
  "toast_ok (s\<lparr>pending := ts\<rparr>) = toast_ok s"
  by (simp_all add: toast_ok_def)

lemma toast_done: "toast_ok s \<Longrightarrow> toast_ok (task_done t r s)"
  by (cases t; simp add: sc_replies; (intro conjI impI toast_showStatus)?; simp add: toast_ok_def)

lemma toast_answer: "sc_answer le hunks (rs, s) c' \<Longrightarrow> toast_ok s \<Longrightarrow> toast_ok (snd c')"
proof (erule sc_answerE)
  fix us t vs r
  assume "c' = (rs, task_done t r (s\<lparr>pending := us @ vs\<rparr>))" "toast_ok s"
  then show ?thesis by (simp add: toast_done)
qed (simp_all add: sc_replies refresh_loaded_def toast_ok_def)

lemma busy_done:
  "busy_ok rs s \<Longrightarrow> pending s = us @ t # vs \<Longrightarrow> is_command t \<Longrightarrow>
     busy_ok rs (task_done t r (s\<lparr>pending := us @ vs\<rparr>))"
  by (cases t) (auto simp: busy_ok_def awaited_def sc_replies dest: exactly_once_done)

lemma busy_rejected:
  "busy_ok rs s \<Longrightarrow> pending s = us @ t # vs \<Longrightarrow> is_command t \<Longrightarrow>
     busy_ok (rs @ [t]) (s\<lparr>pending := us @ vs\<rparr>)"
  by (cases t) (auto simp: busy_ok_def awaited_def exactly_once_move)

lemma busy_answer: "sc_answer le hunks (rs, s) c' \<Longrightarrow> busy_ok rs s \<Longrightarrow> busy_ok (fst c') (snd c')"
proof (erule sc_answerE)
  fix us t vs r
  assume "c' = (rs, task_done t r (s\<lparr>pending := us @ vs\<rparr>))" "pending s = us @ t # vs" "is_command t" "busy_ok rs s"
  then show ?thesis by (simp add: busy_done)
next
  fix us t vs
  assume "c' = (rs @ [t], s\<lparr>pending := us @ vs\<rparr>)" "pending s = us @ t # vs" "is_command t" "busy_ok rs s"
  then show ?thesis by (simp add: busy_rejected)
qed (simp_all add: busy_ok_def awaited_def sc_replies refresh_loaded_def)

lemma tasks_done: "tasks_ok s \<Longrightarrow> task_ok t \<Longrightarrow> tasks_ok (task_done t r s)"
  by (cases t) (auto simp: tasks_ok_def sc_replies)

lemma tasks_answer: "sc_answer le hunks (rs, s) c' \<Longrightarrow> tasks_ok s \<Longrightarrow> tasks_ok (snd c')"
proof (erule sc_answerE)
  fix us t vs r
  assume t: "c' = (rs, task_done t r (s\<lparr>pending := us @ vs\<rparr>))" "pending s = us @ t # vs" "tasks_ok s"
  then have "tasks_ok (s\<lparr>pending := us @ vs\<rparr>)" "task_ok t" by (simp_all add: tasks_ok_def)
  with t(1) show ?thesis by (simp add: tasks_done)
qed (simp_all add: tasks_ok_def sc_replies refresh_loaded_def diffable_def list_all_iff)

lemma width_answer: "sc_answer le hunks (rs, s) c' \<Longrightarrow> fileExplorerWidth (snd c') = fileExplorerWidth s"
proof (erule sc_answerE)
  fix us t vs r
  assume "c' = (rs, task_done t r (s\<lparr>pending := us @ vs\<rparr>))"
  then show ?thesis by (cases t) (auto simp: sc_replies)
qed (auto simp: sc_replies refresh_loaded_def)

lemma fileDiffs_done [simp]: "fileDiffs (task_done t r s) = fileDiffs s"
  by (cases t) (auto simp: sc_replies)

lemma file_diff_entry: "file_diff hunks (e, a) = Some d \<Longrightarrow> fd_entry d = e \<and> fd_path d = gs_path e"
  by (cases a) (auto simp: Let_def)

lemma diffs_loaded_ok:
  assumes "comparator le" "mset (map fst answers) = mset es" "list_all (\<lambda>e. \<not> isConflict (gs_status e)) es"
  shows "diffs_ok le (diffs_loaded le hunks answers s)"
proof -
  have "comparator (path_le le)"
    using assms(1) by unfold_locales (auto simp: path_le_def dest: comparator.le_total comparator.le_trans)
  moreover have "set (map fst answers) = set es" using assms(2) by (metis mset_eq_setD)
  moreover have "fd_entry d \<in> set (map fst answers) \<and> fd_path d = gs_path (fd_entry d)"
    if "d \<in> set (List.map_filter (file_diff hunks) answers)" for d
    using that by (force simp: List.map_filter_def dest: file_diff_entry)
  ultimately show ?thesis
    using assms(3) by (simp add: diffs_ok_def diffs_loaded_def list_all_iff comparator.sorted_sort_by)
qed

lemma diffs_answer_ok:
  "comparator le \<Longrightarrow> sc_answer le hunks (rs, s) c' \<Longrightarrow> tasks_ok s \<Longrightarrow> diffs_ok le s \<Longrightarrow> diffs_ok le (snd c')"
proof (erule sc_answerE)
  fix us p es vs answers
  assume "comparator le" "tasks_ok s" "pending s = us @ DiffsTask p es # vs" "image_mset fst (mset answers) = mset es"
    "c' = (rs, diffs_loaded le hunks answers (s\<lparr>pending := us @ vs\<rparr>))"
  then show "diffs_ok le (snd c')" by (simp add: diffs_loaded_ok tasks_ok_def)
qed (auto simp: diffs_ok_def sc_replies refresh_loaded_def)

lemma sc_inv_mount: "sc_inv le [] (mount_sc path mainPath)"
  unfolding sc_inv_def mount_sc_def
  by (intro conjI busy_render tasks_render)
    (simp_all add: toast_ok_def busy_ok_def exactly_once_def tasks_ok_def width_ok_sc_def diffs_ok_def
      FILE_EXPLORER_MIN_WIDTH_def FILE_EXPLORER_MAX_WIDTH_def)

lemma sc_inv_step:
  "comparator le \<Longrightarrow> sc_step le hunks (rs, s) c' \<Longrightarrow> sc_inv le rs s \<Longrightarrow> sc_inv le (fst c') (snd c')"
proof (erule sc_stepE)
  fix ev s'
  assume c: "c' = (rs, s')" and "sc_user ev s = Some s'" "sc_inv le rs s"
  then have "sc_inv le rs s'"
    using toast_user busy_user tasks_user width_user diffs_user unfolding sc_inv_def diffs_ok_def by metis
  with c show ?thesis by simp
next
  assume "comparator le" "sc_answer le hunks (rs, s) c'" "sc_inv le rs s"
  then show ?thesis
    using toast_answer busy_answer tasks_answer width_answer diffs_answer_ok
    unfolding sc_inv_def width_ok_sc_def by metis
next
  fix i
  assume "c' = (rs, status_timeout i s)" "i \<in> set (timers s)" "sc_inv le rs s"
  then show ?thesis
    by (cases "statusMsg s") (auto simp: sc_inv_def toast_ok_def busy_ok_def tasks_ok_def width_ok_sc_def
        diffs_ok_def status_timeout_def)
qed

lemma sc_inv_reachable: "sc_reachable le hunks c \<Longrightarrow> comparator le \<Longrightarrow> sc_inv le (fst c) (snd c)"
proof (induction rule: sc_reachable.induct)
  case (stepped c c')
  then show ?case using sc_inv_step [of le hunks "fst c" "snd c" c'] by simp
qed (simp add: sc_inv_mount)

section \<open>Settling\<close>

text \<open>The answers that the calls under way can still cause.\<close>

fun task_work :: "git_task \<Rightarrow> nat" where
  "task_work (StatusTask _) = 2" | "task_work (DiffsTask _ _) = 1" | "task_work (PollTask _) = 1"
| "task_work _ = 3"

definition work :: "sc_state \<Rightarrow> nat" where
  "work s = sum_list (map task_work (pending s))"

lemma work_done: "is_command t \<Longrightarrow> work (task_done t r (s\<lparr>pending := us @ vs\<rparr>)) < work (s\<lparr>pending := us @ t # vs\<rparr>)"
  by (cases t) (auto simp: work_def sc_replies)

lemma work_answer: "sc_answer le hunks (rs, s) c' \<Longrightarrow> work (snd c') < work s"
proof (erule sc_answerE)
  fix us t vs r
  assume "c' = (rs, task_done t r (s\<lparr>pending := us @ vs\<rparr>))" "pending s = us @ t # vs" "is_command t"
  then show ?thesis using work_done [where t = t and r = r and s = s and us = us and vs = vs] by (simp add: work_def)
next
  fix us t vs
  assume "c' = (rs @ [t], s\<lparr>pending := us @ vs\<rparr>)" "pending s = us @ t # vs" "is_command t"
  then show ?thesis by (cases t) (simp_all add: work_def)
qed (simp_all add: work_def sc_replies refresh_loaded_def)

lemma answer_possible: "pending s \<noteq> [] \<Longrightarrow> \<exists>c'. sc_answer le hunks (rs, s) c'"
proof -
  assume "pending s \<noteq> []"
  then obtain t vs where t: "pending s = [] @ t # vs" by (cases "pending s") auto
  show ?thesis
  proof (cases t)
    case (DiffsTask p es)
    have "mset (map fst (map (\<lambda>e. (e, None)) es)) = mset es" by (simp add: comp_def)
    with t DiffsTask show ?thesis by (meson sc_answer.diffs_answer)
  next
    case (StatusTask p)
    with t show ?thesis by (meson sc_answer.status_failed)
  next
    case (PollTask p)
    with t show ?thesis by (meson sc_answer.poll_failed)
  qed (use t in \<open>metis sc_answer.command_answer is_command.simps\<close>)+
qed

lemma work_answers: "(sc_answer le hunks ^^ n) (rs, s) c' \<Longrightarrow> n + work (snd c') \<le> work s"
proof (induction n arbitrary: c')
  case (Suc n)
  then obtain c1 where "(sc_answer le hunks ^^ n) (rs, s) c1" "sc_answer le hunks c1 c'" by auto
  with Suc.IH work_answer [of le hunks "fst c1" "snd c1" c'] show ?case by fastforce
qed simp

lemma busy_reachable: "sc_reachable le hunks c \<Longrightarrow> busy_ok (fst c) (snd c)"
proof (induction rule: sc_reachable.induct)
  case (mounted path mainPath)
  show ?case by (simp add: mount_sc_def) (rule busy_render, simp add: busy_ok_def exactly_once_def)
next
  case (stepped c c')
  from stepped(2,3) show ?case
    by (cases c; cases rule: sc_step.cases)
       (auto dest: busy_user busy_answer simp: status_timeout_def busy_ok_def)
qed

lemma busy_answers: "(sc_answer le hunks ^^ n) c c' \<Longrightarrow> busy_ok (fst c) (snd c) \<Longrightarrow> busy_ok (fst c') (snd c')"
  by (induction n arbitrary: c') (auto dest: busy_answer)

lemma settled_flags:
  "busy_ok rs s \<Longrightarrow> pending s = [] \<Longrightarrow>
     \<not> loading s \<and> (list_ex is_commit rs \<or> \<not> committing s)
     \<and> pushing s = list_ex is_push rs \<and> pulling s = list_ex is_pull rs"
  by (auto simp: busy_ok_def awaited_def dest!: exactly_once_iff)

lemma answers_settle: "\<exists>n c'. (sc_answer le hunks ^^ n) (rs, s) c' \<and> pending (snd c') = []"
proof (induction "work s" arbitrary: rs s rule: less_induct)
  case less
  show ?case
  proof (cases "pending s = []")
    case True
    then have "(sc_answer le hunks ^^ 0) (rs, s) (rs, s) \<and> pending (snd (rs, s)) = []" by simp
    then show ?thesis by blast
  next
    case False
    then obtain rs1 s1 where s1: "sc_answer le hunks (rs, s) (rs1, s1)" using answer_possible by fastforce
    then have "work s1 < work s" using work_answer by fastforce
    then obtain n c' where "(sc_answer le hunks ^^ n) (rs1, s1) c'" "pending (snd c') = []" using less by blast
    with s1 show ?thesis by (meson relpowp_Suc_I2)
  qed
qed

section \<open>Properties\<close>

text \<open>
  C8. The state of the source control panel keeps its invariant under every action of the user, every
  answer or rejection of the host in any order, and every timer: a status message is shown exactly as
  long as its own timer runs; \<open>loading\<close> has a load under way; \<open>committing\<close> has a commit under way or one
  whose promise was rejected; \<open>pushing\<close> and \<open>pulling\<close> are set exactly while one such call is under way or
  after its promise was rejected, which is never made good; only well-formed requests are sent (a
  commit or branch name is trimmed and not empty), the width stays within its bounds, and the diffs
  shown are sorted and have no conflicts.
\<close>

theorem source_control_invariant:
  assumes "sc_reachable le hunks (rejects, s)" "comparator le"
  shows "sc_inv le rejects s"
  using sc_inv_reachable [OF assms] by simp

theorem source_control_invariant_witness:
  "sc_inv (\<lambda>_ _. True) [] (refresh (Some ''p'') (mount_sc (Some ''p'') None))"
proof (rule source_control_invariant [where hunks = "\<lambda>_ _ _. []"])
  have "activePath (mount_sc (Some ''p'') None) = Some ''p''" by code_simp
  then have "sc_user RefreshClick (mount_sc (Some ''p'') None) = Some (refresh (Some ''p'') (mount_sc (Some ''p'') None))"
    by simp
  then show "sc_reachable (\<lambda>_ _. True) (\<lambda>_ _ _. []) ([], refresh (Some ''p'') (mount_sc (Some ''p'') None))"
    by (meson sc_reachable.intros sc_step.user_step)
qed (unfold_locales; simp)

text \<open>
  C27. The panel settles: as long as the user does nothing more, the answers to the calls under way
  and the rejections of their promises come to an end, after a number known in advance. When none is
  left the panel does not load; a commit is marked as running only if the promise of one was rejected;
  and a push or a pull is marked as running exactly if the promise of one was. So every flag clears
  unless a command of that kind was rejected.
\<close>

theorem source_control_settles:
  assumes "sc_reachable le hunks (rejects, s)"
  shows "(\<exists>n rejects' s'. (sc_answer le hunks ^^ n) (rejects, s) (rejects', s') \<and> pending s' = [])
    \<and> (\<forall>n rejects' s'. (sc_answer le hunks ^^ n) (rejects, s) (rejects', s') \<longrightarrow>
         n \<le> work s
         \<and> (pending s' = [] \<longrightarrow>
              \<not> loading s' \<and> (list_ex is_commit rejects' \<or> \<not> committing s')
              \<and> pushing s' = list_ex is_push rejects' \<and> pulling s' = list_ex is_pull rejects'))"
proof (intro conjI allI impI)
  show "\<exists>n rejects' s'. (sc_answer le hunks ^^ n) (rejects, s) (rejects', s') \<and> pending s' = []"
    using answers_settle by fastforce
next
  fix n rejects' s' assume run: "(sc_answer le hunks ^^ n) (rejects, s) (rejects', s')"
  show "n \<le> work s" using work_answers [OF run] by simp
  assume p: "pending s' = []"
  from busy_answers [OF run] busy_reachable [OF assms] have "busy_ok rejects' s'" by simp
  from settled_flags [OF this p]
  show "\<not> loading s'" "list_ex is_commit rejects' \<or> \<not> committing s'"
    "pushing s' = list_ex is_push rejects'" "pulling s' = list_ex is_pull rejects'" by blast+
qed

theorem source_control_settles_witness:
  "\<exists>n rs' s'. (sc_answer (\<lambda>_ _. True) (\<lambda>_ _ _. []) ^^ n) ([], mount_sc (Some ''p'') None) (rs', s')
     \<and> pending s' = []"
  using source_control_settles [OF sc_reachable.mounted] by blast

text \<open>
  Committing: a commit is asked for only with a project, a message that is not blank and staged
  files, and it gets the trimmed message; without staged files the user is told so. A commit that
  failed keeps the message and the dialog and shows the host's error; one that succeeded clears both
  and reloads. In both cases the button is enabled again.
\<close>

theorem commit_flow:
  "pending (handleCommit s) =
     pending s @ (if truthy_str (activePath s) \<and> trim (commitMessage s) \<noteq> [] \<and> stagedEntries s \<noteq> []
                  then [CommitTask (the (activePath s)) (trim (commitMessage s))] else [])
   \<and> (if truthy_str (activePath s) \<and> trim (commitMessage s) \<noteq> [] \<and> stagedEntries s = []
      then statusMsg (handleCommit s) = Some (''No staged changes to commit'', True)
      else statusMsg (handleCommit s) = statusMsg s)
   \<and> \<not> committing (commit_done p r s)
   \<and> (if success r
      then commitMessage (commit_done p r s) = [] \<and> \<not> commitDialogOpen (commit_done p r s)
        \<and> statusMsg (commit_done p r s) = Some (''Committed successfully'', False)
        \<and> pending (commit_done p r s) = pending s @ (if p = [] then [] else [StatusTask p])
      else commitMessage (commit_done p r s) = commitMessage s
        \<and> commitDialogOpen (commit_done p r s) = commitDialogOpen s
        \<and> statusMsg (commit_done p r s) = Some (nullish (result_error r) ''Commit failed'', True)
        \<and> pending (commit_done p r s) = pending s)"
  by (auto simp: handleCommit_def commit_done_def refresh_def showStatus_def await_git_def Let_def)

text \<open>
  The groups cover the entries that are not in conflict, each once; only an entry that is both staged
  and untracked is in two of them.
\<close>

lemma entry_groups:
  "mset (stagedEntries s) + mset (changedEntries s) + mset (untrackedEntries s)
     + mset (filter (\<lambda>e. isConflict (gs_status e)) (entries s)) =
   mset (entries s) + mset (filter (\<lambda>e. gs_staged e \<and> isUntracked (gs_status e)) (entries s))"
proof -
  have "mset (filter (\<lambda>e. gs_staged e \<and> \<not> isConflict (gs_status e)) es)
     + mset (filter (\<lambda>e. \<not> gs_staged e \<and> \<not> isConflict (gs_status e) \<and> \<not> isUntracked (gs_status e)) es)
     + mset (filter (\<lambda>e. isUntracked (gs_status e)) es) + mset (filter (\<lambda>e. isConflict (gs_status e)) es) =
     mset es + mset (filter (\<lambda>e. gs_staged e \<and> isUntracked (gs_status e)) es)" for es
    by (induction es) (auto simp: isConflict_def isUntracked_def)
  then show ?thesis by (simp add: stagedEntries_def changedEntries_def untrackedEntries_def)
qed

text \<open>The selected path is that of a card whenever there is a card, so the selection can be scrolled to.\<close>

lemma selection_has_card:
  "case effectiveSelectedDiffPath s of None \<Rightarrow> fileDiffs s = [] | Some p \<Rightarrow> scroll_card p s = Some p"
  by (auto simp: effectiveSelectedDiffPath_def scroll_card_def diffPaths_def diffCards_def truthy_str_iff
      split: list.splits)

text \<open>
  A rejection is never made good: the history only grows, so a rejected push or pull keeps its button
  disabled in every later state, and with the last call gone a rejected commit keeps the button of its
  dialog disabled.
\<close>

lemma rejects_grow: "sc_step le hunks (rs, s) (rs', s') \<Longrightarrow> \<exists>ts. rs' = rs @ ts"
  by (auto elim!: sc_stepE sc_answerE)

lemma rejected_push_sticks:
  "busy_ok rs s \<Longrightarrow> list_ex is_push rs \<Longrightarrow> sc_user PushClick s = None"
  by (auto simp: busy_ok_def dest!: exactly_once_iff)

lemma rejected_command_sticks:
  "pending s = [CommitTask p m] \<Longrightarrow> committing s \<Longrightarrow>
     \<exists>rs' s'. sc_answer le hunks (rs, s) (rs', s') \<and> pending s' = [] \<and> committing s'"
  using sc_answer.command_rejected [of s "[]" "CommitTask p m" "[]"] by fastforce

text \<open>The answer to a load of another project than the one shown replaces the entries all the same.\<close>

lemma late_answer_overwrites:
  "pending s = us @ StatusTask p # vs \<Longrightarrow> activePath s \<noteq> Some p \<Longrightarrow>
     \<exists>s'. sc_answer le hunks (rs, s) (rs, s') \<and> entries s' = es \<and> activePath s' = activePath s"
  using sc_answer.status_answer [of s us p vs le hunks rs es None]
  by (fastforce simp: refresh_loaded_def await_git_def)

text \<open>A path that arrives after the first render starts two loads.\<close>

lemma first_path_loads_twice:
  "pending (sc_render (Some ''p'') None (mount_sc None None)) = [StatusTask ''p'', StatusTask ''p'']"
  by code_simp

end
