(* ===== verification/Mutations.thy ===== *)
theory Mutations
  imports Thread_Queries
begin

text \<open>
  The mutations of the query library as the components see them: \<open>isPending\<close>, \<open>error\<close>, and the
  callbacks run with the answer. A component that sends requests is a step function on events with a
  list of outputs; the locale \<open>guarded_requests\<close> is the contract of a component that does not send a
  request while its last one is under way.
\<close>

datatype mutation = MutIdle | MutPending | MutFailed js_error | MutDone

fun message_of :: "js_error \<Rightarrow> string" where
  "message_of (ApiError _ m) = m" | "message_of (AgentsApiError _ m) = m" | "message_of (OtherError m) = m"

fun mutation_error :: "mutation \<Rightarrow> js_error option" where
  "mutation_error (MutFailed e) = Some e" | "mutation_error _ = None"

definition settle :: "js_error + 'a \<Rightarrow> mutation" where
  "settle r = (case r of Inl e \<Rightarrow> MutFailed e | Inr _ \<Rightarrow> MutDone)"

lemma settle_not_pending [simp]: "settle r \<noteq> MutPending"
  by (cases r) (simp_all add: settle_def)

section \<open>Runs of a component\<close>

fun run_events :: "('e \<Rightarrow> 's \<Rightarrow> 's \<times> 'o list) \<Rightarrow> 'e list \<Rightarrow> 's \<Rightarrow> 's \<times> 'o list" where
  "run_events step [] s = (s, [])"
| "run_events step (e # es) s =
     (case step e s of (s', out) \<Rightarrow> case run_events step es s' of (s'', out') \<Rightarrow> (s'', out @ out'))"

lemma run_events_append:
  "run_events step (es @ es') s =
     (case run_events step es s of (s', out) \<Rightarrow>
        case run_events step es' s' of (s'', out') \<Rightarrow> (s'', out @ out'))"
  by (induction es arbitrary: s) (auto simp: split_beta)

lemma run_events_invariant:
  assumes "\<And>e s s' out. I s \<Longrightarrow> step e s = (s', out) \<Longrightarrow> I s'"
  shows "I s \<Longrightarrow> I (fst (run_events step es s))"
proof (induction es arbitrary: s)
  case (Cons e es)
  obtain s1 o1 where e: "step e s = (s1, o1)" by fastforce
  with assms Cons.prems have "I s1" by blast
  from Cons.IH [OF this] e show ?case by (simp add: split_beta)
qed simp

lemma run_events_outputs:
  assumes "\<And>e s s' out. I s \<Longrightarrow> step e s = (s', out) \<Longrightarrow> I s' \<and> list_all P out"
  shows "I s \<Longrightarrow> list_all P (snd (run_events step es s))"
proof (induction es arbitrary: s)
  case (Cons e es)
  obtain s1 o1 where e: "step e s = (s1, o1)" by fastforce
  with assms Cons.prems have "I s1" "list_all P o1" by blast+
  with Cons.IH [OF \<open>I s1\<close>] e show ?case by (simp add: split_beta)
qed simp

definition occurrences :: "('a \<Rightarrow> bool) \<Rightarrow> 'a list \<Rightarrow> nat" where
  "occurrences P xs = length (filter P xs)"

lemma occurrences_simps [simp]:
  "occurrences P [] = 0" "occurrences P (x # xs) = of_bool (P x) + occurrences P xs"
  "occurrences P (xs @ ys) = occurrences P xs + occurrences P ys"
  by (simp_all add: occurrences_def)

locale guarded_requests =
  fixes step :: "'e \<Rightarrow> 's \<Rightarrow> 's \<times> 'o list"
    and busy :: "'s \<Rightarrow> bool"
    and is_request :: "'o \<Rightarrow> bool"
    and is_answer :: "'e \<Rightarrow> bool"
  assumes step_balance:
    "step e s = (s', out) \<Longrightarrow> of_bool (busy s) + occurrences is_request out \<le> of_bool (is_answer e) + of_bool (busy s')"
begin

lemma run_balance:
  "run_events step es s = (s', out) \<Longrightarrow>
     of_bool (busy s) + occurrences is_request out \<le> occurrences is_answer es + of_bool (busy s')"
proof (induction es arbitrary: s s' out)
  case (Cons e es)
  obtain s1 o1 where e: "step e s = (s1, o1)" by fastforce
  obtain o2 where es: "run_events step es s1 = (s', o2)" "out = o1 @ o2"
    using Cons.prems e by (auto split: prod.splits)
  with step_balance [OF e] Cons.IH [OF es(1)] show ?case by simp
qed simp

text \<open>From an idle state, every request but the last one has been answered.\<close>

lemma requests_answered:
  "\<not> busy s \<Longrightarrow> case run_events step es s of (s', out) \<Rightarrow>
     occurrences is_request out \<le> occurrences is_answer es + of_bool (busy s')"
  using run_balance [of es s] by (auto split: prod.splits)

end

end
