(* ===== verification/Sidebar.thy ===== *)
theory Sidebar
  imports Thread_Groups Mutations Theme_State Js_Number
begin

text \<open>
  The sidebar: \<open>components/agents/AgentsSidebar.tsx\<close> with its thread rows and its choice of a
  workspace, \<open>components/sidebar-layout.tsx\<close> (width and collapsed state, kept in the browser's
  storage), \<open>components/SidebarUserMenu.tsx\<close> and the navigation of \<open>components/AppSidebar.tsx\<close>. The
  storage is part of the state; \<open>mobile\<close> is the answer of the media query \<open>(max-width: 767px)\<close>.
\<close>

section \<open>Layout\<close>

definition SIDEBAR_DEFAULT_WIDTH :: rat where "SIDEBAR_DEFAULT_WIDTH = 260"
definition SIDEBAR_MIN_WIDTH :: rat where "SIDEBAR_MIN_WIDTH = 200"
definition SIDEBAR_MAX_WIDTH :: rat where "SIDEBAR_MAX_WIDTH = 420"

text \<open>
  An entry of the storage: any text, or a number written through \<open>String\<close>, which \<open>Number\<close> reads back
  as the same number.
\<close>

datatype stored_value = StoredText string | StoredNumber rat

fun stored_number :: "stored_value option \<Rightarrow> rat option" where
  "stored_number None = None"
| "stored_number (Some (StoredText raw)) = (if raw = [] then None else js_Number raw)"
| "stored_number (Some (StoredNumber x)) = Some x"

definition clamp_sidebar :: "rat \<Rightarrow> rat" where
  "clamp_sidebar next = min SIDEBAR_MAX_WIDTH (max SIDEBAR_MIN_WIDTH next)"

definition readStoredWidth :: "stored_value option \<Rightarrow> rat" where
  "readStoredWidth raw =
     (case stored_number raw of None \<Rightarrow> SIDEBAR_DEFAULT_WIDTH | Some parsed \<Rightarrow> clamp_sidebar parsed)"

definition readStoredCollapsed :: "bool \<Rightarrow> string option \<Rightarrow> bool" where
  "readStoredCollapsed mobile stored = (if mobile then True else stored = Some ''1'')"

record layout_state =
  lay_width :: rat
  lay_collapsed :: bool
  lay_storedWidth :: "stored_value option"
  lay_storedCollapsed :: "string option"
  lay_drag :: "(rat \<times> rat) option"

definition useSidebarLayout :: "bool \<Rightarrow> stored_value option \<Rightarrow> string option \<Rightarrow> layout_state" where
  "useSidebarLayout mobile w c =
     \<lparr>lay_width = readStoredWidth w, lay_collapsed = readStoredCollapsed mobile c,
      lay_storedWidth = w, lay_storedCollapsed = c, lay_drag = None\<rparr>"

definition set_width :: "rat \<Rightarrow> layout_state \<Rightarrow> layout_state" where
  "set_width next s =
     (let clamped = clamp_sidebar next in
      s\<lparr>lay_width := clamped, lay_storedWidth := Some (StoredNumber clamped)\<rparr>)"

definition setCollapsed :: "bool \<Rightarrow> layout_state \<Rightarrow> layout_state" where
  "setCollapsed next s = s\<lparr>lay_collapsed := next, lay_storedCollapsed := Some (if next then ''1'' else ''0'')\<rparr>"

definition toggle_collapsed :: "layout_state \<Rightarrow> layout_state" where
  "toggle_collapsed s = setCollapsed (\<not> lay_collapsed s) s"

definition closeOnMobile :: "bool \<Rightarrow> layout_state \<Rightarrow> layout_state" where
  "closeOnMobile mobile s = (if mobile then s\<lparr>lay_collapsed := True\<rparr> else s)"

text \<open>The resize handle; its pointer events reach it only while the sidebar is expanded.\<close>

definition onPointerDown :: "rat \<Rightarrow> layout_state \<Rightarrow> layout_state" where
  "onPointerDown x s = s\<lparr>lay_drag := Some (x, lay_width s)\<rparr>"

definition onPointerMove :: "rat \<Rightarrow> layout_state \<Rightarrow> layout_state" where
  "onPointerMove x s =
     (case lay_drag s of None \<Rightarrow> s | Some (x0, w0) \<Rightarrow> set_width (w0 + (x - x0)) s)"

definition onPointerUp :: "layout_state \<Rightarrow> layout_state" where
  "onPointerUp s = s\<lparr>lay_drag := None\<rparr>"

datatype FrameView = ExpandButton | Aside rat

definition SidebarFrame :: "layout_state \<Rightarrow> FrameView" where
  "SidebarFrame s = (if lay_collapsed s then ExpandButton else Aside (lay_width s))"

datatype layout_event = ToggleLayout | CloseOnMobile bool | DragStart rat | DragMove rat | DragEnd

text \<open>Collapsing the sidebar removes the handle, and with it the start of a drag.\<close>

fun layout_step :: "layout_event \<Rightarrow> layout_state \<Rightarrow> layout_state" where
  "layout_step ToggleLayout s = (toggle_collapsed s)\<lparr>lay_drag := None\<rparr>"
| "layout_step (CloseOnMobile mobile) s = (if mobile then (closeOnMobile mobile s)\<lparr>lay_drag := None\<rparr> else s)"
| "layout_step (DragStart x) s = (if lay_collapsed s then s else onPointerDown x s)"
| "layout_step (DragMove x) s = (if lay_collapsed s then s else onPointerMove x s)"
| "layout_step DragEnd s = (if lay_collapsed s then s else onPointerUp s)"

section \<open>Rows\<close>

fun SOURCE_META :: "AgentSource \<Rightarrow> string" where
  "SOURCE_META FromDashboard = ''Started from the dashboard''"
| "SOURCE_META FromGithub = ''Triggered from GitHub''"
| "SOURCE_META FromSlack = ''Triggered from Slack''"
| "SOURCE_META FromLinear = ''Triggered from Linear''"
| "SOURCE_META FromSchedule = ''Triggered from a schedule''"

datatype PrColor = PrDim | PrSuccess | PrAccent | PrDanger

fun PR_STATE_META :: "PrState \<Rightarrow> string \<times> PrColor" where
  "PR_STATE_META PrDraft = (''Draft pull request'', PrDim)"
| "PR_STATE_META PrOpen = (''Open pull request'', PrSuccess)"
| "PR_STATE_META PrMerged = (''Merged pull request'', PrAccent)"
| "PR_STATE_META PrClosed = (''Closed pull request'', PrDanger)"

datatype Indicator = Spinner | FinishedDot | SeenDot

record ThreadRowView =
  tr_indicator :: Indicator
  tr_source :: "string option"
  tr_title :: string
  tr_pr :: "(string \<times> PrColor) option"
  tr_badge :: "string option"
  tr_active :: bool
  tr_dimmed :: bool
  tr_traceDisabled :: bool

definition thread_badge :: "AgentThread \<Rightarrow> string option" where
  "thread_badge t =
     (case th_diffStats t of
        None \<Rightarrow> None | Some d \<Rightarrow> if ds_additions d > 0 then Some (''+'' @ int_str (ds_additions d)) else None)"

definition ThreadRow :: "bool \<Rightarrow> bool \<Rightarrow> AgentThread \<Rightarrow> ThreadRowView" where
  "ThreadRow isActive isDeleting t =
     \<lparr>tr_indicator =
        (if th_status t = Running then Spinner
         else if th_status t = Finished \<and> \<not> th_viewed t then FinishedDot else SeenDot),
      tr_source = (case th_source t of None \<Rightarrow> None | Some src \<Rightarrow> if src = FromDashboard then None else Some (SOURCE_META src)),
      tr_title = th_title t, tr_pr = map_option (PR_STATE_META \<circ> pr_state) (th_pr t), tr_badge = thread_badge t,
      tr_active = isActive, tr_dimmed = isDeleting, tr_traceDisabled = (\<not> truthy_str (th_traceUrl t))\<rparr>"

definition openTrace :: "AgentThread \<Rightarrow> string option" where
  "openTrace t = (if \<not> truthy_str (th_traceUrl t) then None else th_traceUrl t)"

text \<open>
  Deleting a thread: the row's dialog and its mutation. The request and the cache operations of its
  success are those of \<open>useDeleteAgentThread\<close>.
\<close>

record row_state =
  deleteOpen :: bool
  deleting :: bool

datatype row_output = DeleteRequest AgentsCall | CacheOps "cache_op list"

definition onDelete :: "row_state \<Rightarrow> row_state" where
  "onDelete s = (if deleting s then s else s\<lparr>deleteOpen := True\<rparr>)"

definition onConfirmDelete :: "string \<Rightarrow> row_state \<Rightarrow> row_state \<times> row_output list" where
  "onConfirmDelete threadId s =
     (if deleting s then (s, [])
      else (s\<lparr>deleting := True\<rparr>, [DeleteRequest (fst (useDeleteAgentThread threadId))]))"

text \<open>The answer; \<open>path\<close> is the page's path then. A failure leaves the dialog open.\<close>

definition delete_done :: "string \<Rightarrow> string \<Rightarrow> row_state \<Rightarrow> row_state \<times> row_output list" where
  "delete_done threadId path s =
     (s\<lparr>deleting := False, deleteOpen := False\<rparr>, [CacheOps (snd (useDeleteAgentThread threadId) path)])"

definition delete_failed :: "row_state \<Rightarrow> row_state \<times> row_output list" where
  "delete_failed s = (s\<lparr>deleting := False\<rparr>, [])"

datatype row_event = AskDelete | CancelDelete | DismissDialog bool | ConfirmDelete | DeleteDone string | DeleteFailed

text \<open>
  The events of a row. The buttons of the dialog are there only while it is open and are disabled
  while the deletion runs; dismissing the dialog is the dialog library's \<open>onOpenChange\<close>.
\<close>

fun row_step :: "string \<Rightarrow> row_event \<Rightarrow> row_state \<Rightarrow> row_state \<times> row_output list" where
  "row_step threadId AskDelete s = (onDelete s, [])"
| "row_step threadId CancelDelete s = (if deleteOpen s \<and> \<not> deleting s then s\<lparr>deleteOpen := False\<rparr> else s, [])"
| "row_step threadId (DismissDialog shown) s = (s\<lparr>deleteOpen := shown\<rparr>, [])"
| "row_step threadId ConfirmDelete s = (if deleteOpen s then onConfirmDelete threadId s else (s, []))"
| "row_step threadId (DeleteDone path) s = (if deleting s then delete_done threadId path s else (s, []))"
| "row_step threadId DeleteFailed s = (if deleting s then delete_failed s else (s, []))"

record GroupView =
  gv_label :: string
  gv_count :: nat
  gv_rows :: "AgentThread list"

definition thread_group_view :: "string \<Rightarrow> bool \<Rightarrow> AgentThread list \<Rightarrow> GroupView option" where
  "thread_group_view label collapsed threads =
     (if length threads = 0 then None
      else Some \<lparr>gv_label = label, gv_count = length threads, gv_rows = (if collapsed then [] else threads)\<rparr>)"

section \<open>The choice of a workspace\<close>

definition workspace_error_table :: "(string, string) js_map" where
  "workspace_error_table =
     [(''workspace_picker_cancelled'', (''Selecci'' @ [CHR 0xF3] @ ''n cancelada.'')),
      (''workspace_picker_disabled'', ''Selector de carpetas deshabilitado.''),
      (''workspace_picker_unsupported'', ''Selector no soportado en este sistema.''),
      (''workspace_path_not_directory'', ''La ruta seleccionada no es una carpeta.''),
      (''workspace_path_not_git_repo'', ''Selecciona una carpeta que sea un repositorio Git.''),
      (''workspace_path_missing_origin'', ''El repositorio seleccionado no tiene remote origin configurado.''),
      (''workspace_path_not_azure_repo'', ''Selecciona un repositorio conectado a Azure DevOps.''),
      (''workspace_path_wrong_azure_org'', (''El repositorio pertenece a otra organizaci'' @ [CHR 0xF3] @ ''n de Azure DevOps.'')),
      (''workspace_source_dirty'',
         ''Tu repositorio tiene cambios sin commitear. Haz commit o stash antes de iniciar.''),
      (''workspace_integration_branch_missing'',
         (''No existe la rama de integraci'' @ [CHR 0xF3] @ ''n (develop) en origin. Verifica el remoto.'')),
      (''workspace_base_branch_required'', (''Tu repositorio est'' @ [CHR 0xE1] @ '' en HEAD desacoplado. Cambia a una rama nombrada.'')),
      (''workspace_integration_merge_conflict'',
         (''Tu rama tiene conflictos con develop. Resu'' @ [CHR 0xE9] @ ''lvelos antes de usar el workspace.'')),
      (''workspace_fetch_failed'',
         (''No se pudo actualizar desde el remoto. Revisa conexi'' @ [CHR 0xF3] @ ''n, permisos o credenciales.'')),
      (''workspace_base_mode_invalid'', (''Modo de base de workspace inv'' @ [CHR 0xE1] @ ''lido.'')),
      (''workspace_not_attached'', ''Este hilo no tiene un workspace asociado.'')]"

definition workspaceErrorLabel :: "string \<Rightarrow> string" where
  "workspaceErrorLabel err =
     (if startsWith err ''workspace_git_error:''
      then ''Selecciona una carpeta que sea un repositorio Git conectado a Azure DevOps.''
      else nullish (map_get workspace_error_table err) err)"

record sidebar_state =
  sel_workspace :: "string option"
  sel_storage :: "string option"
  pickWorkspace :: mutation
  side_layout :: layout_state

definition init_sidebar :: "bool \<Rightarrow> string option \<Rightarrow> stored_value option \<Rightarrow> string option \<Rightarrow> sidebar_state" where
  "init_sidebar mobile stored w c =
     \<lparr>sel_workspace = stored, sel_storage = stored, pickWorkspace = MutIdle,
      side_layout = useSidebarLayout mobile w c\<rparr>"

text \<open>The listener of the selection event and of the storage event.\<close>

definition sync_selected :: "sidebar_state \<Rightarrow> sidebar_state" where
  "sync_selected s = s\<lparr>sel_workspace := sel_storage s\<rparr>"

definition visibleThreads :: "string option \<Rightarrow> AgentThread list \<Rightarrow> AgentThread list" where
  "visibleThreads selected threads =
     (if truthy_str selected then filter (\<lambda>t. th_workspaceId t = selected) threads
      else filter (\<lambda>t. \<not> truthy_str (th_workspaceId t)) threads)"

definition onPickWorkspace :: "sidebar_state \<Rightarrow> sidebar_state \<times> ApiCall list" where
  "onPickWorkspace s =
     (if pickWorkspace s = MutPending then (s, []) else (s\<lparr>pickWorkspace := MutPending\<rparr>, [fst usePickWorkspace]))"

definition pick_done :: "(js_error + jsval) \<Rightarrow> sidebar_state \<Rightarrow> sidebar_state \<times> cache_op list" where
  "pick_done r s =
     (case r of
        Inl e \<Rightarrow> (s\<lparr>pickWorkspace := settle r\<rparr>, [])
      | Inr _ \<Rightarrow> (s\<lparr>pickWorkspace := settle r\<rparr>, snd usePickWorkspace))"

definition clearWorkspaceSelection :: "bool \<Rightarrow> sidebar_state \<Rightarrow> sidebar_state" where
  "clearWorkspaceSelection mobile s =
     (let s' = sync_selected (s\<lparr>sel_storage := None\<rparr>) in s'\<lparr>side_layout := closeOnMobile mobile (side_layout s')\<rparr>)"

definition selectWorkspace :: "bool \<Rightarrow> string \<Rightarrow> sidebar_state \<Rightarrow> sidebar_state" where
  "selectWorkspace mobile workspaceId s =
     (let s' = sync_selected (s\<lparr>sel_storage := Some workspaceId\<rparr>) in
      s'\<lparr>side_layout := closeOnMobile mobile (side_layout s')\<rparr>)"

text \<open>Another tab has changed the storage.\<close>

definition storage_event :: "string option \<Rightarrow> sidebar_state \<Rightarrow> sidebar_state" where
  "storage_event stored s = sync_selected (s\<lparr>sel_storage := stored\<rparr>)"

section \<open>The view\<close>

definition picker_error :: "mutation \<Rightarrow> js_error option \<Rightarrow> string option" where
  "picker_error pick listError =
     (case pick of
        MutPending \<Rightarrow> None
      | MutFailed e \<Rightarrow> Some (message_of e)
      | _ \<Rightarrow> map_option message_of listError)"

datatype WorkspaceList = LoadingProjects | AddFolderButton | WorkspaceRows "(Workspace \<times> bool) list"

record WorkspaceSectionView =
  wv_picking :: bool
  wv_list :: WorkspaceList
  wv_error :: "string option"

definition WorkspaceSection ::
  "Workspace list \<Rightarrow> bool \<Rightarrow> js_error option \<Rightarrow> sidebar_state \<Rightarrow> WorkspaceSectionView" where
  "WorkspaceSection workspaces isLoading listError s =
     \<lparr>wv_picking = (pickWorkspace s = MutPending),
      wv_list = (if isLoading then LoadingProjects
                 else if length workspaces = 0 then AddFolderButton
                 else WorkspaceRows (map (\<lambda>w. (w, Some (wk_id w) = sel_workspace s)) workspaces)),
      wv_error = (let e = picker_error (pickWorkspace s) listError in
                  if truthy_str e then Some (workspaceErrorLabel (the e)) else None)\<rparr>"

record SidebarView =
  sv_chatsSelected :: bool
  sv_chatCount :: nat
  sv_workspaces :: WorkspaceSectionView
  sv_heading :: string
  sv_groups :: "(string \<times> AgentThread list \<times> bool) list"

text \<open>Each group with the flag \<open>defaultCollapsed\<close> it is first shown with.\<close>

definition sidebar_view ::
  "int \<Rightarrow> int \<Rightarrow> int \<Rightarrow> AgentThread list option \<Rightarrow> Workspace list \<Rightarrow> bool \<Rightarrow> js_error option \<Rightarrow> sidebar_state \<Rightarrow> SidebarView" where
  "sidebar_view todayStart now1 now2 data workspaces isLoading listError s =
     (let threads = nullish data [];
          g = groupThreads todayStart now1 now2 (visibleThreads (sel_workspace s) threads)
      in \<lparr>sv_chatsSelected = (\<not> truthy_str (sel_workspace s)),
          sv_chatCount = length (filter (\<lambda>t. \<not> truthy_str (th_workspaceId t)) threads),
          sv_workspaces = WorkspaceSection workspaces isLoading listError s,
          sv_heading = (case find (\<lambda>w. Some (wk_id w) = sel_workspace s) workspaces of
                          Some w \<Rightarrow> ''Chats de '' @ wk_label w | None \<Rightarrow> ''Chats corrientes''),
          sv_groups = [(''Hoy'', tg_today g, False), (([CHR 0xDA] @ ''ltimos 7 d'' @ [CHR 0xED] @ ''as''), tg_last7 g, True),
                       (([CHR 0xDA] @ ''ltimos 30 d'' @ [CHR 0xED] @ ''as''), tg_last30 g, True), (''Anteriores'', tg_older g, False)]\<rparr>)"

section \<open>The user menu and the settings navigation\<close>

definition user_initials :: "SessionUser \<Rightarrow> string" where
  "user_initials user = toUpperCase (take 2 (if su_login user = [] then ''?'' else su_login user))"

definition THEME_OPTIONS :: "(Theme \<times> string) list" where
  "THEME_OPTIONS = [(Light, ''Claro''), (Dark, ''Oscuro''), (System, ''Sistema'')]"

datatype menu_event = MenuButton | ClickOutside | KeyPressed string | SettingsLink

text \<open>The listeners of clicks outside and of keys are installed only while the menu is open.\<close>

fun menu_step :: "menu_event \<Rightarrow> bool \<Rightarrow> bool" where
  "menu_step MenuButton shown = (\<not> shown)"
| "menu_step ClickOutside shown = False"
| "menu_step (KeyPressed key) shown = (shown \<and> key \<noteq> ''Escape'')"
| "menu_step SettingsLink shown = False"

text \<open>
  Signing out: the menu closes and the request is sent; the session is dropped and the login page
  opened only when it has succeeded.
\<close>

definition onLogout :: "(js_error + jsval) \<Rightarrow> bool \<Rightarrow> bool \<times> ApiCall list \<times> cache_op list" where
  "onLogout answer shown =
     (False, [Logout],
      case answer of Inl _ \<Rightarrow> [] | Inr _ \<Rightarrow> [SetData [''session''] JNull, Navigate ''/login''])"

record NavItem =
  nav_to :: string
  nav_label :: string
  nav_adminOnly :: bool

definition app_nav :: "NavItem list" where
  "app_nav =
     [\<lparr>nav_to = ''/my-settings'', nav_label = (''Configuraci'' @ [CHR 0xF3] @ ''n del perfil''), nav_adminOnly = False\<rparr>,
      \<lparr>nav_to = ''/cloud-agents'', nav_label = ''Agente en la nube'', nav_adminOnly = False\<rparr>,
      \<lparr>nav_to = ''/review'', nav_label = ''Pull Requests'', nav_adminOnly = False\<rparr>,
      \<lparr>nav_to = ''/usage'', nav_label = ''Uso'', nav_adminOnly = False\<rparr>,
      \<lparr>nav_to = ''/admin'', nav_label = (''Administraci'' @ [CHR 0xF3] @ ''n''), nav_adminOnly = True\<rparr>]"

definition AppSidebar :: "SessionUser \<Rightarrow> NavItem list" where
  "AppSidebar user = filter (\<lambda>n. \<not> nav_adminOnly n \<or> su_is_admin user) app_nav"

definition agents_nav :: "(string \<times> string) list" where
  "agents_nav = [(''/agents/automations'', ''Automatizaciones''), (''/my-settings'', ''Panel'')]"

section \<open>Facts\<close>

interpretation sidebar_width: clamped SIDEBAR_MIN_WIDTH SIDEBAR_MAX_WIDTH
  by unfold_locales (simp add: SIDEBAR_MIN_WIDTH_def SIDEBAR_MAX_WIDTH_def)

text \<open>What the storage holds is what a reload shows.\<close>

definition layout_ok :: "layout_state \<Rightarrow> bool" where
  "layout_ok s =
     (SIDEBAR_MIN_WIDTH \<le> lay_width s \<and> lay_width s \<le> SIDEBAR_MAX_WIDTH
      \<and> readStoredWidth (lay_storedWidth s) = lay_width s)"

lemma clamp_sidebar_range: "SIDEBAR_MIN_WIDTH \<le> clamp_sidebar x" "clamp_sidebar x \<le> SIDEBAR_MAX_WIDTH"
  using sidebar_width.clamp_in_range [of x] by (simp_all add: clamp_sidebar_def sidebar_width.in_range_def)

lemma clamp_sidebar_idem [simp]: "clamp_sidebar (clamp_sidebar x) = clamp_sidebar x"
  using sidebar_width.clamp_idem by (simp add: clamp_sidebar_def)

lemma layout_ok_init: "layout_ok (useSidebarLayout mobile w c)"
  by (auto simp: layout_ok_def useSidebarLayout_def readStoredWidth_def clamp_sidebar_range
      SIDEBAR_DEFAULT_WIDTH_def SIDEBAR_MIN_WIDTH_def SIDEBAR_MAX_WIDTH_def split: option.splits)
    (metis clamp_sidebar_range SIDEBAR_MIN_WIDTH_def SIDEBAR_MAX_WIDTH_def)+

lemma layout_ok_step: "layout_ok s \<Longrightarrow> layout_ok (layout_step e s)"
  by (cases e) (auto simp: layout_ok_def toggle_collapsed_def setCollapsed_def closeOnMobile_def onPointerDown_def
      onPointerMove_def onPointerUp_def set_width_def readStoredWidth_def clamp_sidebar_range Let_def split: option.splits)

lemma layout_ok_run: "layout_ok s \<Longrightarrow> layout_ok (fold layout_step es s)"
  by (induction es arbitrary: s) (simp_all add: layout_ok_step)

lemma collapsed_run:
  "lay_collapsed s = (lay_storedCollapsed s = Some ''1'') \<Longrightarrow> CloseOnMobile True \<notin> set es \<Longrightarrow>
     lay_collapsed (fold layout_step es s) = (lay_storedCollapsed (fold layout_step es s) = Some ''1'')"
proof (induction es arbitrary: s)
  case (Cons e es)
  have "lay_collapsed (layout_step e s) = (lay_storedCollapsed (layout_step e s) = Some ''1'')"
    using Cons.prems by (cases e) (auto simp: toggle_collapsed_def setCollapsed_def onPointerDown_def
        onPointerMove_def onPointerUp_def set_width_def Let_def split: option.splits)
  with Cons show ?case by simp
qed simp

text \<open>The scope a thread or a selection stands for: an empty id is none.\<close>

definition scope_of :: "string option \<Rightarrow> string option" where
  "scope_of w = (if truthy_str w then w else None)"

lemma visibleThreads_scope: "visibleThreads sel ts = filter (\<lambda>t. scope_of (th_workspaceId t) = scope_of sel) ts"
proof (cases "truthy_str sel")
  case True
  then have "(scope_of w = scope_of sel) = (w = sel)" for w by (auto simp: scope_of_def)
  with True show ?thesis by (simp add: visibleThreads_def)
next
  case False
  then have "(scope_of w = scope_of sel) = (\<not> truthy_str w)" for w by (cases w) (auto simp: scope_of_def)
  with False show ?thesis by (simp add: visibleThreads_def)
qed

fun is_delete :: "row_output \<Rightarrow> bool" where
  "is_delete (DeleteRequest _) = True" | "is_delete _ = False"

fun is_delete_answer :: "row_event \<Rightarrow> bool" where
  "is_delete_answer (DeleteDone _) = True" | "is_delete_answer DeleteFailed = True" | "is_delete_answer _ = False"

lemmas row_defs = onDelete_def onConfirmDelete_def delete_done_def delete_failed_def

interpretation thread_row: guarded_requests "row_step threadId" deleting is_delete is_delete_answer
proof
  fix e s s' out
  assume "row_step threadId e s = (s', out)"
  then show "of_bool (deleting s) + occurrences is_delete out \<le> of_bool (is_delete_answer e) + of_bool (deleting s')"
    by (cases e) (auto simp: row_defs split: if_splits)
qed

lemma row_confirmed:
  "row_step threadId e s = (s', out) \<Longrightarrow> occurrences is_delete out \<le> of_bool (e = ConfirmDelete)"
  by (cases e) (auto simp: row_defs split: if_splits)

lemma row_run_confirmed:
  "occurrences is_delete (snd (run_events (row_step threadId) es s)) \<le> occurrences (\<lambda>e. e = ConfirmDelete) es"
proof (induction es arbitrary: s)
  case (Cons e es)
  obtain s1 o1 where e: "row_step threadId e s = (s1, o1)" by fastforce
  from row_confirmed [OF e] Cons.IH [of s1] e show ?case by (simp add: split_beta)
qed simp

section \<open>Properties\<close>

text \<open>
  The layout of the sidebar survives a reload: after any clicks and drags its width is within its
  bounds and is the width that the stored entry gives back, whatever text the storage held at first;
  the collapsed state is the stored one too, unless it was closed as an overlay on a small screen,
  which is not stored.
\<close>

theorem sidebar_layout_round_trip:
  "let s = fold layout_step es (useSidebarLayout mobile w c);
       reloaded = useSidebarLayout False (lay_storedWidth s) (lay_storedCollapsed s) in
   SIDEBAR_MIN_WIDTH \<le> lay_width s \<and> lay_width s \<le> SIDEBAR_MAX_WIDTH
   \<and> lay_width reloaded = lay_width s
   \<and> (lay_collapsed reloaded = lay_collapsed s \<or> mobile \<or> CloseOnMobile True \<in> set es)"
proof -
  let ?s0 = "useSidebarLayout mobile w c"
  have "layout_ok (fold layout_step es ?s0)" by (rule layout_ok_run [OF layout_ok_init])
  moreover have "lay_collapsed ?s0 = (lay_storedCollapsed ?s0 = Some ''1'')" if "\<not> mobile"
    using that by (simp add: useSidebarLayout_def readStoredCollapsed_def)
  ultimately show ?thesis
    using collapsed_run [of ?s0 es]
    by (auto simp: Let_def layout_ok_def useSidebarLayout_def [of False] readStoredCollapsed_def)
qed

text \<open>
  Every thread is shown under exactly one choice of the sidebar: the groups hold the threads of
  the chosen workspace, or those without a workspace where none is chosen, each as often as it is in
  the list; and the counter of the ordinary chats is the number shown when they are chosen.
\<close>

theorem sidebar_scopes:
  "let v = sidebar_view a n1 n2 data ws ld err s in
   mset (concat (map (\<lambda>(_, ts, _). ts) (sv_groups v))) =
     filter_mset (\<lambda>t. scope_of (th_workspaceId t) = scope_of (sel_workspace s)) (mset (nullish data []))
   \<and> sv_chatsSelected v = (scope_of (sel_workspace s) = None)
   \<and> sv_chatCount v =
       size (filter_mset (\<lambda>t. scope_of (th_workspaceId t) = None) (mset (nullish data [])))"
proof -
  have none: "scope_of w = None \<longleftrightarrow> \<not> truthy_str w" for w by (cases w) (auto simp: scope_of_def)
  show ?thesis
    using groups_mset [of a n1 n2 "visibleThreads (sel_workspace s) (nullish data [])"]
    by (simp add: sidebar_view_def Let_def none visibleThreads_scope add.assoc flip: mset_filter)
qed

text \<open>
  Deleting a thread needs a confirmation and happens once: in every sequence of events of a row
  there are no more deletion requests than confirmations, and a second request is sent only after
  the first was answered.
\<close>

theorem row_deletes_once:
  "case run_events (row_step threadId) es \<lparr>deleteOpen = False, deleting = False\<rparr> of (s, out) \<Rightarrow>
     occurrences is_delete out \<le> occurrences (\<lambda>e. e = ConfirmDelete) es
     \<and> occurrences is_delete out \<le> occurrences is_delete_answer es + of_bool (deleting s)"
  using thread_row.requests_answered [where threadId = threadId and es = es and s = "\<lparr>deleteOpen = False, deleting = False\<rparr>"]
    row_run_confirmed [of threadId es "\<lparr>deleteOpen = False, deleting = False\<rparr>"]
  by (simp add: split_beta)

end
