(* ===== verification/Pickers.thy ===== *)
theory Pickers
  imports Agent_Types Api_Types Display
begin

text \<open>
  The pickers shared by the pages: \<open>components/agents/RepoSelector.tsx\<close> and
  \<open>components/agents/ModelCatalogPicker.tsx\<close>, and the card of a run,
  \<open>components/agents/AgentRunCard.tsx\<close>. A repository option is its full name.
\<close>

section \<open>Repository selector\<close>

record selector_state =
  sel_open :: bool
  sel_query :: string

definition init_selector :: selector_state where
  "init_selector = \<lparr>sel_open = False, sel_query = []\<rparr>"

definition filteredRepos :: "string list option \<Rightarrow> string \<Rightarrow> string list" where
  "filteredRepos repos query =
     (let all = nullish repos []; q = toLowerCase (trim query) in
      if q = [] then all else filter (\<lambda>r. str_includes (toLowerCase r) q) all)"

datatype selector_event = TriggerClick | OutsideClick | QueryChange string | PickNone | PickRepo string

text \<open>
  The events, with what is reported through \<open>onRepoChange\<close>. The entries are there only while the list
  is open, and a repository can be picked only where it is listed.
\<close>

fun selector_step ::
  "string list option \<Rightarrow> bool \<Rightarrow> selector_event \<Rightarrow> selector_state \<Rightarrow> selector_state \<times> string option list" where
  "selector_step repos disabled TriggerClick s = (if disabled then s else s\<lparr>sel_open := \<not> sel_open s\<rparr>, [])"
| "selector_step repos disabled OutsideClick s = (s\<lparr>sel_open := False\<rparr>, [])"
| "selector_step repos disabled (QueryChange q) s = (if sel_open s then s\<lparr>sel_query := q\<rparr> else s, [])"
| "selector_step repos disabled PickNone s =
     (if sel_open s then (\<lparr>sel_open = False, sel_query = []\<rparr>, [None]) else (s, []))"
| "selector_step repos disabled (PickRepo r) s =
     (if sel_open s \<and> r \<in> set (filteredRepos repos (sel_query s))
      then (\<lparr>sel_open = False, sel_query = []\<rparr>, [Some r]) else (s, []))"

record SelectorView =
  slv_label :: string
  slv_noneChecked :: bool
  slv_entries :: "(string \<times> bool) list option"

text \<open>The label of the trigger and, while open, the listed repositories with their check mark.\<close>

definition RepoSelector :: "string \<Rightarrow> string list option \<Rightarrow> string option \<Rightarrow> selector_state \<Rightarrow> SelectorView" where
  "RepoSelector placeholder repos selectedRepo s =
     \<lparr>slv_label = (if truthy_str selectedRepo then the selectedRepo else placeholder),
      slv_noneChecked = (\<not> truthy_str selectedRepo),
      slv_entries = (if sel_open s
                     then Some (map (\<lambda>r. (r, Some r = selectedRepo)) (filteredRepos repos (sel_query s))) else None)\<rparr>"

section \<open>Model catalog\<close>

definition active_provider :: "CatalogProvider list \<Rightarrow> string option \<Rightarrow> CatalogProvider option" where
  "active_provider providers activeProviderId =
     nullish_opt (find (\<lambda>p. Some (cp_id p) = activeProviderId) providers)
       (case providers of [] \<Rightarrow> None | p # _ \<Rightarrow> Some p)"

record CatalogEntry =
  ce_model :: CatalogModel
  ce_disabled :: bool
  ce_selected :: bool

record CatalogView =
  ctv_tabs :: "(string \<times> bool) list"
  ctv_entries :: "CatalogEntry list"

definition ModelCatalogPicker :: "ModelCatalog option \<Rightarrow> string option \<Rightarrow> string option \<Rightarrow> CatalogView option" where
  "ModelCatalogPicker data selectedModelId activeProviderId =
     (let providers = (case data of None \<Rightarrow> [] | Some c \<Rightarrow> cat_providers c);
          active = active_provider providers activeProviderId
      in if length providers = 0 then None
         else Some
           \<lparr>ctv_tabs = (if length providers > 1
                        then map (\<lambda>p. (cp_label p, map_option cp_id active = Some (cp_id p))) providers else []),
            ctv_entries = (case active of
                             None \<Rightarrow> []
                           | Some p \<Rightarrow> map (\<lambda>m. \<lparr>ce_model = m, ce_disabled = (\<not> cm_available m),
                                                 ce_selected = (Some (cm_id m) = selectedModelId)\<rparr>) (cp_models p))\<rparr>)"

text \<open>A click on an entry reports the model and its default effort; a disabled button reports nothing.\<close>

definition catalog_click :: "CatalogEntry \<Rightarrow> (string \<times> string option) option" where
  "catalog_click e = (if ce_disabled e then None else Some (cm_id (ce_model e), cm_default_effort (ce_model e)))"

section \<open>Run card\<close>

fun run_source_label :: "AgentSource \<Rightarrow> string" where
  "run_source_label FromDashboard = ''Panel''"
| "run_source_label FromGithub = ''GitHub''"
| "run_source_label FromSlack = ''Slack''"
| "run_source_label FromLinear = ''Linear''"
| "run_source_label FromSchedule = ''Programada''"

record RunCard =
  rc_stats :: "(string \<times> int \<times> int) option"
  rc_pr :: "PrState option"
  rc_title :: string
  rc_source :: "string option"
  rc_model :: string
  rc_repo :: "string option"
  rc_updated :: string
  rc_finished :: bool

definition AgentRunCard :: "int \<Rightarrow> AgentThread \<Rightarrow> RunCard" where
  "AgentRunCard now t =
     \<lparr>rc_stats = map_option (\<lambda>d. (int_str (ds_files d) @ '' '' @ (if ds_files d = 1 then ''archivo'' else ''archivos''),
                                   ds_additions d, ds_deletions d)) (th_diffStats t),
      rc_pr = map_option pr_state (th_pr t), rc_title = th_title t,
      rc_source = map_option run_source_label (th_source t), rc_model = th_model t,
      rc_repo = (if th_repo t = [] then None else Some (th_repo t)),
      rc_updated = formatRelativeTime now (th_updatedAt t), rc_finished = (th_status t = Finished)\<rparr>"

section \<open>Facts\<close>

text \<open>Searching ignores the case and the blanks around the query, and keeps the order of the list.\<close>

lemma filteredRepos_iff:
  "r \<in> set (filteredRepos repos q) \<longleftrightarrow>
     r \<in> set (nullish repos []) \<and> str_includes (toLowerCase r) (toLowerCase (trim q))"
  by (cases "trim q = []") (auto simp: filteredRepos_def Let_def toLowerCase_def str_includes_iff)

lemma filteredRepos_blank: "trim q = [] \<Longrightarrow> filteredRepos repos q = nullish repos []"
  by (simp add: filteredRepos_def toLowerCase_def)

text \<open>Whatever is reported is one of the repositories given, and the list is closed and reset then.\<close>

lemma selector_reports:
  "selector_step repos disabled e s = (s', out) \<Longrightarrow> r \<in> set out \<Longrightarrow>
     (r = None \<or> (\<exists>x \<in> set (nullish repos []). r = Some x)) \<and> s' = init_selector"
  by (cases e) (auto simp: filteredRepos_iff init_selector_def split: if_splits)

text \<open>The catalog has an active tab whenever it has a provider, and only available models are reported.\<close>

lemma active_provider_in: "active_provider providers i = Some p \<Longrightarrow> p \<in> set providers"
  by (auto simp: active_provider_def nullish_opt_def find_Some_iff split: option.splits list.splits)

lemma catalog_reports_available:
  "ModelCatalogPicker data sel i = Some v \<Longrightarrow> e \<in> set (ctv_entries v) \<Longrightarrow> catalog_click e = Some (m, eff) \<Longrightarrow>
     \<exists>p \<in> set (cat_providers (the data)). \<exists>x \<in> set (cp_models p). cm_id x = m \<and> cm_available x"
  by (auto simp: ModelCatalogPicker_def catalog_click_def Let_def dest!: active_provider_in
      split: option.splits if_splits; blast)

end
