(* ===== verification/Automations.thy ===== *)
theory Automations
  imports Mutations Model_Options Cron
begin

text \<open>
  The automations: \<open>components/agents/AutomationEditor.tsx\<close> with \<open>ScheduleTriggerPicker.tsx\<close> and its
  model picker, \<open>AutomationsList.tsx\<close> and the page \<open>routes/agents/automations/$scheduleId.tsx\<close>. The
  editor's three mutations are part of its state; the answers of the server are events. How a date is
  written out is the platform's and an argument.
\<close>

section \<open>Trigger picker\<close>

definition OPTIONS :: "(string \<times> string option) list" where
  "OPTIONS = map (\<lambda>p. (preset_label p, Some (preset_value p))) CRON_PRESETS @ [(''Personalizado (cron)'', None)]"

datatype trigger_event = TriggerButton | TriggerOutside | TriggerOption nat

text \<open>What is reported through \<open>onSelect\<close>: a cron expression, or nothing for the custom entry.\<close>

fun trigger_step :: "trigger_event \<Rightarrow> bool \<Rightarrow> bool \<times> string option list" where
  "trigger_step TriggerButton shown = (\<not> shown, [])"
| "trigger_step TriggerOutside shown = (False, [])"
| "trigger_step (TriggerOption i) shown =
     (if shown \<and> i < length OPTIONS then (False, [snd (OPTIONS ! i)]) else (shown, []))"

section \<open>Editor\<close>

definition scheduleToSelection :: "ModelOption list \<Rightarrow> AgentSchedule option \<Rightarrow> ModelSelection option" where
  "scheduleToSelection models schedule =
     (case schedule of
        None \<Rightarrow> None
      | Some c \<Rightarrow>
          if sched_model c = [] \<or> \<not> truthy_str (sched_effort c) then None
          else if supports models (sched_model c) (the (sched_effort c))
          then Some \<lparr>sel_modelId = sched_model c, sel_effort = the (sched_effort c)\<rparr> else None)"

record editor_state =
  ed_name :: string
  ed_prompt :: string
  ed_cron :: "string option"
  ed_customMode :: bool
  ed_repo :: "string option"
  ed_enabled :: bool
  ed_selection :: "ModelSelection option option"
  ed_create :: mutation
  ed_update :: mutation
  ed_delete :: mutation

definition init_editor :: "AgentSchedule option \<Rightarrow> editor_state" where
  "init_editor schedule =
     \<lparr>ed_name = (case schedule of Some c \<Rightarrow> sched_name c | None \<Rightarrow> []),
      ed_prompt = (case schedule of Some c \<Rightarrow> sched_prompt c | None \<Rightarrow> []),
      ed_cron = map_option sched_schedule schedule,
      ed_customMode = (case schedule of Some c \<Rightarrow> presetForCron (sched_schedule c) = None | None \<Rightarrow> False),
      ed_repo = Option.bind schedule sched_repo,
      ed_enabled = (case schedule of Some c \<Rightarrow> sched_enabled c | None \<Rightarrow> True),
      ed_selection = None, ed_create = MutIdle, ed_update = MutIdle, ed_delete = MutIdle\<rparr>"

definition editor_selection ::
  "ModelOption list \<Rightarrow> ModelSelection option \<Rightarrow> AgentSchedule option \<Rightarrow> editor_state \<Rightarrow> ModelSelection option" where
  "editor_selection models defaultSelection schedule s =
     (case ed_selection s of
        Some x \<Rightarrow> x
      | None \<Rightarrow> nullish_opt (scheduleToSelection models schedule) defaultSelection)"

definition errorMessage :: "editor_state \<Rightarrow> string option" where
  "errorMessage s =
     map_option message_of
       (nullish_opt (nullish_opt (mutation_error (ed_create s)) (mutation_error (ed_update s)))
          (mutation_error (ed_delete s)))"

definition isSaving :: "editor_state \<Rightarrow> bool" where
  "isSaving s = (ed_create s = MutPending \<or> ed_update s = MutPending)"

definition canSave :: "editor_state \<Rightarrow> bool" where
  "canSave s = (length (trim (ed_name s)) > 0 \<and> length (trim (ed_prompt s)) > 0 \<and> truthy_str (ed_cron s))"

definition onPickTrigger :: "string option \<Rightarrow> editor_state \<Rightarrow> editor_state" where
  "onPickTrigger v s =
     (case v of
        None \<Rightarrow> s\<lparr>ed_customMode := True, ed_cron := Some (nullish (ed_cron s) ''0 9 * * *'')\<rparr>
      | Some c \<Rightarrow> s\<lparr>ed_customMode := False, ed_cron := Some c\<rparr>)"

definition removeTrigger :: "editor_state \<Rightarrow> editor_state" where
  "removeTrigger s = s\<lparr>ed_cron := None, ed_customMode := False\<rparr>"

datatype EditorMode = CreateMode | EditMode

datatype editor_output = Sent AgentsCall | Cached "cache_op list" | WentToList

definition model_is_real :: "ModelOption list \<Rightarrow> ModelSelection option \<Rightarrow> bool" where
  "model_is_real models sel = list_ex (\<lambda>m. Some (mo_id m) = map_option sel_modelId sel) models"

definition create_body :: "ModelOption list \<Rightarrow> ModelSelection option \<Rightarrow> editor_state \<Rightarrow> ScheduleCreateRequest" where
  "create_body models sel s =
     (let real = model_is_real models sel in
      \<lparr>scr_prompt = trim (ed_prompt s), scr_schedule = trim (the (ed_cron s)), scr_name = Some (Some (trim (ed_name s))),
       scr_repo = Some (ed_repo s), scr_model_id = Some (if real then map_option sel_modelId sel else None),
       scr_effort = Some (if real then map_option sel_effort sel else None)\<rparr>)"

definition update_body :: "ModelOption list \<Rightarrow> ModelSelection option \<Rightarrow> editor_state \<Rightarrow> ScheduleUpdateRequest" where
  "update_body models sel s =
     (let real = model_is_real models sel in
      \<lparr>sur_prompt = Some (Some (trim (ed_prompt s))), sur_schedule = Some (Some (trim (the (ed_cron s)))),
       sur_name = Some (Some (trim (ed_name s))), sur_repo = Some (Some (nullish (ed_repo s) [])),
       sur_model_id = Some (if real then map_option sel_modelId sel else None),
       sur_effort = Some (if real then map_option sel_effort sel else None),
       sur_enabled = Some (Some (ed_enabled s))\<rparr>)"

definition handleSave ::
  "EditorMode \<Rightarrow> AgentSchedule option \<Rightarrow> ModelOption list \<Rightarrow> ModelSelection option \<Rightarrow> editor_state \<Rightarrow> editor_state \<times> editor_output list" where
  "handleSave mode schedule models defaultSelection s =
     (if \<not> canSave s then (s, [])
      else (let sel = editor_selection models defaultSelection schedule s in
            if mode = CreateMode
            then (s\<lparr>ed_create := MutPending\<rparr>, [Sent (fst (useCreateAgentSchedule (create_body models sel s)))])
            else (case schedule of
                    None \<Rightarrow> (s, [])
                  | Some c \<Rightarrow> (s\<lparr>ed_update := MutPending\<rparr>,
                               [Sent (fst (useUpdateAgentSchedule (sched_id c) (update_body models sel s)))]))))"

text \<open>\<open>confirmed\<close> is the answer of \<open>window.confirm\<close>.\<close>

definition handleDelete :: "AgentSchedule option \<Rightarrow> bool \<Rightarrow> editor_state \<Rightarrow> editor_state \<times> editor_output list" where
  "handleDelete schedule confirmed s =
     (case schedule of
        None \<Rightarrow> (s, [])
      | Some c \<Rightarrow> if \<not> confirmed then (s, [])
                  else (s\<lparr>ed_delete := MutPending\<rparr>, [Sent (fst (useDeleteAgentSchedule (sched_id c)))]))"

text \<open>The callbacks of a mutation: the list is invalidated, then the page goes to it.\<close>

definition mutation_done :: "js_error + jsval \<Rightarrow> editor_output list" where
  "mutation_done r = (case r of Inl _ \<Rightarrow> [] | Inr _ \<Rightarrow> [Cached [InvalidateQueries schedules_key False], WentToList])"

datatype editor_event =
    SetName string
  | SetPrompt string
  | SetCron string
  | SetRepo "string option"
  | SetEnabled bool
  | SetSelection ModelSelection
  | PickTrigger "string option"
  | RemoveTrigger
  | SaveClick
  | DeleteClick bool
  | CreateAnswer "js_error + jsval"
  | UpdateAnswer "js_error + jsval"
  | DeleteAnswer "js_error + jsval"

text \<open>
  The events, with the guards of the view: the cron expression can be edited only where its field is
  shown, the buttons are disabled while their mutation runs, and only the edit page can delete.
\<close>

fun editor_step ::
  "EditorMode \<Rightarrow> AgentSchedule option \<Rightarrow> ModelOption list \<Rightarrow> ModelSelection option \<Rightarrow> editor_event \<Rightarrow> editor_state \<Rightarrow>
   editor_state \<times> editor_output list" where
  "editor_step mode schedule models dflt (SetName t) s = (s\<lparr>ed_name := t\<rparr>, [])"
| "editor_step mode schedule models dflt (SetPrompt t) s = (s\<lparr>ed_prompt := t\<rparr>, [])"
| "editor_step mode schedule models dflt (SetCron t) s =
     (if truthy_str (ed_cron s) \<and> ed_customMode s then s\<lparr>ed_cron := Some t\<rparr> else s, [])"
| "editor_step mode schedule models dflt (SetRepo r) s = (s\<lparr>ed_repo := r\<rparr>, [])"
| "editor_step mode schedule models dflt (SetEnabled b) s = (s\<lparr>ed_enabled := b\<rparr>, [])"
| "editor_step mode schedule models dflt (SetSelection x) s = (s\<lparr>ed_selection := Some (Some x)\<rparr>, [])"
| "editor_step mode schedule models dflt (PickTrigger v) s = (onPickTrigger v s, [])"
| "editor_step mode schedule models dflt RemoveTrigger s =
     (if truthy_str (ed_cron s) then removeTrigger s else s, [])"
| "editor_step mode schedule models dflt SaveClick s =
     (if \<not> canSave s \<or> isSaving s then (s, []) else handleSave mode schedule models dflt s)"
| "editor_step mode schedule models dflt (DeleteClick confirmed) s =
     (if mode = EditMode \<and> ed_delete s \<noteq> MutPending then handleDelete schedule confirmed s else (s, []))"
| "editor_step mode schedule models dflt (CreateAnswer r) s =
     (if ed_create s = MutPending then (s\<lparr>ed_create := settle r\<rparr>, mutation_done r) else (s, []))"
| "editor_step mode schedule models dflt (UpdateAnswer r) s =
     (if ed_update s = MutPending then (s\<lparr>ed_update := settle r\<rparr>, mutation_done r) else (s, []))"
| "editor_step mode schedule models dflt (DeleteAnswer r) s =
     (if ed_delete s = MutPending then (s\<lparr>ed_delete := settle r\<rparr>, mutation_done r) else (s, []))"

section \<open>The editor's view\<close>

datatype CronField = NoTrigger | CronInput string | CronText string

record EditorView =
  ev_title :: string
  ev_deletable :: bool
  ev_saveDisabled :: bool
  ev_saveLabel :: string
  ev_enabledLabel :: string
  ev_cron :: CronField
  ev_triggerLabel :: string
  ev_error :: "string option"

text \<open>The label \<open>Guardando\<close> is shown with three dots in place of the ellipsis character.\<close>

definition editor_view :: "EditorMode \<Rightarrow> editor_state \<Rightarrow> EditorView" where
  "editor_view mode s =
     \<lparr>ev_title = (if trim (ed_name s) = [] then (''Nueva automatizaci'' @ [CHR 0xF3] @ ''n'') else trim (ed_name s)),
      ev_deletable = (mode = EditMode), ev_saveDisabled = (\<not> canSave s \<or> isSaving s),
      ev_saveLabel = (if isSaving s then ''Guardando...'' else if mode = CreateMode then ''Crear'' else ''Guardar cambios''),
      ev_enabledLabel = (if ed_enabled s then ''Activa'' else ''Pausada''),
      ev_cron = (if \<not> truthy_str (ed_cron s) then NoTrigger
                 else if ed_customMode s then CronInput (the (ed_cron s))
                 else CronText (describeCron (the (ed_cron s)))),
      ev_triggerLabel = (if truthy_str (ed_cron s) then ''Cambiar disparador'' else (''A'' @ [CHR 0xF1] @ ''adir disparador'')),
      ev_error = errorMessage s\<rparr>"

fun model_combos :: "ModelOption list \<Rightarrow> ModelSelection list" where
  "model_combos [] = []"
| "model_combos (m # ms) = map (\<lambda>e. \<lparr>sel_modelId = mo_id m, sel_effort = e\<rparr>) (mo_efforts m) @ model_combos ms"

text \<open>The model picker: its label, whether it is disabled, and its entries with the check mark.\<close>

definition ModelPicker ::
  "ModelOption list \<Rightarrow> ModelSelection option \<Rightarrow> string \<times> bool \<times> (string \<times> bool) list" where
  "ModelPicker models selection =
     (formatModelSelection models selection, length (model_combos models) = 0,
      map (\<lambda>c. (formatModelSelection models (Some c), selection = Some c)) (model_combos models))"

section \<open>The list\<close>

definition schedule_date :: "(string \<Rightarrow> string option) \<Rightarrow> string option \<Rightarrow> string" where
  "schedule_date locale_date v =
     (if \<not> truthy_str v then ''Sin ejecuciones''
      else (case locale_date (the v) of None \<Rightarrow> ''Sin ejecuciones'' | Some d \<Rightarrow> d))"

record AutomationRowView =
  ar_enabled :: bool
  ar_name :: string
  ar_warning :: bool
  ar_cron :: string
  ar_repo :: "string option"
  ar_lastRun :: string

definition AutomationRow :: "(string \<Rightarrow> string option) \<Rightarrow> AgentSchedule \<Rightarrow> AutomationRowView" where
  "AutomationRow locale_date c =
     \<lparr>ar_enabled = sched_enabled c, ar_name = sched_name c, ar_warning = truthy_str (sched_lastError c),
      ar_cron = describeCron (sched_schedule c),
      ar_repo = (if truthy_str (sched_repo c) then sched_repo c else None),
      ar_lastRun = schedule_date locale_date (sched_lastTriggeredAt c)\<rparr>"

datatype ListBody = ListLoading | ListEmpty | ListRows "AutomationRowView list"

record AutomationsView =
  av_total :: nat
  av_active :: nat
  av_paused :: nat
  av_issues :: nat
  av_caption :: string
  av_body :: ListBody

definition AutomationsList :: "(string \<Rightarrow> string option) \<Rightarrow> AgentSchedule list option \<Rightarrow> bool \<Rightarrow> AutomationsView" where
  "AutomationsList locale_date data isLoading =
     (let schedules = nullish data []; total = length schedules;
          active = length (filter sched_enabled schedules)
      in \<lparr>av_total = total, av_active = active, av_paused = total - active,
          av_issues = length (filter (\<lambda>c. truthy_str (sched_lastError c)) schedules),
          av_caption = nat_str total @ '' '' @ (if total = 1 then (''automatizaci'' @ [CHR 0xF3] @ ''n'') else ''automatizaciones''),
          av_body = (if isLoading then ListLoading else if total = 0 then ListEmpty
                     else ListRows (map (AutomationRow locale_date) schedules))\<rparr>)"

text \<open>The switch of a row sends only the new value of \<open>enabled\<close>.\<close>

definition onToggle :: "AgentSchedule \<Rightarrow> AgentsCall" where
  "onToggle c =
     fst (useUpdateAgentSchedule (sched_id c)
       \<lparr>sur_prompt = None, sur_schedule = None, sur_name = None, sur_repo = None, sur_model_id = None,
        sur_effort = None, sur_enabled = Some (Some (\<not> sched_enabled c))\<rparr>)"

datatype EditPage = EditLoading | EditForm AgentSchedule | EditMissing

definition EditAutomationPage :: "AgentSchedule list option \<Rightarrow> bool \<Rightarrow> string \<Rightarrow> EditPage" where
  "EditAutomationPage data isLoading scheduleId =
     (if isLoading then EditLoading
      else (case Option.bind data (find (\<lambda>c. sched_id c = scheduleId)) of
              Some c \<Rightarrow> EditForm c | None \<Rightarrow> EditMissing))"

section \<open>Facts\<close>

lemmas editor_defs =
  handleSave_def handleDelete_def onPickTrigger_def removeTrigger_def mutation_done_def isSaving_def Let_def
  useCreateAgentSchedule_def useUpdateAgentSchedule_def useDeleteAgentSchedule_def

fun is_save :: "editor_output \<Rightarrow> bool" where
  "is_save (Sent (CreateSchedule _)) = True" | "is_save (Sent (UpdateSchedule _ _)) = True" | "is_save _ = False"

fun is_save_answer :: "editor_event \<Rightarrow> bool" where
  "is_save_answer (CreateAnswer _) = True" | "is_save_answer (UpdateAnswer _) = True" | "is_save_answer _ = False"

interpretation editor: guarded_requests "editor_step mode schedule models dflt" isSaving is_save is_save_answer
proof
  fix e s s' out
  assume "editor_step mode schedule models dflt e s = (s', out)"
  then show "of_bool (isSaving s) + occurrences is_save out \<le> of_bool (is_save_answer e) + of_bool (isSaving s')"
    by (cases e) (auto simp: editor_defs split: if_splits option.splits sum.splits)
qed

definition trimmed :: "string \<Rightarrow> bool" where
  "trimmed t = (trim t = t)"

text \<open>
  A request of the editor against the fields at that time: it belongs to the mode and to the
  automation edited, it has the trimmed name and prompt, which are not blank, the trimmed cron expression of a field
  that is not empty, the repository and, when editing, the switch; and it names a model only with an
  effort, and only one of those offered. A cron expression of spaces passes, and is sent as an empty one.
\<close>

definition model_ok :: "ModelOption list \<Rightarrow> ModelSelection option \<Rightarrow> string maybe_null \<Rightarrow> string maybe_null \<Rightarrow> bool" where
  "model_ok models sel m e =
     (case sel of
        Some x \<Rightarrow> if sel_modelId x \<in> set (map mo_id models)
                  then m = Some (Some (sel_modelId x)) \<and> e = Some (Some (sel_effort x))
                  else m = Some None \<and> e = Some None
      | None \<Rightarrow> m = Some None \<and> e = Some None)"

fun request_ok :: "EditorMode \<Rightarrow> AgentSchedule option \<Rightarrow> ModelOption list \<Rightarrow> ModelSelection option \<Rightarrow> editor_state \<Rightarrow> AgentsCall \<Rightarrow> bool" where
  "request_ok mode schedule models dflt s (CreateSchedule b) =
     (mode = CreateMode \<and> trim (ed_name s) \<noteq> [] \<and> trim (ed_prompt s) \<noteq> []
      \<and> scr_name b = Some (Some (trim (ed_name s))) \<and> scr_prompt b = trim (ed_prompt s)
      \<and> (\<exists>cron. ed_cron s = Some cron \<and> cron \<noteq> [] \<and> scr_schedule b = trim cron)
      \<and> scr_repo b = Some (ed_repo s) \<and> model_ok models (editor_selection models dflt schedule s) (scr_model_id b) (scr_effort b))"
| "request_ok mode schedule models dflt s (UpdateSchedule i b) =
     (mode = EditMode \<and> map_option sched_id schedule = Some i \<and> trim (ed_name s) \<noteq> [] \<and> trim (ed_prompt s) \<noteq> []
      \<and> sur_name b = Some (Some (trim (ed_name s))) \<and> sur_prompt b = Some (Some (trim (ed_prompt s)))
      \<and> (\<exists>cron. ed_cron s = Some cron \<and> cron \<noteq> [] \<and> sur_schedule b = Some (Some (trim cron)))
      \<and> sur_repo b = Some (Some (nullish (ed_repo s) [])) \<and> sur_enabled b = Some (Some (ed_enabled s))
      \<and> model_ok models (editor_selection models dflt schedule s) (sur_model_id b) (sur_effort b))"
| "request_ok mode schedule models dflt s (DeleteSchedule i) = (mode = EditMode \<and> map_option sched_id schedule = Some i)"
| "request_ok mode schedule models dflt s _ = False"

fun output_ok :: "EditorMode \<Rightarrow> AgentSchedule option \<Rightarrow> ModelOption list \<Rightarrow> ModelSelection option \<Rightarrow> editor_state \<Rightarrow> editor_output \<Rightarrow> bool" where
  "output_ok mode schedule models dflt s (Sent c) = request_ok mode schedule models dflt s c"
| "output_ok mode schedule models dflt s (Cached ops) = (ops = [InvalidateQueries schedules_key False])"
| "output_ok mode schedule models dflt s WentToList = True"

lemma real_model: "model_is_real models sel = (\<exists>x. sel = Some x \<and> sel_modelId x \<in> set (map mo_id models))"
  by (cases sel) (auto simp: model_is_real_def list_ex_iff intro: rev_image_eqI)

lemma save_ok:
  "canSave s \<Longrightarrow> handleSave mode schedule models dflt s = (s', out) \<Longrightarrow> list_all (output_ok mode schedule models dflt s) out"
  by (cases mode; cases "editor_selection models dflt schedule s")
    (auto simp: editor_defs create_body_def update_body_def canSave_def truthy_str_iff model_ok_def real_model
      split: option.splits)

lemma editor_step_ok:
  "editor_step mode schedule models dflt e s = (s', out) \<Longrightarrow> list_all (output_ok mode schedule models dflt s) out"
proof (cases e)
  case SaveClick
  then show "editor_step mode schedule models dflt e s = (s', out) \<Longrightarrow> list_all (output_ok mode schedule models dflt s) out"
    using save_ok by (auto split: if_splits)
qed (auto simp: handleDelete_def mutation_done_def useDeleteAgentSchedule_def split: if_splits option.splits sum.splits)

section \<open>Properties\<close>

text \<open>
  C15. What the automation editor sends: after every sequence of events, every request the next event makes
  belongs to the editor's mode and to its automation and says what the fields say: the trimmed name
  and prompt, which are not blank, the trimmed cron expression (which is checked only for not being
  empty before it is trimmed), the repository, in edit mode the switch, and a model only with its
  effort and only the one chosen, where it is offered; a button that must not save sends nothing; and no
  second save is sent before the first one was answered.
\<close>

theorem automation_requests:
  "case run_events (editor_step mode schedule models dflt) es (init_editor schedule) of (s, out) \<Rightarrow>
     list_all (output_ok mode schedule models dflt s) (snd (editor_step mode schedule models dflt e s))
     \<and> (snd (editor_step mode schedule models dflt SaveClick s) \<noteq> []) =
         (canSave s \<and> \<not> isSaving s \<and> (mode, schedule) \<noteq> (EditMode, None))
     \<and> occurrences is_save out \<le> occurrences is_save_answer es + of_bool (isSaving s)"
proof -
  have "\<not> isSaving (init_editor schedule)" by (simp add: isSaving_def init_editor_def)
  moreover have "list_all (output_ok mode schedule models dflt s) (snd (editor_step mode schedule models dflt e s))" for s
    using editor_step_ok [of mode schedule models dflt e s] by (metis prod.collapse)
  moreover have "(snd (editor_step mode schedule models dflt SaveClick s) \<noteq> []) =
      (canSave s \<and> \<not> isSaving s \<and> (mode, schedule) \<noteq> (EditMode, None))" for s
    by (cases mode) (simp_all add: handleSave_def Let_def split: option.splits)
  ultimately show ?thesis
    using editor.requests_answered [where s = "init_editor schedule" and es = es and mode = mode
        and schedule = schedule and models = models and dflt = dflt]
    by (simp add: split_beta del: editor_step.simps)
qed

text \<open>
  C40. Opening an automation and saving it unchanged keeps it, where its name, prompt and cron expression
  are trimmed and not empty, it has a model and an effort, and the model is still offered with that
  effort: then exactly one update is sent, and it has the values of the automation itself. (Another
  model is replaced by the default one.)
\<close>

theorem automation_edit_round_trip:
  assumes "trimmed (sched_name c)" "trimmed (sched_prompt c)" "trimmed (sched_schedule c)"
    and "sched_name c \<noteq> []" "sched_prompt c \<noteq> []" "sched_schedule c \<noteq> []"
    and "sched_model c \<noteq> []" "sched_effort c = Some eff" "eff \<noteq> []" "supports models (sched_model c) eff"
  shows "snd (editor_step EditMode (Some c) models dflt SaveClick (init_editor (Some c))) =
    [Sent (UpdateSchedule (sched_id c)
       \<lparr>sur_prompt = Some (Some (sched_prompt c)), sur_schedule = Some (Some (sched_schedule c)),
        sur_name = Some (Some (sched_name c)), sur_repo = Some (Some (nullish (sched_repo c) [])),
        sur_model_id = Some (Some (sched_model c)), sur_effort = Some (Some eff),
        sur_enabled = Some (Some (sched_enabled c))\<rparr>)]"
proof -
  let ?sel = "\<lparr>sel_modelId = sched_model c, sel_effort = eff\<rparr>"
  have "editor_selection models dflt (Some c) (init_editor (Some c)) = Some ?sel"
    using assms by (simp add: editor_selection_def init_editor_def scheduleToSelection_def nullish_opt_def)
  moreover have "model_is_real models (Some ?sel)"
    using assms(10) by (auto simp: model_is_real_def supports_def list_ex_iff)
  moreover have "canSave (init_editor (Some c))" "\<not> isSaving (init_editor (Some c))"
    using assms by (simp_all add: canSave_def init_editor_def trimmed_def isSaving_def)
  ultimately show ?thesis
    using assms(1-3) by (simp add: handleSave_def useUpdateAgentSchedule_def update_body_def)
      (simp add: init_editor_def trimmed_def)
qed

definition sample_schedule :: AgentSchedule where
  "sample_schedule =
     \<lparr>sched_id = ''s1'', sched_name = ''Nightly'', sched_prompt = ''Check'', sched_schedule = ''0 9 * * *'',
      sched_repo = None, sched_model = ''m'', sched_effort = Some ''low'', sched_enabled = True, sched_cronId = None,
      sched_lastThreadId = None, sched_lastRunId = None, sched_lastTriggeredAt = None, sched_lastError = None,
      sched_lastErrorAt = None, sched_createdAt = None, sched_updatedAt = None\<rparr>"

definition sample_models :: "ModelOption list" where
  "sample_models =
     [\<lparr>mo_id = ''m'', mo_label = ''M'', mo_efforts = [''low''], mo_default_effort = ''low'', mo_supports_images = False\<rparr>]"

theorem automation_edit_round_trip_witness:
  "snd (editor_step EditMode (Some sample_schedule) sample_models None SaveClick (init_editor (Some sample_schedule))) =
    [Sent (UpdateSchedule ''s1''
       \<lparr>sur_prompt = Some (Some ''Check''), sur_schedule = Some (Some ''0 9 * * *''),
        sur_name = Some (Some ''Nightly''), sur_repo = Some (Some []), sur_model_id = Some (Some ''m''),
        sur_effort = Some (Some ''low''), sur_enabled = Some (Some True)\<rparr>)]"
proof -
  have "trimmed (sched_name sample_schedule)" "trimmed (sched_prompt sample_schedule)"
    "trimmed (sched_schedule sample_schedule)" "supports sample_models (sched_model sample_schedule) ''low''"
    by code_simp+
  from automation_edit_round_trip [OF this(1-3) _ _ _ _ _ _ this(4), of None]
  show ?thesis by (simp add: sample_schedule_def)
qed

text \<open>The switch for pausing has no effect on a new automation: its value is not part of the request.\<close>

lemma new_automation_ignores_pause: "create_body models sel (s\<lparr>ed_enabled := b\<rparr>) = create_body models sel s"
  by (simp add: create_body_def Let_def model_is_real_def)

text \<open>
  A custom expression that is emptied cannot be typed again: its field is gone, and choosing the
  custom entry once more keeps the empty expression, so the field does not come back.
\<close>

lemma emptied_cron_sticks:
  "truthy_str (ed_cron s) \<Longrightarrow> ed_customMode s \<Longrightarrow>
     ev_cron (editor_view mode (fst (editor_step mode c ms d (PickTrigger None) (fst (editor_step mode c ms d (SetCron []) s))))) =
     NoTrigger"
  by (simp add: editor_view_def onPickTrigger_def)

text \<open>A blank expression passes the check of the save button and is sent as an empty one.\<close>

lemma blank_cron_sent:
  "ed_cron s = Some '' '' \<Longrightarrow> trim (ed_name s) \<noteq> [] \<Longrightarrow> trim (ed_prompt s) \<noteq> [] \<Longrightarrow>
     canSave s \<and> scr_schedule (create_body models sel s) = []"
proof -
  have "trim '' '' = []" by code_simp
  then show "ed_cron s = Some '' '' \<Longrightarrow> trim (ed_name s) \<noteq> [] \<Longrightarrow> trim (ed_prompt s) \<noteq> [] \<Longrightarrow>
     canSave s \<and> scr_schedule (create_body models sel s) = []"
    by (simp add: canSave_def create_body_def Let_def)
qed

end
