(* ===== verification/Agent_Instructions.thy ===== *)
theory Agent_Instructions
  imports Mutations Display
begin

text \<open>
  \<open>components/AgentInstructionsPanel.tsx\<close>: the panel in which the instructions of each repository are
  edited. The lists of the two queries and the detail of the selected repository come with the events
  that use them; an answer of the server is an event. The effect that loads the draft runs when the
  instructions or the name of the detail have changed since it ran last. (In the texts shown, a
  hyphen stands for the dash.)
\<close>

section \<open>State\<close>

record ins_state =
  ins_error :: "string option"
  ins_addRepo :: string
  ins_selected :: "string option"
  ins_draft :: string
  ins_seen :: "string option \<times> string option"
  ins_create :: mutation
  ins_save :: mutation
  ins_remove :: mutation

definition init_ins :: ins_state where
  "init_ins =
     \<lparr>ins_error = None, ins_addRepo = [], ins_selected = None, ins_draft = [], ins_seen = (None, None),
      ins_create = MutIdle, ins_save = MutIdle, ins_remove = MutIdle\<rparr>"

definition formatMutationError :: "js_error \<Rightarrow> string" where
  "formatMutationError e =
     (if isGithubReauthError e then ''GitHub token expired - sign in again using the link above.'' else message_of e)"

text \<open>\<open>/github token|re-login required/i\<close>.\<close>

definition reauth_text :: "string \<Rightarrow> bool" where
  "reauth_text t = (str_includes (toLowerCase t) ''github token'' \<or> str_includes (toLowerCase t) ''re-login required'')"

definition githubReauth :: "js_error option \<Rightarrow> string option \<Rightarrow> bool" where
  "githubReauth reposError err =
     ((case reposError of Some e \<Rightarrow> isGithubReauthError e | None \<Rightarrow> False)
      \<or> (case err of Some t \<Rightarrow> reauth_text t | None \<Rightarrow> False))"

text \<open>The query of the repositories, which is empty for a user who is not signed in to GitHub.\<close>

definition repos_or_empty :: "js_error + jsval \<Rightarrow> js_error + jsval" where
  "repos_or_empty r =
     (case r of
        Inr v \<Rightarrow> Inr v
      | Inl (ApiError status message) \<Rightarrow>
          if status = 401 then Inr (JObj [(''installations'', JArr []), (''repositories'', JArr [])]) else r
      | Inl e \<Rightarrow> Inl e)"

section \<open>Derived values\<close>

definition ins_configured :: "AgentInstructions list option \<Rightarrow> string list" where
  "ins_configured data = map ai_full_name (nullish data [])"

definition ins_suggestedRepos :: "string list \<Rightarrow> AgentInstructions list option \<Rightarrow> string list" where
  "ins_suggestedRepos repos data = filter (\<lambda>r. r \<notin> set (ins_configured data)) repos"

definition ins_canAdd :: "AgentInstructions list option \<Rightarrow> ins_state \<Rightarrow> bool" where
  "ins_canAdd data s =
     (case normalizeRepoFullName (ins_addRepo s) of None \<Rightarrow> False | Some n \<Rightarrow> n \<notin> set (ins_configured data))"

definition ins_active ::
  "AgentInstructions list option \<Rightarrow> AgentInstructions option \<Rightarrow> ins_state \<Rightarrow> AgentInstructions option" where
  "ins_active data detail s =
     nullish_opt detail (find (\<lambda>a. Some (ai_full_name a) = ins_selected s) (nullish data []))"

definition ins_dirty :: "AgentInstructions option \<Rightarrow> ins_state \<Rightarrow> bool" where
  "ins_dirty active s = (case active of None \<Rightarrow> False | Some a \<Rightarrow> ins_draft s \<noteq> ai_instructions a)"

section \<open>Handlers\<close>

datatype panel_output = PanelSent ApiCall | PanelCached "cache_op list"

definition ins_detail_effect :: "AgentInstructions option \<Rightarrow> ins_state \<Rightarrow> ins_state" where
  "ins_detail_effect detail s =
     (let deps = (map_option ai_instructions detail, map_option ai_full_name detail) in
      if deps = ins_seen s then s
      else (case detail of
              None \<Rightarrow> s\<lparr>ins_seen := deps\<rparr>
            | Some d \<Rightarrow> s\<lparr>ins_seen := deps, ins_draft := ai_instructions d\<rparr>))"

definition ins_handleAdd :: "AgentInstructions list option \<Rightarrow> ins_state \<Rightarrow> ins_state \<times> panel_output list" where
  "ins_handleAdd data s =
     (case normalizeRepoFullName (ins_addRepo s) of
        None \<Rightarrow> (s, [])
      | Some n \<Rightarrow> if n = [] \<or> \<not> ins_canAdd data s then (s, [])
                  else (s\<lparr>ins_create := MutPending\<rparr>, [PanelSent (CreateAgentInstructions n)]))"

text \<open>The answers; the record that a creation returns is known by its full name.\<close>

definition ins_create_done :: "js_error + string \<Rightarrow> ins_state \<Rightarrow> ins_state \<times> panel_output list" where
  "ins_create_done r s =
     (case r of
        Inl e \<Rightarrow> (s\<lparr>ins_create := settle r, ins_error := Some (formatMutationError e)\<rparr>, [])
      | Inr full_name \<Rightarrow>
          (s\<lparr>ins_create := settle r, ins_selected := Some full_name, ins_error := None, ins_addRepo := []\<rparr>,
           [PanelCached [InvalidateQueries [''agentInstructions''] False]]))"

definition ins_save_done :: "js_error + jsval \<Rightarrow> ins_state \<Rightarrow> ins_state \<times> panel_output list" where
  "ins_save_done r s =
     (case r of
        Inl e \<Rightarrow> (s\<lparr>ins_save := settle r, ins_error := Some (formatMutationError e)\<rparr>, [])
      | Inr _ \<Rightarrow>
          (s\<lparr>ins_save := settle r, ins_error := None\<rparr>,
           [PanelCached [InvalidateQueries [''agentInstructions''] False,
              InvalidateQueries [''agentInstruction'', nullish (ins_selected s) []] False]]))"

definition ins_remove_done :: "string \<Rightarrow> js_error + jsval \<Rightarrow> ins_state \<Rightarrow> ins_state \<times> panel_output list" where
  "ins_remove_done full_name r s =
     (case r of
        Inl e \<Rightarrow> (s\<lparr>ins_remove := settle r, ins_error := Some (formatMutationError e)\<rparr>, [])
      | Inr _ \<Rightarrow>
          (let s' = s\<lparr>ins_remove := settle r, ins_error := None\<rparr> in
           (if ins_selected s = Some full_name then s'\<lparr>ins_selected := None, ins_draft := []\<rparr> else s',
            [PanelCached [InvalidateQueries [''agentInstructions''] False]])))"

datatype ins_event =
    InsSelect string
  | InsDraft string
  | InsAddText string
  | InsDetail "AgentInstructions option"
  | InsAddButton "AgentInstructions list option"
  | InsAddKey "AgentInstructions list option"
  | InsSave "AgentInstructions list option" "AgentInstructions option"
  | InsRemove "AgentInstructions list option" "AgentInstructions option" bool
  | InsCreated "js_error + string"
  | InsSaved "js_error + jsval"
  | InsRemoved string "js_error + jsval"

text \<open>The events, with the guards of the view; the bool of \<open>InsRemove\<close> is the answer of \<open>window.confirm\<close>.\<close>

fun ins_step :: "ins_event \<Rightarrow> ins_state \<Rightarrow> ins_state \<times> panel_output list" where
  "ins_step (InsSelect n) s = (s\<lparr>ins_selected := Some n\<rparr>, [])"
| "ins_step (InsDraft t) s = (s\<lparr>ins_draft := t\<rparr>, [])"
| "ins_step (InsAddText t) s = (s\<lparr>ins_addRepo := t\<rparr>, [])"
| "ins_step (InsDetail d) s = (ins_detail_effect d s, [])"
| "ins_step (InsAddButton data) s =
     (if \<not> ins_canAdd data s \<or> ins_create s = MutPending then (s, []) else ins_handleAdd data s)"
| "ins_step (InsAddKey data) s = ins_handleAdd data s"
| "ins_step (InsSave data detail) s =
     (case ins_active data detail s of
        None \<Rightarrow> (s, [])
      | Some a \<Rightarrow>
          if \<not> truthy_str (ins_selected s) \<or> \<not> ins_dirty (Some a) s \<or> ins_save s = MutPending then (s, [])
          else (s\<lparr>ins_save := MutPending\<rparr>, [PanelSent (SaveAgentInstructions (ai_full_name a) (ins_draft s))]))"
| "ins_step (InsRemove data detail confirmed) s =
     (case ins_active data detail s of
        None \<Rightarrow> (s, [])
      | Some a \<Rightarrow>
          if \<not> truthy_str (ins_selected s) \<or> ins_remove s = MutPending \<or> \<not> confirmed then (s, [])
          else (s\<lparr>ins_remove := MutPending\<rparr>, [PanelSent (DeleteAgentInstructions (ai_full_name a))]))"
| "ins_step (InsCreated r) s = ins_create_done r s"
| "ins_step (InsSaved r) s = (if ins_save s = MutPending then ins_save_done r s else (s, []))"
| "ins_step (InsRemoved n r) s = (if ins_remove s = MutPending then ins_remove_done n r s else (s, []))"

section \<open>View\<close>

datatype InstructionsBody = InsPrompt | InsEditor AgentInstructions bool bool string

record InstructionsView =
  iv_reauth :: bool
  iv_addDisabled :: bool
  iv_suggested :: "string list"
  iv_rows :: "(string \<times> bool) list"
  iv_body :: InstructionsBody
  iv_error :: "string option"

text \<open>\<open>None\<close> is the skeleton shown while the list loads; the editor has its dirty mark and whether saving is disabled.\<close>

definition AgentInstructionsPanel ::
  "AgentInstructions list option \<Rightarrow> bool \<Rightarrow> string list \<Rightarrow> js_error option \<Rightarrow> AgentInstructions option \<Rightarrow> ins_state \<Rightarrow>
   InstructionsView option" where
  "AgentInstructionsPanel data isLoading repos reposError detail s =
     (if isLoading then None
      else (let active = ins_active data detail s; dirty = ins_dirty active s in
            Some \<lparr>iv_reauth = githubReauth reposError (ins_error s),
                  iv_addDisabled = (\<not> ins_canAdd data s \<or> ins_create s = MutPending),
                  iv_suggested = ins_suggestedRepos repos data,
                  iv_rows = map (\<lambda>a. (ai_full_name a, ins_selected s = Some (ai_full_name a))) (nullish data []),
                  iv_body = (case active of
                               Some a \<Rightarrow> if truthy_str (ins_selected s)
                                         then InsEditor a dirty (\<not> dirty \<or> ins_save s = MutPending) (ins_draft s)
                                         else InsPrompt
                             | None \<Rightarrow> InsPrompt),
                  iv_error = ins_error s\<rparr>))"

section \<open>Facts\<close>

fun is_instruction_save :: "panel_output \<Rightarrow> bool" where
  "is_instruction_save (PanelSent (SaveAgentInstructions _ _)) = True" | "is_instruction_save _ = False"

fun is_ins_saved :: "ins_event \<Rightarrow> bool" where
  "is_ins_saved (InsSaved _) = True" | "is_ins_saved _ = False"

lemmas ins_defs =
  ins_detail_effect_def ins_handleAdd_def ins_create_done_def ins_save_done_def ins_remove_done_def Let_def

interpretation instruction_save:
  guarded_requests ins_step "\<lambda>s. ins_save s = MutPending" is_instruction_save is_ins_saved
proof
  fix e s s' out
  assume "ins_step e s = (s', out)"
  then show "of_bool (ins_save s = MutPending) + occurrences is_instruction_save out
      \<le> of_bool (is_ins_saved e) + of_bool (ins_save s' = MutPending)"
    by (cases e) (auto simp: ins_defs split: if_splits option.splits sum.splits)
qed

text \<open>What a request of the panel may be, given the event that sends it.\<close>

fun ins_request_ok :: "ins_event \<Rightarrow> ins_state \<Rightarrow> panel_output \<Rightarrow> bool" where
  "ins_request_ok (InsAddButton data) s p =
     (\<exists>n. p = PanelSent (CreateAgentInstructions n) \<and> normalizeRepoFullName (ins_addRepo s) = Some n
        \<and> n \<notin> set (ins_configured data) \<and> ins_create s \<noteq> MutPending)"
| "ins_request_ok (InsAddKey data) s p =
     (\<exists>n. p = PanelSent (CreateAgentInstructions n) \<and> normalizeRepoFullName (ins_addRepo s) = Some n
        \<and> n \<notin> set (ins_configured data))"
| "ins_request_ok (InsSave data detail) s p =
     (\<exists>a. ins_active data detail s = Some a \<and> ins_draft s \<noteq> ai_instructions a
        \<and> p = PanelSent (SaveAgentInstructions (ai_full_name a) (ins_draft s)))"
| "ins_request_ok (InsRemove data detail confirmed) s p =
     (confirmed \<and> (\<exists>a. ins_active data detail s = Some a \<and> p = PanelSent (DeleteAgentInstructions (ai_full_name a))))"
| "ins_request_ok _ s p = (case p of PanelSent _ \<Rightarrow> False | PanelCached _ \<Rightarrow> True)"

section \<open>Properties\<close>

text \<open>
  What the instructions panel sends: a repository is added only under its normalised name and only
  if it is not in the list yet, instructions are saved only for the repository shown and only when
  they differ from the saved ones, and a removal needs a confirmation; and no second save is sent
  before the first was answered.
\<close>

theorem instructions_requests:
  "(case ins_step e s of (s', out) \<Rightarrow> list_all (ins_request_ok e s) out)
   \<and> (case run_events ins_step es init_ins of (s', out) \<Rightarrow>
        occurrences is_instruction_save out \<le> occurrences is_ins_saved es + of_bool (ins_save s' = MutPending))"
proof
  show "case ins_step e s of (s', out) \<Rightarrow> list_all (ins_request_ok e s) out"
    by (cases e) (auto simp: ins_defs ins_canAdd_def ins_dirty_def split: option.splits sum.splits)
  show "case run_events ins_step es init_ins of (s', out) \<Rightarrow>
      occurrences is_instruction_save out \<le> occurrences is_ins_saved es + of_bool (ins_save s' = MutPending)"
    by (rule instruction_save.requests_answered) (simp add: init_ins_def)
qed

text \<open>Whenever the message points to the link above, the banner with that link is shown.\<close>

lemma reauth_banner_shown:
  "isGithubReauthError e \<Longrightarrow> githubReauth reposError (Some (formatMutationError e))"
proof -
  have "reauth_text ''GitHub token expired - sign in again using the link above.''" by code_simp
  then show "isGithubReauthError e \<Longrightarrow> githubReauth reposError (Some (formatMutationError e))"
    by (simp add: githubReauth_def formatMutationError_def)
qed

text \<open>
  Between the selection of a repository and the arrival of its detail the draft is still that of the
  repository selected before, and saving then writes it to the new one.
\<close>

lemma stale_draft_saved:
  assumes "find (\<lambda>a. ai_full_name a = n) (nullish data []) = Some a" "n \<noteq> []"
    and "ins_draft s \<noteq> ai_instructions a" "ins_save s \<noteq> MutPending"
  shows "snd (ins_step (InsSave data None) (fst (ins_step (InsSelect n) s))) =
    [PanelSent (SaveAgentInstructions (ai_full_name a) (ins_draft s))]"
  using assms by (simp add: ins_active_def ins_dirty_def nullish_opt_def)

text \<open>The key adds a repository again while its creation is under way; the button does not.\<close>

lemma add_key_repeats:
  "ins_canAdd data s \<Longrightarrow> normalizeRepoFullName (ins_addRepo s) = Some n \<Longrightarrow> n \<noteq> [] \<Longrightarrow> ins_create s = MutPending \<Longrightarrow>
     snd (ins_step (InsAddKey data) s) = [PanelSent (CreateAgentInstructions n)]
     \<and> snd (ins_step (InsAddButton data) s) = []"
  by (simp add: ins_handleAdd_def)

end
