(* ===== verification/Review_Styles.thy ===== *)
theory Review_Styles
  imports Agent_Instructions
begin

text \<open>
  \<open>components/ReviewStylesPanel.tsx\<close>: the panel of the review style prompts. It has the same parts as
  the instructions panel, whose error texts and outputs it shares here, and in addition the analysis
  of a repository, which can be started and cancelled and is polled while it runs.
\<close>

section \<open>State\<close>

datatype BadgeVariant = BadgeDefault | BadgeSecondary | BadgeDestructive | BadgeOutline

fun statusVariant :: "ReviewStyleStatus \<Rightarrow> BadgeVariant" where
  "statusVariant StyleCompleted = BadgeDefault"
| "statusVariant StyleRunning = BadgeSecondary"
| "statusVariant StyleFailed = BadgeDestructive"
| "statusVariant StyleIdle = BadgeOutline"

record style_state =
  sty_error :: "string option"
  sty_addRepo :: string
  sty_selected :: "string option"
  sty_draftPrompt :: string
  sty_seen :: "string option option \<times> string option"
  sty_create :: mutation
  sty_analyze :: mutation
  sty_savePrompt :: mutation
  sty_cancel :: mutation
  sty_remove :: mutation

definition init_style :: style_state where
  "init_style =
     \<lparr>sty_error = None, sty_addRepo = [], sty_selected = None, sty_draftPrompt = [], sty_seen = (None, None),
      sty_create = MutIdle, sty_analyze = MutIdle, sty_savePrompt = MutIdle, sty_cancel = MutIdle,
      sty_remove = MutIdle\<rparr>"

text \<open>The intervals in milliseconds at which the two queries are repeated.\<close>

definition styles_interval :: "ReviewStyle list option \<Rightarrow> int option" where
  "styles_interval data = (if list_ex (\<lambda>r. rs_status r = StyleRunning) (nullish data []) then Some 4000 else None)"

definition style_interval :: "ReviewStyle option \<Rightarrow> int option" where
  "style_interval detail = (if map_option rs_status detail = Some StyleRunning then Some 4000 else None)"

section \<open>Derived values\<close>

definition sty_configured :: "ReviewStyle list option \<Rightarrow> string list" where
  "sty_configured data = map rs_full_name (nullish data [])"

definition sty_suggestedRepos :: "string list \<Rightarrow> ReviewStyle list option \<Rightarrow> string list" where
  "sty_suggestedRepos repos data = filter (\<lambda>r. r \<notin> set (sty_configured data)) repos"

definition sty_canAdd :: "ReviewStyle list option \<Rightarrow> style_state \<Rightarrow> bool" where
  "sty_canAdd data s =
     (case normalizeRepoFullName (sty_addRepo s) of None \<Rightarrow> False | Some n \<Rightarrow> n \<notin> set (sty_configured data))"

definition sty_active :: "ReviewStyle list option \<Rightarrow> ReviewStyle option \<Rightarrow> style_state \<Rightarrow> ReviewStyle option" where
  "sty_active data detail s =
     nullish_opt detail (find (\<lambda>r. Some (rs_full_name r) = sty_selected s) (nullish data []))"

section \<open>Handlers\<close>

definition sty_detail_effect :: "ReviewStyle option \<Rightarrow> style_state \<Rightarrow> style_state" where
  "sty_detail_effect detail s =
     (let deps = (map_option rs_custom_prompt detail, map_option rs_full_name detail) in
      if deps = sty_seen s then s
      else (case detail of
              None \<Rightarrow> s\<lparr>sty_seen := deps\<rparr>
            | Some d \<Rightarrow> s\<lparr>sty_seen := deps, sty_draftPrompt := nullish (rs_custom_prompt d) []\<rparr>))"

definition sty_handleAdd :: "ReviewStyle list option \<Rightarrow> style_state \<Rightarrow> style_state \<times> panel_output list" where
  "sty_handleAdd data s =
     (case normalizeRepoFullName (sty_addRepo s) of
        None \<Rightarrow> (s, [])
      | Some n \<Rightarrow> if n = [] \<or> \<not> sty_canAdd data s then (s, [])
                  else (s\<lparr>sty_create := MutPending\<rparr>, [PanelSent (CreateReviewStyle n)]))"

definition style_refresh :: "style_state \<Rightarrow> panel_output list" where
  "style_refresh s =
     [PanelCached [InvalidateQueries [''reviewStyles''] False,
        InvalidateQueries [''reviewStyle'', nullish (sty_selected s) []] False]]"

definition sty_create_done :: "js_error + string \<Rightarrow> style_state \<Rightarrow> style_state \<times> panel_output list" where
  "sty_create_done r s =
     (case r of
        Inl e \<Rightarrow> (s\<lparr>sty_create := settle r, sty_error := Some (formatMutationError e)\<rparr>, [])
      | Inr full_name \<Rightarrow>
          (s\<lparr>sty_create := settle r, sty_selected := Some full_name, sty_error := None, sty_addRepo := []\<rparr>,
           [PanelCached [InvalidateQueries [''reviewStyles''] False]]))"

definition sty_analyze_done :: "js_error + jsval \<Rightarrow> style_state \<Rightarrow> style_state \<times> panel_output list" where
  "sty_analyze_done r s =
     (case r of
        Inl e \<Rightarrow> (s\<lparr>sty_analyze := settle r, sty_error := Some (formatMutationError e)\<rparr>, [])
      | Inr _ \<Rightarrow> (s\<lparr>sty_analyze := settle r, sty_error := None\<rparr>, style_refresh s))"

definition sty_save_done :: "js_error + jsval \<Rightarrow> style_state \<Rightarrow> style_state \<times> panel_output list" where
  "sty_save_done r s =
     (case r of
        Inl e \<Rightarrow> (s\<lparr>sty_savePrompt := settle r, sty_error := Some (formatMutationError e)\<rparr>, [])
      | Inr _ \<Rightarrow> (s\<lparr>sty_savePrompt := settle r, sty_error := None\<rparr>, style_refresh s))"

definition sty_cancel_done :: "js_error + jsval \<Rightarrow> style_state \<Rightarrow> style_state \<times> panel_output list" where
  "sty_cancel_done r s =
     (case r of
        Inl e \<Rightarrow> (s\<lparr>sty_cancel := settle r, sty_error := Some (formatMutationError e)\<rparr>, [])
      | Inr _ \<Rightarrow> (s\<lparr>sty_cancel := settle r, sty_error := None\<rparr>, style_refresh s))"

definition sty_remove_done :: "string \<Rightarrow> js_error + jsval \<Rightarrow> style_state \<Rightarrow> style_state \<times> panel_output list" where
  "sty_remove_done full_name r s =
     (case r of
        Inl e \<Rightarrow> (s\<lparr>sty_remove := settle r, sty_error := Some (formatMutationError e)\<rparr>, [])
      | Inr _ \<Rightarrow>
          (let s' = s\<lparr>sty_remove := settle r, sty_error := None\<rparr> in
           (if sty_selected s = Some full_name then s'\<lparr>sty_selected := None, sty_draftPrompt := []\<rparr> else s',
            [PanelCached [InvalidateQueries [''reviewStyles''] False]])))"

datatype style_event =
    StySelect string
  | StyDraft "ReviewStyle list option" "ReviewStyle option" string
  | StyAddText string
  | StyDetail "ReviewStyle option"
  | StyAddButton "ReviewStyle list option"
  | StyAddKey "ReviewStyle list option"
  | StyAnalyze "ReviewStyle list option" "ReviewStyle option"
  | StyCancel "ReviewStyle list option" "ReviewStyle option"
  | StySave "ReviewStyle list option" "ReviewStyle option"
  | StyRemove "ReviewStyle list option" "ReviewStyle option" bool
  | StyCreated "js_error + string"
  | StyAnalyzed "js_error + jsval"
  | StySaved "js_error + jsval"
  | StyCancelled "js_error + jsval"
  | StyRemoved string "js_error + jsval"

text \<open>The repository shown in the lower part of the panel.\<close>

definition sty_shown :: "ReviewStyle list option \<Rightarrow> ReviewStyle option \<Rightarrow> style_state \<Rightarrow> ReviewStyle option" where
  "sty_shown data detail s = (if truthy_str (sty_selected s) then sty_active data detail s else None)"

fun sty_step :: "style_event \<Rightarrow> style_state \<Rightarrow> style_state \<times> panel_output list" where
  "sty_step (StySelect n) s = (s\<lparr>sty_selected := Some n\<rparr>, [])"
| "sty_step (StyDraft data detail t) s =
     (case sty_shown data detail s of
        None \<Rightarrow> (s, [])
      | Some a \<Rightarrow> (if rs_status a = StyleRunning then s else s\<lparr>sty_draftPrompt := t\<rparr>, []))"
| "sty_step (StyAddText t) s = (s\<lparr>sty_addRepo := t\<rparr>, [])"
| "sty_step (StyDetail d) s = (sty_detail_effect d s, [])"
| "sty_step (StyAddButton data) s =
     (if \<not> sty_canAdd data s \<or> sty_create s = MutPending then (s, []) else sty_handleAdd data s)"
| "sty_step (StyAddKey data) s = sty_handleAdd data s"
| "sty_step (StyAnalyze data detail) s =
     (case sty_shown data detail s of
        None \<Rightarrow> (s, [])
      | Some a \<Rightarrow>
          if rs_status a = StyleRunning \<or> sty_analyze s = MutPending then (s, [])
          else (s\<lparr>sty_analyze := MutPending\<rparr>, [PanelSent (AnalyzeReviewStyle (rs_full_name a))]))"
| "sty_step (StyCancel data detail) s =
     (case sty_shown data detail s of
        None \<Rightarrow> (s, [])
      | Some a \<Rightarrow>
          if rs_status a \<noteq> StyleRunning \<or> sty_cancel s = MutPending then (s, [])
          else (s\<lparr>sty_cancel := MutPending\<rparr>, [PanelSent (CancelReviewStyle (rs_full_name a))]))"
| "sty_step (StySave data detail) s =
     (case sty_shown data detail s of
        None \<Rightarrow> (s, [])
      | Some a \<Rightarrow>
          if trim (sty_draftPrompt s) = [] \<or> sty_savePrompt s = MutPending then (s, [])
          else (s\<lparr>sty_savePrompt := MutPending\<rparr>,
                [PanelSent (SaveReviewStylePrompt (rs_full_name a) (sty_draftPrompt s))]))"
| "sty_step (StyRemove data detail confirmed) s =
     (case sty_shown data detail s of
        None \<Rightarrow> (s, [])
      | Some a \<Rightarrow>
          if sty_remove s = MutPending \<or> \<not> confirmed then (s, [])
          else (s\<lparr>sty_remove := MutPending\<rparr>, [PanelSent (DeleteReviewStyle (rs_full_name a))]))"
| "sty_step (StyCreated r) s = sty_create_done r s"
| "sty_step (StyAnalyzed r) s = (if sty_analyze s = MutPending then sty_analyze_done r s else (s, []))"
| "sty_step (StySaved r) s = (if sty_savePrompt s = MutPending then sty_save_done r s else (s, []))"
| "sty_step (StyCancelled r) s = (if sty_cancel s = MutPending then sty_cancel_done r s else (s, []))"
| "sty_step (StyRemoved n r) s = (if sty_remove s = MutPending then sty_remove_done n r s else (s, []))"

section \<open>View\<close>

record StyleEditor =
  sve_name :: string
  sve_badge :: BadgeVariant
  sve_reviewers :: "string option"
  sve_sampled :: "(int \<times> int) option"
  sve_summary :: "string option"
  sve_error :: "string option"
  sve_analyzeDisabled :: bool
  sve_analyzeLabel :: string
  sve_cancel :: "bool option"
  sve_saveDisabled :: bool
  sve_draft :: string
  sve_readOnly :: bool

definition style_editor :: "ReviewStyle \<Rightarrow> style_state \<Rightarrow> StyleEditor" where
  "style_editor a s =
     (let isRunning = (rs_status a = StyleRunning) in
      \<lparr>sve_name = rs_full_name a, sve_badge = statusVariant (rs_status a),
       sve_reviewers = (if length (rs_top_reviewers a) > 0 then Some (join '', '' (rs_top_reviewers a)) else None),
       sve_sampled = (if rs_prs_sampled a > 0 then Some (rs_prs_sampled a, rs_reviews_sampled a) else None),
       sve_summary = (if truthy_str (rs_analysis_summary a) then rs_analysis_summary a else None),
       sve_error = (if truthy_str (rs_error a) then rs_error a else None),
       sve_analyzeDisabled = (isRunning \<or> sty_analyze s = MutPending),
       sve_analyzeLabel = (if isRunning then ''Analyzing...'' else ''Run analysis''),
       sve_cancel = (if isRunning then Some (sty_cancel s = MutPending) else None),
       sve_saveDisabled = (trim (sty_draftPrompt s) = [] \<or> sty_savePrompt s = MutPending),
       sve_draft = sty_draftPrompt s, sve_readOnly = isRunning\<rparr>)"

record StylesView =
  syv_reauth :: bool
  syv_addDisabled :: bool
  syv_suggested :: "string list"
  syv_rows :: "(string \<times> BadgeVariant \<times> bool) list"
  syv_editor :: "StyleEditor option"
  syv_error :: "string option"

definition ReviewStylesPanel ::
  "ReviewStyle list option \<Rightarrow> bool \<Rightarrow> string list \<Rightarrow> js_error option \<Rightarrow> ReviewStyle option \<Rightarrow> style_state \<Rightarrow>
   StylesView option" where
  "ReviewStylesPanel data isLoading repos reposError detail s =
     (if isLoading then None
      else Some
        \<lparr>syv_reauth = githubReauth reposError (sty_error s),
         syv_addDisabled = (\<not> sty_canAdd data s \<or> sty_create s = MutPending),
         syv_suggested = sty_suggestedRepos repos data,
         syv_rows = map (\<lambda>r. (rs_full_name r, statusVariant (rs_status r), sty_selected s = Some (rs_full_name r)))
           (nullish data []),
         syv_editor = map_option (\<lambda>a. style_editor a s) (sty_shown data detail s),
         syv_error = sty_error s\<rparr>)"

section \<open>Facts\<close>

lemmas sty_defs =
  sty_detail_effect_def sty_handleAdd_def sty_create_done_def sty_analyze_done_def sty_save_done_def
  sty_cancel_done_def sty_remove_done_def style_refresh_def Let_def

fun is_analysis :: "panel_output \<Rightarrow> bool" where
  "is_analysis (PanelSent (AnalyzeReviewStyle _)) = True" | "is_analysis _ = False"

fun is_analyzed :: "style_event \<Rightarrow> bool" where
  "is_analyzed (StyAnalyzed _) = True" | "is_analyzed _ = False"

interpretation style_analysis:
  guarded_requests sty_step "\<lambda>s. sty_analyze s = MutPending" is_analysis is_analyzed
proof
  fix e s s' out
  assume "sty_step e s = (s', out)"
  then show "of_bool (sty_analyze s = MutPending) + occurrences is_analysis out
      \<le> of_bool (is_analyzed e) + of_bool (sty_analyze s' = MutPending)"
    by (cases e) (auto simp: sty_defs split: if_splits option.splits sum.splits)
qed

fun sty_request_ok :: "style_event \<Rightarrow> style_state \<Rightarrow> panel_output \<Rightarrow> bool" where
  "sty_request_ok (StyAddButton data) s p =
     (\<exists>n. p = PanelSent (CreateReviewStyle n) \<and> normalizeRepoFullName (sty_addRepo s) = Some n
        \<and> n \<notin> set (sty_configured data) \<and> sty_create s \<noteq> MutPending)"
| "sty_request_ok (StyAddKey data) s p =
     (\<exists>n. p = PanelSent (CreateReviewStyle n) \<and> normalizeRepoFullName (sty_addRepo s) = Some n
        \<and> n \<notin> set (sty_configured data))"
| "sty_request_ok (StyAnalyze data detail) s p =
     (\<exists>a. sty_shown data detail s = Some a \<and> rs_status a \<noteq> StyleRunning
        \<and> p = PanelSent (AnalyzeReviewStyle (rs_full_name a)))"
| "sty_request_ok (StyCancel data detail) s p =
     (\<exists>a. sty_shown data detail s = Some a \<and> rs_status a = StyleRunning
        \<and> p = PanelSent (CancelReviewStyle (rs_full_name a)))"
| "sty_request_ok (StySave data detail) s p =
     (\<exists>a. sty_shown data detail s = Some a \<and> trim (sty_draftPrompt s) \<noteq> []
        \<and> p = PanelSent (SaveReviewStylePrompt (rs_full_name a) (sty_draftPrompt s)))"
| "sty_request_ok (StyRemove data detail confirmed) s p =
     (confirmed \<and> (\<exists>a. sty_shown data detail s = Some a \<and> p = PanelSent (DeleteReviewStyle (rs_full_name a))))"
| "sty_request_ok _ s p = (case p of PanelSent _ \<Rightarrow> False | PanelCached _ \<Rightarrow> True)"

section \<open>Properties\<close>

text \<open>
  What the panel of the review styles sends: an analysis is started only for the repository shown
  and only when none runs there, and cancelled only when one runs, a prompt is saved only when it is
  not blank, a repository is added only under its normalised name and once, and a removal needs a
  confirmation; and no second analysis is requested before the first request was answered.
\<close>

theorem review_style_requests:
  "(case sty_step e s of (s', out) \<Rightarrow> list_all (sty_request_ok e s) out)
   \<and> (case run_events sty_step es init_style of (s', out) \<Rightarrow>
        occurrences is_analysis out \<le> occurrences is_analyzed es + of_bool (sty_analyze s' = MutPending))"
proof
  show "case sty_step e s of (s', out) \<Rightarrow> list_all (sty_request_ok e s) out"
    by (cases e) (auto simp: sty_defs sty_canAdd_def split: option.splits sum.splits)
  show "case run_events sty_step es init_style of (s', out) \<Rightarrow>
      occurrences is_analysis out \<le> occurrences is_analyzed es + of_bool (sty_analyze s' = MutPending)"
    by (rule style_analysis.requests_answered) (simp add: init_style_def)
qed

text \<open>The list is polled as long as the detail of one of its repositories would be.\<close>

lemma polled_together:
  "r \<in> set (nullish data []) \<Longrightarrow> style_interval (Some r) \<noteq> None \<Longrightarrow> styles_interval data = style_interval (Some r)"
  by (auto simp: style_interval_def styles_interval_def list_ex_iff split: if_splits)

text \<open>As in the instructions panel, a prompt can be saved to a repository before its own prompt has arrived.\<close>

lemma stale_prompt_saved:
  assumes "find (\<lambda>r. rs_full_name r = n) (nullish data []) = Some a" "n \<noteq> []"
    and "trim (sty_draftPrompt s) \<noteq> []" "sty_savePrompt s \<noteq> MutPending"
  shows "snd (sty_step (StySave data None) (fst (sty_step (StySelect n) s))) =
    [PanelSent (SaveReviewStylePrompt (rs_full_name a) (sty_draftPrompt s))]"
  using assms by (simp add: sty_shown_def sty_active_def nullish_opt_def)

end
