(* ===== verification/Settings_Pages.thy ===== *)
theory Settings_Pages
  imports Mutations Model_Options
begin

text \<open>
  The settings pages: \<open>routes/my-settings.tsx\<close>, \<open>routes/cloud-agents.tsx\<close> and \<open>routes/admin.tsx\<close>. The
  data of the queries are arguments. An effect runs after a render with the values of that render,
  so a commit takes the state it was rendered from and applies the updates of its effects in order.
  Team settings are the object the server sent.
\<close>

section \<open>Profile settings\<close>

datatype DraftReviewChoice = TeamDefault | AlwaysOn | AlwaysOff

definition toChoice :: "bool option \<Rightarrow> DraftReviewChoice" where
  "toChoice v = (if v = Some True then AlwaysOn else if v = Some False then AlwaysOff else TeamDefault)"

definition fromChoice :: "DraftReviewChoice \<Rightarrow> bool option" where
  "fromChoice c = (if c = AlwaysOn then Some True else if c = AlwaysOff then Some False else None)"

definition fallbackModel :: "OptionsPayload option \<Rightarrow> string" where
  "fallbackModel options =
     nullish (nullish_opt (map_option op_default_agent_model options)
       (case options of Some d \<Rightarrow> (case op_models d of m # _ \<Rightarrow> Some (mo_id m) | [] \<Rightarrow> None) | None \<Rightarrow> None)) []"

definition fallbackEffort :: "OptionsPayload option \<Rightarrow> string" where
  "fallbackEffort options =
     nullish (nullish_opt (map_option op_default_agent_reasoning_effort options)
       (case options of Some d \<Rightarrow> (case op_models d of m # _ \<Rightarrow> Some (mo_default_effort m) | [] \<Rightarrow> None) | None \<Rightarrow> None)) []"

definition teamDefaultLabel :: "bool option \<Rightarrow> string" where
  "teamDefaultLabel teamDraft =
     ''Usar el valor del equipo (actual: '' @ (if nullish teamDraft False then ''Activado'' else ''Desactivado'') @ '')''"

text \<open>The body that a change of the choice saves.\<close>

definition handleDraftChoiceChange ::
  "OptionsPayload option \<Rightarrow> Profile option \<Rightarrow> DraftReviewChoice \<Rightarrow> (string, jsval) js_map" where
  "handleDraftChoiceChange options profile next =
     buildProfileUpdate profile [(''review_draft_prs'', bool_or_null (fromChoice next))]
       (fallbackModel options) (fallbackEffort options)"

definition handleLogout :: "js_error + jsval \<Rightarrow> ApiCall list \<times> cache_op list" where
  "handleLogout answer =
     ([Logout], case answer of Inl _ \<Rightarrow> [] | Inr _ \<Rightarrow> [SetData [''session''] JNull, Navigate ''/login''])"

section \<open>Cloud agent settings\<close>

record cloud_state =
  cl_modelId :: string
  cl_effort :: string
  cl_subagentModelId :: string
  cl_subagentEffort :: string
  cl_defaultRepo :: string
  cl_baseBranch :: string
  cl_branchPrefix :: string
  cl_error :: "string option"
  cl_initialized :: bool
  cl_seen :: "(ModelOption option \<times> string) option"
  cl_subSeen :: "(ModelOption option \<times> string) option"
  cl_save :: mutation

definition init_cloud :: cloud_state where
  "init_cloud =
     \<lparr>cl_modelId = [], cl_effort = [], cl_subagentModelId = [], cl_subagentEffort = [], cl_defaultRepo = [],
      cl_baseBranch = [], cl_branchPrefix = [], cl_error = None, cl_initialized = False, cl_seen = None,
      cl_subSeen = None, cl_save = MutIdle\<rparr>"

definition option_models :: "OptionsPayload option \<Rightarrow> ModelOption list" where
  "option_models options = (case options of Some d \<Rightarrow> op_models d | None \<Rightarrow> [])"

definition firstModel :: "OptionsPayload option \<Rightarrow> ModelOption option" where
  "firstModel options = (case option_models options of m # _ \<Rightarrow> Some m | [] \<Rightarrow> None)"

definition defaultSubagentModel :: "OptionsPayload option \<Rightarrow> string" where
  "defaultSubagentModel options = nullish (map_option op_default_agent_subagent_model options) (fallbackModel options)"

definition defaultSubagentEffort :: "OptionsPayload option \<Rightarrow> string" where
  "defaultSubagentEffort options =
     nullish (map_option op_default_agent_subagent_reasoning_effort options) (fallbackEffort options)"

definition currentModel :: "OptionsPayload option \<Rightarrow> string \<Rightarrow> ModelOption option" where
  "currentModel options modelId =
     nullish_opt (find (\<lambda>m. mo_id m = modelId) (option_models options)) (firstModel options)"

text \<open>The effect that fills the form from the profile, once.\<close>

definition fill_form :: "OptionsPayload option \<Rightarrow> Profile \<Rightarrow> cloud_state \<Rightarrow> cloud_state" where
  "fill_form options p s =
     s\<lparr>cl_initialized := True,
       cl_modelId := nullish (prof_default_model p) (fallbackModel options),
       cl_effort := nullish (prof_reasoning_effort p) (fallbackEffort options),
       cl_subagentModelId :=
         nullish (nullish_opt (prof_default_subagent_model p) (prof_default_model p)) (defaultSubagentModel options),
       cl_subagentEffort :=
         nullish (nullish_opt (prof_subagent_reasoning_effort p) (prof_reasoning_effort p)) (defaultSubagentEffort options),
       cl_defaultRepo := nullish (prof_default_repo p) [], cl_baseBranch := nullish (prof_base_branch p) [],
       cl_branchPrefix := nullish (prof_branch_prefix p) []\<rparr>"

definition init_effect :: "OptionsPayload option \<Rightarrow> Profile option \<Rightarrow> cloud_state \<Rightarrow> cloud_state" where
  "init_effect options profile s =
     (case profile of
        None \<Rightarrow> s
      | Some p \<Rightarrow>
          if cl_initialized s \<or> \<not> (truthy_str (prof_default_model p) \<or> fallbackModel options \<noteq> []) then s
          else fill_form options p s)"

text \<open>The effort that the effect for a model writes, if it runs and writes one.\<close>

definition effort_update :: "ModelOption option \<Rightarrow> (ModelOption option \<times> string) option \<Rightarrow> string \<Rightarrow> string option" where
  "effort_update model seen effort =
     (if seen = Some (model, effort) then None
      else (case model of
              None \<Rightarrow> None
            | Some m \<Rightarrow> if effort \<in> set (mo_efforts m) then None else Some (mo_default_effort m)))"

text \<open>A commit: the three effects in order, each with the values of the render.\<close>

definition cloud_commit :: "OptionsPayload option \<Rightarrow> Profile option \<Rightarrow> cloud_state \<Rightarrow> cloud_state" where
  "cloud_commit options profile s =
     (let m = currentModel options (cl_modelId s); sm = currentModel options (cl_subagentModelId s);
          s1 = init_effect options profile s;
          s2 = s1\<lparr>cl_effort := nullish (effort_update m (cl_seen s) (cl_effort s)) (cl_effort s1),
                  cl_seen := Some (m, cl_effort s)\<rparr>
      in s2\<lparr>cl_subagentEffort :=
               nullish (effort_update sm (cl_subSeen s) (cl_subagentEffort s)) (cl_subagentEffort s2),
             cl_subSeen := Some (sm, cl_subagentEffort s)\<rparr>)"

definition persist ::
  "OptionsPayload option \<Rightarrow> Profile option \<Rightarrow> (string, jsval) js_map \<Rightarrow> cloud_state \<Rightarrow> cloud_state \<times> (string, jsval) js_map" where
  "persist options profile patch s =
     (s\<lparr>cl_error := None, cl_save := MutPending\<rparr>,
      buildProfileUpdate profile patch (fallbackModel options) (fallbackEffort options))"

definition or_null :: "string \<Rightarrow> jsval" where
  "or_null t = (if t = [] then JNull else JStr t)"

definition defaults_patch :: "cloud_state \<Rightarrow> (string, jsval) js_map" where
  "defaults_patch s =
     [(''default_model'', JStr (cl_modelId s)), (''reasoning_effort'', JStr (cl_effort s)),
      (''default_subagent_model'', JStr (cl_subagentModelId s)),
      (''subagent_reasoning_effort'', JStr (cl_subagentEffort s)),
      (''default_repo'', or_null (cl_defaultRepo s)), (''base_branch'', or_null (cl_baseBranch s)),
      (''branch_prefix'', or_null (cl_branchPrefix s))]"

definition persistDefaults ::
  "OptionsPayload option \<Rightarrow> Profile option \<Rightarrow> cloud_state \<Rightarrow> cloud_state \<times> (string, jsval) js_map" where
  "persistDefaults options profile s = persist options profile (defaults_patch s) s"

datatype cloud_event =
    CloudModel string
  | CloudEffort string
  | CloudSubModel string
  | CloudSubEffort string
  | CloudRepo string
  | CloudBase string
  | CloudPrefix string
  | CloudSave
  | CloudCreatePrs bool
  | CloudSaved "js_error + jsval"
  | CloudCommit

text \<open>
  The events; the save button is disabled while a save runs, the switch is not. An empty choice of a
  select is ignored.
\<close>

fun cloud_step ::
  "OptionsPayload option \<Rightarrow> Profile option \<Rightarrow> cloud_event \<Rightarrow> cloud_state \<Rightarrow> cloud_state \<times> (string, jsval) js_map list" where
  "cloud_step options profile (CloudModel v) s = (if v = [] then s else s\<lparr>cl_modelId := v\<rparr>, [])"
| "cloud_step options profile (CloudEffort v) s = (if v = [] then s else s\<lparr>cl_effort := v\<rparr>, [])"
| "cloud_step options profile (CloudSubModel v) s = (if v = [] then s else s\<lparr>cl_subagentModelId := v\<rparr>, [])"
| "cloud_step options profile (CloudSubEffort v) s = (if v = [] then s else s\<lparr>cl_subagentEffort := v\<rparr>, [])"
| "cloud_step options profile (CloudRepo v) s = (s\<lparr>cl_defaultRepo := v\<rparr>, [])"
| "cloud_step options profile (CloudBase v) s = (s\<lparr>cl_baseBranch := v\<rparr>, [])"
| "cloud_step options profile (CloudPrefix v) s = (s\<lparr>cl_branchPrefix := v\<rparr>, [])"
| "cloud_step options profile CloudSave s =
     (if cl_save s = MutPending then (s, []) else case persistDefaults options profile s of (s', b) \<Rightarrow> (s', [b]))"
| "cloud_step options profile (CloudCreatePrs v) s =
     (case persist options profile [(''create_prs'', JBool v)] s of (s', b) \<Rightarrow> (s', [b]))"
| "cloud_step options profile (CloudSaved r) s =
     (if cl_save s = MutPending
      then (s\<lparr>cl_save := settle r, cl_error := (case r of Inl e \<Rightarrow> Some (message_of e) | Inr _ \<Rightarrow> cl_error s)\<rparr>, [])
      else (s, []))"
| "cloud_step options profile CloudCommit s = (cloud_commit options profile s, [])"

section \<open>Administration\<close>

record role_state =
  localModel :: string
  localEffort :: string

definition role_effect :: "string option \<Rightarrow> string option \<Rightarrow> role_state" where
  "role_effect model effort = \<lparr>localModel = nullish model [], localEffort = nullish effort []\<rparr>"

definition availableEfforts :: "ModelOption list \<Rightarrow> role_state \<Rightarrow> string list" where
  "availableEfforts models s =
     (case find (\<lambda>m. mo_id m = localModel s) models of None \<Rightarrow> [] | Some m \<Rightarrow> mo_efforts m)"

definition handleModelChange ::
  "ModelOption list \<Rightarrow> string option \<Rightarrow> role_state \<Rightarrow> role_state \<times> (string \<times> string) list" where
  "handleModelChange models v s =
     (if \<not> truthy_str v then (s, [])
      else (case find (\<lambda>m. mo_id m = the v) models of
              None \<Rightarrow> (s, [])
            | Some nextModel \<Rightarrow>
                (let nextEffort = (if localEffort s \<in> set (mo_efforts nextModel) then localEffort s
                                   else mo_default_effort nextModel)
                 in (\<lparr>localModel = the v, localEffort = nextEffort\<rparr>, [(the v, nextEffort)]))))"

definition handleEffortChange :: "string option \<Rightarrow> role_state \<Rightarrow> role_state \<times> (string \<times> string) list" where
  "handleEffortChange v s =
     (if \<not> truthy_str v \<or> localModel s = [] then (s, [])
      else (s\<lparr>localEffort := the v\<rparr>, [(localModel s, the v)]))"

datatype role_event = RoleProps "string option" "string option" | RoleModel "string option" | RoleEffort "string option"

text \<open>A select reports only an entry of its list, or nothing.\<close>

fun role_step :: "ModelOption list \<Rightarrow> bool \<Rightarrow> role_event \<Rightarrow> role_state \<Rightarrow> role_state \<times> (string \<times> string) list" where
  "role_step models disabled (RoleProps m e) s = (role_effect m e, [])"
| "role_step models disabled (RoleModel v) s =
     (if disabled \<or> (truthy_str v \<and> the v \<notin> set (map mo_id models)) then (s, []) else handleModelChange models v s)"
| "role_step models disabled (RoleEffort v) s =
     (if disabled \<or> localModel s = [] \<or> (truthy_str v \<and> the v \<notin> set (availableEfforts models s)) then (s, [])
      else handleEffortChange v s)"

datatype Role = AgentRole | AgentSubagentRole | ReviewerRole | ReviewerSubagentRole

fun role_keys :: "Role \<Rightarrow> string \<times> string" where
  "role_keys AgentRole = (''default_agent_model'', ''default_agent_reasoning_effort'')"
| "role_keys AgentSubagentRole = (''default_agent_subagent_model'', ''default_agent_subagent_reasoning_effort'')"
| "role_keys ReviewerRole = (''default_reviewer_model'', ''default_reviewer_reasoning_effort'')"
| "role_keys ReviewerSubagentRole = (''default_reviewer_subagent_model'', ''default_reviewer_subagent_reasoning_effort'')"

text \<open>What a picker and the repository field save: the settings with their own fields replaced.\<close>

definition role_change ::
  "(string, jsval) js_map option \<Rightarrow> Role \<Rightarrow> string \<times> string \<Rightarrow> (string, jsval) js_map option" where
  "role_change settings role c =
     (case settings of
        None \<Rightarrow> None
      | Some d \<Rightarrow> Some (spread d [(fst (role_keys role), JStr (fst c)), (snd (role_keys role), JStr (snd c))]))"

definition repo_blur :: "(string, jsval) js_map option \<Rightarrow> string \<Rightarrow> (string, jsval) js_map option" where
  "repo_blur settings draft = map_option (\<lambda>d. spread d [(''default_repo'', or_null (trim draft))]) settings"

text \<open>The credentials: the keys typed, the two connections and what their answers do.\<close>

record cred_state =
  cr_error :: "string option"
  ddSite :: string
  ddApiKey :: string
  ddAppKey :: string
  lsApiKey :: string
  lsEndpoint :: string

definition init_cred :: cred_state where
  "init_cred =
     \<lparr>cr_error = None, ddSite = ''datadoghq.com'', ddApiKey = [], ddAppKey = [], lsApiKey = [], lsEndpoint = []\<rparr>"

definition connectDd :: "bool \<Rightarrow> cred_state \<Rightarrow> ApiCall option" where
  "connectDd isPending s =
     (if isPending \<or> trim (ddSite s) = [] \<or> trim (ddApiKey s) = [] \<or> trim (ddAppKey s) = [] then None
      else Some (ConnectDatadog (JObj [(''site'', JStr (trim (ddSite s))), (''api_key'', JStr (trim (ddApiKey s))),
                                       (''app_key'', JStr (trim (ddAppKey s)))])))"

definition connectLs :: "bool \<Rightarrow> cred_state \<Rightarrow> ApiCall option" where
  "connectLs isPending s =
     (if isPending \<or> trim (lsApiKey s) = [] then None
      else Some (ConnectLangSmith (JObj [(''api_key'', JStr (trim (lsApiKey s))),
                                         (''endpoint'', or_null (trim (lsEndpoint s)))])))"

datatype Connection = DatadogOn | DatadogOff | LangSmithOn | LangSmithOff

definition cred_answer :: "Connection \<Rightarrow> js_error + jsval \<Rightarrow> cred_state \<Rightarrow> cred_state \<times> cache_op list" where
  "cred_answer c r s =
     (case r of
        Inl e \<Rightarrow> (s\<lparr>cr_error := Some (message_of e)\<rparr>, [])
      | Inr saved \<Rightarrow>
          (let s' = s\<lparr>cr_error := None\<rparr> in
           (case c of
              DatadogOn \<Rightarrow> s'\<lparr>ddApiKey := [], ddAppKey := []\<rparr>
            | LangSmithOn \<Rightarrow> s'\<lparr>lsApiKey := []\<rparr>
            | _ \<Rightarrow> s', [SetData [''teamCredentials''] saved])))"

section \<open>Facts\<close>

lemma choice_round_trip: "toChoice (fromChoice c) = c" "fromChoice (toChoice v) = v"
  by (cases c; simp add: toChoice_def fromChoice_def) (cases v; auto simp: toChoice_def fromChoice_def)

text \<open>An effect that has seen the values shown has left a supported effort.\<close>

definition effort_ok :: "(ModelOption option \<times> string) option \<Rightarrow> string \<Rightarrow> bool" where
  "effort_ok seen effort =
     (case seen of Some (Some m, e) \<Rightarrow> e \<noteq> effort \<or> effort \<in> set (mo_efforts m) | _ \<Rightarrow> True)"

definition cloud_ok :: "cloud_state \<Rightarrow> bool" where
  "cloud_ok s = (effort_ok (cl_seen s) (cl_effort s) \<and> effort_ok (cl_subSeen s) (cl_subagentEffort s))"

definition defaults_ok :: "OptionsPayload option \<Rightarrow> bool" where
  "defaults_ok options = list_all (\<lambda>m. mo_default_effort m \<in> set (mo_efforts m)) (option_models options)"

lemma currentModel_listed: "currentModel options i = Some m \<Longrightarrow> m \<in> set (option_models options)"
  by (auto simp: currentModel_def firstModel_def nullish_opt_def find_Some_iff split: option.splits list.splits)

lemma currentModel_default: "defaults_ok options \<Longrightarrow> currentModel options i = Some m \<Longrightarrow> mo_default_effort m \<in> set (mo_efforts m)"
  using currentModel_listed by (fastforce simp: defaults_ok_def list_all_iff)

lemma effort_ok_update:
  assumes "defaults_ok options" "m = currentModel options i" "effort_ok seen e"
  shows "effort_ok (Some (m, e)) (nullish (effort_update m seen e) e1)"
proof (cases m)
  case (Some x)
  then have "mo_default_effort x \<in> set (mo_efforts x)" using assms(1,2) currentModel_default by metis
  then show ?thesis using assms(3) Some by (auto simp: effort_ok_def effort_update_def)
qed (simp add: effort_ok_def)

lemma effort_supported:
  assumes "defaults_ok options" "currentModel options i = Some m" "effort_ok seen e"
  shows "nullish (effort_update (Some m) seen e) e \<in> set (mo_efforts m)"
  using assms currentModel_default by (auto simp: effort_ok_def effort_update_def)

lemma effort_update_seen [simp]: "effort_update m (Some (m, e)) e = None"
  by (simp add: effort_update_def)

lemma effort_update_supported [simp]: "e \<in> set (mo_efforts m) \<Longrightarrow> effort_update (Some m) seen e = None"
  by (simp add: effort_update_def)

lemma effort_update_no_model [simp]: "effort_update None seen e = None"
  by (simp add: effort_update_def)

lemma cloud_ok_commit: "defaults_ok options \<Longrightarrow> cloud_ok s \<Longrightarrow> cloud_ok (cloud_commit options profile s)"
  by (simp add: cloud_ok_def cloud_commit_def Let_def effort_ok_update [OF _ refl])

text \<open>After a commit the form has been filled, if it can be with the data at hand.\<close>

definition filled :: "OptionsPayload option \<Rightarrow> Profile option \<Rightarrow> cloud_state \<Rightarrow> bool" where
  "filled options profile s = (init_effect options profile s = s)"

lemma init_effect_cases:
  "init_effect options profile s = s \<or>
     (\<exists>p. profile = Some p \<and> \<not> cl_initialized s \<and> init_effect options profile s = fill_form options p s)"
  by (auto simp: init_effect_def split: option.splits)

lemma commit_initialized:
  "cl_initialized (cloud_commit options profile s) = cl_initialized (init_effect options profile s)"
  by (simp add: cloud_commit_def Let_def)

lemma filled_commit: "filled options profile (cloud_commit options profile s)"
proof (cases profile)
  case (Some p)
  then show ?thesis
    using commit_initialized [of options profile s]
    by (auto simp: filled_def init_effect_def fill_form_def split: if_splits)
qed (simp add: filled_def init_effect_def)

text \<open>A commit of a filled form changes the two efforts only.\<close>

lemma commit_filled:
  "filled options profile s \<Longrightarrow>
     cloud_commit options profile s =
       s\<lparr>cl_effort := nullish (effort_update (currentModel options (cl_modelId s)) (cl_seen s) (cl_effort s)) (cl_effort s),
         cl_seen := Some (currentModel options (cl_modelId s), cl_effort s),
         cl_subagentEffort :=
           nullish (effort_update (currentModel options (cl_subagentModelId s)) (cl_subSeen s) (cl_subagentEffort s))
             (cl_subagentEffort s),
         cl_subSeen := Some (currentModel options (cl_subagentModelId s), cl_subagentEffort s)\<rparr>"
  by (simp add: cloud_commit_def filled_def Let_def)

definition efforts_supported :: "OptionsPayload option \<Rightarrow> cloud_state \<Rightarrow> bool" where
  "efforts_supported options s =
     ((case currentModel options (cl_modelId s) of None \<Rightarrow> True | Some m \<Rightarrow> cl_effort s \<in> set (mo_efforts m))
      \<and> (case currentModel options (cl_subagentModelId s) of None \<Rightarrow> True | Some m \<Rightarrow> cl_subagentEffort s \<in> set (mo_efforts m)))"

lemma commit_supports:
  "defaults_ok options \<Longrightarrow> cloud_ok s \<Longrightarrow> filled options profile s \<Longrightarrow>
     efforts_supported options (cloud_commit options profile s)"
  by (auto simp: commit_filled efforts_supported_def cloud_ok_def effort_supported split: option.splits)

lemma effort_stable:
  "(case currentModel options i of None \<Rightarrow> True | Some m \<Rightarrow> e \<in> set (mo_efforts m)) \<Longrightarrow>
     effort_update (currentModel options i) seen e = None"
  by (cases "currentModel options i") simp_all

lemma commit_stable:
  assumes "efforts_supported options s" "filled options profile s"
  shows "cloud_commit options profile (cloud_commit options profile s) = cloud_commit options profile s"
    and "efforts_supported options (cloud_commit options profile s)"
proof -
  let ?s' = "cloud_commit options profile s"
  have s': "?s' = s\<lparr>cl_seen := Some (currentModel options (cl_modelId s), cl_effort s),
      cl_subSeen := Some (currentModel options (cl_subagentModelId s), cl_subagentEffort s)\<rparr>"
    using assms(1) unfolding commit_filled [OF assms(2)] by (simp add: efforts_supported_def effort_stable)
  then show "efforts_supported options ?s'" using assms(1) by (simp add: efforts_supported_def split: option.splits)
  show "cloud_commit options profile ?s' = ?s'"
    unfolding commit_filled [OF filled_commit [of options profile s]] by (simp add: s')
qed

text \<open>
  A state at rest: both effects have seen the values shown, and those efforts are supported by the
  models they were seen with. An event of the user then leaves no unsupported effort that was seen.
\<close>

definition effort_quiet :: "(ModelOption option \<times> string) option \<Rightarrow> string \<Rightarrow> bool" where
  "effort_quiet seen effort =
     (case seen of None \<Rightarrow> True
      | Some (m, e) \<Rightarrow> e = effort \<and> (case m of None \<Rightarrow> True | Some m \<Rightarrow> e \<in> set (mo_efforts m)))"

definition cloud_quiet :: "cloud_state \<Rightarrow> bool" where
  "cloud_quiet s = (effort_quiet (cl_seen s) (cl_effort s) \<and> effort_quiet (cl_subSeen s) (cl_subagentEffort s))"

lemma effort_quiet_ok: "effort_quiet seen e \<Longrightarrow> effort_ok seen e'"
  by (auto simp: effort_quiet_def effort_ok_def split: option.splits prod.splits)

lemma quiet_step: "defaults_ok options \<Longrightarrow> cloud_quiet s \<Longrightarrow> cloud_ok (fst (cloud_step options profile e s))"
proof -
  assume d: "defaults_ok options" and q: "cloud_quiet s"
  then have ok: "effort_ok (cl_seen s) e1" "effort_ok (cl_subSeen s) e1" for e1
    by (auto simp: cloud_quiet_def dest: effort_quiet_ok)
  show ?thesis
  proof (cases e)
    case CloudCommit
    have "cloud_ok s" using ok by (simp add: cloud_ok_def)
    with CloudCommit d show ?thesis by (simp add: cloud_ok_commit)
  qed (simp_all add: cloud_ok_def ok persist_def persistDefaults_def)
qed

text \<open>One event with the data of its time, and three commits.\<close>

definition cloud_round :: "OptionsPayload option \<times> Profile option \<times> cloud_event \<Rightarrow> cloud_state \<Rightarrow> cloud_state" where
  "cloud_round r s =
     (case r of (options, profile, e) \<Rightarrow> (cloud_commit options profile ^^ 3) (fst (cloud_step options profile e s)))"

lemma commits_settle:
  assumes "defaults_ok options" "cloud_ok s"
  shows "cloud_commit options profile ((cloud_commit options profile ^^ 3) s) = (cloud_commit options profile ^^ 3) s"
    and "efforts_supported options ((cloud_commit options profile ^^ 3) s)"
    and "cloud_quiet ((cloud_commit options profile ^^ 3) s)"
proof -
  let ?c = "cloud_commit options profile"
  have f: "filled options profile (?c s)" "filled options profile (?c (?c s))" by (rule filled_commit)+
  have supp: "efforts_supported options (?c (?c s))"
    using assms by (intro commit_supports cloud_ok_commit f)
  then show stable: "?c ((?c ^^ 3) s) = (?c ^^ 3) s" and "efforts_supported options ((?c ^^ 3) s)"
    using commit_stable [OF supp f(2)] by (simp_all add: numeral_3_eq_3)
  have "?c (?c (?c s)) = (?c (?c s))\<lparr>cl_seen := Some (currentModel options (cl_modelId (?c (?c s))), cl_effort (?c (?c s))),
      cl_subSeen := Some (currentModel options (cl_subagentModelId (?c (?c s))), cl_subagentEffort (?c (?c s)))\<rparr>"
    using supp unfolding commit_filled [OF f(2)] by (simp add: efforts_supported_def effort_stable)
  then show "cloud_quiet ((?c ^^ 3) s)"
    using supp by (simp add: numeral_3_eq_3 cloud_quiet_def effort_quiet_def efforts_supported_def)
qed

lemma rounds_quiet:
  "cloud_quiet s \<Longrightarrow> list_all (\<lambda>(options, profile, e). defaults_ok options) rounds \<Longrightarrow>
     cloud_quiet (fold cloud_round rounds s)"
proof (induction rounds arbitrary: s)
  case (Cons r rounds)
  obtain options profile e where r: "r = (options, profile, e)" by (cases r)
  have "cloud_quiet (cloud_round r s)"
    using Cons.prems commits_settle(3) [OF _ quiet_step] by (simp add: r cloud_round_def)
  with Cons show ?case by simp
qed simp

text \<open>The form is filled by the first commit with a profile and a model to show.\<close>

definition fillable :: "OptionsPayload option \<Rightarrow> Profile option \<Rightarrow> bool" where
  "fillable options profile =
     (case profile of None \<Rightarrow> False | Some p \<Rightarrow> truthy_str (prof_default_model p) \<or> fallbackModel options \<noteq> [])"

lemma commit_fills: "cl_initialized (cloud_commit options profile s) = (cl_initialized s \<or> fillable options profile)"
  by (auto simp: commit_initialized init_effect_def fillable_def fill_form_def split: option.splits)

lemma round_fills:
  "cl_initialized (cloud_round (options, profile, e) s) = (cl_initialized s \<or> fillable options profile)"
proof -
  have "cl_initialized (fst (cloud_step options profile e s))
      = (cl_initialized s \<or> e = CloudCommit \<and> fillable options profile)"
    by (cases e) (auto simp: commit_fills persist_def persistDefaults_def)
  then show ?thesis by (auto simp: cloud_round_def numeral_3_eq_3 commit_fills)
qed

lemma role_model_supported:
  assumes "list_all (\<lambda>m. mo_default_effort m \<in> set (mo_efforts m)) models"
    and "role_step models disabled e s = (s', out)"
  shows "list_all (\<lambda>(m, eff). supports models m eff) out"
proof (cases e)
  case (RoleModel v)
  show ?thesis
  proof (cases "find (\<lambda>m. mo_id m = the v) models")
    case (Some m)
    then have "m \<in> set models" "mo_id m = the v" by (auto simp: find_Some_iff)
    with assms RoleModel Some show ?thesis
      by (auto simp: handleModelChange_def Let_def supports_def list_ex_iff list_all_iff split: if_splits; blast)
  qed (use assms RoleModel in \<open>auto simp: handleModelChange_def split: if_splits\<close>)
next
  case (RoleEffort v)
  show ?thesis
  proof (cases "out = []")
    case False
    then have "out = [(localModel s, the v)]" "the v \<in> set (availableEfforts models s)"
      using assms(2) RoleEffort by (auto simp: handleEffortChange_def split: if_splits)
    moreover from this(2) obtain m where "find (\<lambda>m. mo_id m = localModel s) models = Some m" "the v \<in> set (mo_efforts m)"
      by (cases "find (\<lambda>m. mo_id m = localModel s) models") (simp_all add: availableEfforts_def)
    moreover from this(1) have "m \<in> set models" "mo_id m = localModel s" by (auto simp: find_Some_iff)
    ultimately show ?thesis by (auto simp: supports_def list_ex_iff)
  qed simp
qed (use assms in auto)

section \<open>Properties\<close>

text \<open>
  C30. The effects of the cloud agent page come to rest: where at all times the default effort of every
  model offered is one of its efforts, then after any events of the user and any changes of the data, each
  followed by its commits, the next event with the data then at hand needs at most three commits: a further one
  changes nothing, each of the two efforts shown is supported by the model shown, and the form is filled
  exactly if it was before or the profile is loaded with a model to show (its own, or that of the options).
\<close>

theorem cloud_effects_settle:
  assumes "list_all (\<lambda>(options, profile, e). defaults_ok options) rounds" "defaults_ok options"
  shows "let s = fold cloud_round rounds init_cloud; s' = cloud_round (options, profile, e) s in
    cloud_commit options profile s' = s' \<and> efforts_supported options s'
    \<and> cl_initialized s' =
        (cl_initialized s
         \<or> (\<exists>p. profile = Some p \<and> (truthy_str (prof_default_model p) \<or> fallbackModel options \<noteq> [])))"
proof -
  have "cloud_quiet init_cloud" by (simp add: cloud_quiet_def effort_quiet_def init_cloud_def)
  from rounds_quiet [OF this assms(1)]
  have "cloud_ok (fst (cloud_step options profile e (fold cloud_round rounds init_cloud)))"
    using assms(2) by (simp add: quiet_step)
  from commits_settle(1,2) [OF assms(2) this, of profile] show ?thesis
    unfolding Let_def round_fills by (simp add: cloud_round_def fillable_def split: option.split)
qed

definition sample_payload :: OptionsPayload where
  "sample_payload =
     \<lparr>op_models = [\<lparr>mo_id = ''m'', mo_label = ''M'', mo_efforts = [''low'', ''high''], mo_default_effort = ''low'',
                   mo_supports_images = False\<rparr>],
      op_default_agent_model = ''m'', op_default_agent_reasoning_effort = ''low'',
      op_default_agent_subagent_model = ''m'', op_default_agent_subagent_reasoning_effort = ''low''\<rparr>"

definition sample_profile :: Profile where
  "sample_profile = no_profile\<lparr>prof_default_model := Some ''m'', prof_reasoning_effort := Some ''high''\<rparr>"

theorem cloud_effects_settle_witness:
  "let s = fold cloud_round [(None, Some sample_profile, CloudCommit)] init_cloud;
       s' = cloud_round (Some sample_payload, Some sample_profile, CloudModel ''m'') s in
    cloud_commit (Some sample_payload) (Some sample_profile) s' = s' \<and> efforts_supported (Some sample_payload) s'
    \<and> cl_initialized s'"
proof -
  have "list_all (\<lambda>(options, profile, e). defaults_ok options) [(None, Some sample_profile, CloudCommit)]"
    "defaults_ok (Some sample_payload)" "truthy_str (prof_default_model sample_profile)"
    by code_simp+
  from cloud_effects_settle [OF this(1,2), of "Some sample_profile" "CloudModel ''m''"] this(3)
  show ?thesis unfolding Let_def by simp
qed

text \<open>
  Which effort the form shows depends on the order in which the data arrive: the saved one where the
  options came before the profile, but the default of the first model where both were cached and the
  page is mounted with them.
\<close>

lemma cached_mount_loses_effort:
  "cl_effort ((cloud_commit (Some sample_payload) (Some sample_profile) ^^ 3) init_cloud) = ''low''"
  "cl_effort ((cloud_commit (Some sample_payload) (Some sample_profile) ^^ 3)
     (cloud_commit (Some sample_payload) None init_cloud)) = ''high''"
  by (simp_all add: numeral_3_eq_3 cloud_commit_def sample_payload_def sample_profile_def no_profile_def init_cloud_def
      Let_def currentModel_def firstModel_def option_models_def init_effect_def fill_form_def effort_update_def
      fallbackModel_def fallbackEffort_def nullish_opt_def)

text \<open>
  Every save is built on the cached profile: a switch changed while a save is under way sends the old
  values of what that save has changed.
\<close>

lemma saves_overwrite:
  "k \<noteq> ''create_prs'' \<Longrightarrow>
     map_get (snd (persist options profile [(''create_prs'', JBool v)] s)) k =
       map_get (profile_fields (nullish profile no_profile) (fallbackModel options) (fallbackEffort options)) k
     \<and> length (snd (cloud_step options profile (CloudCreatePrs v) (s\<lparr>cl_save := MutPending\<rparr>))) = 1"
  by (simp add: persist_def buildProfileUpdate_def map_get_spread map_add_def)

text \<open>
  The role pickers of the administration page report only pairs the server supports: whatever the
  team settings and the user's choices, every model and effort that is saved is a model of the list
  with one of its efforts.
\<close>

theorem role_reports_supported:
  assumes "list_all (\<lambda>m. mo_default_effort m \<in> set (mo_efforts m)) models"
  shows "list_all (\<lambda>(m, eff). supports models m eff) (snd (run_events (role_step models disabled) es s))"
  by (rule run_events_outputs [where I = "\<lambda>_. True"]) (auto intro: role_model_supported [OF assms])

theorem role_reports_supported_witness:
  "list_all (\<lambda>(m, eff). supports (op_models sample_payload) m eff)
     (snd (run_events (role_step (op_models sample_payload) False) [RoleModel (Some ''m''), RoleEffort (Some ''high'')]
       (role_effect None None)))"
  by (rule role_reports_supported) code_simp

text \<open>A secret that was sent is not kept in the form, and one that was refused can be sent again.\<close>

lemma secrets_cleared:
  "cred_answer DatadogOn (Inr v) s = (s', ops) \<Longrightarrow> ddApiKey s' = [] \<and> ddAppKey s' = [] \<and> connectDd False s' = None"
  "cred_answer LangSmithOn (Inr v) s = (s', ops) \<Longrightarrow> lsApiKey s' = [] \<and> connectLs False s' = None"
  "cred_answer c (Inl e) s = (s', ops) \<Longrightarrow> connectDd False s' = connectDd False s \<and> connectLs False s' = connectLs False s"
  by (auto simp: cred_answer_def connectDd_def connectLs_def Let_def)

end
