(* ===== verification/Azure_Pages.thy ===== *)
theory Azure_Pages
  imports Mutations Js_Number
begin

text \<open>
  The read-only pages over Azure DevOps, \<open>routes/review.tsx\<close> and \<open>routes/usage.tsx\<close>, and the paged list of
  \<open>routes/review_.repositories.$owner.tsx\<close>. A query is its data, its error and whether it loads. How a
  date or a number is written out is the platform's and an argument; \<open>localeCompare\<close> is \<open>le\<close>.
\<close>

record 'a query_state =
  q_data :: "'a option"
  q_loading :: bool
  q_error :: "js_error option"

fun isNotAuthorized :: "js_error option \<Rightarrow> bool" where
  "isNotAuthorized (Some (ApiError status _)) = (status = 403 \<or> status = 401)"
| "isNotAuthorized _ = False"

text \<open>The effect that chooses the first project once the list has come.\<close>

definition default_project :: "AzureProject list option \<Rightarrow> string option \<Rightarrow> string option" where
  "default_project data project =
     (case data of
        Some (first # _) \<Rightarrow> if \<not> truthy_str project then Some (azp_name first) else project
      | _ \<Rightarrow> project)"

definition project_disabled :: "AzureProject list query_state \<Rightarrow> bool" where
  "project_disabled q = (q_loading q \<or> length (nullish (q_data q) []) = 0)"

section \<open>Pull requests\<close>

definition pr_date :: "(string \<Rightarrow> string option) \<Rightarrow> string option \<Rightarrow> string" where
  "pr_date locale_date v = (if \<not> truthy_str v then [] else nullish (locale_date (the v)) [])"

record PrRow =
  prr_title :: string
  prr_draft :: bool
  prr_id :: int
  prr_parts :: "string list"
  prr_branches :: "(string \<times> string) option"
  prr_date :: "string option"
  prr_href :: "string option"

definition PullRequestRow :: "(string \<Rightarrow> string option) \<Rightarrow> AzurePullRequest \<Rightarrow> PrRow" where
  "PullRequestRow locale_date pr =
     \<lparr>prr_title = apr_title pr, prr_draft = apr_is_draft pr, prr_id = apr_id pr,
      prr_parts = (if truthy_str (apr_repo pr) then [the (apr_repo pr)] else [])
        @ (if truthy_str (apr_author pr) then [the (apr_author pr)] else []),
      prr_branches = (if truthy_str (apr_source_branch pr) \<and> truthy_str (apr_target_branch pr)
                      then Some (the (apr_source_branch pr), the (apr_target_branch pr)) else None),
      prr_date = (if truthy_str (apr_created_date pr) then Some (pr_date locale_date (apr_created_date pr)) else None),
      prr_href = (if truthy_str (apr_web_url pr) then apr_web_url pr else None)\<rparr>"

datatype PrBody = PrNoAccess | PrLoading | PrNone | PrRows "PrRow list"

definition PullRequestsPage ::
  "(string \<Rightarrow> string option) \<Rightarrow> AzureProject list query_state \<Rightarrow> AzurePullRequest list query_state \<Rightarrow> PrBody" where
  "PullRequestsPage locale_date projects prs =
     (if isNotAuthorized (q_error projects) \<or> isNotAuthorized (q_error prs) then PrNoAccess
      else if q_loading prs \<or> q_loading projects then PrLoading
      else if length (nullish (q_data prs) []) = 0 then PrNone
      else PrRows (map (PullRequestRow locale_date) (nullish (q_data prs) [])))"

section \<open>Usage\<close>

fun period_param :: "AzureUsagePeriod \<Rightarrow> string" where
  "period_param Period7d = ''7d''" | "period_param Period30d = ''30d''" | "period_param PeriodAll = ''all''"

definition activePeriod :: "string option \<Rightarrow> AzureUsagePeriod" where
  "activePeriod requested =
     (if requested = Some ''7d'' then Period7d else if requested = Some ''all'' then PeriodAll else Period30d)"

fun PERIOD_LABELS :: "AzureUsagePeriod \<Rightarrow> string" where
  "PERIOD_LABELS Period7d = ([CHR 0xDA] @ ''ltimos 7 d'' @ [CHR 0xED] @ ''as'')"
| "PERIOD_LABELS Period30d = ([CHR 0xDA] @ ''ltimos 30 d'' @ [CHR 0xED] @ ''as'')"
| "PERIOD_LABELS PeriodAll = ''Todo''"

record build_summary =
  bs_succeeded :: nat
  bs_failed :: nat
  bs_inProgress :: nat

definition add_build :: "build_summary \<Rightarrow> AzureBuild \<Rightarrow> build_summary" where
  "add_build y b =
     (if bld_result b = Some ''succeeded'' then y\<lparr>bs_succeeded := bs_succeeded y + 1\<rparr>
      else if truthy_str (bld_result b) \<and> bld_result b \<noteq> Some ''succeeded'' then y\<lparr>bs_failed := bs_failed y + 1\<rparr>
      else if bld_status b = Some ''inProgress'' \<or> bld_status b = Some ''notStarted''
      then y\<lparr>bs_inProgress := bs_inProgress y + 1\<rparr> else y)"

definition summarizeBuilds :: "AzureBuild list \<Rightarrow> build_summary" where
  "summarizeBuilds builds = foldl add_build \<lparr>bs_succeeded = 0, bs_failed = 0, bs_inProgress = 0\<rparr> builds"

definition build_state_labels :: "(string, string) js_map" where
  "build_state_labels =
     [(''canceled'', ''Cancelado''), (''failed'', ''Fallido''), (''inProgress'', ''En progreso''),
      (''none'', ''Sin resultado''), (''notStarted'', ''En cola''), (''partiallySucceeded'', ''Parcial''),
      (''succeeded'', ''OK'')]"

definition translateBuildState :: "string \<Rightarrow> string" where
  "translateBuildState v = nullish (map_get build_state_labels v) v"

text \<open>The label of a build's badge and whether it is the plain one.\<close>

definition BuildBadge :: "AzureBuild \<Rightarrow> string \<times> bool" where
  "BuildBadge b =
     (translateBuildState (nullish (nullish_opt (bld_result b) (bld_status b)) ''unknown''),
      bld_result b = Some ''succeeded'')"

definition usage_date :: "(string \<Rightarrow> string option) \<Rightarrow> string option \<Rightarrow> string" where
  "usage_date locale_date v = (if \<not> truthy_str v then ''sin fecha'' else nullish (locale_date (the v)) ''sin fecha'')"

record BuildRowView =
  br_title :: string
  br_badge :: "string \<times> bool"
  br_parts :: "string list"
  br_date :: string
  br_href :: "string option"

definition BuildRow :: "(string \<Rightarrow> string option) \<Rightarrow> AzureBuild \<Rightarrow> BuildRowView" where
  "BuildRow locale_date b =
     \<lparr>br_title = nullish (bld_definition b) (''Build sin definici'' @ [CHR 0xF3] @ ''n''), br_badge = BuildBadge b,
      br_parts = (if truthy_str (bld_build_number b) then [''#'' @ the (bld_build_number b)] else [])
        @ (if truthy_str (bld_source_branch b) then [the (bld_source_branch b)] else [])
        @ (if truthy_str (bld_requested_for b) then [the (bld_requested_for b)] else []),
      br_date = usage_date locale_date (nullish_opt (nullish_opt (bld_finish_time b) (bld_start_time b)) (bld_queue_time b)),
      br_href = (if truthy_str (bld_web_url b) then bld_web_url b else None)\<rparr>"

text \<open>\<open>Math.round\<close> rounds a half up.\<close>

definition counter_percent :: "int \<Rightarrow> int \<Rightarrow> int" where
  "counter_percent t n = (if t = 0 then 0 else \<lfloor>of_int n / of_int t * 100 + (1 / 2 :: rat)\<rfloor>)"

definition CounterList :: "AzureUsageCounterRow list \<Rightarrow> (string \<times> int \<times> int) list" where
  "CounterList rows =
     (let t = foldl (\<lambda>acc r. acc + row_count r) 0 rows in
      map (\<lambda>r. (row_name r, row_count r, counter_percent t (row_count r))) rows)"

datatype UsageBody = UsageNoAccess | UsageLoading | UsageError string | UsageChoose | UsageData UsageMetrics
and UsageMetrics = UsageMetrics int build_summary "(string \<times> int \<times> int) list" "(string \<times> int \<times> int) list" bool "BuildRowView list"

definition AzureUsagePage ::
  "(string \<Rightarrow> string option) \<Rightarrow> AzureProject list query_state \<Rightarrow> AzureUsagePayload query_state \<Rightarrow> UsageBody" where
  "AzureUsagePage locale_date projects usage =
     (if isNotAuthorized (q_error projects) \<or> isNotAuthorized (q_error usage) then UsageNoAccess
      else if q_loading projects \<or> q_loading usage then UsageLoading
      else (case q_error usage of
              Some e \<Rightarrow> UsageError (message_of e)
            | None \<Rightarrow>
                (case q_data usage of
                   None \<Rightarrow> UsageChoose
                 | Some d \<Rightarrow>
                     UsageData (UsageMetrics (wim_total (usage_work_items d)) (summarizeBuilds (usage_recent_builds d))
                       (CounterList (wim_states (usage_work_items d))) (CounterList (wim_types (usage_work_items d)))
                       (wim_limited (usage_work_items d)) (map (BuildRow locale_date) (usage_recent_builds d))))))"

text \<open>The choices of the two selects: the new project, and the search parameters the page goes to.\<close>

definition choose_project :: "string option \<Rightarrow> string option \<Rightarrow> string option \<Rightarrow> string option \<times> (string \<times> string) option" where
  "choose_project requested v project =
     (if \<not> truthy_str v then (project, None)
      else (v, Some (the v, period_param (activePeriod requested))))"

definition choose_period :: "AzureUsagePeriod \<Rightarrow> string option \<Rightarrow> string option \<times> string" where
  "choose_period v project = (project, period_param v)"

section \<open>Repositories of an owner\<close>

definition PAGE_SIZE :: nat where "PAGE_SIZE = 20"

definition ownerRepos :: "(string \<Rightarrow> string \<Rightarrow> bool) \<Rightarrow> string \<Rightarrow> string list \<Rightarrow> string list" where
  "ownerRepos le owner repos = sort_by le (filter (\<lambda>r. hd (split_on (CHR ''/'') r) = owner) repos)"

definition totalPages :: "'a list \<Rightarrow> nat" where
  "totalPages repos = max 1 ((length repos + PAGE_SIZE - 1) div PAGE_SIZE)"

definition safePage :: "nat \<Rightarrow> 'a list \<Rightarrow> nat" where
  "safePage page repos = min page (totalPages repos - 1)"

definition pageRepos :: "nat \<Rightarrow> 'a list \<Rightarrow> 'a list" where
  "pageRepos page repos =
     (let pageStart = safePage page repos * PAGE_SIZE;
          pageEnd = min (pageStart + PAGE_SIZE) (length repos)
      in take (pageEnd - pageStart) (drop pageStart repos))"

definition prev_page :: "nat \<Rightarrow> nat" where
  "prev_page page = page - 1"

definition next_page :: "'a list \<Rightarrow> nat \<Rightarrow> nat" where
  "next_page repos page = min (totalPages repos - 1) (page + 1)"

record OwnerPageView =
  opv_enabled :: nat
  opv_total :: nat
  opv_empty :: bool
  opv_rows :: "(string \<times> bool) list"
  opv_switchDisabled :: bool
  opv_pager :: "(nat \<times> nat \<times> bool \<times> bool) option"

text \<open>The pager shows the first and the last row and whether each of its buttons is disabled.\<close>

definition RepositoriesOwnerPage ::
  "bool \<Rightarrow> bool \<Rightarrow> bool \<Rightarrow> string list \<Rightarrow> string list \<Rightarrow> nat \<Rightarrow> OwnerPageView" where
  "RepositoriesOwnerPage canEdit isPending isLoading enabled repos page =
     (let p = safePage page repos in
      \<lparr>opv_enabled = length (filter (\<lambda>r. r \<in> set enabled) repos), opv_total = length repos,
       opv_empty = (\<not> isLoading \<and> length repos = 0),
       opv_rows = map (\<lambda>r. (r, r \<in> set enabled)) (pageRepos page repos),
       opv_switchDisabled = (\<not> canEdit \<or> isPending),
       opv_pager = (if length repos > PAGE_SIZE
                    then Some (p * PAGE_SIZE + 1, min (p * PAGE_SIZE + PAGE_SIZE) (length repos),
                               p = 0, p \<ge> totalPages repos - 1)
                    else None)\<rparr>)"

definition toggle_repo :: "bool \<Rightarrow> bool \<Rightarrow> string \<Rightarrow> bool \<Rightarrow> ApiCall option" where
  "toggle_repo canEdit isPending full_name on =
     (if \<not> canEdit \<or> isPending then None else Some (SetEnabledReviewRepo full_name on))"

section \<open>Facts\<close>

lemma summarize_counts:
  "foldl add_build y bs =
     \<lparr>bs_succeeded = bs_succeeded y + length (filter (\<lambda>b. bld_result b = Some ''succeeded'') bs),
      bs_failed = bs_failed y + length (filter (\<lambda>b. truthy_str (bld_result b) \<and> bld_result b \<noteq> Some ''succeeded'') bs),
      bs_inProgress = bs_inProgress y + length (filter (\<lambda>b. \<not> truthy_str (bld_result b)
        \<and> (bld_status b = Some ''inProgress'' \<or> bld_status b = Some ''notStarted'')) bs)\<rparr>"
  by (induction bs arbitrary: y) (auto simp: add_build_def)

lemma results_split:
  "length (filter (\<lambda>b. bld_result b = Some ''succeeded'') bs)
     + length (filter (\<lambda>b. truthy_str (bld_result b) \<and> bld_result b \<noteq> Some ''succeeded'') bs)
     = length (filter (\<lambda>b. truthy_str (bld_result b)) bs)"
  by (induction bs) auto

lemma results_rest:
  "length (filter (\<lambda>b. truthy_str (bld_result b)) bs) + length (filter (\<lambda>b. \<not> truthy_str (bld_result b)
      \<and> (bld_status b = Some ''inProgress'' \<or> bld_status b = Some ''notStarted'')) bs) \<le> length bs"
  by (induction bs) auto

lemma foldl_row_count: "foldl (\<lambda>acc r. acc + row_count r) a rs = a + (\<Sum>r\<leftarrow>rs. row_count r)"
  by (induction rs arbitrary: a) simp_all

lemma count_le_total:
  "list_all (\<lambda>r. 0 \<le> row_count r) rs \<Longrightarrow> r \<in> set rs \<Longrightarrow> row_count r \<le> (\<Sum>r\<leftarrow>rs. row_count r) \<and> 0 \<le> row_count r"
proof (induction rs)
  case (Cons x xs)
  have "0 \<le> (\<Sum>r\<leftarrow>xs. row_count r)" using Cons.prems(1) by (intro sum_list_nonneg) (auto simp: list_all_iff)
  with Cons show ?case by fastforce
qed simp

lemma percent_bounds: "0 \<le> n \<Longrightarrow> n \<le> t \<Longrightarrow> 0 \<le> counter_percent t n \<and> counter_percent t n \<le> 100"
proof (cases "t = 0")
  case False
  assume "0 \<le> n" "n \<le> t"
  with False have "0 \<le> (of_int n / of_int t :: rat)" "(of_int n / of_int t :: rat) \<le> 1" by (auto simp: divide_le_eq)
  then have "0 \<le> (of_int n / of_int t * 100 + 1 / 2 :: rat)" "(of_int n / of_int t * 100 + 1 / 2 :: rat) < 101" by auto
  with False show ?thesis by (simp add: counter_percent_def floor_le_iff)
qed (simp add: counter_percent_def)

lemma totalPages_pos: "0 < totalPages repos"
  by (simp add: totalPages_def)

lemma safePage_bound: "safePage page repos < totalPages repos"
  using totalPages_pos [of repos] by (simp add: safePage_def)

lemma pageRepos_slice:
  "pageRepos page repos = take PAGE_SIZE (drop (safePage page repos * PAGE_SIZE) repos)"
proof -
  let ?start = "safePage page repos * PAGE_SIZE"
  have "take (min (?start + PAGE_SIZE) (length repos) - ?start) (drop ?start repos) =
      take (min PAGE_SIZE (length (drop ?start repos))) (drop ?start repos)"
    by (simp add: min_def)
  moreover have "take (min k (length xs)) xs = take k xs" for k and xs :: "'b list" by (cases "k \<le> length xs") simp_all
  ultimately show ?thesis by (simp only: pageRepos_def Let_def)
qed

lemma concat_slices: "concat (map (\<lambda>p. take k (drop (p * k) xs)) [0..<n]) = take (n * k) xs"
proof (induction n)
  case (Suc n)
  have "take (Suc n * k) xs = take (n * k) xs @ take k (drop (n * k) xs)"
    by (metis add.commute mult_Suc take_add)
  with Suc show ?case by simp
qed simp

lemma pages_enough: "length repos \<le> totalPages repos * PAGE_SIZE"
  by (simp add: totalPages_def PAGE_SIZE_def)

section \<open>Properties\<close>

text \<open>
  The pages of the repository list cover it: the page shown is always an existing one with at most
  twenty rows, the pages one after the other are the whole list in its order, and the numbers of the
  pager are the positions of the first and the last row shown.
\<close>

theorem pages_cover_list:
  "concat (map (\<lambda>p. pageRepos p repos) [0..<totalPages repos]) = repos
   \<and> length (pageRepos page repos) \<le> PAGE_SIZE \<and> safePage page repos < totalPages repos
   \<and> (case opv_pager (RepositoriesOwnerPage e b l en repos page) of
        None \<Rightarrow> length repos \<le> PAGE_SIZE
      | Some (from_row, to_row, at_first, at_last) \<Rightarrow>
          pageRepos page repos = take (to_row - (from_row - 1)) (drop (from_row - 1) repos)
          \<and> 1 \<le> from_row \<and> to_row \<le> length repos \<and> at_first = (safePage page repos = 0)
          \<and> at_last = (Suc (safePage page repos) = totalPages repos))"
proof -
  have "map (\<lambda>p. pageRepos p repos) [0..<totalPages repos] =
      map (\<lambda>p. take PAGE_SIZE (drop (p * PAGE_SIZE) repos)) [0..<totalPages repos]"
    by (auto simp: pageRepos_slice safePage_def min_def)
  then have "concat (map (\<lambda>p. pageRepos p repos) [0..<totalPages repos]) = repos"
    using pages_enough [of repos] by (simp only: concat_slices) simp
  moreover have "length (pageRepos page repos) \<le> PAGE_SIZE" by (simp add: pageRepos_slice)
  ultimately show ?thesis
    using safePage_bound [of page repos]
    by (auto simp: RepositoriesOwnerPage_def Let_def pageRepos_def not_less)
qed

text \<open>
  The build counters of the usage page: each build of the list is counted at most once, as
  succeeded, as failed when it has any other result, or as in progress when it has none and runs or
  waits; and the shares shown for the counters lie between 0 and 100 percent.
\<close>

theorem usage_counters:
  assumes "list_all (\<lambda>r. 0 \<le> row_count r) rows"
  shows "(let y = summarizeBuilds builds in
      bs_succeeded y = length (filter (\<lambda>b. bld_result b = Some ''succeeded'') builds)
      \<and> bs_succeeded y + bs_failed y = length (filter (\<lambda>b. truthy_str (bld_result b)) builds)
      \<and> bs_succeeded y + bs_failed y + bs_inProgress y \<le> length builds)
    \<and> list_all (\<lambda>(_, n, percent). 0 \<le> percent \<and> percent \<le> 100) (CounterList rows)"
proof
  show "let y = summarizeBuilds builds in
      bs_succeeded y = length (filter (\<lambda>b. bld_result b = Some ''succeeded'') builds)
      \<and> bs_succeeded y + bs_failed y = length (filter (\<lambda>b. truthy_str (bld_result b)) builds)
      \<and> bs_succeeded y + bs_failed y + bs_inProgress y \<le> length builds"
    using results_split [of builds] results_rest [of builds]
    by (simp add: Let_def summarizeBuilds_def summarize_counts)
  have "0 \<le> counter_percent (\<Sum>r\<leftarrow>rows. row_count r) (row_count r)
      \<and> counter_percent (\<Sum>r\<leftarrow>rows. row_count r) (row_count r) \<le> 100" if "r \<in> set rows" for r
    using percent_bounds count_le_total [OF assms that] by simp
  then show "list_all (\<lambda>(_, n, percent). 0 \<le> percent \<and> percent \<le> 100) (CounterList rows)"
    by (simp add: CounterList_def foldl_row_count list_all_iff)
qed

theorem usage_counters_witness:
  "list_all (\<lambda>(_, n, percent). 0 \<le> percent \<and> percent \<le> 100) (CounterList [\<lparr>row_name = ''Bug'', row_count = 3\<rparr>])"
  using usage_counters [of "[\<lparr>row_name = ''Bug'', row_count = 3\<rparr>]" "[]"] by simp

text \<open>A build that has only the result \<open>none\<close>, which is shown as without result, counts as failed.\<close>

lemma no_result_counts_failed:
  "bld_result b = Some ''none'' \<Longrightarrow>
     bs_failed (summarizeBuilds [b]) = 1 \<and> fst (BuildBadge b) = ''Sin resultado''"
  by (simp add: summarizeBuilds_def add_build_def BuildBadge_def translateBuildState_def build_state_labels_def
      nullish_opt_def)

text \<open>
  The step back counts from the page last asked for and not from the one shown: after the list has
  shrunk, it may change nothing.
\<close>

lemma prev_page_idle:
  "totalPages repos < page \<Longrightarrow> pageRepos (prev_page page) repos = pageRepos page repos"
  by (simp add: pageRepos_def safePage_def prev_page_def Let_def)

end
