(* ===== verification/Routes.thy ===== *)
theory Routes
  imports Thread_Queries
begin

text \<open>
  The pages and their guards, \<open>src/routes\<close>: what a page shows while the session loads, without a session
  and with one, and where it redirects. Matching a path with a route is the router's; a route here is
  the page it has matched.
\<close>

datatype agents_child = AgentsIndex | AgentThreadRoute string | AutomationsIndex | AutomationNew | AutomationEdit string

datatype route =
    IndexRoute
  | LoginRoute
  | AgentsRoute agents_child
  | InstructionsRoute
  | MySettingsRoute
  | CloudAgentsRoute
  | ReviewRoute
  | ReviewStylesRoute
  | ReviewReposRoute string
  | IntegrationsRoute
  | UsageRoute
  | AdminRoute

text \<open>The session query and the query of the open thread: loading, an error or null, or the data.\<close>

datatype 'a fetched = Fetching | Absent | Present 'a

datatype outcome = Skeleton | RedirectTo route | ShowPage route

definition session_guard :: "SessionUser fetched \<Rightarrow> route \<Rightarrow> outcome" where
  "session_guard session page =
     (case session of Fetching \<Rightarrow> Skeleton | Absent \<Rightarrow> RedirectTo LoginRoute | Present _ \<Rightarrow> ShowPage page)"

definition Login :: "SessionUser fetched \<Rightarrow> outcome" where
  "Login session =
     (case session of Fetching \<Rightarrow> Skeleton | Present _ \<Rightarrow> RedirectTo MySettingsRoute | Absent \<Rightarrow> ShowPage LoginRoute)"

definition AdminPage :: "SessionUser fetched \<Rightarrow> outcome" where
  "AdminPage session =
     (case session of
        Fetching \<Rightarrow> Skeleton
      | Absent \<Rightarrow> RedirectTo LoginRoute
      | Present user \<Rightarrow> if \<not> su_is_admin user then RedirectTo MySettingsRoute else ShowPage AdminRoute)"

definition AgentThreadPage :: "AgentThread fetched \<Rightarrow> string \<Rightarrow> outcome" where
  "AgentThreadPage thread threadId =
     (case thread of
        Fetching \<Rightarrow> Skeleton
      | Absent \<Rightarrow> RedirectTo (AgentsRoute AgentsIndex)
      | Present _ \<Rightarrow> ShowPage (AgentsRoute (AgentThreadRoute threadId)))"

text \<open>The layout of the agents pages guards them all; its children are shown inside it.\<close>

definition AgentsLayout :: "SessionUser fetched \<Rightarrow> AgentThread fetched \<Rightarrow> agents_child \<Rightarrow> outcome" where
  "AgentsLayout session thread child =
     (case session of
        Fetching \<Rightarrow> Skeleton
      | Absent \<Rightarrow> RedirectTo LoginRoute
      | Present _ \<Rightarrow> (case child of
                        AgentThreadRoute threadId \<Rightarrow> AgentThreadPage thread threadId
                      | _ \<Rightarrow> ShowPage (AgentsRoute child)))"

definition activeThreadId :: "string \<Rightarrow> string option" where
  "activeThreadId pathname =
     (case split_on (CHR ''/'') pathname of
        _ # section # threadId # _ \<Rightarrow>
          if section = ''agents'' \<and> threadId \<noteq> [] \<and> threadId \<noteq> ''automations'' then Some threadId else None
      | _ \<Rightarrow> None)"

fun render_route :: "SessionUser fetched \<Rightarrow> AgentThread fetched \<Rightarrow> route \<Rightarrow> outcome" where
  "render_route session thread IndexRoute = RedirectTo (AgentsRoute AgentsIndex)"
| "render_route session thread LoginRoute = Login session"
| "render_route session thread (AgentsRoute child) = AgentsLayout session thread child"
| "render_route session thread IntegrationsRoute = RedirectTo MySettingsRoute"
| "render_route session thread AdminRoute = AdminPage session"
| "render_route session thread page = session_guard session page"

text \<open>The router follows a redirect by rendering its target.\<close>

fun follow :: "nat \<Rightarrow> SessionUser fetched \<Rightarrow> AgentThread fetched \<Rightarrow> route \<Rightarrow> outcome" where
  "follow 0 session thread r = render_route session thread r"
| "follow (Suc n) session thread r =
     (case render_route session thread r of RedirectTo r' \<Rightarrow> follow n session thread r' | out \<Rightarrow> out)"

section \<open>Facts\<close>

lemmas route_defs = session_guard_def Login_def AdminPage_def AgentThreadPage_def AgentsLayout_def

section \<open>Properties\<close>

text \<open>
  Redirects end: from every page, after at most two redirects something is shown. Without a
  session that is the login page and nothing else; with one it is never the login page, and the
  administration page only for an administrator; while the session loads, nothing but a placeholder
  is shown.
\<close>

theorem redirects_end:
  "case follow 2 session thread r of
     RedirectTo _ \<Rightarrow> False
   | Skeleton \<Rightarrow> session = Fetching \<or> thread = Fetching
   | ShowPage p \<Rightarrow>
       (case session of
          Fetching \<Rightarrow> False
        | Absent \<Rightarrow> p = LoginRoute
        | Present user \<Rightarrow> (if p = AdminRoute then su_is_admin user else p \<notin> {LoginRoute, IndexRoute, IntegrationsRoute}))"
proof (cases r)
  case (AgentsRoute child)
  then show ?thesis
    by (cases session; cases child; cases thread) (auto simp: numeral_2_eq_2 route_defs)
qed (cases session; auto simp: numeral_2_eq_2 route_defs)+

text \<open>The layout reads the open thread off the path of its page.\<close>

lemma active_thread_of_path:
  "CHR ''/'' \<notin> set i \<Longrightarrow> i \<noteq> [] \<Longrightarrow> i \<noteq> ''automations'' \<Longrightarrow> activeThreadId (''/agents/'' @ i) = Some i"
  "activeThreadId ''/agents'' = None" "activeThreadId ''/agents/automations/new'' = None"
  by (simp_all add: activeThreadId_def split_on_no_sep)

end
