(* ===== verification/Agents_Page.thy ===== *)
theory Agents_Page
  imports Agents_Home Sidebar
begin

text \<open>
  The sidebar beside the home page. The two components share the choice of a workspace through the
  browser's storage: the sidebar writes it and dispatches an event, and both listen to that event and
  to the storage event of other tabs.
\<close>

record agents_page =
  ap_home :: home_state
  ap_side :: sidebar_state

definition mount_page :: "bool \<Rightarrow> string option \<Rightarrow> stored_value option \<Rightarrow> string option \<Rightarrow> agents_page" where
  "mount_page mobile stored w c = \<lparr>ap_home = init_home stored, ap_side = init_sidebar mobile stored w c\<rparr>"

datatype page_event =
    ChooseWorkspace bool string
  | ChooseChats bool
  | OtherTab "string option"
  | PickFolder
  | FolderPicked "js_error + jsval"
  | HomeAction home_event

text \<open>The home page hears of a choice through its listener, which reads the storage.\<close>

definition heard :: "sidebar_state \<Rightarrow> agents_page \<Rightarrow> agents_page" where
  "heard side p = p\<lparr>ap_side := side, ap_home := syncSelectedWorkspace (sel_storage side) (ap_home p)\<rparr>"

fun page_step :: "(string \<Rightarrow> string option) \<Rightarrow> page_event \<Rightarrow> agents_page \<Rightarrow> agents_page" where
  "page_step hostname (ChooseWorkspace mobile i) p = heard (selectWorkspace mobile i (ap_side p)) p"
| "page_step hostname (ChooseChats mobile) p = heard (clearWorkspaceSelection mobile (ap_side p)) p"
| "page_step hostname (OtherTab stored) p = heard (storage_event stored (ap_side p)) p"
| "page_step hostname PickFolder p = p\<lparr>ap_side := fst (onPickWorkspace (ap_side p))\<rparr>"
| "page_step hostname (FolderPicked r) p = p\<lparr>ap_side := fst (pick_done r (ap_side p))\<rparr>"
| "page_step hostname (HomeAction e) p =
     (case e of
        StorageChanged _ \<Rightarrow> p
      | _ \<Rightarrow> p\<lparr>ap_home := fst (home_step hostname (ap_home p) e)\<rparr>)"

text \<open>The threads that the sidebar shows in its groups.\<close>

definition shown_threads :: "SidebarView \<Rightarrow> AgentThread list" where
  "shown_threads v = concat (map (\<lambda>(_, ts, _). ts) (sv_groups v))"

section \<open>Facts\<close>

definition choice_shared :: "agents_page \<Rightarrow> bool" where
  "choice_shared p \<longleftrightarrow>
     selectedWorkspaceId (ap_home p) = sel_storage (ap_side p) \<and> sel_workspace (ap_side p) = sel_storage (ap_side p)"

lemma home_keeps_choice:
  "(\<forall>st. e \<noteq> StorageChanged st) \<Longrightarrow> selectedWorkspaceId (fst (home_step hostname s e)) = selectedWorkspaceId s"
  by (cases e)
     (auto simp: home_submit_def home_submit_failed_def thread_created_def Let_def split_beta split: option.splits)

lemma choice_shared_step: "choice_shared p \<Longrightarrow> choice_shared (page_step hostname e p)"
proof (cases e)
  case (HomeAction h)
  assume "choice_shared p"
  with HomeAction show ?thesis
    using home_keeps_choice [of h hostname "ap_home p"] by (cases h) (auto simp: choice_shared_def)
qed (auto simp: choice_shared_def heard_def syncSelectedWorkspace_def sync_selected_def selectWorkspace_def
       clearWorkspaceSelection_def storage_event_def onPickWorkspace_def pick_done_def Let_def split: sum.splits)

lemma choice_shared_run: "choice_shared (fold (page_step hostname) es (mount_page mobile stored w c))"
proof -
  have "choice_shared p \<Longrightarrow> choice_shared (fold (page_step hostname) es p)" for p
    by (induction es arbitrary: p) (simp_all add: choice_shared_step)
  then show ?thesis by (simp add: choice_shared_def mount_page_def init_home_def init_sidebar_def)
qed

lemma shown_threads_mset:
  "mset (shown_threads (sidebar_view a n1 n2 data ws ld err s)) = mset (visibleThreads (sel_workspace s) (nullish data []))"
  using groups_mset [of a n1 n2 "visibleThreads (sel_workspace s) (nullish data [])"]
  by (simp add: shown_threads_def sidebar_view_def Let_def add.assoc)

lemma shown_threads_set:
  "set (shown_threads (sidebar_view a n1 n2 data ws ld err s)) = set (visibleThreads (sel_workspace s) (nullish data []))"
  using shown_threads_mset by (rule mset_eq_setD)

text \<open>A run carries the chosen workspace exactly where the choice is one of the loaded workspaces.\<close>

lemma draft_workspace:
  "cv_workspace_id (home_draft d s prompt images) =
     (if selectedWorkspace d s = None then None else selectedWorkspaceId s)"
proof (cases "selectedWorkspace d s")
  case (Some w)
  then have "Some (wk_id w) = selectedWorkspaceId s"
    by (auto simp: selectedWorkspace_def find_Some_iff split: bind_splits)
  with Some show ?thesis by (simp add: home_draft_def Let_def)
qed (simp add: home_draft_def Let_def)

section \<open>Properties\<close>

text \<open>
  C4. The home page and the sidebar agree on the chosen workspace after any sequence of choices, of
  actions on the page and of changes made in other tabs. A run started there is missing from the
  sidebar under the current choice exactly if there is a choice and the list of workspaces lacks it,
  because it is not loaded yet or the workspace is gone: then the run starts without a workspace, and
  the sidebar hides it; every other run is shown.
\<close>

theorem started_run_shown:
  "let p = fold (page_step hostname) es (mount_page mobile stored w c);
       t = optimisticThread now nowIso threadId (home_draft d (ap_home p) prompt images) in
   selectedWorkspaceId (ap_home p) = sel_storage (ap_side p)
   \<and> sel_workspace (ap_side p) = sel_storage (ap_side p)
   \<and> (t \<notin> set (shown_threads (sidebar_view a n1 n2 (Some (prepend_thread t data)) ws ld err (ap_side p)))
      \<longleftrightarrow> selectedWorkspace d (ap_home p) = None \<and> truthy_str (sel_storage (ap_side p)))"
proof -
  let ?p = "fold (page_step hostname) es (mount_page mobile stored w c)"
  have sh: "choice_shared ?p" by (rule choice_shared_run)
  have "th_workspaceId (optimisticThread now nowIso threadId (home_draft d (ap_home ?p) prompt images)) =
          (if selectedWorkspace d (ap_home ?p) = None then None else sel_storage (ap_side ?p))"
    using sh by (simp add: optimisticThread_def Let_def draft_workspace choice_shared_def)
  with sh show ?thesis
    by (auto simp: Let_def shown_threads_set visibleThreads_def prepend_thread_def choice_shared_def)
qed

end
