(* ===== verification/Tool_Cards.thy ===== *)
theory Tool_Cards
  imports Source_Tree
begin

text \<open>
  The cards of a transcript: \<open>components/agents/ported/ToolExecution.tsx\<close>, \<open>ShellCommand.tsx\<close> and
  \<open>TodoList.tsx\<close>, \<open>components/agents/messages/TurnChangedFilesCard.tsx\<close>, \<open>UserMessage.tsx\<close> and
  \<open>ChunkRenderer.tsx\<close>, \<open>components/agents/subagents\<close>. A tool argument that the code casts to a string
  is read as a string; a value of another type, which the tools do not send there, as absent.
\<close>

section \<open>Shared parts\<close>

definition tool_arg :: "jsval option \<Rightarrow> string \<Rightarrow> string option" where
  "tool_arg input k = Option.bind input (\<lambda>v. as_string (get_prop v k))"

text \<open>\<open>a || b\<close> on optional strings.\<close>

definition or_str :: "string option \<Rightarrow> string \<Rightarrow> string" where
  "or_str a b = (if truthy_str a then the a else b)"

definition truncate_at :: "nat \<Rightarrow> string \<Rightarrow> string" where
  "truncate_at n s = (if length s > n then take n s @ ''...'' else s)"

text \<open>The scroll position of an element, and the two flags and shadows derived from it.\<close>

record scroll_box =
  scrollTop :: int
  scrollHeight :: int
  clientHeight :: int

definition updateScrollIndicators :: "scroll_box option \<Rightarrow> bool \<times> bool \<Rightarrow> bool \<times> bool" where
  "updateScrollIndicators el flags =
     (case el of
        None \<Rightarrow> flags
      | Some b \<Rightarrow> (scrollTop b > 0, scrollTop b < scrollHeight b - clientHeight b - 1))"

definition edgeShadows :: "bool \<times> bool \<Rightarrow> string" where
  "edgeShadows flags =
     join '', '' (filter (\<lambda>x. x \<noteq> [])
       [if fst flags then ''inset 0 12px 10px -10px rgba(42, 63, 95, 0.95)'' else [],
        if snd flags then ''inset 0 -12px 10px -10px rgba(42, 63, 95, 0.95)'' else []])"

section \<open>Tool execution\<close>

definition strip_tool_path :: "string \<Rightarrow> string option \<Rightarrow> string" where
  "strip_tool_path path projectPath =
     (if \<not> truthy_str projectPath \<or> \<not> startsWith path (the projectPath) then path
      else (let relative = drop (length (the projectPath)) path in
            if startsWith relative ''/'' then ''.'' @ relative else ''./'' @ relative))"

definition getFileName :: "string \<Rightarrow> string" where
  "getFileName path = (let parts = path_parts (to_slashes path) in if parts = [] then path else last parts)"

definition formatToolDisplay :: "string \<Rightarrow> AcpToolKind \<Rightarrow> jsval option \<Rightarrow> string option \<Rightarrow> string" where
  "formatToolDisplay title toolKind input projectPath =
     (case toolKind of
        ReadK \<Rightarrow>
          (if truthy_str (tool_arg input ''path'')
           then ''Read('' @ strip_tool_path (the (tool_arg input ''path'')) projectPath @ '')'' else title)
      | SearchK \<Rightarrow>
          (if truthy_str (tool_arg input ''pattern'')
           then ''Search(\"'' @ truncate_at 40 (the (tool_arg input ''pattern'')) @ ''\")''
           else if truthy_str (tool_arg input ''query'')
           then ''Search(\"'' @ truncate_at 40 (the (tool_arg input ''query'')) @ ''\")'' else title)
      | FetchK \<Rightarrow>
          (if truthy_str (tool_arg input ''url'')
           then ''Fetch('' @ truncate_at 50 (the (tool_arg input ''url'')) @ '')'' else title)
      | ExecuteK \<Rightarrow>
          (if truthy_str (tool_arg input ''command'')
           then ''Shell('' @ truncate_at 60 (the (tool_arg input ''command'')) @ '')'' else title)
      | ThinkK \<Rightarrow> ''Thinking...''
      | _ \<Rightarrow> title)"

record InlineDiff =
  id_filePath :: string
  id_fileName :: string
  id_original :: string
  id_new :: string
  id_additions :: int
  id_deletions :: int
  id_isError :: bool

datatype StatusText = RedText | YellowText | MutedText

datatype ToolView =
    EditedCard InlineDiff
  | ApprovalDiff DiffData
  | EditingLine string
  | ToolLine StatusText string "string option"

definition isEditOp :: "ToolExecutionChunk \<Rightarrow> bool" where
  "isEditOp c = (tc_toolKind c \<in> {EditK, DeleteK, MoveK} \<or> diffEntries c \<noteq> [])"

definition ToolExecution ::
  "diff_parser \<Rightarrow> ToolExecutionChunk \<Rightarrow> string option \<Rightarrow> (string \<times> string) option \<Rightarrow> ToolView" where
  "ToolExecution hunks c projectPath resolved =
     (let diffs = diffEntries c; st = tc_status c; d = last diffs;
          edited = strip_tool_path (filePath d) projectPath;
          n = countLineChanges hunks (originalContent d) (newContent d) (filePath d)
      in
      if isEditOp c \<and> diffs \<noteq> [] \<and> (st = CompletedS \<or> st = ErrorS) then
        EditedCard
          \<lparr>id_filePath = (if edited = [] then filePath d else edited),
           id_fileName = (if edited = [] then filePath d else getFileName edited),
           id_original = (case resolved of Some (o1, _) \<Rightarrow> o1 | None \<Rightarrow> nullish (originalContent d) []),
           id_new = (case resolved of Some (_, m1) \<Rightarrow> m1 | None \<Rightarrow> newContent d),
           id_additions = additions n, id_deletions = deletions n, id_isError = (st = ErrorS)\<rparr>
      else if isEditOp c \<and> st = PendingS \<and> diffs \<noteq> [] then ApprovalDiff d
      else if isEditOp c \<and> st = InProgressS then
        EditingLine
          (getFileName
            (strip_tool_path
              (or_str (if diffs = [] then None else Some (filePath d))
                (or_str (tool_arg (tc_input c) ''filePath'') (or_str (tool_arg (tc_input c) ''path'') ''file'')))
              projectPath))
      else
        ToolLine
          (if st = ErrorS then RedText else if st = InProgressS \<or> st = PendingS then YellowText else MutedText)
          (formatToolDisplay (tc_title c) (tc_toolKind c) (tc_input c) projectPath)
          (if st = ErrorS \<and> truthy_str (tc_output c) then Some (take 80 (the (tc_output c))) else None))"

text \<open>The card of an edit, closed or open; what it shows of the diff.\<close>

datatype InlineView = ClosedEdit string | OpenEdit string int int "string \<times> string" "string \<times> string"

definition InlineDiffCollapsible :: "InlineDiff \<Rightarrow> bool \<Rightarrow> InlineView" where
  "InlineDiffCollapsible d expanded =
     (if \<not> expanded then ClosedEdit (id_fileName d)
      else OpenEdit (id_filePath d) (id_additions d) (id_deletions d)
             (id_filePath d, id_original d) (id_filePath d, id_new d))"

section \<open>Shell commands\<close>

definition getHeaderText :: "ToolExecutionChunk \<Rightarrow> string" where
  "getHeaderText c =
     (let truncated = truncate_at 80 (or_str (tool_arg (tc_input c) ''command'') []) in
      if tc_status c = InProgressS then ''Running '' @ truncated
      else if tc_status c = PendingS then ''Run '' @ truncated
      else ''Background terminal finished with '' @ truncated)"

definition init_expanded :: "ToolExecutionChunk \<Rightarrow> bool" where
  "init_expanded c = (\<not> (tc_status c = CompletedS \<or> tc_status c = ErrorS))"

text \<open>The label of the state is shown after a check mark or a cross where the command has ended.\<close>

fun shell_status :: "AcpToolStatus \<Rightarrow> string" where
  "shell_status InProgressS = ''Running...''"
| "shell_status CompletedS = ''Success''"
| "shell_status ErrorS = ''Failed''"
| "shell_status PendingS = ''Waiting for approval...''"

record ShellView =
  sh_header :: string
  sh_body :: "(string \<times> string \<times> string option) option"

definition ShellCommand :: "ToolExecutionChunk \<Rightarrow> bool \<Rightarrow> ShellView" where
  "ShellCommand c expanded =
     \<lparr>sh_header = getHeaderText c,
      sh_body = (if expanded
                 then Some (shell_status (tc_status c), or_str (tool_arg (tc_input c) ''command'') [],
                            if truthy_str (tc_output c) then tc_output c else None)
                 else None)\<rparr>"

section \<open>Changed files of a turn\<close>

text \<open>\<open>stripProjectPathForDisplay\<close> is the function of the source control tile under another name.\<close>

definition stripProjectPathForDisplay :: "string \<Rightarrow> string option \<Rightarrow> string" where
  "stripProjectPathForDisplay path projectPath =
     (if \<not> truthy_str projectPath then path
      else (let normalizedPath = to_slashes path;
                normalizedProjectPath = strip_end_slashes (to_slashes (the projectPath))
            in if \<not> startsWith normalizedPath (normalizedProjectPath @ ''/'') then path
               else drop (length normalizedProjectPath + 1) normalizedPath))"

record card_state =
  expandedByPath :: "(string, bool) js_map"
  diffReady :: bool

definition init_card :: card_state where
  "init_card = \<lparr>expandedByPath = [], diffReady = False\<rparr>"

definition toggleFile :: "string \<Rightarrow> card_state \<Rightarrow> card_state" where
  "toggleFile path s =
     s\<lparr>expandedByPath := map_set path (\<not> nullish (map_get (expandedByPath s) path) False) (expandedByPath s)\<rparr>"

datatype FileDiffArea = LoadingDiff | DiffShown "string \<times> string" "string \<times> string"

record ChangedRow =
  chr_path :: string
  chr_additions :: int
  chr_deletions :: int
  chr_diff :: "FileDiffArea option"

definition ChangedFileRow :: "string option \<Rightarrow> bool \<Rightarrow> bool \<Rightarrow> ChangedFileSummaryItem \<Rightarrow> ChangedRow" where
  "ChangedFileRow projectPath isOpen ready f =
     (let displayPath = stripProjectPathForDisplay (sum_filePath f) projectPath in
      \<lparr>chr_path = displayPath, chr_additions = sum_additions f, chr_deletions = sum_deletions f,
       chr_diff = (if \<not> isOpen then None
                   else if ready then Some (DiffShown (displayPath, sum_originalContent f) (displayPath, sum_modifiedContent f))
                   else Some LoadingDiff)\<rparr>)"

definition TurnChangedFilesCard ::
  "ChangedFileSummaryItem list \<Rightarrow> string option \<Rightarrow> card_state \<Rightarrow> string \<times> ChangedRow list" where
  "TurnChangedFilesCard files projectPath s =
     (nat_str (length files) @ '' file'' @ (if length files = 1 then [] else ''s'') @ '' changed'',
      map (\<lambda>f. ChangedFileRow projectPath (nullish (map_get (expandedByPath s) (sum_filePath f)) False) (diffReady s) f)
        files)"

section \<open>User messages and single chunks\<close>

fun image_of :: "Chunk \<Rightarrow> (string \<times> string) list" where
  "image_of (ImageChunk i) =
     [(''data:'' @ img_mimeType i @ '';base64,'' @ img_base64 i, or_str (img_fileName i) ''image'')]"
| "image_of _ = []"

definition user_text :: "Message \<Rightarrow> string" where
  "user_text m = concat (concat (map (\<lambda>c. case c of TextChunk t \<Rightarrow> [t] | _ \<Rightarrow> []) (msg_chunks m)))"

text \<open>The images, and the text where there is one.\<close>

definition UserMessage :: "Message \<Rightarrow> (string \<times> string) list \<times> string option" where
  "UserMessage m =
     (concat (map image_of (msg_chunks m)), if user_text m = [] then None else Some (user_text m))"

datatype ChunkView =
    MarkdownView string bool
  | CodeView string "string option"
  | ErrorView string
  | ListView "string list"
  | ToolCard ToolView
  | ImageView string string
  | NoView

text \<open>The chunks of the other two kinds are not given to this component; it has no case for them.\<close>

fun ChunkRenderer :: "diff_parser \<Rightarrow> string option \<Rightarrow> bool \<Rightarrow> Chunk \<Rightarrow> ChunkView" where
  "ChunkRenderer hunks projectPath live (TextChunk t) = MarkdownView t live"
| "ChunkRenderer hunks projectPath live (CodeChunk t l) = CodeView t l"
| "ChunkRenderer hunks projectPath live (ErrorChunk t) = ErrorView t"
| "ChunkRenderer hunks projectPath live (ListChunk ls) = ListView (map (\<lambda>l. ''- '' @ l) ls)"
| "ChunkRenderer hunks projectPath live (ToolChunk c) = ToolCard (ToolExecution hunks c projectPath None)"
| "ChunkRenderer hunks projectPath live (ImageChunk i) =
     ImageView (''data:'' @ img_mimeType i @ '';base64,'' @ img_base64 i) (or_str (img_fileName i) ''image'')"
| "ChunkRenderer hunks projectPath live (ReasoningChunk _) = NoView"
| "ChunkRenderer hunks projectPath live (TodoChunk _) = NoView"

section \<open>Subagents\<close>

definition MAX_SUBAGENT_COLUMNS :: nat where "MAX_SUBAGENT_COLUMNS = 4"

definition subagent_columns :: "ToolExecutionChunk list \<Rightarrow> nat" where
  "subagent_columns chunks = min (max (length chunks) 1) MAX_SUBAGENT_COLUMNS"

definition trimmed_arg :: "jsval option \<Rightarrow> string \<Rightarrow> string" where
  "trimmed_arg input k = trim (nullish (tool_arg input k) [])"

datatype SubagentIcon = SubRunning | SubError | SubDone

record SubagentView =
  sub_icon :: SubagentIcon
  sub_type :: string
  sub_description :: "string option"
  sub_activity :: "string list option"

definition SubagentCard :: "bool \<Rightarrow> ToolExecutionChunk \<Rightarrow> SubagentView" where
  "SubagentCard inLiveStream c =
     \<lparr>sub_icon = (if tc_status c = InProgressS \<or> tc_status c = PendingS then SubRunning
                  else if tc_status c = ErrorS then SubError else SubDone),
      sub_type = (let t = trimmed_arg (tc_input c) ''subagent_type'' in if t = [] then ''subagent'' else t),
      sub_description = (let d = trimmed_arg (tc_input c) ''description'' in if d = [] then None else Some d),
      sub_activity = (case tc_subagentNamespace c of
                        Some (n # ns) \<Rightarrow> if inLiveStream then Some (n # ns) else None
                      | _ \<Rightarrow> None)\<rparr>"

definition humanizeToolName :: "string \<Rightarrow> string" where
  "humanizeToolName name =
     (let t = trim (map (\<lambda>c. if c = CHR ''_'' then CHR '' '' else c) name) in if t = [] then ''tool'' else t)"

section \<open>Task list\<close>

record todo_state =
  todo_collapsed :: bool
  prevRunActive :: bool

definition init_todo :: "bool \<Rightarrow> todo_state" where
  "init_todo runActive = \<lparr>todo_collapsed = False, prevRunActive = runActive\<rparr>"

definition todo_effect :: "bool \<Rightarrow> todo_state \<Rightarrow> todo_state" where
  "todo_effect runActive s =
     \<lparr>todo_collapsed = (if prevRunActive s \<and> \<not> runActive then True else todo_collapsed s), prevRunActive = runActive\<rparr>"

definition toggle_todo :: "todo_state \<Rightarrow> todo_state" where
  "toggle_todo s = s\<lparr>todo_collapsed := \<not> todo_collapsed s\<rparr>"

text \<open>\<open>findIndex\<close> gives -1 where no task is in progress; an index without a row scrolls nowhere.\<close>

fun findIndex :: "('a \<Rightarrow> bool) \<Rightarrow> 'a list \<Rightarrow> int" where
  "findIndex P [] = -1"
| "findIndex P (x # xs) = (if P x then 0 else let i = findIndex P xs in if i = -1 then -1 else i + 1)"

definition todo_target :: "TodoItem list \<Rightarrow> int" where
  "todo_target todos =
     (let firstActive = findIndex (\<lambda>t. todo_status t = TodoInProgress) todos in
      if firstActive \<noteq> -1 then firstActive else int (length todos) - 1)"

definition TodoList :: "TodoItem list \<Rightarrow> todo_state \<Rightarrow> (string \<times> (string \<times> TodoStatus) list option) option" where
  "TodoList todos s =
     (if length todos = 0 then None
      else Some (nat_str (length (filter (\<lambda>t. todo_status t = TodoCompleted) todos)) @ '' out of ''
                   @ nat_str (length todos) @ '' task'' @ (if length todos = 1 then [] else ''s'') @ '' completed'',
                 if todo_collapsed s then None
                 else Some (map (\<lambda>(i, t). (nat_str (i + 1) @ ''.'' @ todo_content t, todo_status t))
                              (List.enumerate 0 todos))))"

section \<open>Facts\<close>

lemma length_truncate_at: "length (truncate_at n s) \<le> n + 3"
  by (simp add: truncate_at_def)

lemma display_bounded:
  "k \<in> {SearchK, FetchK, ExecuteK, ThinkK} \<Longrightarrow> length (formatToolDisplay title k input p) \<le> max (length title) 72"
  using length_truncate_at [of 40 "the (tool_arg input ''pattern'')"] length_truncate_at [of 40 "the (tool_arg input ''query'')"]
    length_truncate_at [of 50 "the (tool_arg input ''url'')"] length_truncate_at [of 60 "the (tool_arg input ''command'')"]
  by (elim insertE emptyE) (simp_all add: formatToolDisplay_def le_max_iff_disj)

lemma header_bounded: "length (getHeaderText c) \<le> 117"
  using length_truncate_at [of 80 "or_str (tool_arg (tc_input c) ''command'') []"] by (simp add: getHeaderText_def Let_def)

lemma display_path_as_in_tile: "stripProjectPathForDisplay path p = stripProjectPath path p"
  by (simp add: stripProjectPathForDisplay_def stripProjectPath_def)

text \<open>A path that only starts with the characters of the project's path is cut in the middle of a name.\<close>

lemma sibling_path_cut:
  "strip_tool_path ''/home/app2/Main.kt'' (Some ''/home/app'') = ''./2/Main.kt''"
  "stripProjectPathForDisplay ''/home/app2/Main.kt'' (Some ''/home/app'') = ''/home/app2/Main.kt''"
  by (simp_all add: strip_tool_path_def stripProjectPathForDisplay_def to_slashes_def strip_end_slashes_def startsWith_def)

lemma getFileName_name: "path_parts (to_slashes path) \<noteq> [] \<Longrightarrow> CHR ''/'' \<notin> set (getFileName path) \<and> getFileName path \<noteq> []"
proof -
  assume "path_parts (to_slashes path) \<noteq> []"
  then have "last (path_parts (to_slashes path)) \<in> set (path_parts (to_slashes path))" by (rule last_in_set)
  with \<open>path_parts (to_slashes path) \<noteq> []\<close> show ?thesis
    by (auto simp: getFileName_def Let_def path_parts_def dest: split_on_parts)
qed

lemma toggle_row:
  "nullish (map_get (expandedByPath (toggleFile p s)) q) False =
     (if q = p then \<not> nullish (map_get (expandedByPath s) p) False else nullish (map_get (expandedByPath s) q) False)"
  by (simp add: toggleFile_def)

lemma subagent_columns_bounds: "1 \<le> subagent_columns cs" "subagent_columns cs \<le> 4"
  "length cs \<in> {1..4} \<Longrightarrow> subagent_columns cs = length cs"
  by (auto simp: subagent_columns_def MAX_SUBAGENT_COLUMNS_def)

lemma findIndex_spec:
  "findIndex P xs = (case find (\<lambda>i. P (xs ! i)) [0..<length xs] of None \<Rightarrow> -1 | Some i \<Rightarrow> int i)"
proof (induction xs)
  case (Cons x xs)
  have "[0..<length (x # xs)] = 0 # map Suc [0..<length xs]" by (simp add: upt_conv_Cons map_Suc_upt del: upt_Suc)
  moreover have "find (\<lambda>i. P ((x # xs) ! i)) (map Suc ys) = map_option Suc (find (\<lambda>i. P (xs ! i)) ys)" for ys
    by (induction ys) auto
  ultimately show ?case using Cons.IH by (auto simp: Let_def split: option.splits)
qed simp

text \<open>The task scrolled to is a task of the list, and a finished run leaves the list folded.\<close>

lemma todo_target_range: "todos \<noteq> [] \<Longrightarrow> 0 \<le> todo_target todos \<and> todo_target todos < int (length todos)"
proof -
  assume ne: "todos \<noteq> []"
  have "findIndex P ts = -1 \<or> 0 \<le> findIndex P ts \<and> findIndex P ts < int (length ts)"
    for P :: "TodoItem \<Rightarrow> bool" and ts
    by (induction ts) (auto simp: Let_def)
  from this [of "\<lambda>t. todo_status t = TodoInProgress" todos] ne show ?thesis
    by (auto simp: todo_target_def Let_def Suc_le_eq)
qed

lemma todo_folds_at_end: "todo_collapsed (todo_effect False (todo_effect True s))"
  by (simp add: todo_effect_def)

end
