(* ===== verification/Reply_Card.thy ===== *)
theory Reply_Card
  imports Tool_Cards
begin

text \<open>
  \<open>components/agents/ported/ReplyCard.tsx\<close>: a reply to Slack or a comment on Linear. The text of a
  Slack message is cut at its tokens \<open><...>\<close> by a loop over a regular expression. The blocks of a
  message come from the model as an unchecked value, so that rendering them can fail.
\<close>

section \<open>Slack text\<close>

text \<open>
  The next match of the expression: the text before it, the token, and the text after it. A match
  starts at the first \<open><\<close> that has a character other than \<open>>\<close> next and a \<open>>\<close> later.
\<close>

fun next_token :: "string \<Rightarrow> (string \<times> string \<times> string) option" where
  "next_token [] = None"
| "next_token (c # cs) =
     (let token = takeWhile (\<lambda>x. x \<noteq> CHR ''>'') cs; rest = dropWhile (\<lambda>x. x \<noteq> CHR ''>'') cs in
      if c = CHR ''<'' \<and> token \<noteq> [] \<and> rest \<noteq> [] then Some ([], token, tl rest)
      else map_option (\<lambda>(before, t, r). (c # before, t, r)) (next_token cs))"

datatype SlackNode = PlainText string | Mention string | SlackLink string string

text \<open>The part before the first bar is the target, the part after it the label.\<close>

definition token_target :: "string \<Rightarrow> string" where
  "token_target token = takeWhile (\<lambda>c. c \<noteq> CHR ''|'') token"

definition token_label :: "string \<Rightarrow> string" where
  "token_label token = drop 1 (dropWhile (\<lambda>c. c \<noteq> CHR ''|'') token)"

definition or_else :: "string \<Rightarrow> string \<Rightarrow> string" where
  "or_else a b = (if a = [] then b else a)"

definition token_node :: "string \<Rightarrow> SlackNode" where
  "token_node token =
     (let target = token_target token; label = token_label token in
      if startsWith target ''@'' \<or> startsWith target ''#'' then Mention (hd target # or_else label (drop 1 target))
      else if startsWith target ''!'' then Mention (CHR ''@'' # or_else label (drop 1 target))
      else SlackLink target (or_else label target))"

lemma next_token_shorter: "next_token s = Some (u, t, r) \<Longrightarrow> length r < length s"
proof (induction s arbitrary: u)
  case (Cons c cs)
  show ?case
  proof (cases "c = CHR ''<'' \<and> takeWhile (\<lambda>x. x \<noteq> CHR ''>'') cs \<noteq> [] \<and> dropWhile (\<lambda>x. x \<noteq> CHR ''>'') cs \<noteq> []")
    case True
    with Cons.prems have "r = tl (dropWhile (\<lambda>x. x \<noteq> CHR ''>'') cs)" by (simp add: Let_def)
    then show ?thesis using length_dropWhile_le [of "\<lambda>x. x \<noteq> CHR ''>''" cs] by simp
  next
    case False
    with Cons.prems obtain u' where "next_token cs = Some (u', t, r)" by (auto simp: Let_def split: if_splits)
    then show ?thesis using Cons.IH by fastforce
  qed
qed simp

text \<open>\<open>renderSlackBody\<close>: each round of the loop pushes the text before the match and the node of its token.\<close>

function renderSlackBody :: "string \<Rightarrow> SlackNode list" where
  "renderSlackBody text =
     (case next_token text of
        None \<Rightarrow> if text \<noteq> [] then [PlainText text] else []
      | Some (before, token, rest) \<Rightarrow>
          (if before \<noteq> [] then [PlainText before] else []) @ token_node token # renderSlackBody rest)"
  by pat_completeness auto
termination by (relation "measure length") (auto dest: next_token_shorter)

declare renderSlackBody.simps [simp del]

section \<open>Blocks\<close>

definition isSlackTextObject :: "jsval \<Rightarrow> bool" where
  "isSlackTextObject v = (js_truthy v \<and> typeof_object v \<and> as_string (get_prop v ''text'') \<noteq> None)"

definition isSlackBlockArray :: "jsval \<Rightarrow> bool" where
  "isSlackBlockArray v = (case v of JArr bs \<Rightarrow> list_all (\<lambda>b. js_truthy b \<and> typeof_object b) bs | _ \<Rightarrow> False)"

definition option_button :: "string \<Rightarrow> jsval" where
  "option_button opt = JObj [(''type'', JStr ''button''), (''text'', JObj [(''type'', JStr ''plain_text''), (''text'', JStr opt)])]"

definition blocksFromOptions :: "string \<Rightarrow> jsval \<Rightarrow> jsval list option" where
  "blocksFromOptions message options =
     (case options of
        JArr opts \<Rightarrow>
          (let cleanOptions = concat (map (\<lambda>v. case v of JStr t \<Rightarrow> if length (trim t) > 0 then [t] else [] | _ \<Rightarrow> []) opts) in
           if length cleanOptions = 0 then None
           else Some [JObj [(''type'', JStr ''section''), (''text'', JObj [(''type'', JStr ''mrkdwn''), (''text'', JStr message)])],
                      JObj [(''type'', JStr ''actions''), (''elements'', JArr (map option_button (take 5 cleanOptions)))]])
      | _ \<Rightarrow> None)"

datatype BlockView = SlackSection "SlackNode list" | SlackActions "string list" | SlackDivider | SlackNothing

text \<open>
  Reading a property of null or undefined throws. The type of an element is read as a string, like a
  tool argument.
\<close>

fun array_items :: "jsval \<Rightarrow> jsval list option" where
  "array_items (JArr es) = Some es"
| "array_items _ = None"

definition read_prop :: "jsval \<Rightarrow> string \<Rightarrow> jsval option" where
  "read_prop v k = (if is_nullish v then None else Some (get_prop v k))"

text \<open>The label of a button, where reading it does not throw: its text, or its type, or a fixed word.\<close>

definition action_label :: "jsval \<Rightarrow> string option" where
  "action_label element =
     Option.bind (read_prop element ''text'') (\<lambda>t.
       if isSlackTextObject t then as_string (get_prop t ''text'')
       else Some (or_str (as_string (get_prop element ''type'')) ''Action''))"

fun all_or_none :: "'a option list \<Rightarrow> 'a list option" where
  "all_or_none [] = Some []"
| "all_or_none (None # xs) = None"
| "all_or_none (Some x # xs) = map_option (Cons x) (all_or_none xs)"

definition block_view :: "jsval \<Rightarrow> BlockView option" where
  "block_view block =
     (let type = get_prop block ''type'' in
      if (type = JStr ''section'' \<or> type = JStr ''context'') \<and> isSlackTextObject (get_prop block ''text'')
      then Some (SlackSection (renderSlackBody (nullish (as_string (get_prop (get_prop block ''text'') ''text'')) [])))
      else if type = JStr ''actions'' \<and> array_items (get_prop block ''elements'') \<noteq> None
      then map_option SlackActions (all_or_none (map action_label (the (array_items (get_prop block ''elements'')))))
      else if type = JStr ''divider'' then Some SlackDivider
      else Some SlackNothing)"

definition renderSlackBlocks :: "jsval list \<Rightarrow> BlockView list option" where
  "renderSlackBlocks blocks = all_or_none (map block_view blocks)"

section \<open>The card\<close>

text \<open>Three dots stand for the ellipsis character of the two labels of a pending reply.\<close>

definition headerLabel :: "bool \<Rightarrow> AcpToolStatus \<Rightarrow> string" where
  "headerLabel isLinear status =
     (let pending = (status = InProgressS \<or> status = PendingS) in
      if isLinear then (if pending then ''Commenting on Linear...'' else ''Commented on Linear'')
      else if pending then ''Replying in Slack...'' else ''Replied in Slack'')"

datatype ReplyBody = MarkdownBody string | BlocksBody "BlockView list" | SlackBody "SlackNode list"

definition reply_text :: "ToolExecutionChunk \<Rightarrow> string" where
  "reply_text c = or_str (tool_arg (tc_input c) (if tc_toolKind c = LinearK then ''comment_body'' else ''message'')) []"

definition reply_blocks :: "ToolExecutionChunk \<Rightarrow> jsval list option" where
  "reply_blocks c =
     (let blocks = get_prop (nullish (tc_input c) JUndefined) ''blocks'' in
      if tc_toolKind c = LinearK then None
      else if isSlackBlockArray blocks then array_items blocks
      else blocksFromOptions (reply_text c) (get_prop (nullish (tc_input c) JUndefined) ''options''))"

text \<open>The header and the body where there is one; \<open>None\<close> where rendering throws.\<close>

definition ReplyCard :: "ToolExecutionChunk \<Rightarrow> (string \<times> ReplyBody option) option" where
  "ReplyCard c =
     (let header = headerLabel (tc_toolKind c = LinearK) (tc_status c); body = reply_text c in
      if body = [] then Some (header, None)
      else if tc_toolKind c = LinearK then Some (header, Some (MarkdownBody body))
      else (case reply_blocks c of
              Some blocks \<Rightarrow> map_option (\<lambda>bs. (header, Some (BlocksBody bs))) (renderSlackBlocks blocks)
            | None \<Rightarrow> Some (header, Some (SlackBody (renderSlackBody body)))))"

section \<open>Facts\<close>

lemma next_token_Some:
  "next_token s = Some (u, t, r) \<Longrightarrow>
     s = u @ CHR ''<'' # t @ CHR ''>'' # r \<and> t \<noteq> [] \<and> CHR ''>'' \<notin> set t \<and> next_token u = None"
proof (induction s arbitrary: u)
  case (Cons c cs)
  let ?t = "takeWhile (\<lambda>x. x \<noteq> CHR ''>'')" and ?d = "dropWhile (\<lambda>x. x \<noteq> CHR ''>'')"
  show ?case
  proof (cases "c = CHR ''<'' \<and> ?t cs \<noteq> [] \<and> ?d cs \<noteq> []")
    case True
    then have "cs = ?t cs @ CHR ''>'' # tl (?d cs)"
      using hd_dropWhile [of "\<lambda>x. x \<noteq> CHR ''>''" cs] by (metis list.collapse takeWhile_dropWhile_id)
    with True Cons.prems show ?thesis by (auto simp: Let_def dest: set_takeWhileD)
  next
    case False
    with Cons.prems obtain u' where u': "next_token cs = Some (u', t, r)" and u: "u = c # u'"
      by (auto simp: Let_def split: if_splits)
    note ih = Cons.IH [OF u']
    then have "?d cs \<noteq> []" by (auto simp: dropWhile_eq_Nil_conv)
    with False have "c = CHR ''<'' \<longrightarrow> ?t cs = []" by auto
    moreover have "?t cs = [] \<longrightarrow> ?t u' = []" using ih by (cases u') auto
    ultimately show ?thesis using ih u by (auto simp: Let_def)
  qed
qed simp

text \<open>The pieces of a text: plain ones and tokens.\<close>

datatype slack_segment = Plain string | Token string

fun seg_source :: "slack_segment \<Rightarrow> string" where
  "seg_source (Plain p) = p"
| "seg_source (Token t) = CHR ''<'' # t @ ''>''"

fun seg_node :: "slack_segment \<Rightarrow> SlackNode" where
  "seg_node (Plain p) = PlainText p"
| "seg_node (Token t) = token_node t"

fun seg_ok :: "slack_segment \<Rightarrow> bool" where
  "seg_ok (Plain p) = (p \<noteq> [] \<and> next_token p = None)"
| "seg_ok (Token t) = (t \<noteq> [] \<and> CHR ''>'' \<notin> set t)"

definition is_token :: "slack_segment \<Rightarrow> bool" where
  "is_token g = (\<exists>t. g = Token t)"

definition cuts :: "string \<Rightarrow> slack_segment list \<Rightarrow> bool" where
  "cuts text segs \<longleftrightarrow>
     concat (map seg_source segs) = text \<and> list_all seg_ok segs \<and> successively (\<lambda>a b. is_token a \<or> is_token b) segs"

lemma cuts_next:
  assumes "next_token msg = Some (u, t, r)" "cuts r segs"
  shows "cuts msg ((if u \<noteq> [] then [Plain u] else []) @ Token t # segs)"
  using next_token_Some [OF assms(1)] assms(2)
  by (auto simp: cuts_def is_token_def successively_Cons)

lemma render_cuts: "\<exists>segs. cuts msg segs \<and> renderSlackBody msg = map seg_node segs"
proof (induction msg rule: renderSlackBody.induct)
  case (1 msg)
  show ?case
  proof (cases "next_token msg")
    case None
    then have "cuts msg (if msg \<noteq> [] then [Plain msg] else [])" by (simp add: cuts_def)
    moreover have "renderSlackBody msg = map seg_node (if msg \<noteq> [] then [Plain msg] else [])"
      using None by (subst renderSlackBody.simps) simp
    ultimately show ?thesis by blast
  next
    case (Some m)
    obtain u t r where m: "m = (u, t, r)" by (cases m)
    with 1 Some obtain segs where "cuts r segs" "renderSlackBody r = map seg_node segs" by blast
    then have "cuts msg ((if u \<noteq> [] then [Plain u] else []) @ Token t # segs)"
      "renderSlackBody msg = map seg_node ((if u \<noteq> [] then [Plain u] else []) @ Token t # segs)"
      using Some m cuts_next by (auto simp: renderSlackBody.simps [of msg])
    then show ?thesis by blast
  qed
qed

lemma all_or_none_None [simp]: "all_or_none xs = None \<longleftrightarrow> None \<in> set xs"
  by (induction xs rule: all_or_none.induct) auto

lemma action_label_None: "action_label e = None \<longleftrightarrow> is_nullish e"
  by (auto simp: action_label_def read_prop_def isSlackTextObject_def split: bind_splits)

lemma block_view_None:
  "block_view b = None \<longleftrightarrow>
     get_prop b ''type'' = JStr ''actions'' \<and> list_ex is_nullish (nullish (array_items (get_prop b ''elements'')) [])"
  by (cases "array_items (get_prop b ''elements'')")
     (auto simp: block_view_def Let_def action_label_None image_iff list_ex_iff eq_commute [of None])

section \<open>Properties\<close>

text \<open>
  The text of a Slack reply is shown completely: it is cut into pieces that, put together, are the
  text, each token of the form \<open><...>\<close> becomes one mention or link and each stretch between tokens one
  plain node, in order; a plain stretch is not empty, holds no further token, and no two of them are
  neighbours.
\<close>

theorem slack_body_segments:
  "\<exists>segs. concat (map seg_source segs) = body \<and> renderSlackBody body = map seg_node segs
     \<and> list_all seg_ok segs \<and> successively (\<lambda>a b. is_token a \<or> is_token b) segs"
  using render_cuts [of body] by (auto simp: cuts_def)

text \<open>
  When a reply card throws: exactly for a Slack reply with a message whose blocks hold an actions
  block with a null among its elements. Every other reply is shown, whatever the type of its blocks
  and options.
\<close>

theorem reply_card_throws:
  "ReplyCard c = None \<longleftrightarrow>
     reply_text c \<noteq> [] \<and> tc_toolKind c \<noteq> LinearK
     \<and> list_ex (\<lambda>b. get_prop b ''type'' = JStr ''actions''
                    \<and> list_ex is_nullish (nullish (array_items (get_prop b ''elements'')) []))
         (nullish (reply_blocks c) [])"
  by (cases "reply_blocks c")
     (auto simp: ReplyCard_def Let_def renderSlackBlocks_def list_ex_iff image_iff eq_commute [of None] block_view_None)

text \<open>An empty list of blocks passes the check of the blocks and hides the message.\<close>

lemma empty_blocks_hide_message:
  "tc_toolKind c = SlackK \<Longrightarrow> tc_status c = CompletedS \<Longrightarrow>
   tc_input c = Some (JObj [(''message'', JStr ''Done''), (''blocks'', JArr [])]) \<Longrightarrow>
   ReplyCard c = Some (''Replied in Slack'', Some (BlocksBody []))"
  by (simp add: ReplyCard_def reply_text_def reply_blocks_def tool_arg_def or_str_def headerLabel_def
        isSlackBlockArray_def renderSlackBlocks_def)

text \<open>A null among the buttons of a reply makes the card throw.\<close>

lemma null_button_throws:
  "tc_toolKind c = SlackK \<Longrightarrow>
   tc_input c = Some (JObj [(''message'', JStr ''Choose''),
     (''blocks'', JArr [JObj [(''type'', JStr ''actions''), (''elements'', JArr [JNull])]])]) \<Longrightarrow>
   ReplyCard c = None"
  by (simp add: ReplyCard_def reply_text_def reply_blocks_def tool_arg_def or_str_def isSlackBlockArray_def
        renderSlackBlocks_def block_view_None is_nullish_def eq_commute [of None])

end
