(* ===== verification/Live_Cards.thy ===== *)
theory Live_Cards
  imports Complex_Main Reply_Card Theme_State
begin

text \<open>
  The parts of a transcript that run on timers and promises: \<open>components/agents/messages/ThinkingSpinner.tsx\<close>
  and \<open>ReasoningBlock.tsx\<close>, \<open>components/agents/ported/CodeBlock.tsx\<close> with its cache of tokens, and the
  warm-up of \<open>components/agents/utils/diffUtils.ts\<close>. The clock, \<open>Math.random\<close> and the highlighter are
  arguments of the events.
\<close>

section \<open>Elapsed time\<close>

definition formatElapsed :: "int \<Rightarrow> string" where
  "formatElapsed ms =
     (let secs = max 1 (- ((- ms) div 1000)) in
      if secs < 60 then int_str secs @ ''s''
      else int_str (secs div 60) @ ''m '' @ int_str (secs mod 60) @ ''s'')"

section \<open>Spinner\<close>

definition BUSY_TEXTS :: "(string \<times> string) list" where
  "BUSY_TEXTS =
     [(''Esperando al daemon de Gradle...'', (''Gradle respondi'' @ [CHR 0xF3])),
      (''Descargando dependencias de Gradle...'', ''Dependencias descargadas''),
      (''Resolviendo dependencias...'', ''Dependencias resueltas''),
      ((''Invalidando cach'' @ [CHR 0xE9] @ ''s y reiniciando...''), (''Cach'' @ [CHR 0xE9] @ ''s invalidadas'')),
      (''Levantando el emulador...'', ''Emulador listo''),
      (''Esperando al emulador...'', ''Emulador iniciado''),
      (''Acariciando a Bugdroid...'', ''Bugdroid motivado''),
      (''Esquivando un NullPointerException...'', ''NPE esquivado''),
      (''Subiendo el targetSdkVersion...'', ''targetSdk actualizado''),
      ((''Consultando el or'' @ [CHR 0xE1] @ ''culo de Stack Overflow...''), (''Or'' @ [CHR 0xE1] @ ''culo consultado'')),
      (''Aplastando bugs...'', ''Bugs aplastados''),
      (''Domando reglas de ProGuard...'', ''ProGuard domesticado''),
      (''Peleando con R8...'', (''R8 cooper'' @ [CHR 0xF3])),
      ((''Alineando p'' @ [CHR 0xED] @ ''xeles a la grilla de 8dp...''), (''P'' @ [CHR 0xED] @ ''xeles alineados'')),
      (''Corriendo ./gradlew clean otra vez...'', ''Gradle limpiado''),
      (''Convenciendo al build de pasar...'', ''Build aprobado''),
      (''Mirando logcat con cara seria...'', ''Logcat revisado''),
      (''Buscando el bug entre muchos logs...'', ''Bug acorralado''),
      (''Sincronizando Gradle otra vez...'', ''Gradle sincronizado''),
      (''Esperando a Android Studio...'', (''Android Studio respondi'' @ [CHR 0xF3])),
      (''Recomponiendo Compose sin romper nada...'', ''Compose recompuesto''),
      ((''Calmando una recomposici'' @ [CHR 0xF3] @ ''n infinita...''), (''Recomposici'' @ [CHR 0xF3] @ ''n calmada'')),
      (''Persuadiendo al ViewModel...'', (''ViewModel colabor'' @ [CHR 0xF3])),
      (''Observando StateFlow...'', (''StateFlow emiti'' @ [CHR 0xF3])),
      (''Inyectando dependencias...'', ''Dependencias inyectadas''),
      ((''Buscando qui'' @ [CHR 0xE9] @ ''n rompi'' @ [CHR 0xF3] @ '' Hilt...''), ''Hilt estabilizado''),
      (''Negociando con Koin...'', (''Koin cedi'' @ [CHR 0xF3])),
      (''Validando el Manifest...'', ''Manifest validado''),
      (''Revisando permisos peligrosos...'', ''Permisos revisados''),
      (''Ordenando recursos en res/...'', ''Recursos ordenados''),
      (''Peleando con AAPT...'', (''AAPT pas'' @ [CHR 0xF3])),
      (''Buscando el color perdido en themes.xml...'', ''Tema ajustado''),
      (''Acomodando constraints rebeldes...'', ''Constraints alineadas''),
      (''Migrando Room con cuidado...'', ''Room migrado''),
      (''Protegiendo la base local...'', ''Base local intacta''),
      (''Ejecutando pruebas unitarias...'', ''Pruebas ejecutadas''),
      (''Mirando si Espresso se despierta...'', (''Espresso despert'' @ [CHR 0xF3])),
      (''Preparando un APK decente...'', ''APK preparado''),
      (''Firmando como si fuera release...'', ''Firma lista''),
      (''Evitando invocar un ANR...'', ''ANR evitado''),
      (''Haciendo que el main thread respire...'', (''Main thread respir'' @ [CHR 0xF3])),
      (''Bajando memoria antes del OOM...'', ''OOM evitado''),
      (''Limpiando imports olvidados...'', ''Imports limpios''),
      (''Buscando TODOs sospechosos...'', ''TODOs detectados''),
      ((''Revisando si el bot'' @ [CHR 0xF3] @ ''n hace algo...''), (''Bot'' @ [CHR 0xF3] @ ''n obedeci'' @ [CHR 0xF3])),
      (''Probando el happy path...'', ''Happy path validado''),
      ((''Buscando el edge case inc'' @ [CHR 0xF3] @ ''modo...''), ''Edge case encontrado'')]"

record spin_state =
  textIdx :: nat
  spin_done :: "(string \<times> string) option"
  settledActive :: bool
  startTime :: int
  sessionActive :: bool
  spin_sandbox :: bool
  spin_active :: bool
  settleTimer :: bool

text \<open>The text index that a random number between 0 and 1 gives.\<close>

definition random_idx :: "rat \<Rightarrow> nat" where
  "random_idx r = nat \<lfloor>r * rat_of_nat (length BUSY_TEXTS)\<rfloor>"

text \<open>The effect on \<open>settledActive\<close>.\<close>

definition settled_effect :: "int \<Rightarrow> rat \<Rightarrow> spin_state \<Rightarrow> spin_state" where
  "settled_effect now r s =
     (if settledActive s then
        (if \<not> sessionActive s
         then s\<lparr>sessionActive := True, startTime := now, textIdx := random_idx r, spin_done := None\<rparr> else s)
      else if \<not> sessionActive s then s
      else s\<lparr>sessionActive := False,
             spin_done :=
               Some (if spin_sandbox s then ''Sandbox preparado''
                     else if textIdx s < length BUSY_TEXTS then snd (BUSY_TEXTS ! textIdx s) else ''Listo'',
                     formatElapsed (now - startTime s))\<rparr>)"

text \<open>The effect on \<open>isActive\<close>, after the cleanup of its last run: activity settles at once, its end after a timer.\<close>

definition active_effect :: "bool \<Rightarrow> spin_state \<Rightarrow> spin_state" where
  "active_effect isActive s =
     (if isActive then s\<lparr>settledActive := True, settleTimer := False\<rparr> else s\<lparr>settleTimer := True\<rparr>)"

definition mount_spin :: "bool \<Rightarrow> bool \<Rightarrow> int \<Rightarrow> rat \<Rightarrow> spin_state" where
  "mount_spin isActive sandbox now r =
     settled_effect now r
       (active_effect isActive
         \<lparr>textIdx = 0, spin_done = None, settledActive = isActive, startTime = 0, sessionActive = False,
          spin_sandbox = sandbox, spin_active = isActive, settleTimer = False\<rparr>)"

text \<open>An effect runs again only where its dependency has changed.\<close>

definition if_settled_changed :: "int \<Rightarrow> rat \<Rightarrow> spin_state \<Rightarrow> spin_state \<Rightarrow> spin_state" where
  "if_settled_changed now r old s = (if settledActive s \<noteq> settledActive old then settled_effect now r s else s)"

definition spin_props :: "bool \<Rightarrow> bool \<Rightarrow> int \<Rightarrow> rat \<Rightarrow> spin_state \<Rightarrow> spin_state" where
  "spin_props isActive sandbox now r s =
     (let s' = s\<lparr>spin_sandbox := sandbox\<rparr> in
      if isActive = spin_active s then s'
      else if_settled_changed now r s' (active_effect isActive (s'\<lparr>spin_active := isActive\<rparr>)))"

definition spin_timer :: "int \<Rightarrow> rat \<Rightarrow> spin_state \<Rightarrow> spin_state" where
  "spin_timer now r s =
     (if settleTimer s
      then if_settled_changed now r s (s\<lparr>settleTimer := False, settledActive := False\<rparr>) else s)"

definition spin_rotate :: "spin_state \<Rightarrow> spin_state" where
  "spin_rotate s =
     (if \<not> settledActive s \<or> spin_sandbox s then s
      else s\<lparr>textIdx := (textIdx s + 1) mod length BUSY_TEXTS\<rparr>)"

datatype spin_event = SpinProps bool bool int rat | SettleTimer int rat | RotateText

fun spin_step :: "spin_event \<Rightarrow> spin_state \<Rightarrow> spin_state" where
  "spin_step (SpinProps a b now r) s = spin_props a b now r s"
| "spin_step (SettleTimer now r) s = spin_timer now r s"
| "spin_step RotateText s = spin_rotate s"

datatype SpinView = NoSpinner | SpinnerDone string string | SpinnerBusy string

definition ThinkingSpinner :: "spin_state \<Rightarrow> SpinView" where
  "ThinkingSpinner s =
     (let showActive = (spin_active s \<or> settledActive s) in
      case spin_done s of
        None \<Rightarrow> if \<not> showActive then NoSpinner
                else SpinnerBusy (if spin_sandbox s then ''Preparando sandbox Android...''
                                  else if textIdx s < length BUSY_TEXTS then fst (BUSY_TEXTS ! textIdx s) else [])
      | Some (past, elapsed) \<Rightarrow>
          if \<not> showActive then SpinnerDone past elapsed
          else SpinnerBusy (if spin_sandbox s then ''Preparando sandbox Android...''
                            else if textIdx s < length BUSY_TEXTS then fst (BUSY_TEXTS ! textIdx s) else []))"

section \<open>Reasoning\<close>

record reason_state =
  userExpanded :: bool
  elapsedMs :: "int option"
  startedAt :: "int option"
  wasLive :: bool

definition init_reason :: reason_state where
  "init_reason = \<lparr>userExpanded = False, elapsedMs = None, startedAt = None, wasLive = False\<rparr>"

text \<open>The effect on \<open>isLive\<close>.\<close>

definition reason_effect :: "bool \<Rightarrow> int \<Rightarrow> reason_state \<Rightarrow> reason_state" where
  "reason_effect isLive now s =
     (if isLive then s\<lparr>startedAt := Some (nullish (startedAt s) now), wasLive := True\<rparr>
      else if wasLive s \<and> startedAt s \<noteq> None
      then s\<lparr>elapsedMs := Some (now - the (startedAt s)), wasLive := False\<rparr> else s)"

definition reasoningLabel :: "int option \<Rightarrow> string" where
  "reasoningLabel e =
     (case e of
        None \<Rightarrow> ''Thought''
      | Some ms \<Rightarrow> if ms < 1000 then ''Thought briefly'' else ''Thought for '' @ formatElapsed ms)"

definition toggle_reason :: "bool \<Rightarrow> reason_state \<Rightarrow> reason_state" where
  "toggle_reason isLive s = (if \<not> isLive then s\<lparr>userExpanded := \<not> userExpanded s\<rparr> else s)"

text \<open>The heading and, where expanded, the text.\<close>

definition ReasoningBlock :: "string \<Rightarrow> bool \<Rightarrow> reason_state \<Rightarrow> (string \<times> string option) option" where
  "ReasoningBlock body isLive s =
     (let trimmed = trim body; expanded = (isLive \<or> userExpanded s) in
      if trimmed = [] \<and> \<not> isLive then None
      else Some (if isLive then ''Thinking...'' else reasoningLabel (elapsedMs s),
                 if expanded \<and> trimmed \<noteq> [] then Some trimmed else None))"

section \<open>Code blocks\<close>

definition language_aliases :: "(string, string) js_map" where
  "language_aliases =
     [(''ts'', ''typescript''), (''tsx'', ''tsx''), (''js'', ''javascript''), (''jsx'', ''jsx''), (''md'', ''markdown''),
      (''yml'', ''yaml''), (''sh'', ''bash''), (''zsh'', ''bash''), (''shell'', ''bash''), (''py'', ''python''),
      (''rb'', ''ruby''), (''rs'', ''rust''), (''csharp'', ''csharp''), (''c#'', ''csharp''), (''plaintext'', ''text''),
      (''txt'', ''text'')]"

definition normalizeLanguage :: "string option \<Rightarrow> string" where
  "normalizeLanguage language =
     (let raw = trim (toLowerCase (nullish language [])) in
      if raw = [] then ''text'' else or_str (map_get language_aliases raw) raw)"

definition languageLabel :: "string \<Rightarrow> string" where
  "languageLabel language =
     (if language = ''text'' then ''text'' else if language = ''typescript'' then ''ts''
      else if language = ''javascript'' then ''js'' else language)"

fun SHIKI_THEME :: "ResolvedTheme \<Rightarrow> string" where
  "SHIKI_THEME RLight = ''github-light''"
| "SHIKI_THEME RDark = ''github-dark''"

text \<open>What the effect of a block depends on: theme, language and text.\<close>

record code_props =
  cp_theme :: ResolvedTheme
  cp_lang :: string
  cp_text :: string

definition cacheKey :: "code_props \<Rightarrow> string" where
  "cacheKey p = SHIKI_THEME (cp_theme p) @ ''::'' @ cp_lang p @ ''::'' @ cp_text p"

text \<open>
  A block: the properties of its last rendering, those of its last effect (none before the first), its
  tokens, and the requests of its effects that are not answered, each with whether it is cancelled. An
  effect runs after the rendering, so the first two differ for a while after a change.
\<close>

record 'a code_block =
  cb_mounted :: bool
  cb_props :: code_props
  cb_done :: "code_props option"
  cb_tokens :: "'a option"
  cb_requests :: "(code_props \<times> bool) list"

record 'a code_world =
  TOKEN_CACHE :: "(string, 'a) js_map"
  code_blocks :: "'a code_block list"

definition cancel_requests :: "'a code_block \<Rightarrow> 'a code_block" where
  "cancel_requests b = b\<lparr>cb_requests := map (\<lambda>(p, _). (p, True)) (cb_requests b)\<rparr>"

definition code_effect :: "(string, 'a) js_map \<Rightarrow> 'a code_block \<Rightarrow> 'a code_block" where
  "code_effect cache b =
     (let b0 = b\<lparr>cb_tokens := None\<rparr> in
      if cp_lang (cb_props b) = ''text'' then b0
      else (case map_get cache (cacheKey (cb_props b)) of
              Some tokens \<Rightarrow> b0\<lparr>cb_tokens := Some tokens\<rparr>
            | None \<Rightarrow> b0\<lparr>cb_requests := cb_requests b @ [(cb_props b, False)]\<rparr>))"

definition remember :: "string \<Rightarrow> 'a \<Rightarrow> (string, 'a) js_map \<Rightarrow> (string, 'a) js_map" where
  "remember k tokens cache = map_set k tokens (if length cache \<ge> 500 then [] else cache)"

text \<open>
  The answer to request \<open>j\<close> of a block: \<open>highlight\<close> gives the tokens, or \<open>None\<close> where the highlighter
  rejects. A cancelled request changes nothing.
\<close>

definition code_answer ::
  "(code_props \<Rightarrow> 'a option) \<Rightarrow> nat \<Rightarrow> (string, 'a) js_map \<Rightarrow> 'a code_block \<Rightarrow> (string, 'a) js_map \<times> 'a code_block" where
  "code_answer highlight j cache b =
     (if j \<ge> length (cb_requests b) then (cache, b)
      else (let (p, cancelled) = cb_requests b ! j;
                b' = b\<lparr>cb_requests := take j (cb_requests b) @ drop (Suc j) (cb_requests b)\<rparr>
            in if cancelled then (cache, b')
               else (case highlight p of
                       Some tokens \<Rightarrow> (remember (cacheKey p) tokens cache, b'\<lparr>cb_tokens := Some tokens\<rparr>)
                     | None \<Rightarrow> (cache, b'\<lparr>cb_tokens := None\<rparr>))))"

text \<open>
  The events: a rendering only sets the properties and leaves the tokens; the effect, which runs later,
  first cancels the requests of the one before, and does nothing where theme, language and text are
  those it ran for last; unmounting cancels the requests.
\<close>

datatype code_event =
  MountCode code_props | ChangeCode nat code_props | EffectCode nat | UnmountCode nat | CodeAnswer nat nat

definition on_block :: "nat \<Rightarrow> ('a code_block \<Rightarrow> 'a code_block) \<Rightarrow> 'a code_world \<Rightarrow> 'a code_world" where
  "on_block i f w =
     (if i < length (code_blocks w) \<and> cb_mounted (code_blocks w ! i)
      then w\<lparr>code_blocks := (code_blocks w)[i := f (code_blocks w ! i)]\<rparr> else w)"

definition run_effect :: "(string, 'a) js_map \<Rightarrow> 'a code_block \<Rightarrow> 'a code_block" where
  "run_effect cache b =
     (if cb_done b = Some (cb_props b) then b
      else code_effect cache (cancel_requests b\<lparr>cb_done := Some (cb_props b)\<rparr>))"

fun code_step :: "(code_props \<Rightarrow> 'a option) \<Rightarrow> code_event \<Rightarrow> 'a code_world \<Rightarrow> 'a code_world" where
  "code_step highlight (MountCode p) w =
     w\<lparr>code_blocks := code_blocks w
         @ [\<lparr>cb_mounted = True, cb_props = p, cb_done = None, cb_tokens = None, cb_requests = []\<rparr>]\<rparr>"
| "code_step highlight (ChangeCode i p) w = on_block i (\<lambda>b. b\<lparr>cb_props := p\<rparr>) w"
| "code_step highlight (EffectCode i) w = on_block i (run_effect (TOKEN_CACHE w)) w"
| "code_step highlight (UnmountCode i) w = on_block i (\<lambda>b. cancel_requests b\<lparr>cb_mounted := False\<rparr>) w"
| "code_step highlight (CodeAnswer i j) w =
     (if i \<ge> length (code_blocks w) then w
      else (case code_answer highlight j (TOKEN_CACHE w) (code_blocks w ! i) of
              (cache, b) \<Rightarrow> w\<lparr>TOKEN_CACHE := cache, code_blocks := (code_blocks w)[i := b]\<rparr>))"

text \<open>The copy button: the text is written to the clipboard, which may refuse; the label falls back after a timer.\<close>

datatype copy_event = CopyWritten | CopyRefused | CopyTimer

fun copy_step :: "copy_event \<Rightarrow> bool \<Rightarrow> bool" where
  "copy_step CopyWritten copied = True"
| "copy_step CopyRefused copied = False"
| "copy_step CopyTimer copied = False"

definition copy_label :: "bool \<Rightarrow> string" where
  "copy_label copied = (if copied then ''Copied'' else ''Copy'')"

section \<open>Warm-up of the diff highlighter\<close>

datatype warmup = WarmNone | WarmPending | WarmDone

text \<open>\<open>warmDiffHighlighter\<close>: the new state of the module and whether the preload is started.\<close>

definition warmDiffHighlighter :: "warmup \<Rightarrow> warmup \<times> bool" where
  "warmDiffHighlighter w = (if w = WarmNone then (WarmPending, True) else (w, False))"

definition warm_settled :: "bool \<Rightarrow> warmup" where
  "warm_settled succeeded = (if succeeded then WarmDone else WarmNone)"

text \<open>The card waits for the warm-up to end either way; \<open>active\<close> is false once it is unmounted.\<close>

definition warm_finally :: "bool \<Rightarrow> card_state \<Rightarrow> card_state" where
  "warm_finally active s = (if active then s\<lparr>diffReady := True\<rparr> else s)"

section \<open>Facts\<close>

subsection \<open>Spinner\<close>

lemma busy_length: "length BUSY_TEXTS = 47"
  by (simp add: BUSY_TEXTS_def)

lemma random_idx_less: "0 \<le> r \<Longrightarrow> r < 1 \<Longrightarrow> random_idx r < length BUSY_TEXTS"
proof -
  assume "0 \<le> r" "r < 1"
  then have "\<lfloor>r * rat_of_nat (length BUSY_TEXTS)\<rfloor> < 47"
    by (simp add: busy_length floor_less_iff)
  then show ?thesis unfolding random_idx_def by (simp only: busy_length)
qed

fun random_of :: "spin_event \<Rightarrow> rat" where
  "random_of (SpinProps _ _ _ r) = r"
| "random_of (SettleTimer _ r) = r"
| "random_of RotateText = 0"

definition spin_ok :: "spin_state \<Rightarrow> bool" where
  "spin_ok s \<longleftrightarrow>
     textIdx s < length BUSY_TEXTS \<and> sessionActive s = settledActive s
     \<and> (spin_active s \<longrightarrow> settledActive s \<and> \<not> settleTimer s) \<and> (settledActive s \<and> \<not> spin_active s \<longrightarrow> settleTimer s)
     \<and> (settledActive s \<longrightarrow> spin_done s = None)"

lemmas spin_defs = settled_effect_def active_effect_def if_settled_changed_def spin_props_def spin_timer_def
  spin_rotate_def Let_def

lemma spin_ok_mount: "0 \<le> r \<Longrightarrow> r < 1 \<Longrightarrow> spin_ok (mount_spin a b now r)"
  using random_idx_less [of r] by (auto simp: spin_ok_def mount_spin_def spin_defs busy_length)

lemma spin_ok_step: "spin_ok s \<Longrightarrow> 0 \<le> random_of e \<Longrightarrow> random_of e < 1 \<Longrightarrow> spin_ok (spin_step e s)"
  using random_idx_less [of "random_of e"] by (cases e) (auto simp: spin_ok_def spin_defs busy_length)

lemma spin_ok_run:
  "spin_ok s \<Longrightarrow> list_all (\<lambda>e. 0 \<le> random_of e \<and> random_of e < 1) es \<Longrightarrow> spin_ok (fold spin_step es s)"
  by (induction es arbitrary: s) (auto intro: spin_ok_step)

subsection \<open>Code blocks\<close>

lemma theme_no_colon: "CHR '':'' \<notin> set (SHIKI_THEME t)"
  by (cases t) simp_all

lemma SHIKI_THEME_inj: "SHIKI_THEME s = SHIKI_THEME t \<Longrightarrow> s = t"
  by (cases s; cases t) simp_all

lemma append_sep_inject:
  "c \<notin> set a \<Longrightarrow> c \<notin> set b \<Longrightarrow> a @ c # u = b @ c # v \<Longrightarrow> a = b \<and> u = v"
  by (induction a arbitrary: b) (auto simp: Cons_eq_append_conv)

definition lang_ok :: "code_props \<Rightarrow> bool" where
  "lang_ok p = (CHR '':'' \<notin> set (cp_lang p))"

lemma cacheKey_inj:
  assumes "lang_ok p" "lang_ok q" "cacheKey p = cacheKey q"
  shows "p = q"
proof -
  let ?rest = "\<lambda>p. CHR '':'' # cp_lang p @ ''::'' @ cp_text p"
  have th: "SHIKI_THEME (cp_theme p) = SHIKI_THEME (cp_theme q) \<and> ?rest p = ?rest q"
    using assms(3) by (intro append_sep_inject [OF theme_no_colon theme_no_colon]) (simp add: cacheKey_def)
  then have "cp_lang p @ CHR '':'' # CHR '':'' # cp_text p = cp_lang q @ CHR '':'' # CHR '':'' # cp_text q" by simp
  with assms(1,2) have "cp_lang p = cp_lang q \<and> CHR '':'' # cp_text p = CHR '':'' # cp_text q"
    unfolding lang_ok_def by (rule append_sep_inject)
  with th show ?thesis using SHIKI_THEME_inj by (auto intro: code_props.equality)
qed

text \<open>What is cached under a key are the tokens of the code with that key.\<close>

definition cache_ok :: "(code_props \<Rightarrow> 'a option) \<Rightarrow> (string, 'a) js_map \<Rightarrow> bool" where
  "cache_ok highlight cache \<longleftrightarrow>
     length cache \<le> 500 \<and> (\<forall>k t. map_get cache k = Some t \<longrightarrow> (\<exists>p. lang_ok p \<and> k = cacheKey p \<and> highlight p = Some t))"

text \<open>
  The tokens of a block are those of the code its last effect ran for, and so are the requests that are
  not cancelled.
\<close>

definition block_ok :: "(code_props \<Rightarrow> 'a option) \<Rightarrow> 'a code_block \<Rightarrow> bool" where
  "block_ok highlight b \<longleftrightarrow>
     lang_ok (cb_props b)
     \<and> (case cb_done b of
          None \<Rightarrow> cb_tokens b = None \<and> cb_requests b = []
        | Some d \<Rightarrow> lang_ok d \<and> (\<forall>t. cb_tokens b = Some t \<longrightarrow> highlight d = Some t)
            \<and> (\<forall>p. (p, False) \<in> set (cb_requests b) \<longrightarrow> p = d))"

definition world_ok :: "(code_props \<Rightarrow> 'a option) \<Rightarrow> 'a code_world \<Rightarrow> bool" where
  "world_ok highlight w \<longleftrightarrow> cache_ok highlight (TOKEN_CACHE w) \<and> list_all (block_ok highlight) (code_blocks w)"

lemma length_map_set: "length (map_set k v m) \<le> Suc (length m)"
  by (induction m) auto

lemma cache_ok_remember:
  "cache_ok highlight cache \<Longrightarrow> lang_ok p \<Longrightarrow> highlight p = Some t \<Longrightarrow> cache_ok highlight (remember (cacheKey p) t cache)"
  using length_map_set [of "cacheKey p" t cache] by (auto simp: cache_ok_def remember_def)

lemma cancelled_none: "(p, False) \<notin> set (cb_requests (cancel_requests b))"
  by (auto simp: cancel_requests_def)

lemma cancel_fields [simp]:
  "cb_props (cancel_requests b) = cb_props b" "cb_done (cancel_requests b) = cb_done b"
  "cb_tokens (cancel_requests b) = cb_tokens b" "cb_requests (cancel_requests b) = [] \<longleftrightarrow> cb_requests b = []"
  by (simp_all add: cancel_requests_def)

lemma block_ok_effect:
  assumes "cache_ok highlight cache" "block_ok highlight b"
  shows "block_ok highlight (run_effect cache b)"
proof (cases "map_get cache (cacheKey (cb_props b))")
  case (Some t)
  with assms(1) obtain p where "lang_ok p" "cacheKey (cb_props b) = cacheKey p" "highlight p = Some t"
    by (auto simp: cache_ok_def)
  moreover have "lang_ok (cb_props b)" using assms(2) by (simp add: block_ok_def)
  ultimately have "highlight (cb_props b) = Some t" using cacheKey_inj by blast
  with Some assms(2) show ?thesis
    by (auto simp: block_ok_def run_effect_def code_effect_def cancelled_none Let_def)
qed (use assms(2) in \<open>auto simp: block_ok_def run_effect_def code_effect_def cancelled_none Let_def\<close>)

lemma answer_ok:
  assumes "cache_ok highlight cache" "block_ok highlight b" "code_answer highlight j cache b = (cache', b')"
  shows "cache_ok highlight cache' \<and> block_ok highlight b'"
proof (cases "j < length (cb_requests b)")
  case True
  obtain p c where pc: "cb_requests b ! j = (p, c)" by (cases "cb_requests b ! j")
  then have "(p, c) \<in> set (cb_requests b)" using True nth_mem by fastforce
  moreover obtain d where d: "cb_done b = Some d" "lang_ok d"
    using assms(2) True by (auto simp: block_ok_def split: option.splits)
  moreover have "q = d" if "(q, False) \<in> set (take j (cb_requests b) @ drop (Suc j) (cb_requests b))" for q
    using assms(2) that d by (auto simp: block_ok_def dest!: in_set_takeD in_set_dropD)
  ultimately show ?thesis
    using assms True pc cache_ok_remember [of highlight cache p]
    by (auto simp: code_answer_def block_ok_def Let_def split: if_splits option.splits)
qed (use assms in \<open>auto simp: code_answer_def\<close>)

fun props_of :: "code_event \<Rightarrow> code_props list" where
  "props_of (MountCode p) = [p]"
| "props_of (ChangeCode _ p) = [p]"
| "props_of _ = []"

lemma world_ok_update:
  "list_all (block_ok highlight) bs \<Longrightarrow> block_ok highlight b \<Longrightarrow> list_all (block_ok highlight) (bs[i := b])"
  using set_update_subset_insert [of bs i b] by (auto simp: list_all_iff)

lemma world_ok_on_block:
  assumes "world_ok highlight w" "\<And>b. block_ok highlight b \<Longrightarrow> block_ok highlight (f b)"
  shows "world_ok highlight (on_block i f w)"
proof -
  have "block_ok highlight (code_blocks w ! i)" if "i < length (code_blocks w)"
    using assms(1) that by (simp add: world_ok_def list_all_length)
  with assms show ?thesis by (auto simp: on_block_def world_ok_def intro!: world_ok_update)
qed

lemma world_ok_step:
  assumes "world_ok highlight w" "list_all lang_ok (props_of e)"
  shows "world_ok highlight (code_step highlight e w)"
proof -
  have c: "cache_ok highlight (TOKEN_CACHE w)" and bs: "list_all (block_ok highlight) (code_blocks w)"
    using assms(1) by (auto simp: world_ok_def)
  have b: "block_ok highlight (code_blocks w ! i)" if "i < length (code_blocks w)" for i
    using bs that by (simp add: list_all_length)
  show ?thesis
  proof (cases e)
    case (MountCode p)
    then show ?thesis using c bs assms(2) by (simp add: world_ok_def block_ok_def)
  next
    case (ChangeCode i p)
    then show ?thesis using assms by (auto intro!: world_ok_on_block simp: block_ok_def split: option.splits)
  next
    case (EffectCode i)
    then show ?thesis using assms(1) block_ok_effect [OF c] by (auto intro!: world_ok_on_block)
  next
    case (UnmountCode i)
    then show ?thesis
      using assms(1) by (auto intro!: world_ok_on_block simp: block_ok_def cancelled_none split: option.splits)
  next
    case (CodeAnswer i j)
    obtain cache' b' where a: "code_answer highlight j (TOKEN_CACHE w) (code_blocks w ! i) = (cache', b')"
      by (cases "code_answer highlight j (TOKEN_CACHE w) (code_blocks w ! i)")
    show ?thesis
      using CodeAnswer a c bs answer_ok [OF c b a]
      by (auto simp: world_ok_def intro!: world_ok_update)
  qed
qed

lemma world_ok_run:
  "world_ok highlight w \<Longrightarrow> list_all (\<lambda>e. list_all lang_ok (props_of e)) es \<Longrightarrow>
   world_ok highlight (fold (code_step highlight) es w)"
  by (induction es arbitrary: w) (auto intro: world_ok_step)

section \<open>Properties\<close>

text \<open>
  The spinner settles: after any changes of its properties, timers and rotations, a busy text is
  shown exactly while the run is active or the timer of its end is set; when that timer fires, the
  summary with the time since the start is shown; and a pause shorter than the timer changes neither
  the start nor the text and shows no summary.
\<close>

theorem spinner_settles:
  "list_all (\<lambda>e. 0 \<le> random_of e \<and> random_of e < 1) es \<Longrightarrow> 0 \<le> r \<Longrightarrow> r < 1 \<Longrightarrow>
   (let s = fold spin_step es (mount_spin a b now r) in
    ((\<exists>t. ThinkingSpinner s = SpinnerBusy t) \<longleftrightarrow> spin_active s \<or> settledActive s \<and> settleTimer s)
    \<and> (\<not> spin_active s \<and> settledActive s \<longrightarrow>
         (\<exists>past. ThinkingSpinner (spin_timer now' r' s) = SpinnerDone past (formatElapsed (now' - startTime s))))
    \<and> (spin_active s \<longrightarrow> spin_props True b2 n2 r2 (spin_props False b1 n1 r1 s) = s\<lparr>spin_sandbox := b2\<rparr>))"
proof -
  assume "list_all (\<lambda>e. 0 \<le> random_of e \<and> random_of e < 1) es" "0 \<le> r" "r < 1"
  then have ok: "spin_ok (fold spin_step es (mount_spin a b now r))" by (intro spin_ok_run spin_ok_mount)
  have "(\<exists>t. ThinkingSpinner s = SpinnerBusy t) \<longleftrightarrow> spin_active s \<or> settledActive s \<and> settleTimer s"
    "\<not> spin_active s \<Longrightarrow> settledActive s \<Longrightarrow>
       \<exists>past. ThinkingSpinner (spin_timer now' r' s) = SpinnerDone past (formatElapsed (now' - startTime s))"
    "spin_active s \<Longrightarrow> spin_props True b2 n2 r2 (spin_props False b1 n1 r1 s) = s\<lparr>spin_sandbox := b2\<rparr>"
    if "spin_ok s" for s
    using that by (auto simp: ThinkingSpinner_def spin_ok_def spin_defs split: option.splits)
  from this [OF ok] show ?thesis by (simp add: Let_def)
qed

theorem spinner_settles_witness:
  "\<exists>past. ThinkingSpinner (spin_timer 2500 0 (fold spin_step [SpinProps False False 2200 0] (mount_spin True False 1000 0)))
     = SpinnerDone past (formatElapsed 1500)"
  using spinner_settles [of "[SpinProps False False 2200 0]" 0 True False 1000 2500 0]
  by (simp add: mount_spin_def spin_defs)

text \<open>
  C26. A code block shows no tokens but those of the code its effect ran for last: in every interleaving
  of mounts, renderings with another text, language or theme, their effects, unmounts and late answers of the
  highlighter, provided no language name has a colon, the tokens of a block are none or those of that code; so
  once the effect of the last rendering has run they are those of the code shown, and between a rendering and
  its effect they can be those of the code before. The cache shared by all blocks stays within 500 entries.
\<close>

theorem code_block_own_tokens:
  assumes "list_all (\<lambda>e. list_all lang_ok (props_of e)) es"
  shows "case fold (code_step highlight) es \<lparr>TOKEN_CACHE = [], code_blocks = []\<rparr> of
           w \<Rightarrow> length (TOKEN_CACHE w) \<le> 500
             \<and> list_all (\<lambda>b. case cb_done b of
                                None \<Rightarrow> cb_tokens b = None
                              | Some d \<Rightarrow> cb_tokens b \<in> {None, highlight d}) (code_blocks w)"
proof -
  have "world_ok highlight (fold (code_step highlight) es \<lparr>TOKEN_CACHE = [], code_blocks = []\<rparr>)"
    using assms by (intro world_ok_run) (simp_all add: world_ok_def cache_ok_def)
  moreover have "case cb_done b of None \<Rightarrow> cb_tokens b = None | Some d \<Rightarrow> cb_tokens b \<in> {None, highlight d}"
    if "block_ok highlight b" for b
    using that by (cases "cb_tokens b") (auto simp: block_ok_def split: option.splits)
  ultimately show ?thesis by (auto simp: world_ok_def cache_ok_def intro: list.pred_mono_strong)
qed

definition sample_code :: "string \<Rightarrow> code_props" where
  "sample_code body = \<lparr>cp_theme = RDark, cp_lang = ''bash'', cp_text = body\<rparr>"

text \<open>The first answer comes after the text has changed and its effect has run: it is dropped.\<close>

definition sample_code_events :: "code_event list" where
  "sample_code_events =
     [MountCode (sample_code ''ls''), EffectCode 0, ChangeCode 0 (sample_code ''pwd''), EffectCode 0,
      CodeAnswer 0 0, CodeAnswer 0 0]"

theorem code_block_own_tokens_witness:
  "case fold (code_step (\<lambda>p. Some (cp_text p))) sample_code_events \<lparr>TOKEN_CACHE = [], code_blocks = []\<rparr> of
     w \<Rightarrow> list_all (\<lambda>b. case cb_done b of
                          None \<Rightarrow> cb_tokens b = None | Some d \<Rightarrow> cb_tokens b \<in> {None, Some (cp_text d)}) (code_blocks w)
       \<and> map cb_tokens (code_blocks w) = [Some ''pwd'']"
proof -
  have "list_all (\<lambda>e. list_all lang_ok (props_of e)) sample_code_events" by code_simp
  moreover have "map cb_tokens (code_blocks (fold (code_step (\<lambda>p. Some (cp_text p))) sample_code_events
      \<lparr>TOKEN_CACHE = [], code_blocks = []\<rparr>)) = [Some ''pwd'']"
    by code_simp
  ultimately show ?thesis using code_block_own_tokens [of sample_code_events "\<lambda>p. Some (cp_text p)"] by simp
qed

text \<open>
  Until the effect of a change has run, the block is shown with the tokens of the code before, and an
  answer of then still sets them.
\<close>

lemma old_tokens_shown:
  "(case fold (code_step (\<lambda>p. Some (cp_text p)))
      [MountCode (sample_code ''ls''), EffectCode 0, ChangeCode 0 (sample_code ''pwd''), CodeAnswer 0 0]
      \<lparr>TOKEN_CACHE = [], code_blocks = []\<rparr> of
      w \<Rightarrow> map (\<lambda>b. (cp_text (cb_props b), cb_tokens b)) (code_blocks w)) = [(''pwd'', Some ''ls'')]"
  by code_simp

text \<open>With a colon in a language name two different blocks can have the same key.\<close>

lemma colon_keys_collide:
  "cacheKey \<lparr>cp_theme = t, cp_lang = ''bash'', cp_text = ''x::y''\<rparr> = cacheKey \<lparr>cp_theme = t, cp_lang = ''bash::x'', cp_text = ''y''\<rparr>"
  by (simp add: cacheKey_def)

text \<open>The time of a reasoning block that becomes live again counts from its first start, pauses included.\<close>

lemma reasoning_counts_pause:
  "elapsedMs (reason_effect False t3 (reason_effect True t2 (reason_effect False t1 (reason_effect True t0 init_reason)))) = Some (t3 - t0)"
  by (simp add: reason_effect_def init_reason_def)

text \<open>The preload runs once until it fails; the card becomes ready either way.\<close>

lemma warm_once: "warmDiffHighlighter (fst (warmDiffHighlighter w)) = (fst (warmDiffHighlighter w), False)"
  by (simp add: warmDiffHighlighter_def)

lemma warm_retried: "snd (warmDiffHighlighter (warm_settled ok)) = (\<not> ok)"
  by (simp add: warmDiffHighlighter_def warm_settled_def)

end
