(* ===== verification/Bar_View.thy ===== *)
theory Bar_View
  imports Prompt_Bar Thread_View
begin

text \<open>
  What \<open>components/agents/ported/CloudPromptBar.tsx\<close> shows: the rows of the queue with their buttons,
  the attached images, the text field, the model picker and the button that sends or stops; and which
  clicks reach a handler.
\<close>

section \<open>Properties given by the parent\<close>

record BarProps =
  bp_placeholder :: "string option"
  bp_disabled :: bool
  bp_busy :: bool
  bp_queue :: "QueuedFollowUp list"
  bp_hasDiscard :: bool
  bp_hasDirect :: bool
  bp_hasClearAll :: bool
  bp_models :: "ModelOption list"
  bp_selection :: "ModelSelection option"
  bp_hasSelectionChange :: bool
  bp_hasRepoChange :: bool

definition default_placeholder :: string where
  "default_placeholder = (''P'' @ [CHR 0xED] @ ''dele al agente construir, arreglar bugs o explorar'')"

section \<open>Rows of the queue\<close>

text \<open>The label of a row, which of its three buttons are disabled, and the open menu: whether replacing is
  disabled, and where all rows can be cleared whether that is.\<close>

record QueuedRowView =
  qr_label :: string
  qr_directDisabled :: bool
  qr_discardDisabled :: bool
  qr_menuDisabled :: bool
  qr_menu :: "(bool \<times> bool option) option"

definition queued_row :: "BarProps \<Rightarrow> bar_state \<Rightarrow> QueuedFollowUp \<Rightarrow> QueuedRowView" where
  "queued_row p s f =
     \<lparr>qr_label = (if fu_text f = [] then int_str (fu_imageCount f) @ '' imagen(es) en cola'' else fu_text f),
      qr_directDisabled = (queuedActionPending s \<or> \<not> bp_hasDirect p),
      qr_discardDisabled = (queuedActionPending s \<or> \<not> bp_hasDiscard p),
      qr_menuDisabled = queuedActionPending s,
      qr_menu =
        (if queuedMenuOpen s = Some (fu_id f)
         then Some (\<not> canSubmit (bp_disabled p) s \<or> queuedActionPending s \<or> \<not> bp_hasDiscard p,
                    if length (bp_queue p) > 1 \<and> bp_hasClearAll p then Some (queuedActionPending s) else None)
         else None)\<rparr>"

datatype RowButton = DirectButton | DiscardButton | MoreButton | ReplaceButton | ClearAllButton

text \<open>A click on a button of row \<open>f\<close>, where it is shown and not disabled.\<close>

definition row_click :: "BarProps \<Rightarrow> QueuedFollowUp \<Rightarrow> RowButton \<Rightarrow> bar_state \<Rightarrow> bar_state \<times> bar_output list" where
  "row_click p f b s =
     (let v = queued_row p s f in
      case b of
        DirectButton \<Rightarrow> if qr_directDisabled v then (s, []) else queued_action_begin (Some (Direct (fu_id f))) s
      | DiscardButton \<Rightarrow> if qr_discardDisabled v then (s, []) else queued_action_begin (Some (Discard (fu_id f))) s
      | MoreButton \<Rightarrow> if qr_menuDisabled v then (s, []) else (toggleQueuedMenu (fu_id f) s, [])
      | ReplaceButton \<Rightarrow>
          (case qr_menu v of
             Some (False, _) \<Rightarrow>
               (case replace_begin (bp_hasDiscard p) (bp_disabled p) (fu_id f) s of (s', out, _) \<Rightarrow> (s', out))
           | _ \<Rightarrow> (s, []))
      | ClearAllButton \<Rightarrow>
          (case qr_menu v of Some (_, Some False) \<Rightarrow> queued_action_begin (Some ClearAll) s | _ \<Rightarrow> (s, [])))"

section \<open>Button and bar\<close>

datatype SubmitView = SendButton bool bool | StopButton bool

text \<open>The stream's flags are there only inside a thread.\<close>

definition SubmitButton :: "(bool \<times> bool) option \<Rightarrow> bool \<Rightarrow> bool \<Rightarrow> SubmitView" where
  "SubmitButton stream canSub disabled =
     (case stream of
        None \<Rightarrow> SendButton (\<not> canSub) disabled
      | Some (isLoading, stopping) \<Rightarrow>
          if \<not> isLoading \<or> canSub then SendButton (\<not> canSub) disabled else StopButton stopping)"

definition handleFileChange :: "File list option \<Rightarrow> bar_state \<Rightarrow> bar_state" where
  "handleFileChange files s = (case files of None \<Rightarrow> s | Some fs \<Rightarrow> addFiles fs s)"

definition pickerDisabled :: "BarProps \<Rightarrow> bool" where
  "pickerDisabled p = (length (combos (bp_models p)) = 0 \<or> \<not> bp_hasSelectionChange p)"

record BarView =
  bv_repoPicker :: bool
  bv_rows :: "QueuedRowView list"
  bv_dropHint :: bool
  bv_images :: "(string \<times> string) list"
  bv_text :: string
  bv_placeholder :: string
  bv_textDisabled :: bool
  bv_model :: string
  bv_modelDisabled :: bool
  bv_models :: "(string \<times> bool) list option"
  bv_attachDisabled :: bool
  bv_submit :: SubmitView

definition pending_image :: "ImageData \<Rightarrow> string \<times> string" where
  "pending_image i =
     (''data:'' @ img_mimeType i @ '';base64,'' @ img_base64 i,
      if truthy_str (img_fileName i) then the (img_fileName i) else ''pending image'')"

definition CloudPromptBar :: "BarProps \<Rightarrow> (bool \<times> bool) option \<Rightarrow> bar_state \<Rightarrow> BarView" where
  "CloudPromptBar p stream s =
     \<lparr>bv_repoPicker = bp_hasRepoChange p,
      bv_rows = map (queued_row p s) (bp_queue p),
      bv_dropHint = isDragOver s,
      bv_images = map pending_image (pendingImages s),
      bv_text = bar_value s,
      bv_placeholder = (if bp_busy p then ''Enviar seguimiento al finalizar el run''
                        else nullish (bp_placeholder p) default_placeholder),
      bv_textDisabled = bp_disabled p,
      bv_model = formatModelSelection (bp_models p) (bp_selection p),
      bv_modelDisabled = pickerDisabled p,
      bv_models = (if modelDropdownOpen s \<and> length (combos (bp_models p)) > 0
                   then Some (map (\<lambda>c. (formatModelSelection (bp_models p) (Some c), bp_selection p = Some c)) (combos (bp_models p)))
                   else None),
      bv_attachDisabled = (bp_disabled p \<or> length (pendingImages s) \<ge> MAX_IMAGE_COUNT),
      bv_submit = SubmitButton stream (canSubmit (bp_disabled p) s) (bp_disabled p)\<rparr>"

text \<open>Choosing a model reports it and closes the list.\<close>

definition choose_model :: "BarProps \<Rightarrow> ModelSelection \<Rightarrow> bar_state \<Rightarrow> bar_state \<times> ModelSelection list" where
  "choose_model p c s =
     (if modelDropdownOpen s \<and> c \<in> set (combos (bp_models p))
      then (s\<lparr>modelDropdownOpen := False\<rparr>, if bp_hasSelectionChange p then [c] else []) else (s, []))"

section \<open>Facts\<close>

text \<open>
  The disabled flags of the row buttons and the guards of their handlers agree: a click has an output
  exactly where the button is shown and enabled.
\<close>

lemma row_click_outputs:
  "snd (row_click p f DirectButton s) = (if qr_directDisabled (queued_row p s f) then [] else [Direct (fu_id f)])"
  "snd (row_click p f DiscardButton s) = (if qr_discardDisabled (queued_row p s f) then [] else [Discard (fu_id f)])"
  "snd (row_click p f ReplaceButton s) =
     (case qr_menu (queued_row p s f) of Some (False, _) \<Rightarrow> [Discard (fu_id f)] | _ \<Rightarrow> [])"
  "snd (row_click p f ClearAllButton s) =
     (case qr_menu (queued_row p s f) of Some (_, Some False) \<Rightarrow> [ClearAll] | _ \<Rightarrow> [])"
  by (auto simp: row_click_def queued_row_def Let_def queued_action_begin_def replace_begin_def split: bool.splits)

lemma row_click_blocks:
  "snd (row_click p f b s) \<noteq> [] \<Longrightarrow> \<not> queuedActionPending s \<and> queuedActionPending (fst (row_click p f b s))"
  by (cases b) (auto simp: row_click_def queued_row_def Let_def queued_action_begin_def replace_begin_def split: if_splits bool.splits)

text \<open>The send button is enabled exactly where submitting does something, and a full bar takes no file.\<close>

lemma send_enabled:
  "bv_submit (CloudPromptBar p stream s) = SendButton False d \<Longrightarrow> snd (handleSubmit (bp_disabled p) s) \<noteq> []"
  by (auto simp: CloudPromptBar_def SubmitButton_def handleSubmit_def split: option.splits if_splits)

lemma attach_full:
  "bar_inv s \<Longrightarrow> \<not> bp_disabled p \<Longrightarrow>
   bv_attachDisabled (CloudPromptBar p stream s) = (length (pendingImages s) = MAX_IMAGE_COUNT)"
  by (auto simp: CloudPromptBar_def bar_inv_def)

lemma choose_model_supported: "c \<in> set (snd (choose_model p c' s)) \<Longrightarrow> supports (bp_models p) (sel_modelId c) (sel_effort c)"
  by (auto simp: choose_model_def combos_def supports_def list_ex_iff split: if_splits)

end
