(* ===== verification/Desktop_Prompt.thy ===== *)
theory Desktop_Prompt
  imports Mutations
begin

text \<open>
  \<open>components/agents/ported/PromptBar.tsx\<close>: the prompt bar of the desktop chat, with the completion of
  commands and files, the model and permission menus, and the menu that answers an approval request.
  The modules it imports and that are not in the repository (the store, the commands, the completion
  of files, the list of models) are the record \<open>prompt_modules\<close>; what it reads of the store is part of
  its properties, what it writes to it an output. The ellipsis of \<open>truncateText\<close> is the one character
  0x85, its code in Windows-1252, so that lengths are those of the code.
\<close>

section \<open>The approval request\<close>

datatype ApprovalDecision = ApproveD | AutoApproveD | RejectD

record PromptApprovalRequest =
  par_requestId :: string
  par_title :: string
  par_toolKind :: AcpToolKind
  par_input :: jsval
  par_diffData :: "DiffData option"

type_synonym ApprovalOption = "string \<times> ApprovalDecision"

record ApprovalPromptContent =
  apc_question :: string
  apc_preview :: string
  apc_options :: "ApprovalOption list"

definition truncateText :: "string \<Rightarrow> nat \<Rightarrow> string" where
  "truncateText s n = (if length s \<le> n then s else take (n - 1) s @ [CHR 0x85])"

definition getFilePathFromApproval :: "PromptApprovalRequest \<Rightarrow> string option" where
  "getFilePathFromApproval r =
     (if truthy_str (map_option filePath (par_diffData r)) then map_option filePath (par_diffData r)
      else case as_string (get_prop (par_input r) ''filePath'') of
             Some p \<Rightarrow> Some p
           | None \<Rightarrow> as_string (get_prop (par_input r) ''path''))"

definition reject_label :: string where
  "reject_label = ''No, and tell Open SWE what to do differently''"

text \<open>The input is an object, so \<open>JSON.stringify\<close> gives a string.\<close>

definition buildApprovalPromptContent :: "PromptApprovalRequest \<Rightarrow> ApprovalPromptContent" where
  "buildApprovalPromptContent r =
     (if par_toolKind r = ExecuteK then
        (let command = (case as_string (get_prop (par_input r) ''command'') of Some c \<Rightarrow> trim c | None \<Rightarrow> []);
             commandPreview = (if command = [] then ''(empty command)'' else command)
         in \<lparr>apc_question = ''Do you want to allow running this command?'',
             apc_preview = commandPreview,
             apc_options =
               [(''Yes'', ApproveD),
                (''Yes, and don'' @ [CHR 0x27] @ ''t ask again for commands that start with ''
                   @ truncateText commandPreview 64, AutoApproveD),
                (reject_label, RejectD)]\<rparr>)
      else
        (let target = getFilePathFromApproval r;
             isFileUpdate = (par_toolKind r \<in> {EditK, DeleteK, MoveK} \<or> par_diffData r \<noteq> None);
             act = (if par_toolKind r = DeleteK then ''deleting'' else if par_toolKind r = MoveK then ''moving''
                    else ''updating'')
         in \<lparr>apc_question =
               (if isFileUpdate
                then ''Do you want to allow '' @ act @ '' ''
                       @ (if truthy_str target then the target else ''this file'') @ ''?''
                else ''Do you want to allow this action?''),
             apc_preview =
               (if truthy_str target then par_title r @ '' '' @ the target
                else par_title r @ '' '' @ truncateText (stringify_val (par_input r)) 180),
             apc_options =
               [(''Yes'', ApproveD),
                (if isFileUpdate then ''Yes, and allow all edits for this session''
                 else ''Yes, and allow similar actions for this session'', AutoApproveD),
                (reject_label, RejectD)]\<rparr>))"

section \<open>Modules outside the repository\<close>

datatype PermissionMode = DefaultPermissions | FullAccess

definition PERMISSION_OPTIONS :: "(PermissionMode \<times> string) list" where
  "PERMISSION_OPTIONS = [(DefaultPermissions, ''Default permissions''), (FullAccess, ''Full access'')]"

definition PROMPT_TEXTAREA_MAX_HEIGHT :: int where "PROMPT_TEXTAREA_MAX_HEIGHT = 200"

record ModelConfig =
  mc_name :: string
  mc_effort :: "string option"

record DesktopModel =
  dm_id :: string
  dm_name :: string
  dm_effort :: "string option"

record FileContext =
  fx_fileQuery :: string
  fx_atIndex :: int
  fx_tokenEnd :: nat

text \<open>An index is \<open>None\<close> where JavaScript's number is \<open>NaN\<close>.\<close>

record prompt_modules =
  pm_commandCount :: "string \<Rightarrow> nat"
  pm_commandAt :: "string \<Rightarrow> int option \<Rightarrow> string option"
  pm_fileContext :: "string \<Rightarrow> nat \<Rightarrow> FileContext option"
  pm_searchFiles :: "string list \<Rightarrow> string \<Rightarrow> string list"
  pm_insertFileTag :: "string \<Rightarrow> string \<Rightarrow> FileContext \<Rightarrow> string \<times> nat"
  pm_modelsFor :: "string \<Rightarrow> DesktopModel list"
  pm_displayName :: "string \<Rightarrow> string option"

section \<open>Properties and state\<close>

record prompt_props =
  pp_query :: string
  pp_permissionMode :: PermissionMode
  pp_defaultModel :: ModelConfig
  pp_sessionModel :: "ModelConfig option"
  pp_harness :: string
  pp_busy :: bool
  pp_projectPath :: "string option"
  pp_mainProjectPath :: "string option"
  pp_gitBranch :: "string option"
  pp_githubPR :: "(int \<times> string) option"
  pp_isFocused :: bool
  pp_isDragOver :: bool
  pp_images :: "ImageData list"
  pp_hasRemove :: bool
  pp_pendingApproval :: "PromptApprovalRequest option"
  pp_hasApprove :: bool
  pp_hasReject :: bool
  pp_hasAutoApprove :: bool

text \<open>The values the effects depend on, as they were at the last commit.\<close>

record prompt_seen =
  seen_pending :: bool
  seen_requestId :: "string option"
  seen_busy :: bool
  seen_focused :: bool
  seen_commandQuery :: string
  seen_fileQuery :: "string option"
  seen_projectPath :: "string option"

text \<open>\<open>dp_listing\<close> numbers the listings of files: an answer to an older one was cancelled.\<close>

record prompt_state =
  dp_commandIndex :: "int option"
  dp_fileIndex :: "int option"
  dp_permissionOpen :: bool
  dp_modelOpen :: bool
  dp_modelIndex :: int
  dp_projectFiles :: "string list"
  dp_filesLoading :: bool
  dp_cursor :: nat
  dp_approvalIndex :: "int option"
  dp_listing :: nat
  dp_seen :: "prompt_seen option"

definition init_prompt :: prompt_state where
  "init_prompt =
     \<lparr>dp_commandIndex = Some 0, dp_fileIndex = Some 0, dp_permissionOpen = False, dp_modelOpen = False,
      dp_modelIndex = 0, dp_projectFiles = [], dp_filesLoading = False, dp_cursor = 0,
      dp_approvalIndex = Some 0, dp_listing = 0, dp_seen = None\<rparr>"

datatype prompt_output =
    PromptSubmit string
  | DraftSet string
  | ApprovalSent ApprovalDecision string
  | PermissionSet PermissionMode
  | ModelSet ModelConfig
  | InputFocus
  | CaretSet nat
  | FilesListed string
  | KeyPrevented
  | KeyStopped
  | PageOpened string
  | ImageRemoved nat

section \<open>Derived values\<close>

definition modelConfig :: "prompt_props \<Rightarrow> ModelConfig" where
  "modelConfig p = nullish (pp_sessionModel p) (pp_defaultModel p)"

definition request_id :: "prompt_props \<Rightarrow> string option" where
  "request_id p = map_option par_requestId (pp_pendingApproval p)"

definition hasPendingApproval :: "prompt_props \<Rightarrow> bool" where
  "hasPendingApproval p = truthy_str (request_id p)"

definition approvalContent :: "prompt_props \<Rightarrow> ApprovalPromptContent option" where
  "approvalContent p = map_option buildApprovalPromptContent (pp_pendingApproval p)"

definition isTypingCommand :: "prompt_props \<Rightarrow> bool" where
  "isTypingCommand p = startsWith (pp_query p) ''/''"

definition commandQuery :: "prompt_props \<Rightarrow> string" where
  "commandQuery p = (if isTypingCommand p then takeWhile (\<lambda>c. \<not> is_ws c) (drop 1 (pp_query p)) else [])"

definition showCommandAutocomplete :: "prompt_props \<Rightarrow> bool" where
  "showCommandAutocomplete p = (\<not> hasPendingApproval p \<and> isTypingCommand p \<and> CHR '' '' \<notin> set (pp_query p))"

definition fileContext :: "prompt_modules \<Rightarrow> prompt_props \<Rightarrow> prompt_state \<Rightarrow> FileContext option" where
  "fileContext m p s = pm_fileContext m (pp_query p) (dp_cursor s)"

definition fileSuggestions :: "prompt_modules \<Rightarrow> prompt_props \<Rightarrow> prompt_state \<Rightarrow> string list" where
  "fileSuggestions m p s =
     (case fileContext m p s of Some c \<Rightarrow> pm_searchFiles m (dp_projectFiles s) (fx_fileQuery c) | None \<Rightarrow> [])"

definition showFileAutocomplete :: "prompt_modules \<Rightarrow> prompt_props \<Rightarrow> prompt_state \<Rightarrow> bool" where
  "showFileAutocomplete m p s =
     (\<not> hasPendingApproval p \<and> fileContext m p s \<noteq> None \<and> \<not> showCommandAutocomplete p)"

section \<open>Selected rows\<close>

text \<open>The remainder \<open>a % n\<close>, which has the sign of \<open>a\<close> and is \<open>NaN\<close> for zero.\<close>

definition js_rem :: "int \<Rightarrow> nat \<Rightarrow> int option" where
  "js_rem a n = (if n = 0 then None else Some (if 0 \<le> a then a mod int n else - (- a mod int n)))"

definition next_row :: "nat \<Rightarrow> int option \<Rightarrow> int option" where
  "next_row n prev = Option.bind prev (\<lambda>i. js_rem (i + 1) n)"

definition previous_row :: "nat \<Rightarrow> int option \<Rightarrow> int option" where
  "previous_row n prev = Option.bind prev (\<lambda>i. js_rem (i - 1 + int n) n)"

text \<open>\<open>xs[i]\<close>: out of range and for \<open>NaN\<close> it is \<open>undefined\<close>.\<close>

definition at_index :: "'a list \<Rightarrow> int option \<Rightarrow> 'a option" where
  "at_index xs i = (case i of Some k \<Rightarrow> if 0 \<le> k \<and> k < int (length xs) then Some (xs ! nat k) else None | None \<Rightarrow> None)"

section \<open>Handlers\<close>

definition submitApprovalDecision :: "prompt_props \<Rightarrow> ApprovalDecision \<Rightarrow> prompt_output list" where
  "submitApprovalDecision p d =
     (if \<not> hasPendingApproval p then []
      else let i = the (request_id p) in
        case d of
          ApproveD \<Rightarrow> if pp_hasApprove p then [ApprovalSent ApproveD i] else []
        | AutoApproveD \<Rightarrow> if pp_hasAutoApprove p then [ApprovalSent AutoApproveD i] else []
        | RejectD \<Rightarrow> if pp_hasReject p then [ApprovalSent RejectD i] else [])"

text \<open>The listener of the document while a request is pending and the bar has the focus.\<close>

definition handleApprovalKeyDown :: "prompt_props \<Rightarrow> string \<Rightarrow> prompt_state \<Rightarrow> prompt_state \<times> prompt_output list" where
  "handleApprovalKeyDown p key s =
     (case approvalContent p of
        None \<Rightarrow> (s, [])
      | Some content \<Rightarrow>
          if \<not> hasPendingApproval p \<or> \<not> pp_isFocused p then (s, [])
          else
            (let options = apc_options content; n = length options in
             if key = ''ArrowDown''
             then (s\<lparr>dp_approvalIndex := next_row n (dp_approvalIndex s)\<rparr>, [KeyStopped, KeyPrevented])
             else if key = ''ArrowUp''
             then (s\<lparr>dp_approvalIndex := previous_row n (dp_approvalIndex s)\<rparr>, [KeyStopped, KeyPrevented])
             else if key = ''Enter''
             then (s, [KeyStopped, KeyPrevented]
                        @ (case at_index options (dp_approvalIndex s) of
                             Some (_, d) \<Rightarrow> submitApprovalDecision p d
                           | None \<Rightarrow> []))
             else if key = ''Escape'' then (s, [KeyStopped, KeyPrevented] @ submitApprovalDecision p RejectD)
             else (s, [KeyStopped])))"

text \<open>The other listener of the document: shift and tab change the permission mode.\<close>

definition handleModeKey :: "prompt_props \<Rightarrow> string \<Rightarrow> bool \<Rightarrow> prompt_output list" where
  "handleModeKey p key shift =
     (if \<not> pp_isFocused p \<or> hasPendingApproval p then []
      else if shift \<and> key = ''Tab''
      then [KeyPrevented, PermissionSet (if pp_permissionMode p = DefaultPermissions then FullAccess else DefaultPermissions)]
      else [])"

definition handleCommandSelect :: "string \<Rightarrow> prompt_output list" where
  "handleCommandSelect name = [DraftSet (''/'' @ name @ '' ''), InputFocus]"

text \<open>The caret is placed and the field focused in a timeout of zero.\<close>

definition handleFileSelect ::
  "prompt_modules \<Rightarrow> prompt_props \<Rightarrow> string \<Rightarrow> prompt_state \<Rightarrow> prompt_state \<times> prompt_output list" where
  "handleFileSelect m p path s =
     (case fileContext m p s of
        None \<Rightarrow> (s, [])
      | Some c \<Rightarrow>
          (case pm_insertFileTag m (pp_query p) path c of
             (nextQuery, nextCursor) \<Rightarrow>
               (s\<lparr>dp_cursor := nextCursor\<rparr>, [DraftSet nextQuery, CaretSet nextCursor, InputFocus])))"

definition handleModelSelect :: "DesktopModel \<Rightarrow> prompt_output list" where
  "handleModelSelect model =
     [ModelSet \<lparr>mc_name = dm_id model,
                mc_effort = Some (if truthy_str (dm_effort model) then the (dm_effort model) else ''default'')\<rparr>,
      InputFocus]"

definition handleInputChange :: "string \<Rightarrow> nat \<Rightarrow> prompt_state \<Rightarrow> prompt_state \<times> prompt_output list" where
  "handleInputChange v selectionStart s = (s\<lparr>dp_cursor := selectionStart\<rparr>, [DraftSet v])"

definition handleInputSelect :: "nat \<Rightarrow> prompt_state \<Rightarrow> prompt_state" where
  "handleInputSelect selectionStart s = s\<lparr>dp_cursor := selectionStart\<rparr>"

text \<open>The keys while the list of commands is shown; \<open>None\<close> where the handler goes on.\<close>

definition command_keys ::
  "prompt_modules \<Rightarrow> prompt_props \<Rightarrow> string \<Rightarrow> prompt_state \<Rightarrow> (prompt_state \<times> prompt_output list) option" where
  "command_keys m p key s =
     (let n = pm_commandCount m (commandQuery p);
          command = pm_commandAt m (commandQuery p) (dp_commandIndex s)
      in if key = ''ArrowDown'' then Some (s\<lparr>dp_commandIndex := next_row n (dp_commandIndex s)\<rparr>, [KeyPrevented])
         else if key = ''ArrowUp'' then Some (s\<lparr>dp_commandIndex := previous_row n (dp_commandIndex s)\<rparr>, [KeyPrevented])
         else if key = ''Tab''
         then Some (s, KeyPrevented # (case command of Some c \<Rightarrow> handleCommandSelect c | None \<Rightarrow> []))
         else if key = ''Escape'' then Some (s, [KeyPrevented, DraftSet []])
         else if key = ''Enter''
         then Some (s, KeyPrevented # (case command of Some c \<Rightarrow> [PromptSubmit (''/'' @ c), DraftSet []] | None \<Rightarrow> []))
         else None)"

text \<open>The keys while the list of files is shown.\<close>

definition file_keys ::
  "prompt_modules \<Rightarrow> prompt_props \<Rightarrow> FileContext \<Rightarrow> string \<Rightarrow> prompt_state \<Rightarrow>
   (prompt_state \<times> prompt_output list) option" where
  "file_keys m p c key s =
     (let found = fileSuggestions m p s; n = length found in
      if 0 < n \<and> key = ''ArrowDown'' then Some (s\<lparr>dp_fileIndex := next_row n (dp_fileIndex s)\<rparr>, [KeyPrevented])
      else if 0 < n \<and> key = ''ArrowUp'' then Some (s\<lparr>dp_fileIndex := previous_row n (dp_fileIndex s)\<rparr>, [KeyPrevented])
      else if 0 < n \<and> (key = ''Tab'' \<or> key = ''Enter'')
      then (case at_index found (dp_fileIndex s) of
              Some f \<Rightarrow> (if f = [] then Some (s, [KeyPrevented])
                         else case handleFileSelect m p f s of (s', out) \<Rightarrow> Some (s', KeyPrevented # out))
            | None \<Rightarrow> Some (s, [KeyPrevented]))
      else if dp_filesLoading s \<and> (key = ''Enter'' \<or> key = ''Tab'') then Some (s, [KeyPrevented])
      else if key = ''Escape''
      then Some (if 0 \<le> fx_atIndex c
                 then (let prefix = take (nat (fx_atIndex c)) (pp_query p); suffix = drop (fx_tokenEnd c) (pp_query p)
                       in (s\<lparr>dp_cursor := length prefix\<rparr>, [KeyPrevented, DraftSet (prefix @ suffix)]))
                 else (s, [KeyPrevented]))
      else None)"

definition enter_key :: "prompt_props \<Rightarrow> string \<Rightarrow> bool \<Rightarrow> prompt_output list" where
  "enter_key p key shift =
     (if key = ''Enter'' \<and> \<not> shift \<and> trim (pp_query p) \<noteq> []
      then [KeyPrevented, PromptSubmit (trim (pp_query p)), DraftSet []] else [])"

definition promptKeyDown ::
  "prompt_modules \<Rightarrow> prompt_props \<Rightarrow> string \<Rightarrow> bool \<Rightarrow> prompt_state \<Rightarrow> prompt_state \<times> prompt_output list" where
  "promptKeyDown m p key shift s =
     (if hasPendingApproval p then (s, [KeyPrevented])
      else case (if showCommandAutocomplete p then command_keys m p key s else None) of
             Some r \<Rightarrow> r
           | None \<Rightarrow>
               (case (if showFileAutocomplete m p s
                      then (case fileContext m p s of Some c \<Rightarrow> file_keys m p c key s | None \<Rightarrow> None) else None) of
                  Some r \<Rightarrow> r
                | None \<Rightarrow> (s, enter_key p key shift)))"

section \<open>Effects\<close>

definition textarea_size :: "int \<Rightarrow> int \<times> bool" where
  "textarea_size scrollHeight =
     (min scrollHeight PROMPT_TEXTAREA_MAX_HEIGHT, scrollHeight > PROMPT_TEXTAREA_MAX_HEIGHT)"

definition seen_of :: "prompt_modules \<Rightarrow> prompt_props \<Rightarrow> prompt_state \<Rightarrow> prompt_seen" where
  "seen_of m p s =
     \<lparr>seen_pending = hasPendingApproval p, seen_requestId = request_id p, seen_busy = pp_busy p,
      seen_focused = pp_isFocused p, seen_commandQuery = commandQuery p,
      seen_fileQuery = map_option fx_fileQuery (fileContext m p s), seen_projectPath = pp_projectPath p\<rparr>"

text \<open>Whether a dependency changed since the last commit; every effect runs at the first one.\<close>

definition dep_changed :: "(prompt_seen \<Rightarrow> 'a) \<Rightarrow> prompt_seen \<Rightarrow> prompt_seen option \<Rightarrow> bool" where
  "dep_changed f now before = (case before of None \<Rightarrow> True | Some b \<Rightarrow> f b \<noteq> f now)"

definition list_files_effect :: "prompt_props \<Rightarrow> prompt_state \<Rightarrow> prompt_state \<times> prompt_output list" where
  "list_files_effect p s =
     (if truthy_str (pp_projectPath p)
      then (s\<lparr>dp_filesLoading := True, dp_listing := dp_listing s + 1\<rparr>, [FilesListed (the (pp_projectPath p))])
      else (s\<lparr>dp_projectFiles := [], dp_filesLoading := False, dp_listing := dp_listing s + 1\<rparr>, []))"

definition files_answered :: "nat \<Rightarrow> js_error + string list \<Rightarrow> prompt_state \<Rightarrow> prompt_state" where
  "files_answered n res s =
     (if n \<noteq> dp_listing s then s
      else s\<lparr>dp_projectFiles := (case res of Inr files \<Rightarrow> files | Inl _ \<Rightarrow> []), dp_filesLoading := False\<rparr>)"

definition prompt_commit :: "prompt_modules \<Rightarrow> prompt_props \<Rightarrow> prompt_state \<Rightarrow> prompt_state \<times> prompt_output list" where
  "prompt_commit m p s0 =
     (let now = seen_of m p s0; before = dp_seen s0;
          focus = (if (dep_changed seen_busy now before \<or> dep_changed seen_focused now before
                       \<or> dep_changed seen_pending now before) \<and> pp_isFocused p \<and> \<not> hasPendingApproval p
                   then [InputFocus] else []);
          s1 = (if dep_changed seen_pending now before \<and> hasPendingApproval p
                then s0\<lparr>dp_permissionOpen := False, dp_modelOpen := False\<rparr> else s0);
          s2 = (if dep_changed seen_requestId now before then s1\<lparr>dp_approvalIndex := Some 0\<rparr> else s1);
          s3 = (if dep_changed seen_commandQuery now before then s2\<lparr>dp_commandIndex := Some 0\<rparr> else s2);
          s4 = (if dep_changed seen_fileQuery now before then s3\<lparr>dp_fileIndex := Some 0\<rparr> else s3);
          (s5, listed) = (if dep_changed seen_projectPath now before then list_files_effect p s4 else (s4, []))
      in (s5\<lparr>dp_seen := Some now\<rparr>, focus @ listed))"

section \<open>Events\<close>

text \<open>
  The document's listeners and the text field's handler are separate events: a key pressed in the
  field reaches the handler first and the document afterwards. \<open>Props\<close> is a new rendering with what
  the store and the parent then hold.
\<close>

datatype prompt_event =
    Props prompt_props
  | DocumentKey string bool
  | FieldKey string bool
  | FieldChanged string nat
  | FieldSelected nat
  | CommandClicked string
  | FileClicked string
  | ModelButton
  | ModelHovered int
  | ModelClicked DesktopModel
  | PermissionButton
  | PermissionClicked PermissionMode
  | OutsidePermission
  | OutsideModel
  | OptionClicked nat
  | SkipClicked
  | FilesAnswered nat "js_error + string list"
  | RemoveClicked nat
  | PrClicked

definition option_clicked :: "prompt_props \<Rightarrow> nat \<Rightarrow> prompt_state \<Rightarrow> prompt_state \<times> prompt_output list" where
  "option_clicked p i s =
     (case approvalContent p of
        None \<Rightarrow> (s, [])
      | Some content \<Rightarrow>
          if hasPendingApproval p \<and> i < length (apc_options content)
          then (s\<lparr>dp_approvalIndex := Some (int i)\<rparr>, submitApprovalDecision p (snd (apc_options content ! i)))
          else (s, []))"

fun prompt_react ::
  "prompt_modules \<Rightarrow> prompt_event \<Rightarrow> prompt_props \<Rightarrow> prompt_state \<Rightarrow> prompt_state \<times> prompt_output list" where
  "prompt_react m (Props p') p s = (s, [])"
| "prompt_react m (DocumentKey key shift) p s =
     (case handleApprovalKeyDown p key s of (s', out) \<Rightarrow> (s', out @ handleModeKey p key shift))"
| "prompt_react m (FieldKey key shift) p s =
     (if hasPendingApproval p \<and> approvalContent p \<noteq> None then (s, []) else promptKeyDown m p key shift s)"
| "prompt_react m (FieldChanged v k) p s = handleInputChange v k s"
| "prompt_react m (FieldSelected k) p s = (handleInputSelect k s, [])"
| "prompt_react m (CommandClicked c) p s = (s, if showCommandAutocomplete p then handleCommandSelect c else [])"
| "prompt_react m (FileClicked f) p s = (if showFileAutocomplete m p s then handleFileSelect m p f s else (s, []))"
| "prompt_react m ModelButton p s = (s\<lparr>dp_modelOpen := \<not> dp_modelOpen s, dp_modelIndex := 0\<rparr>, [])"
| "prompt_react m (ModelHovered i) p s = (s\<lparr>dp_modelIndex := i\<rparr>, [])"
| "prompt_react m (ModelClicked model) p s =
     (if dp_modelOpen s then (s\<lparr>dp_modelOpen := False\<rparr>, handleModelSelect model) else (s, []))"
| "prompt_react m PermissionButton p s = (s\<lparr>dp_permissionOpen := \<not> dp_permissionOpen s\<rparr>, [])"
| "prompt_react m (PermissionClicked mode) p s =
     (if dp_permissionOpen s then (s\<lparr>dp_permissionOpen := False\<rparr>, [PermissionSet mode]) else (s, []))"
| "prompt_react m OutsidePermission p s = (s\<lparr>dp_permissionOpen := False\<rparr>, [])"
| "prompt_react m OutsideModel p s = (s\<lparr>dp_modelOpen := False\<rparr>, [])"
| "prompt_react m (OptionClicked i) p s = option_clicked p i s"
| "prompt_react m SkipClicked p s = (s, submitApprovalDecision p RejectD)"
| "prompt_react m (FilesAnswered n res) p s = (files_answered n res s, [])"
| "prompt_react m (RemoveClicked i) p s =
     (s, if i < length (pp_images p) \<and> pp_hasRemove p then [ImageRemoved i] else [])"
| "prompt_react m PrClicked p s =
     (s, case pp_githubPR p of
           Some (_, url) \<Rightarrow> if truthy_str (pp_gitBranch p) \<and> truthy_str (pp_projectPath p) then [PageOpened url] else []
         | None \<Rightarrow> [])"

fun props_after :: "prompt_event \<Rightarrow> prompt_props \<Rightarrow> prompt_props" where
  "props_after (Props p') p = p'"
| "props_after _ p = p"

text \<open>An event with the rendering that follows it.\<close>

definition prompt_step ::
  "prompt_modules \<Rightarrow> prompt_event \<Rightarrow> prompt_props \<times> prompt_state \<Rightarrow>
   (prompt_props \<times> prompt_state) \<times> prompt_output list" where
  "prompt_step m e c =
     (case c of (p, s) \<Rightarrow>
        case prompt_react m e p s of (s1, out) \<Rightarrow>
          case prompt_commit m (props_after e p) s1 of (s2, out') \<Rightarrow> ((props_after e p, s2), out @ out'))"

text \<open>The bar when it appears with properties \<open>p\<close>.\<close>

definition prompt_mount :: "prompt_modules \<Rightarrow> prompt_props \<Rightarrow> prompt_props \<times> prompt_state" where
  "prompt_mount m p = (p, fst (prompt_commit m p init_prompt))"

section \<open>What is shown\<close>

text \<open>An option of the model menu: its name, whether it is the current one, whether it is highlighted.\<close>

record PromptFooter =
  pf_modelLabel :: string
  pf_models :: "(string \<times> bool \<times> bool) list option"
  pf_permissionLabel :: string
  pf_permissions :: "(string \<times> bool) list option"
  pf_worktree :: "(string \<times> string) option"
  pf_pr :: "string option"
  pf_skip :: bool

datatype PromptBody = ApprovalBody string string "(string \<times> bool) list" | FieldBody string string

record PromptView =
  pv_commands :: "(string \<times> int option) option"
  pv_files :: "(string list \<times> int option \<times> bool) option"
  pv_images :: "(string \<times> string) list"
  pv_dropHint :: bool
  pv_body :: PromptBody
  pv_footer :: PromptFooter

definition or_default :: "string option \<Rightarrow> string" where
  "or_default e = (if truthy_str e then the e else ''default'')"

definition prompt_image :: "ImageData \<Rightarrow> string \<times> string" where
  "prompt_image img =
     (''data:'' @ img_mimeType img @ '';base64,'' @ img_base64 img,
      if truthy_str (img_fileName img) then the (img_fileName img) else ''pending image'')"

definition prompt_footer :: "prompt_modules \<Rightarrow> prompt_props \<Rightarrow> prompt_state \<Rightarrow> bool \<Rightarrow> PromptFooter" where
  "prompt_footer m p s skip =
     \<lparr>pf_modelLabel =
        (let l = pm_displayName m (mc_name (modelConfig p)) in if truthy_str l then the l else mc_name (modelConfig p)),
      pf_models =
        (if dp_modelOpen s
         then Some (map (\<lambda>(i, model).
                (dm_name model,
                 dm_id model = mc_name (modelConfig p) \<and> or_default (dm_effort model) = or_default (mc_effort (modelConfig p)),
                 i = dp_modelIndex s))
              (zip (map int [0..<length (pm_modelsFor m (pp_harness p))]) (pm_modelsFor m (pp_harness p))))
         else None),
      pf_permissionLabel = (if pp_permissionMode p = FullAccess then ''Full access'' else ''Default permissions''),
      pf_permissions =
        (if dp_permissionOpen s
         then Some (map (\<lambda>(v, label). (label, v = pp_permissionMode p)) PERMISSION_OPTIONS) else None),
      pf_worktree =
        (if truthy_str (pp_gitBranch p) \<and> truthy_str (pp_projectPath p)
         then Some (the (if truthy_str (pp_mainProjectPath p) then pp_mainProjectPath p else pp_projectPath p),
                    the (pp_gitBranch p))
         else None),
      pf_pr =
        (if truthy_str (pp_gitBranch p) \<and> truthy_str (pp_projectPath p)
         then map_option (\<lambda>(n, _). ''#'' @ int_str n) (pp_githubPR p) else None),
      pf_skip = skip\<rparr>"

definition approval_rows :: "ApprovalOption list \<Rightarrow> int option \<Rightarrow> (string \<times> bool) list" where
  "approval_rows options i =
     map (\<lambda>(k, (label, _)). (nat_str (k + 1) @ ''.'' @ label, i = Some (int k))) (List.enumerate 0 options)"

definition DesktopPromptBar :: "prompt_modules \<Rightarrow> prompt_props \<Rightarrow> prompt_state \<Rightarrow> PromptView" where
  "DesktopPromptBar m p s =
     \<lparr>pv_commands = (if showCommandAutocomplete p then Some (commandQuery p, dp_commandIndex s) else None),
      pv_files =
        (if showFileAutocomplete m p s then Some (fileSuggestions m p s, dp_fileIndex s, dp_filesLoading s) else None),
      pv_images = map prompt_image (pp_images p),
      pv_dropHint = pp_isDragOver p,
      pv_body =
        (case approvalContent p of
           Some content \<Rightarrow>
             if hasPendingApproval p
             then ApprovalBody (apc_question content) (apc_preview content)
                    (approval_rows (apc_options content) (dp_approvalIndex s))
             else FieldBody (pp_query p)
                    (if pp_busy p then ''Send a message to queue next...''
                     else ''Ask Open SWE anything, @ to add files, / for commands'')
         | None \<Rightarrow> FieldBody (pp_query p)
                    (if pp_busy p then ''Send a message to queue next...''
                     else ''Ask Open SWE anything, @ to add files, / for commands'')),
      pv_footer = prompt_footer m p s (hasPendingApproval p)\<rparr>"

section \<open>Facts\<close>

lemma truncateText_length: "0 < n \<Longrightarrow> length (truncateText t n) \<le> n"
  by (simp add: truncateText_def)

lemma approval_decisions: "map snd (apc_options (buildApprovalPromptContent r)) = [ApproveD, AutoApproveD, RejectD]"
  by (simp add: buildApprovalPromptContent_def Let_def)

lemma approval_options_length: "length (apc_options (buildApprovalPromptContent r)) = 3"
  using arg_cong [OF approval_decisions, of length r] by simp

lemma approval_option_decision:
  "i < 3 \<Longrightarrow> snd (apc_options (buildApprovalPromptContent r) ! i) = [ApproveD, AutoApproveD, RejectD] ! i"
  by (metis approval_decisions approval_options_length nth_map)

lemma js_rem_nonneg: "0 \<le> a \<Longrightarrow> 0 < n \<Longrightarrow> js_rem a n = Some (a mod int n)"
  by (simp add: js_rem_def)

lemma next_row_Some: "0 \<le> i \<Longrightarrow> 0 < n \<Longrightarrow> next_row n (Some i) = Some ((i + 1) mod int n)"
  by (simp add: next_row_def js_rem_nonneg)

lemma previous_row_Some: "0 \<le> i \<Longrightarrow> 0 < n \<Longrightarrow> previous_row n (Some i) = Some ((i - 1) mod int n)"
  by (simp add: previous_row_def js_rem_nonneg)

text \<open>With no row to select, an arrow key turns the index into \<open>NaN\<close>, and no arrow key turns it back.\<close>

lemma no_rows_nan: "next_row 0 i = None" "previous_row 0 i = None" "next_row n None = None" "previous_row n None = None"
  by (cases i; simp add: next_row_def previous_row_def js_rem_def)+

definition row_ok :: "nat \<Rightarrow> int option \<Rightarrow> bool" where
  "row_ok n i = (case i of Some k \<Rightarrow> 0 \<le> k \<and> k < int n | None \<Rightarrow> False)"

lemma row_ok_moves: "0 < n \<Longrightarrow> row_ok n i \<Longrightarrow> row_ok n (next_row n i) \<and> row_ok n (previous_row n i)"
  by (auto simp: row_ok_def next_row_Some previous_row_Some split: option.splits)

lemma at_index_row: "row_ok (length xs) i \<Longrightarrow> at_index xs i = Some (xs ! nat (the i))"
  by (auto simp: row_ok_def at_index_def split: option.splits)

text \<open>A handler that gives up leaves its state and says nothing.\<close>

lemma handler_fields:
  "dp_approvalIndex (fst (promptKeyDown m p key shift s)) = dp_approvalIndex s"
  "dp_approvalIndex (fst (handleFileSelect m p f s)) = dp_approvalIndex s"
  by (auto simp: promptKeyDown_def command_keys_def file_keys_def handleFileSelect_def Let_def
      split: option.splits prod.splits if_splits)

lemma approval_index_react:
  "row_ok 3 (dp_approvalIndex s) \<Longrightarrow> row_ok 3 (dp_approvalIndex (fst (prompt_react m e p s)))"
  by (cases e)
    (auto simp: handler_fields handleApprovalKeyDown_def Let_def approvalContent_def approval_options_length
      row_ok_moves handleInputChange_def handleInputSelect_def option_clicked_def files_answered_def row_ok_def [of _ "Some _"]
      split: option.splits if_splits prod.splits)

lemma prompt_commit_index:
  "dp_approvalIndex (fst (prompt_commit m p s)) = dp_approvalIndex s
     \<or> dp_approvalIndex (fst (prompt_commit m p s)) = Some 0"
  by (simp add: prompt_commit_def list_files_effect_def Let_def split_beta)

lemma approval_index_step:
  "row_ok 3 (dp_approvalIndex (snd c)) \<Longrightarrow> row_ok 3 (dp_approvalIndex (snd (fst (prompt_step m e c))))"
proof -
  assume ok: "row_ok 3 (dp_approvalIndex (snd c))"
  obtain p s where c: "c = (p, s)" by (cases c)
  have "row_ok 3 (dp_approvalIndex (fst (prompt_react m e p s)))"
    using ok c by (simp add: approval_index_react)
  then show ?thesis
    using prompt_commit_index [of m "props_after e p" "fst (prompt_react m e p s)"]
    by (auto simp: prompt_step_def c split_beta row_ok_def)
qed

text \<open>What may leave the bar while it shows properties \<open>p\<close>.\<close>

fun prompt_output_ok :: "prompt_props \<times> prompt_output \<Rightarrow> bool" where
  "prompt_output_ok (p, ApprovalSent d i) = (request_id p = Some i \<and> i \<noteq> [])"
| "prompt_output_ok (p, PromptSubmit t) =
     (\<not> hasPendingApproval p \<and> t \<noteq> []
      \<and> (t = trim (pp_query p) \<or> showCommandAutocomplete p \<and> startsWith t ''/''))"
| "prompt_output_ok _ = True"

definition tagged_step ::
  "prompt_modules \<Rightarrow> prompt_event \<Rightarrow> prompt_props \<times> prompt_state \<Rightarrow>
   (prompt_props \<times> prompt_state) \<times> (prompt_props \<times> prompt_output) list" where
  "tagged_step m e c = (case prompt_step m e c of (c', out) \<Rightarrow> (c', map (Pair (fst c)) out))"

lemma truthy_request: "hasPendingApproval p \<longleftrightarrow> (\<exists>i. request_id p = Some i \<and> i \<noteq> [])"
  by (cases "request_id p") (simp_all add: hasPendingApproval_def)

lemma submitApproval_ok: "list_all (\<lambda>x. prompt_output_ok (p, x)) (submitApprovalDecision p d)"
  by (cases d) (auto simp: submitApprovalDecision_def truthy_request)

lemma commit_outputs: "list_all (\<lambda>x. prompt_output_ok (q, x)) (snd (prompt_commit m p s))"
  by (simp add: prompt_commit_def list_files_effect_def Let_def split_beta)

lemma startsWith_char [simp]: "startsWith (c # t) [c]"
  by (simp add: startsWith_def)

lemma fileSelect_ok: "list_all (\<lambda>x. prompt_output_ok (p, x)) (snd (handleFileSelect m q f s))"
  by (simp add: handleFileSelect_def split: option.splits prod.splits)

text \<open>A branch is checked without its condition on the key.\<close>

lemma branches:
  "pred_option Q x \<Longrightarrow> pred_option Q y \<Longrightarrow> pred_option Q (if b then x else y)"
  "Q u \<Longrightarrow> Q v \<Longrightarrow> Q (if b then u else v)"
  by simp_all

lemma command_keys_ok:
  "showCommandAutocomplete p \<Longrightarrow> pred_option (\<lambda>r. list_all (\<lambda>x. prompt_output_ok (p, x)) (snd r)) (command_keys m p key s)"
  unfolding command_keys_def Let_def
  by (intro branches(1)) (auto simp: handleCommandSelect_def showCommandAutocomplete_def split: option.split)

lemma fileSelect_outputs: "handleFileSelect m q f s = (s', out) \<Longrightarrow> list_all (\<lambda>x. prompt_output_ok (p, x)) out"
  using fileSelect_ok [of p m q f s] by simp

lemma file_keys_ok: "pred_option (\<lambda>r. list_all (\<lambda>x. prompt_output_ok (p, x)) (snd r)) (file_keys m p c key s)"
  unfolding file_keys_def Let_def
  by (intro branches(1)) (auto split: option.split prod.split dest: fileSelect_outputs [where p = p])

lemma file_keys_outputs: "file_keys m p c key s = Some (s', out) \<Longrightarrow> list_all (\<lambda>x. prompt_output_ok (p, x)) out"
  using file_keys_ok [of p m c key s] by simp

lemma enter_key_ok: "\<not> hasPendingApproval p \<Longrightarrow> list_all (\<lambda>x. prompt_output_ok (p, x)) (enter_key p key shift)"
  by (simp add: enter_key_def)

lemma react_outputs: "list_all (\<lambda>x. prompt_output_ok (p, x)) (snd (prompt_react m e p s))"
proof (cases e)
  case (DocumentKey key shift)
  then show ?thesis
    using submitApproval_ok [of p]
    by (auto simp: handleApprovalKeyDown_def handleModeKey_def Let_def split: option.splits prod.splits)
next
  case (FieldKey key shift)
  then show ?thesis
    using enter_key_ok [of p key shift] command_keys_ok [of p m key s]
    by (auto simp: promptKeyDown_def dest: file_keys_outputs split: option.splits if_splits)
next
  case (FileClicked f)
  then show ?thesis using fileSelect_ok [of p m p f s] by simp
next
  case (OptionClicked i)
  then show ?thesis using submitApproval_ok [of p] by (simp add: option_clicked_def split: option.splits)
next
  case SkipClicked
  then show ?thesis using submitApproval_ok [of p] by simp
qed (auto simp: handleInputChange_def handleCommandSelect_def handleModelSelect_def split: option.splits prod.splits)

text \<open>Every prompt handed over is followed at once by the clearing of the draft.\<close>

definition is_submit :: "prompt_output \<Rightarrow> bool" where
  "is_submit x = (case x of PromptSubmit _ \<Rightarrow> True | _ \<Rightarrow> False)"

fun submits_cleared :: "prompt_output list \<Rightarrow> bool" where
  "submits_cleared [] = True"
| "submits_cleared (x # out) = ((is_submit x \<longrightarrow> take 1 out = [DraftSet []]) \<and> submits_cleared out)"

lemma no_submit_cleared: "list_all (\<lambda>x. \<not> is_submit x) out \<Longrightarrow> submits_cleared (out @ out') = submits_cleared out'"
  by (induction out) simp_all

lemma commit_no_submit: "list_all (\<lambda>x. \<not> is_submit x) (snd (prompt_commit m p s))"
  by (simp add: prompt_commit_def list_files_effect_def Let_def split_beta is_submit_def)

lemma no_submit_sent [simp]: "list_all (\<lambda>x. \<not> is_submit x) (submitApprovalDecision p d)"
  by (cases d) (simp_all add: submitApprovalDecision_def is_submit_def)

lemma cleared_without: "list_all (\<lambda>x. \<not> is_submit x) out \<Longrightarrow> submits_cleared out"
  using no_submit_cleared [of out "[]"] by simp

lemma fileSelect_no_submit: "handleFileSelect m p f s = (s', out) \<Longrightarrow> list_all (\<lambda>x. \<not> is_submit x) out"
  by (auto simp: handleFileSelect_def is_submit_def split: option.splits prod.splits)

lemma command_keys_cleared: "pred_option (\<lambda>r. submits_cleared (snd r)) (command_keys m p key s)"
  unfolding command_keys_def Let_def
  by (intro branches(1)) (auto simp: handleCommandSelect_def is_submit_def split: option.split)

lemma file_keys_no_submit: "pred_option (\<lambda>r. list_all (\<lambda>x. \<not> is_submit x) (snd r)) (file_keys m p c key s)"
  unfolding file_keys_def Let_def
  by (intro branches(1)) (auto simp: is_submit_def [of KeyPrevented] is_submit_def [of "DraftSet _"]
      split: option.split prod.split dest: fileSelect_no_submit)

lemma file_keys_cleared: "file_keys m p c key s = Some (s', out) \<Longrightarrow> submits_cleared out"
  using file_keys_no_submit [of m p c key s] by (simp add: cleared_without)

lemma promptKeyDown_cleared: "submits_cleared (snd (promptKeyDown m p key shift s))"
  using command_keys_cleared [of m p key s]
  by (auto simp: promptKeyDown_def enter_key_def is_submit_def dest: file_keys_cleared split: option.splits if_splits)

lemma react_cleared: "submits_cleared (snd (prompt_react m e p s))"
proof (cases e)
  case (DocumentKey key shift)
  have "list_all (\<lambda>x. \<not> is_submit x) (snd (handleApprovalKeyDown p key s))"
    unfolding handleApprovalKeyDown_def Let_def
    by (auto simp: is_submit_def [of KeyPrevented] is_submit_def [of KeyStopped] split: option.split)
  moreover have "list_all (\<lambda>x. \<not> is_submit x) (handleModeKey p key shift)"
    by (simp add: handleModeKey_def is_submit_def)
  ultimately show ?thesis
    using DocumentKey by (auto simp: split_beta intro!: cleared_without)
next
  case (FileClicked f)
  then show ?thesis
    by (cases "handleFileSelect m p f s") (auto intro!: cleared_without dest: fileSelect_no_submit)
next
  case (OptionClicked i)
  then show ?thesis by (auto simp: option_clicked_def intro!: cleared_without split: option.split)
next
  case SkipClicked
  then show ?thesis by (auto intro!: cleared_without)
next
  case PrClicked
  then show ?thesis by (auto simp: is_submit_def split: option.split)
qed (auto simp: promptKeyDown_cleared handleInputChange_def handleCommandSelect_def handleModelSelect_def is_submit_def)

lemma submits_cleared_append:
  "submits_cleared x \<Longrightarrow> submits_cleared y \<Longrightarrow> submits_cleared (x @ y)"
proof (induction x)
  case (Cons a x)
  then show ?case by (cases x) auto
qed simp

lemma step_outputs:
  "list_all prompt_output_ok (snd (tagged_step m e c)) \<and> submits_cleared (map snd (snd (tagged_step m e c)))"
proof -
  obtain p s where c: "c = (p, s)" by (cases c)
  define s1 where "s1 = fst (prompt_react m e p s)"
  have "snd (prompt_step m e c) = snd (prompt_react m e p s) @ snd (prompt_commit m (props_after e p) s1)"
    by (simp add: prompt_step_def c s1_def split_beta)
  then show ?thesis
    using react_outputs [of p m e s] commit_outputs [of p m "props_after e p" s1] react_cleared [of m e p s]
      cleared_without [OF commit_no_submit, of m "props_after e p" s1]
    by (auto simp: tagged_step_def c split_beta list_all_iff comp_def submits_cleared_append)
qed

lemma tagged_run_ok:
  "row_ok 3 (dp_approvalIndex (snd c)) \<Longrightarrow>
   row_ok 3 (dp_approvalIndex (snd (fst (run_events (tagged_step m) es c))))
   \<and> list_all prompt_output_ok (snd (run_events (tagged_step m) es c))
   \<and> submits_cleared (map snd (snd (run_events (tagged_step m) es c)))"
proof (induction es arbitrary: c)
  case (Cons e es)
  have "row_ok 3 (dp_approvalIndex (snd (fst (tagged_step m e c))))"
    using approval_index_step [OF Cons.prems] by (simp add: tagged_step_def split_beta)
  from Cons.IH [OF this] step_outputs [of m e c] show ?case by (simp add: split_beta submits_cleared_append)
qed simp

lemma mount_row: "row_ok 3 (dp_approvalIndex (snd (prompt_mount m p)))"
  using prompt_commit_index [of m p init_prompt] by (auto simp: prompt_mount_def init_prompt_def row_ok_def)

section \<open>The approval menu\<close>

definition arrow :: "bool \<Rightarrow> prompt_event" where
  "arrow down = DocumentKey (if down then ''ArrowDown'' else ''ArrowUp'') False"

text \<open>How far a sequence of arrow keys moves the selection: down counts one, up minus one.\<close>

fun moves :: "bool list \<Rightarrow> int" where
  "moves [] = 0"
| "moves (d # ds) = (if d then 1 else -1) + moves ds"

text \<open>A bar whose effects have run, with a request it can answer in all three ways.\<close>

definition answerable :: "prompt_modules \<Rightarrow> prompt_props \<Rightarrow> prompt_state \<Rightarrow> bool" where
  "answerable m p s =
     (hasPendingApproval p \<and> pp_isFocused p \<and> pp_hasApprove p \<and> pp_hasReject p \<and> pp_hasAutoApprove p
      \<and> dp_seen s = Some (seen_of m p s))"

lemma commit_settled: "dp_seen s = Some (seen_of m p s) \<Longrightarrow> prompt_commit m p s = (s, [])"
  by (simp add: prompt_commit_def dep_changed_def Let_def)

lemma seen_of_index [simp]: "seen_of m p (s\<lparr>dp_approvalIndex := i\<rparr>) = seen_of m p s"
  by (simp add: seen_of_def fileContext_def)

lemma pending_content: "hasPendingApproval p \<Longrightarrow> \<exists>r. pp_pendingApproval p = Some r"
  by (cases "pp_pendingApproval p") (simp_all add: hasPendingApproval_def request_id_def)

lemma arrow_step:
  assumes "answerable m p s" "dp_approvalIndex s = Some (k mod 3)"
  shows "prompt_step m (arrow d) (p, s) =
    ((p, s\<lparr>dp_approvalIndex := Some ((k + (if d then 1 else -1)) mod 3)\<rparr>), [KeyStopped, KeyPrevented])"
proof -
  obtain r where r: "pp_pendingApproval p = Some r"
    using assms(1) pending_content by (auto simp: answerable_def)
  have mods: "(k mod 3 + 1) mod 3 = (k + 1) mod (3 :: int)" "(k mod 3 - 1) mod 3 = (k - 1) mod (3 :: int)"
    by (simp_all add: mod_simps)
  have "prompt_react m (arrow d) p s =
      (s\<lparr>dp_approvalIndex := Some ((k + (if d then 1 else -1)) mod 3)\<rparr>, [KeyStopped, KeyPrevented])"
    using assms r by (simp add: arrow_def handleApprovalKeyDown_def handleModeKey_def approvalContent_def Let_def
        approval_options_length answerable_def next_row_Some previous_row_Some mods)
  moreover have "props_after (arrow d) p = p"
    by (simp add: arrow_def)
  moreover have "prompt_commit m p (s\<lparr>dp_approvalIndex := i\<rparr>) = (s\<lparr>dp_approvalIndex := i\<rparr>, [])" for i
    using assms(1) by (intro commit_settled) (simp add: answerable_def)
  ultimately show ?thesis by (simp add: prompt_step_def)
qed

lemma arrows_run:
  assumes "answerable m p s" "dp_approvalIndex s = Some (k mod 3)"
  shows "fst (run_events (prompt_step m) (map arrow ds) (p, s)) =
           (p, s\<lparr>dp_approvalIndex := Some ((k + moves ds) mod 3)\<rparr>)
         \<and> set (snd (run_events (prompt_step m) (map arrow ds) (p, s))) \<subseteq> {KeyStopped, KeyPrevented}"
  using assms
proof (induction ds arbitrary: s k)
  case Nil
  then show ?case by simp
next
  case (Cons d ds)
  let ?k = "k + (if d then 1 else -1)"
  let ?s = "s\<lparr>dp_approvalIndex := Some (?k mod 3)\<rparr>"
  have "answerable m p ?s" using Cons.prems(1) by (simp add: answerable_def)
  from Cons.IH [OF this, of ?k] arrow_step [OF Cons.prems, of d] show ?case
    by (simp add: split_beta add.assoc)
qed

section \<open>Keys that do more or less than they say\<close>

text \<open>
  A text that starts with a slash and has no space keeps the list of commands open. Enter then sends
  the selected command and clears the draft, whatever follows the command's name on the next lines,
  with the shift key as well; and with no command to select it does nothing, so such a text, a path
  for instance, cannot be sent.
\<close>

lemma command_enter:
  assumes "showCommandAutocomplete p"
  shows "promptKeyDown m p ''Enter'' shift s =
    (s, KeyPrevented # (case pm_commandAt m (commandQuery p) (dp_commandIndex s) of
                          Some c \<Rightarrow> [PromptSubmit (''/'' @ c), DraftSet []] | None \<Rightarrow> []))"
  using assms by (simp add: promptKeyDown_def command_keys_def showCommandAutocomplete_def)

definition sample_props :: "string \<Rightarrow> prompt_props" where
  "sample_props q =
     \<lparr>pp_query = q, pp_permissionMode = DefaultPermissions, pp_defaultModel = \<lparr>mc_name = ''m'', mc_effort = None\<rparr>,
      pp_sessionModel = None, pp_harness = ''h'', pp_busy = False, pp_projectPath = None, pp_mainProjectPath = None,
      pp_gitBranch = None, pp_githubPR = None, pp_isFocused = True, pp_isDragOver = False, pp_images = [],
      pp_hasRemove = True, pp_pendingApproval = None, pp_hasApprove = True, pp_hasReject = True,
      pp_hasAutoApprove = True\<rparr>"

definition sample_modules :: prompt_modules where
  "sample_modules =
     \<lparr>pm_commandCount = (\<lambda>q. if q = ''plan'' then 1 else 0),
      pm_commandAt = (\<lambda>q i. if q = ''plan'' \<and> i = Some 0 then Some ''plan'' else None),
      pm_fileContext = (\<lambda>_ _. None), pm_searchFiles = (\<lambda>_ _. []), pm_insertFileTag = (\<lambda>q _ _. (q, 0)),
      pm_modelsFor = (\<lambda>_. []), pm_displayName = (\<lambda>_. None)\<rparr>"

lemma lines_after_command_lost:
  "snd (promptKeyDown sample_modules (sample_props (''/plan'' @ [CHR 0x0A] @ ''rename'')) ''Enter'' False init_prompt) =
     [KeyPrevented, PromptSubmit ''/plan'', DraftSet []]"
  by code_simp

lemma path_not_sent:
  "snd (promptKeyDown sample_modules (sample_props ''/usr/bin'') ''Enter'' False init_prompt) = [KeyPrevented]"
  by code_simp

text \<open>Shift and tab in the field select a command and change the permission mode with one press.\<close>

lemma tab_does_both:
  "snd (run_events (prompt_step sample_modules) [FieldKey ''Tab'' True, DocumentKey ''Tab'' True]
     (prompt_mount sample_modules (sample_props ''/plan''))) =
     [KeyPrevented, DraftSet ''/plan '', InputFocus, KeyPrevented, PermissionSet FullAccess]"
  by code_simp

section \<open>Properties\<close>

text \<open>
  The desktop prompt bar, over every sequence of renderings, keys, clicks and answers: a decision
  is sent only for the request that is pending, and under its id; a prompt is handed over only while
  no request is pending, is not blank, is the trimmed draft or a command chosen in the open list, and
  the draft is cleared right after it; and the highlighted option is always one of the three.
\<close>

theorem prompt_bar_outputs:
  "case run_events (tagged_step m) es (prompt_mount m p) of
     (c, out) \<Rightarrow> list_all prompt_output_ok out \<and> submits_cleared (map snd out) \<and> row_ok 3 (dp_approvalIndex (snd c))"
  using tagged_run_ok [OF mount_row [of m p], of m es] by (auto split: prod.splits)

text \<open>
  The menu of an approval request is a ring of three: after any sequence of arrow keys the
  selection has moved by the downs less the ups modulo three, and enter sends exactly one decision,
  that of the highlighted option, for the pending request.
\<close>

theorem approval_menu_ring:
  assumes "answerable m p s" "dp_approvalIndex s = Some 0"
  shows "filter (\<lambda>x. x \<noteq> KeyStopped \<and> x \<noteq> KeyPrevented)
           (snd (run_events (prompt_step m) (map arrow ds @ [DocumentKey ''Enter'' shift]) (p, s))) =
         [ApprovalSent ([ApproveD, AutoApproveD, RejectD] ! nat (moves ds mod 3)) (the (request_id p))]"
proof -
  let ?k = "moves ds mod 3"
  let ?s = "s\<lparr>dp_approvalIndex := Some ?k\<rparr>"
  let ?d = "[ApproveD, AutoApproveD, RejectD] ! nat ?k"
  obtain r where r: "pp_pendingApproval p = Some r"
    using assms(1) pending_content by (auto simp: answerable_def)
  have run: "fst (run_events (prompt_step m) (map arrow ds) (p, s)) = (p, ?s)"
    "filter (\<lambda>x. x \<noteq> KeyStopped \<and> x \<noteq> KeyPrevented) (snd (run_events (prompt_step m) (map arrow ds) (p, s))) = []"
    using arrows_run [OF assms(1), of 0 ds] assms(2) by (auto simp: filter_empty_conv)
  have ix: "nat ?k < 3" by (simp add: nat_less_iff)
  have "at_index (apc_options (buildApprovalPromptContent r)) (Some ?k) =
      Some (apc_options (buildApprovalPromptContent r) ! nat ?k)"
    by (subst at_index_row) (simp_all add: row_ok_def approval_options_length)
  moreover have "snd (apc_options (buildApprovalPromptContent r) ! nat ?k) = ?d"
    by (rule approval_option_decision [OF ix])
  ultimately have "prompt_react m (DocumentKey ''Enter'' shift) p ?s =
      (?s, [KeyStopped, KeyPrevented] @ submitApprovalDecision p ?d)"
    using assms(1) r
    by (auto simp: handleApprovalKeyDown_def handleModeKey_def approvalContent_def answerable_def Let_def
        split: prod.split)
  moreover have "prompt_commit m p ?s = (?s, [])"
    using assms(1) by (intro commit_settled) (simp add: answerable_def)
  moreover have "submitApprovalDecision p ?d = [ApprovalSent ?d (the (request_id p))]"
    using assms(1) by (cases ?d) (simp_all add: submitApprovalDecision_def answerable_def)
  ultimately have "snd (prompt_step m (DocumentKey ''Enter'' shift) (p, ?s)) =
      [KeyStopped, KeyPrevented, ApprovalSent ?d (the (request_id p))]"
    by (simp add: prompt_step_def)
  then show ?thesis
    using run by (simp add: run_events_append split_beta)
qed

definition sample_request :: PromptApprovalRequest where
  "sample_request =
     \<lparr>par_requestId = ''r1'', par_title = ''Run'', par_toolKind = ExecuteK,
      par_input = JObj [(''command'', JStr ''ls'')], par_diffData = None\<rparr>"

lemma approval_menu_ring_witness:
  "filter (\<lambda>x. x \<noteq> KeyStopped \<and> x \<noteq> KeyPrevented)
     (snd (run_events (prompt_step sample_modules) (map arrow [False] @ [DocumentKey ''Enter'' False])
        (prompt_mount sample_modules ((sample_props [])\<lparr>pp_pendingApproval := Some sample_request\<rparr>)))) =
   [ApprovalSent RejectD ''r1'']"
proof -
  let ?p = "(sample_props [])\<lparr>pp_pendingApproval := Some sample_request\<rparr>"
  let ?s = "snd (prompt_mount sample_modules ?p)"
  have "answerable sample_modules ?p ?s" "dp_approvalIndex ?s = Some 0" "the (request_id ?p) = ''r1''"
    "prompt_mount sample_modules ?p = (?p, ?s)" "[ApproveD, AutoApproveD, RejectD] ! nat (moves [False] mod 3) = RejectD"
    by code_simp+
  then show ?thesis
    using approval_menu_ring [of sample_modules ?p ?s "[False]" False] by simp
qed

end
