(* ===== verification/Desktop_Pickers.thy ===== *)
theory Desktop_Pickers
  imports Desktop_Prompt
begin

text \<open>
  Two pickers of the desktop chat: \<open>ported/ThreadPicker.tsx\<close>, the earlier conversations of a project
  grouped by age, and \<open>ported/BranchSelector.tsx\<close>, the branches of its repository. The storage, the
  host's git, the clock and the locale's times are arguments.
\<close>

section \<open>Conversations by age\<close>

text \<open>The fields of a stored conversation that the picker reads; its type is not in the repository.\<close>

record StoredThread =
  st_id :: string
  st_title :: string
  st_updatedAt :: int
  st_messages :: "Message list"

definition getTimeGroup :: "int \<Rightarrow> int \<Rightarrow> string" where
  "getTimeGroup now timestamp =
     (let diff = now - timestamp; days = diff div (1000 * 60 * 60 * 24) in
      if days = 0 then ''Today''
      else if days = 1 then ''Yesterday''
      else if days < 7 then int_str days @ ''d ago''
      else if days < 14 then ''1w ago''
      else int_str (days div 7) @ ''w ago'')"

definition latest_first :: "StoredThread \<Rightarrow> StoredThread \<Rightarrow> bool" where
  "latest_first a b = (st_updatedAt b - st_updatedAt a \<le> 0)"

definition add_to_group ::
  "int \<Rightarrow> StoredThread \<Rightarrow> (string, StoredThread list) js_map \<Rightarrow> (string, StoredThread list) js_map" where
  "add_to_group now t m =
     (let group = getTimeGroup now (st_updatedAt t); existing = nullish (map_get m group) []
      in map_set group (existing @ [t]) m)"

text \<open>The calls of \<open>Date.now()\<close> during one rendering give the same time.\<close>

definition groupThreadsByTime :: "int \<Rightarrow> StoredThread list \<Rightarrow> (string \<times> StoredThread list) list" where
  "groupThreadsByTime now threads = fold (add_to_group now) (sort_by latest_first threads) []"

definition flat_list :: "(string \<times> StoredThread list) list \<Rightarrow> StoredThread list" where
  "flat_list groups = concat (map snd groups)"

section \<open>The thread picker\<close>

record picker_state =
  pk_threads :: "StoredThread list"
  pk_loading :: bool
  pk_selected :: int
  pk_search :: string

definition init_picker :: picker_state where
  "init_picker = \<lparr>pk_threads = [], pk_loading = True, pk_selected = 0, pk_search = []\<rparr>"

text \<open>A choice of \<open>None\<close> is \<open>onSelect(undefined)\<close>.\<close>

datatype picker_output = LoadThreads string | PickerClosed | PickerChose "StoredThread option"

definition picker_filtered :: "picker_state \<Rightarrow> StoredThread list" where
  "picker_filtered s =
     (if pk_search s \<noteq> []
      then filter (\<lambda>t. str_includes (toLowerCase (st_title t)) (toLowerCase (pk_search s))) (pk_threads s)
      else pk_threads s)"

definition picker_flat :: "int \<Rightarrow> picker_state \<Rightarrow> StoredThread list" where
  "picker_flat now s = flat_list (groupThreadsByTime now (picker_filtered s))"

text \<open>The answer of the storage, with the open sessions at the time of the request.\<close>

definition threads_loaded :: "string list \<Rightarrow> StoredThread list \<Rightarrow> picker_state \<Rightarrow> picker_state" where
  "threads_loaded active loaded s =
     s\<lparr>pk_threads := sort_by latest_first (filter (\<lambda>t. st_id t \<notin> set active) loaded), pk_loading := False\<rparr>"

definition picker_key :: "int \<Rightarrow> string \<Rightarrow> picker_state \<Rightarrow> picker_state \<times> picker_output list" where
  "picker_key now key s =
     (let flat = picker_flat now s in
      if key = ''Escape'' then (s, [PickerClosed])
      else if key = ''ArrowDown'' then (s\<lparr>pk_selected := min (pk_selected s + 1) (int (length flat) - 1)\<rparr>, [])
      else if key = ''ArrowUp'' then (s\<lparr>pk_selected := max (pk_selected s - 1) 0\<rparr>, [])
      else if key = ''Enter'' \<and> length flat > 0 then (s, [PickerChose (at_index flat (Some (pk_selected s)))])
      else (s, []))"

definition picker_search :: "string \<Rightarrow> picker_state \<Rightarrow> picker_state" where
  "picker_search v s = (if v = pk_search s then s else s\<lparr>pk_search := v, pk_selected := 0\<rparr>)"

text \<open>\<open>PickerProps\<close> is a change of the project or of the open sessions, which loads again.\<close>

datatype picker_event =
    PickerProps string
  | ThreadsLoaded "string list" "StoredThread list"
  | PickerKey string
  | PickerSearch string
  | PickerClicked StoredThread

fun picker_step :: "int \<Rightarrow> picker_event \<Rightarrow> picker_state \<Rightarrow> picker_state \<times> picker_output list" where
  "picker_step now (PickerProps projectId) s = (s, [LoadThreads projectId])"
| "picker_step now (ThreadsLoaded active loaded) s = (threads_loaded active loaded s, [])"
| "picker_step now (PickerKey key) s = picker_key now key s"
| "picker_step now (PickerSearch v) s = (picker_search v s, [])"
| "picker_step now (PickerClicked t) s = (s, [PickerChose (Some t)])"

definition messageCount :: "StoredThread \<Rightarrow> string" where
  "messageCount t =
     (let count = length (filter (\<lambda>m. msg_author m = UserAuthor \<or> msg_author m = AgentAuthor) (st_messages t))
      in nat_str count @ '' msg'' @ (if count \<noteq> 1 then ''s'' else []))"

text \<open>A row: title, number of messages, time of day, and whether it is the selected one.\<close>

type_synonym picker_row = "string \<times> string \<times> string \<times> bool"

datatype PickerView = PickerLoading | PickerEmpty string | PickerGroups "(string \<times> picker_row list) list"

fun picker_rows :: "(int \<Rightarrow> string) \<Rightarrow> int \<Rightarrow> nat \<Rightarrow> StoredThread list \<Rightarrow> picker_row list" where
  "picker_rows time sel k [] = []"
| "picker_rows time sel k (t # ts) =
     (st_title t, messageCount t, time (st_updatedAt t), int k = sel) # picker_rows time sel (Suc k) ts"

fun picker_groups ::
  "(int \<Rightarrow> string) \<Rightarrow> int \<Rightarrow> nat \<Rightarrow> (string \<times> StoredThread list) list \<Rightarrow> (string \<times> picker_row list) list" where
  "picker_groups time sel k [] = []"
| "picker_groups time sel k ((g, ts) # gs) =
     (g, picker_rows time sel k ts) # picker_groups time sel (k + length ts) gs"

definition ThreadPicker :: "(int \<Rightarrow> string) \<Rightarrow> int \<Rightarrow> picker_state \<Rightarrow> PickerView" where
  "ThreadPicker time now s =
     (let groups = groupThreadsByTime now (picker_filtered s) in
      if pk_loading s then PickerLoading
      else if length (flat_list groups) = 0
      then PickerEmpty (if pk_search s \<noteq> [] then ''No matching conversations''
                        else ''No previous conversations for this project'')
      else PickerGroups (picker_groups time (pk_selected s) 0 groups))"

section \<open>The branch selector\<close>

record branch_state =
  br_open :: bool
  br_branches :: "string list"
  br_loading :: bool
  br_search :: string
  br_newName :: string
  br_showNew :: bool
  br_error :: "string option"

definition init_branch :: branch_state where
  "init_branch =
     \<lparr>br_open = False, br_branches = [], br_loading = False, br_search = [], br_newName = [],
      br_showNew = False, br_error = None\<rparr>"

datatype branch_output = ListBranches string | SwitchBranch string string | CreateBranch string string

text \<open>What git answers to a switch or a creation: whether it succeeded, and an error.\<close>

type_synonym branch_result = "bool \<times> string option"

definition filteredBranches :: "branch_state \<Rightarrow> string list" where
  "filteredBranches s =
     (if trim (br_search s) = [] then br_branches s
      else filter (\<lambda>b. str_includes (toLowerCase b) (toLowerCase (br_search s))) (br_branches s))"

definition load_begin :: "string \<Rightarrow> branch_state \<Rightarrow> branch_state \<times> branch_output list" where
  "load_begin projectPath s = (s\<lparr>br_loading := True, br_error := None\<rparr>, [ListBranches projectPath])"

definition load_end :: "js_error + string list \<Rightarrow> branch_state \<Rightarrow> branch_state" where
  "load_end res s =
     (case res of Inr found \<Rightarrow> s\<lparr>br_branches := found, br_loading := False\<rparr>
                | Inl _ \<Rightarrow> s\<lparr>br_error := Some ''Failed to load branches'', br_loading := False\<rparr>)"

definition branch_open :: "string \<Rightarrow> branch_state \<Rightarrow> branch_state \<times> branch_output list" where
  "branch_open projectPath s =
     load_begin projectPath
       (s\<lparr>br_open := True, br_showNew := False, br_newName := [], br_search := [], br_error := None\<rparr>)"

definition branch_close :: "branch_state \<Rightarrow> branch_state" where
  "branch_close s = s\<lparr>br_open := False, br_showNew := False, br_newName := [], br_search := [], br_error := None\<rparr>"

definition handleSwitchBranch ::
  "string \<Rightarrow> string \<Rightarrow> string \<Rightarrow> branch_state \<Rightarrow> branch_state \<times> branch_output list" where
  "handleSwitchBranch projectPath current name s =
     (if name = current then (branch_close s, [])
      else (s\<lparr>br_loading := True, br_error := None\<rparr>, [SwitchBranch projectPath name]))"

text \<open>After the await. A rejected promise throws out of the handler, which has no \<open>finally\<close>.\<close>

definition branch_answered :: "string \<Rightarrow> js_error + branch_result \<Rightarrow> branch_state \<Rightarrow> branch_state" where
  "branch_answered fallback res s =
     (case res of
        Inl _ \<Rightarrow> s
      | Inr (success, e) \<Rightarrow>
          (let s' = s\<lparr>br_loading := False\<rparr> in
           if success then branch_close s'
           else s'\<lparr>br_error := Some (if truthy_str e then the e else fallback)\<rparr>))"

definition handleCreateNewBranch :: "string \<Rightarrow> branch_state \<Rightarrow> branch_state \<times> branch_output list" where
  "handleCreateNewBranch projectPath s =
     (let name = trim (br_newName s) in
      if name = [] then (s, []) else (s\<lparr>br_loading := True, br_error := None\<rparr>, [CreateBranch projectPath name]))"

definition branch_key :: "string \<Rightarrow> string \<Rightarrow> branch_state \<Rightarrow> branch_state \<times> branch_output list" where
  "branch_key projectPath key s =
     (if key = ''Escape'' then (branch_close s, [])
      else if key = ''Enter'' \<and> br_showNew s then handleCreateNewBranch projectPath s
      else (s, []))"

datatype branch_event =
    BranchButton
  | BranchOutside
  | BranchesListed "js_error + string list"
  | BranchChosen nat
  | SwitchAnswered "js_error + branch_result"
  | ShowNewBranch
  | NewNameChanged string
  | CreateClicked
  | CreateAnswered "js_error + branch_result"
  | BranchKey string
  | BranchSearch string

text \<open>A click reaches its handler where the element is shown and not disabled.\<close>

fun branch_step :: "string \<Rightarrow> string \<Rightarrow> branch_event \<Rightarrow> branch_state \<Rightarrow> branch_state \<times> branch_output list" where
  "branch_step path current BranchButton s = (if br_open s then (branch_close s, []) else branch_open path s)"
| "branch_step path current BranchOutside s = (if br_open s then (branch_close s, []) else (s, []))"
| "branch_step path current (BranchesListed res) s = (load_end res s, [])"
| "branch_step path current (BranchChosen i) s =
     (if br_open s \<and> \<not> br_loading s \<and> i < length (filteredBranches s)
      then handleSwitchBranch path current (filteredBranches s ! i) s else (s, []))"
| "branch_step path current (SwitchAnswered res) s = (branch_answered ''Failed to switch branch'' res s, [])"
| "branch_step path current ShowNewBranch s = (if br_open s then s\<lparr>br_showNew := True\<rparr> else s, [])"
| "branch_step path current (NewNameChanged v) s = (if br_open s \<and> br_showNew s then s\<lparr>br_newName := v\<rparr> else s, [])"
| "branch_step path current CreateClicked s =
     (if br_open s \<and> br_showNew s \<and> \<not> br_loading s \<and> trim (br_newName s) \<noteq> []
      then handleCreateNewBranch path s else (s, []))"
| "branch_step path current (CreateAnswered res) s = (branch_answered ''Failed to create branch'' res s, [])"
| "branch_step path current (BranchKey key) s = branch_key path key s"
| "branch_step path current (BranchSearch v) s = (if br_open s then s\<lparr>br_search := v\<rparr> else s, [])"

text \<open>A row: the branch and whether it is the current one. The last part is the field for a new name with
  whether its button is disabled.\<close>

datatype BranchBody = BranchesLoading | NoBranches | BranchRows "(string \<times> bool) list" bool

record BranchView =
  bv_label :: string
  bv_menu :: "(string option \<times> BranchBody \<times> (string \<times> bool) option) option"

definition BranchSelector :: "string \<Rightarrow> branch_state \<Rightarrow> BranchView" where
  "BranchSelector current s =
     \<lparr>bv_label = current,
      bv_menu =
        (if br_open s
         then Some (if truthy_str (br_error s) then br_error s else None,
                    if br_loading s \<and> length (br_branches s) = 0 then BranchesLoading
                    else if length (filteredBranches s) = 0 then NoBranches
                    else BranchRows (map (\<lambda>b. (b, b = current)) (filteredBranches s)) (br_loading s),
                    if br_showNew s then Some (br_newName s, br_loading s \<or> trim (br_newName s) = []) else None)
         else None)\<rparr>"

section \<open>Facts on the groups\<close>

interpretation by_time: comparator latest_first
  by unfold_locales (auto simp: latest_first_def)

text \<open>The group as a number that grows with the age.\<close>

definition age_key :: "int \<Rightarrow> int \<Rightarrow> int" where
  "age_key now timestamp =
     (let days = (now - timestamp) div (1000 * 60 * 60 * 24) in if days < 7 then days else 6 + days div 7)"

lemma getTimeGroup_weeks:
  "getTimeGroup now t =
     (let days = (now - t) div (1000 * 60 * 60 * 24) in
      if days = 0 then ''Today'' else if days = 1 then ''Yesterday''
      else if days < 7 then int_str days @ ''d ago'' else int_str (days div 7) @ ''w ago'')"
proof -
  define d where "d = (now - t) div (1000 * 60 * 60 * 24)"
  have "d div 7 = 1" if "7 \<le> d" "d < 14" using that by linarith
  moreover have "int_str 1 = ''1''" by code_simp
  ultimately show ?thesis by (simp only: getTimeGroup_def Let_def flip: d_def) auto
qed

lemma group_words:
  "int_str d @ ''d ago'' \<noteq> int_str e @ ''w ago''"
  "''Today'' \<noteq> int_str d @ ''d ago''" "''Today'' \<noteq> int_str d @ ''w ago''"
  "''Yesterday'' \<noteq> int_str d @ ''d ago''" "''Yesterday'' \<noteq> int_str d @ ''w ago''"
proof -
  have "rev (x @ ''d ago'') \<noteq> rev (y @ ''w ago'')" "rev ''Today'' \<noteq> rev (x @ ''d ago'')"
    "rev ''Today'' \<noteq> rev (x @ ''w ago'')" "rev ''Yesterday'' \<noteq> rev (x @ ''d ago'')"
    "rev ''Yesterday'' \<noteq> rev (x @ ''w ago'')" for x y
    by simp_all
  then show "int_str d @ ''d ago'' \<noteq> int_str e @ ''w ago''"
    "''Today'' \<noteq> int_str d @ ''d ago''" "''Today'' \<noteq> int_str d @ ''w ago''"
    "''Yesterday'' \<noteq> int_str d @ ''d ago''" "''Yesterday'' \<noteq> int_str d @ ''w ago''"
    by metis+
qed

definition age_label :: "int \<Rightarrow> string" where
  "age_label days =
     (if days = 0 then ''Today'' else if days = 1 then ''Yesterday''
      else if days < 7 then int_str days @ ''d ago'' else int_str (days div 7) @ ''w ago'')"

lemma age_label_days: "d < 7 \<Longrightarrow> e < 7 \<Longrightarrow> age_label d = age_label e \<longleftrightarrow> d = e"
  by (simp add: age_label_def group_words group_words [symmetric])

lemma age_label_weeks: "7 \<le> d \<Longrightarrow> 7 \<le> e \<Longrightarrow> age_label d = age_label e \<longleftrightarrow> d div 7 = e div 7"
  by (simp add: age_label_def)

lemma age_label_mixed: "d < 7 \<Longrightarrow> 7 \<le> e \<Longrightarrow> age_label d \<noteq> age_label e"
  by (simp add: age_label_def group_words)

lemma group_iff_key: "getTimeGroup now a = getTimeGroup now b \<longleftrightarrow> age_key now a = age_key now b"
proof -
  define d e where "d = (now - a) div (1000 * 60 * 60 * 24)" and "e = (now - b) div (1000 * 60 * 60 * 24)"
  have weeks: "7 \<le> (x :: int) \<Longrightarrow> 7 \<le> 6 + x div 7" for x by linarith
  have "getTimeGroup now a = age_label d" "getTimeGroup now b = age_label e"
    by (simp_all add: getTimeGroup_weeks age_label_def d_def e_def Let_def)
  moreover have "age_key now a = (if d < 7 then d else 6 + d div 7)" "age_key now b = (if e < 7 then e else 6 + e div 7)"
    by (simp_all only: age_key_def d_def e_def Let_def)
  ultimately show ?thesis
    using age_label_days [of d e] age_label_weeks [of d e] age_label_mixed [of d e] age_label_mixed [of e d]
      weeks [of d] weeks [of e]
    by (smt (verit))
qed

lemma age_key_mono: "b \<le> a \<Longrightarrow> age_key now a \<le> age_key now b"
proof -
  define d e where "d = (now - a) div (1000 * 60 * 60 * 24)" and "e = (now - b) div (1000 * 60 * 60 * 24)"
  assume "b \<le> a"
  then have de: "d \<le> e"
    unfolding d_def e_def by (intro zdiv_mono1) simp_all
  then have "d div 7 \<le> e div 7" by (intro zdiv_mono1) simp_all
  moreover have "7 \<le> e \<Longrightarrow> 1 \<le> e div 7" by linarith
  moreover have "age_key now a = (if d < 7 then d else 6 + d div 7)" "age_key now b = (if e < 7 then e else 6 + e div 7)"
    by (simp_all only: age_key_def d_def e_def Let_def)
  ultimately show ?thesis using de by (auto split: if_splits)
qed

text \<open>A run of threads that never gets younger.\<close>

abbreviation ages_sorted :: "int \<Rightarrow> StoredThread list \<Rightarrow> bool" where
  "ages_sorted now \<equiv> sorted_wrt (\<lambda>a b. age_key now (st_updatedAt a) \<le> age_key now (st_updatedAt b))"

lemma sorted_ages: "ages_sorted now (sort_by latest_first ts)"
  by (rule sorted_wrt_mono_rel [OF _ by_time.sorted_sort_by])
    (auto simp: latest_first_def intro: age_key_mono)

lemma map_set_new: "k \<notin> fst ` set m \<Longrightarrow> map_set k v m = m @ [(k, v)]"
  by (induction m) auto

lemma map_set_last: "k \<notin> fst ` set m \<Longrightarrow> map_set k v (m @ [(k, w)]) = m @ [(k, v)]"
  by (induction m) auto

lemma map_get_last: "k \<notin> fst ` set m \<Longrightarrow> map_get (m @ [(k, w)]) k = Some w"
  by (simp add: map_of_eq_None_iff [THEN iffD2] map_add_Some_iff)

lemma sorted_wrt_last: "sorted_wrt P xs \<Longrightarrow> u \<in> set xs \<Longrightarrow> u = last xs \<or> P u (last xs)"
  by (cases xs rule: rev_cases) (auto simp: sorted_wrt_append)

definition well_grouped :: "int \<Rightarrow> (string \<times> StoredThread list) list \<Rightarrow> bool" where
  "well_grouped now m =
     (distinct (map fst m)
      \<and> list_all (\<lambda>(g, us). us \<noteq> [] \<and> list_all (\<lambda>u. getTimeGroup now (st_updatedAt u) = g) us) m)"

lemma groups_of_sorted:
  "ages_sorted now ts \<Longrightarrow>
   flat_list (fold (add_to_group now) ts []) = ts \<and> well_grouped now (fold (add_to_group now) ts [])"
proof (induction ts rule: rev_induct)
  case Nil
  then show ?case by (simp add: flat_list_def well_grouped_def)
next
  case (snoc t ts)
  define m where "m = fold (add_to_group now) ts []"
  let ?g = "getTimeGroup now (st_updatedAt t)"
  have sorted: "ages_sorted now ts"
    "u \<in> set ts \<Longrightarrow> age_key now (st_updatedAt u) \<le> age_key now (st_updatedAt t)" for u
    using snoc.prems by (auto simp: sorted_wrt_append)
  from snoc.IH [OF sorted(1)] have flat: "flat_list m = ts" and wg: "well_grouped now m"
    by (simp_all add: m_def)
  show ?case
  proof (cases "?g \<in> fst ` set m")
    case False
    then have "map_get m ?g = None" by (simp add: map_of_eq_None_iff)
    then have "add_to_group now t m = m @ [(?g, [t])]"
      using False by (simp add: add_to_group_def Let_def nullish_def map_set_new)
    then show ?thesis
      using flat wg False by (simp add: m_def flat_list_def well_grouped_def)
  next
    case True
    then obtain us u where us: "(?g, us) \<in> set m" "u \<in> set us" "getTimeGroup now (st_updatedAt u) = ?g"
      using wg by (fastforce simp: well_grouped_def list_all_iff neq_Nil_conv)
    obtain m' g' us' where m': "m = m' @ [(g', us')]"
      using us(1) by (cases m rule: rev_cases) auto
    have us': "us' \<noteq> []" "getTimeGroup now (st_updatedAt (last us')) = g'"
      using wg m' by (auto simp: well_grouped_def list_all_iff)
    have "u \<in> set ts" using us(1,2) flat by (force simp: flat_list_def)
    moreover have "last ts = last us'" "last us' \<in> set ts"
      using flat us'(1) m' by (auto simp: flat_list_def)
    ultimately have "age_key now (st_updatedAt u) \<le> age_key now (st_updatedAt (last us'))"
      using sorted_wrt_last [OF sorted(1)] by fastforce
    moreover have "age_key now (st_updatedAt (last us')) \<le> age_key now (st_updatedAt t)"
      using sorted(2) \<open>last us' \<in> set ts\<close> by blast
    ultimately have "g' = ?g"
      using us(3) us'(2) group_iff_key by (metis order.antisym)
    moreover have "g' \<notin> fst ` set m'"
      using wg m' by (simp add: well_grouped_def)
    ultimately have "map_get m ?g = Some us'" "map_set ?g (us' @ [t]) m = m' @ [(?g, us' @ [t])]"
      using m' by (metis map_get_last, metis map_set_last)
    then have "add_to_group now t m = m' @ [(?g, us' @ [t])]"
      by (simp add: add_to_group_def Let_def nullish_def)
    then show ?thesis
      using flat wg m' \<open>g' = ?g\<close> by (simp add: m_def [symmetric] flat_list_def well_grouped_def)
  qed
qed

section \<open>Facts on the pickers\<close>

lemma flat_sorted: "picker_flat now s = sort_by latest_first (picker_filtered s)"
  using groups_of_sorted [OF sorted_ages] by (simp add: picker_flat_def groupThreadsByTime_def)

text \<open>The selected row, where there is one, is a row of the list.\<close>

definition selection_ok :: "int \<Rightarrow> picker_state \<Rightarrow> bool" where
  "selection_ok now s = (0 \<le> pk_selected s \<and> pk_selected s < int (length (picker_flat now s)))"

lemma picker_flat_selected [simp]: "picker_flat now (s\<lparr>pk_selected := i\<rparr>) = picker_flat now s"
  by (simp add: picker_flat_def picker_filtered_def)

lemma keys_keep_selection:
  "selection_ok now s \<Longrightarrow> selection_ok now (fst (picker_key now key s))"
  by (auto simp: selection_ok_def picker_key_def Let_def)

lemma enter_chooses:
  "selection_ok now s \<Longrightarrow>
   picker_key now ''Enter'' s = (s, [PickerChose (Some (picker_flat now s ! nat (pk_selected s)))])"
  by (auto simp: selection_ok_def picker_key_def Let_def at_index_def)

lemma picker_rows_nth:
  "i < length ts \<Longrightarrow> picker_rows time sel k ts ! i =
     (st_title (ts ! i), messageCount (ts ! i), time (st_updatedAt (ts ! i)), int (k + i) = sel)"
  by (induction ts arbitrary: k i) (auto simp: nth_Cons split: nat.splits)

lemma picker_rows_append:
  "picker_rows time sel k (ts @ us) = picker_rows time sel k ts @ picker_rows time sel (k + length ts) us"
  by (induction ts arbitrary: k) simp_all

text \<open>The running index of the groups counts the rows of the flat list.\<close>

lemma picker_groups_flat:
  "concat (map snd (picker_groups time sel k gs)) = picker_rows time sel k (flat_list gs)"
  by (induction time sel k gs rule: picker_groups.induct) (simp_all add: flat_list_def picker_rows_append)

definition stored :: "string \<Rightarrow> int \<Rightarrow> StoredThread" where
  "stored i t = \<lparr>st_id = i, st_title = i, st_updatedAt = t, st_messages = []\<rparr>"

text \<open>
  An arrow key while the list is still empty puts the selection at -1, where it stays when the
  conversations arrive; enter then chooses \<open>undefined\<close>.
\<close>

lemma arrow_while_loading:
  "snd (run_events (picker_step 100)
     [PickerKey ''ArrowDown'', ThreadsLoaded [] [stored ''a'' 90], PickerKey ''Enter''] init_picker) =
   [PickerChose None]"
  by code_simp

text \<open>A late answer for an earlier project replaces the list of the present one.\<close>

lemma late_load_wins:
  "pk_threads (fst (run_events (picker_step 100)
     [PickerProps ''p1'', PickerProps ''p2'', ThreadsLoaded [] [stored ''of p2'' 90], ThreadsLoaded [] [stored ''of p1'' 80]]
     init_picker)) = [stored ''of p1'' 80]"
  by code_simp

text \<open>
  The button that creates a branch is disabled while a request is under way, the enter key is not: a
  second press creates the branch a second time. A rejected promise leaves the selector loading.
\<close>

lemma enter_creates_twice:
  "snd (run_events (branch_step ''/p'' ''main'')
     [BranchButton, BranchesListed (Inr [''main'']), ShowNewBranch, NewNameChanged ''topic'', BranchKey ''Enter'',
      BranchKey ''Enter''] init_branch) =
   [ListBranches ''/p'', CreateBranch ''/p'' ''topic'', CreateBranch ''/p'' ''topic'']"
  by code_simp

lemma rejection_keeps_loading:
  "br_loading s \<Longrightarrow> br_loading (fst (branch_step path current (SwitchAnswered (Inl e)) s))"
  "br_loading s \<Longrightarrow> br_loading (fst (branch_step path current (CreateAnswered (Inl e)) s))"
  by (simp_all add: branch_answered_def)

text \<open>What a closed selector holds; every request it sends but the first names something.\<close>

definition branch_ok :: "branch_state \<Rightarrow> bool" where
  "branch_ok s = (br_open s \<or> \<not> br_showNew s \<and> br_newName s = [] \<and> br_search s = [])"

fun branch_request_ok :: "string \<Rightarrow> string \<Rightarrow> branch_output \<Rightarrow> bool" where
  "branch_request_ok path current (ListBranches p) = (p = path)"
| "branch_request_ok path current (SwitchBranch p b) = (p = path \<and> b \<noteq> current)"
| "branch_request_ok path current (CreateBranch p b) = (p = path \<and> b \<noteq> [] \<and> trim b = b)"

lemma branch_step_ok:
  "branch_ok s \<Longrightarrow> branch_step path current e s = (s', out) \<Longrightarrow> branch_ok s' \<and> list_all (branch_request_ok path current) out"
  by (cases e)
    (auto simp: branch_ok_def branch_open_def branch_close_def load_begin_def load_end_def handleSwitchBranch_def
      branch_answered_def handleCreateNewBranch_def branch_key_def Let_def split: if_splits sum.splits prod.splits)

lemma branch_run_ok:
  "list_all (branch_request_ok path current) (snd (run_events (branch_step path current) es init_branch))"
proof (rule run_events_outputs [where I = branch_ok])
  show "branch_ok init_branch" by (simp add: branch_ok_def init_branch_def)
qed (rule branch_step_ok)

section \<open>Properties\<close>

text \<open>
  Grouping the conversations by age loses nothing and reorders nothing: read one after the
  other, the groups are the conversations from the latest to the oldest, so that the index moved by
  the arrow keys is that of the highlighted row. The groups have different names, none is empty, and
  each holds the conversations of its name.
\<close>

theorem thread_groups_flat:
  "let groups = groupThreadsByTime now threads in
   flat_list groups = sort_by latest_first threads
   \<and> distinct (map fst groups)
   \<and> list_all (\<lambda>(g, ts). ts \<noteq> [] \<and> list_all (\<lambda>t. getTimeGroup now (st_updatedAt t) = g) ts) groups
   \<and> concat (map snd (picker_groups time sel 0 groups)) = picker_rows time sel 0 (sort_by latest_first threads)"
  using groups_of_sorted [OF sorted_ages [of now threads]]
  by (simp add: groupThreadsByTime_def well_grouped_def picker_groups_flat Let_def)

end
