(* ===== verification/Chat_View.thy ===== *)
theory Chat_View
  imports Desktop_Pickers Prompt_Bar Tool_Cards Changed_Files Display
begin

text \<open>
  \<open>components/agents/ported/ChatView.tsx\<close>: the chat of the desktop application around its prompt bar,
  with the queue of prompts, the images dropped on it, the approval requests and the scheduled loops.
  The store is not in the repository: what the component reads of it is its input at a rendering, what
  it calls is an output. \<open>fresh\<close> is the store's state read in the middle of a handler, a function of
  the calls made so far; \<open>command\<close> says whether a slash text is a command that was executed.
\<close>

section \<open>Messages for the model\<close>

datatype content_block = ImageUrl string | TextBlock string
datatype chat_role = UserRole | AssistantRole
datatype chat_content = Blocks "content_block list" | PlainText string

type_synonym chat_message = "chat_role \<times> chat_content"

definition data_url :: "ImageData \<Rightarrow> string" where
  "data_url img = ''data:'' @ img_mimeType img @ '';base64,'' @ img_base64 img"

definition fenced :: "string \<Rightarrow> string option \<Rightarrow> string" where
  "fenced t language =
     [CHR 0x0A] @ ''```'' @ (if truthy_str language then the language else []) @ [CHR 0x0A] @ t @ [CHR 0x0A] @ ''```'' @ [CHR 0x0A]"

fun push_block :: "content_block list \<Rightarrow> Chunk \<Rightarrow> content_block list" where
  "push_block blocks (ImageChunk img) = blocks @ [ImageUrl (data_url img)]"
| "push_block blocks (TextChunk t) = blocks @ [TextBlock t]"
| "push_block blocks (CodeChunk t l) = blocks @ [TextBlock (fenced t l)]"
| "push_block blocks _ = blocks"

fun plain_of :: "Chunk \<Rightarrow> string" where
  "plain_of (TextChunk t) = t"
| "plain_of (CodeChunk t l) = fenced t l"
| "plain_of _ = []"

definition push_message :: "chat_message list \<Rightarrow> Message \<Rightarrow> chat_message list" where
  "push_message acc m =
     (if msg_author m = UserAuthor \<or> msg_author m = AgentAuthor then
        (let role = (if msg_author m = UserAuthor then UserRole else AssistantRole) in
         if list_ex (\<lambda>c. chunk_kind c = KImage) (msg_chunks m) then
           (let blocks = foldl push_block [] (msg_chunks m)
            in if length blocks > 0 then acc @ [(role, Blocks blocks)] else acc)
         else
           (let textContent = concat (map plain_of (msg_chunks m))
            in if textContent \<noteq> [] then acc @ [(role, PlainText textContent)] else acc))
      else acc)"

definition messagesToChatMessages :: "Message list \<Rightarrow> chat_message list" where
  "messagesToChatMessages messages = foldl push_message [] messages"

section \<open>The pending approval\<close>

fun awaits_approval :: "Chunk \<Rightarrow> bool" where
  "awaits_approval (ToolChunk t) = (tc_status t = PendingS \<and> truthy_str (tc_approvalRequestId t))"
| "awaits_approval _ = False"

text \<open>The two loops run from the last message and the last chunk backwards.\<close>

fun latest_in_chunks :: "Chunk list \<Rightarrow> ToolExecutionChunk option" where
  "latest_in_chunks [] = None"
| "latest_in_chunks (c # cs) = (if awaits_approval c then chunk_tool c else latest_in_chunks cs)"

fun latest_in_messages :: "Message list \<Rightarrow> ToolExecutionChunk option" where
  "latest_in_messages [] = None"
| "latest_in_messages (m # ms) =
     (case latest_in_chunks (rev (msg_chunks m)) of Some t \<Rightarrow> Some t | None \<Rightarrow> latest_in_messages ms)"

definition findLatestPendingApproval :: "Message list \<Rightarrow> ToolExecutionChunk option" where
  "findLatestPendingApproval messages = latest_in_messages (rev messages)"

section \<open>The store as the component reads it\<close>

record DesktopProject =
  dj_id :: string
  dj_path :: string
  dj_worktreeType :: "string option"
  dj_worktreePath :: "string option"
  dj_gitBranch :: "string option"
  dj_githubPR :: "(int \<times> string) option"

record DesktopTab =
  dt_sessionId :: string
  dt_project :: "DesktopProject option"

record DesktopSession =
  se_id :: string
  se_messages :: "Message list"
  se_mode :: string
  se_modelConfig :: ModelConfig
  se_isStreaming :: bool
  se_busy :: bool
  se_isCompacting :: bool
  se_streamingMessageId :: "string option"
  se_todos :: "TodoItem list option"

record ScheduledTask =
  sk_id :: string
  sk_prompt :: string
  sk_isRecurring :: bool
  sk_intervalMs :: int

record desktop_store =
  store_tabs :: "(string, DesktopTab) js_map"
  store_sessions :: "(string, DesktopSession) js_map"
  store_scheduledPrompts :: "string list"
  store_loopCounts :: "(string, nat) js_map"

text \<open>The selectors; \<open>store_scheduledPrompts\<close> holds the session of each scheduled prompt.\<close>

record chat_inputs =
  ci_tab :: "DesktopTab option"
  ci_session :: "DesktopSession option"
  ci_scheduled :: bool
  ci_loopCount :: nat

definition read_store :: "string \<Rightarrow> desktop_store \<Rightarrow> chat_inputs" where
  "read_store tabId st =
     (case map_get (store_tabs st) tabId of
        None \<Rightarrow> \<lparr>ci_tab = None, ci_session = None, ci_scheduled = False, ci_loopCount = 0\<rparr>
      | Some t \<Rightarrow>
          \<lparr>ci_tab = Some t, ci_session = map_get (store_sessions st) (dt_sessionId t),
           ci_scheduled = list_ex (\<lambda>p. p = dt_sessionId t) (store_scheduledPrompts st),
           ci_loopCount = nullish (map_get (store_loopCounts st) (dt_sessionId t)) 0\<rparr>)"

definition session_idle :: "DesktopSession \<Rightarrow> bool" where
  "session_idle se = (\<not> (se_isCompacting se \<or> se_isStreaming se \<or> se_busy se))"

section \<open>State and outputs\<close>

type_synonym submission = "string \<times> ImageData list"

record chat_state =
  ch_dragDepth :: nat
  ch_images :: "ImageData list"
  ch_queue :: "submission list"
  ch_dragOver :: bool
  ch_pickerOpen :: bool
  ch_loopsOpen :: bool
  ch_loopTasks :: "ScheduledTask list"
  ch_syncing :: "string option"
  ch_seen :: "(chat_inputs \<times> submission list) option"

definition init_chat :: chat_state where
  "init_chat =
     \<lparr>ch_dragDepth = 0, ch_images = [], ch_queue = [], ch_dragOver = False, ch_pickerOpen = False,
      ch_loopsOpen = False, ch_loopTasks = [], ch_syncing = None, ch_seen = None\<rparr>"

text \<open>\<open>Enqueued\<close> and \<open>Dequeued\<close> are the two calls of \<open>setQueuedSubmissions\<close> that add and take a prompt.\<close>

datatype chat_output =
    AgentMode string string
  | SyncLocalBranch string
  | ApprovalAnswer string ApprovalDecision
  | AutoApproveSession string
  | ResumeThread "StoredThread option"
  | ListLoops string
  | DeleteLoop string
  | SourceControlShown
  | TextareaFocused
  | UserMessageAdded string "Chunk list"
  | StreamingStarted string
  | AgentStream string "chat_message list" ModelConfig string
  | AgentCancel string
  | ConsumeScheduled string
  | CommandTried string
  | Enqueued submission
  | Dequeued submission

section \<open>Starting a run\<close>

definition user_turn :: "string \<Rightarrow> ImageData list \<Rightarrow> chat_message" where
  "user_turn query images =
     (UserRole, if length images > 0 then Blocks (map (\<lambda>i. ImageUrl (data_url i)) images @ [TextBlock query])
                else PlainText query)"

definition startAgentRun ::
  "(string \<Rightarrow> DesktopSession option) \<Rightarrow> string \<Rightarrow> string \<Rightarrow> ImageData list \<Rightarrow> string option \<Rightarrow> chat_output list" where
  "startAgentRun sessions sessionId query images displayText =
     (case sessions sessionId of
        None \<Rightarrow> []
      | Some freshSession \<Rightarrow>
          [UserMessageAdded sessionId (map ImageChunk images @ [TextChunk (nullish displayText query)]),
           StreamingStarted sessionId,
           AgentStream sessionId (messagesToChatMessages (se_messages freshSession) @ [user_turn query images])
             (se_modelConfig freshSession) (se_mode freshSession)])"

section \<open>Effects\<close>

definition input_changed :: "(chat_inputs \<Rightarrow> 'a) \<Rightarrow> chat_inputs \<Rightarrow> chat_state \<Rightarrow> bool" where
  "input_changed f inp s = (case ch_seen s of None \<Rightarrow> True | Some (i, _) \<Rightarrow> f i \<noteq> f inp)"

definition queue_changed :: "chat_state \<Rightarrow> bool" where
  "queue_changed s = (case ch_seen s of None \<Rightarrow> True | Some (_, q) \<Rightarrow> q \<noteq> ch_queue s)"

definition session_id_of :: "chat_inputs \<Rightarrow> string option" where
  "session_id_of inp = map_option se_id (ci_session inp)"

definition project_of :: "chat_inputs \<Rightarrow> DesktopProject option" where
  "project_of inp = Option.bind (ci_tab inp) dt_project"

definition mode_effect :: "chat_inputs \<Rightarrow> chat_state \<Rightarrow> chat_output list" where
  "mode_effect inp s =
     (if input_changed session_id_of inp s \<or> input_changed (\<lambda>i. map_option se_mode (ci_session i)) inp s
      then (case ci_session inp of Some se \<Rightarrow> [AgentMode (se_id se) (se_mode se)] | None \<Rightarrow> [])
      else [])"

text \<open>The local branch is followed at once and by an interval, except in a worktree.\<close>

definition sync_effect :: "chat_inputs \<Rightarrow> chat_state \<Rightarrow> chat_state \<times> chat_output list" where
  "sync_effect inp s =
     (if input_changed (\<lambda>i. map_option dj_path (project_of i)) inp s
         \<or> input_changed (\<lambda>i. Option.bind (project_of i) dj_worktreeType) inp s
      then (case project_of inp of
              Some j \<Rightarrow>
                if dj_path j \<noteq> [] \<and> dj_worktreeType j \<noteq> Some ''worktree''
                then (s\<lparr>ch_syncing := Some (dj_path j)\<rparr>, [SyncLocalBranch (dj_path j)])
                else (s\<lparr>ch_syncing := None\<rparr>, [])
            | None \<Rightarrow> (s\<lparr>ch_syncing := None\<rparr>, []))
      else (s, []))"

text \<open>
  The effect that takes the next prompt off the queue. \<open>queue\<close> is the queue of the rendering; the
  update of the state is applied to what earlier effects have left. \<open>done\<close> are the calls so far.
\<close>

definition queue_effect ::
  "(chat_output list \<Rightarrow> string \<Rightarrow> DesktopSession option) \<Rightarrow> chat_inputs \<Rightarrow> submission list \<Rightarrow> bool \<Rightarrow>
   chat_output list \<Rightarrow> chat_state \<Rightarrow> chat_state \<times> chat_output list" where
  "queue_effect fresh inp queue changed done_calls s =
     (case (ci_session inp, queue) of
        (Some se, next # _) \<Rightarrow>
          if changed \<and> session_idle se
          then (s\<lparr>ch_queue := drop 1 (ch_queue s)\<rparr>,
                Dequeued next # startAgentRun (fresh done_calls) (se_id se) (fst next) (snd next) None)
          else (s, [])
      | _ \<Rightarrow> (s, []))"

definition scheduled_effect ::
  "(chat_output list \<Rightarrow> string \<Rightarrow> DesktopSession option) \<Rightarrow> (string \<Rightarrow> string option) \<Rightarrow> chat_inputs \<Rightarrow> bool \<Rightarrow>
   chat_output list \<Rightarrow> chat_output list" where
  "scheduled_effect fresh consume inp changed done_calls =
     (case ci_session inp of
        Some se \<Rightarrow>
          if changed \<and> session_idle se \<and> ci_scheduled inp
          then ConsumeScheduled (se_id se)
               # (case consume (se_id se) of
                    Some prompt \<Rightarrow>
                      startAgentRun (fresh (done_calls @ [ConsumeScheduled (se_id se)])) (se_id se) prompt [] None
                  | None \<Rightarrow> [])
          else []
      | None \<Rightarrow> [])"

definition chat_commit ::
  "(chat_output list \<Rightarrow> string \<Rightarrow> DesktopSession option) \<Rightarrow> (string \<Rightarrow> string option) \<Rightarrow> chat_inputs \<Rightarrow> chat_state \<Rightarrow>
   chat_state \<times> chat_output list" where
  "chat_commit fresh consume inp s =
     (let queue = ch_queue s;
          o1 = mode_effect inp s;
          s1 = (if input_changed session_id_of inp s then s\<lparr>ch_queue := []\<rparr> else s);
          (s2, o2) = sync_effect inp s1;
          s3 = (if input_changed ci_loopCount inp s \<and> ci_loopCount inp = 0 then s2\<lparr>ch_loopsOpen := False\<rparr> else s2);
          (s4, o3) = queue_effect fresh inp queue (input_changed ci_session inp s \<or> queue_changed s) (o1 @ o2) s3;
          o4 = scheduled_effect fresh consume inp (input_changed ci_session inp s \<or> input_changed ci_scheduled inp s)
                 (o1 @ o2 @ o3)
      in (s4\<lparr>ch_seen := Some (inp, queue)\<rparr>, o1 @ o2 @ o3 @ o4))"

section \<open>Handlers\<close>

definition chatSubmit ::
  "(string \<Rightarrow> DesktopSession option) \<Rightarrow> (string \<Rightarrow> string option \<Rightarrow> bool) \<Rightarrow> chat_inputs \<Rightarrow> string \<Rightarrow> chat_state \<Rightarrow>
   chat_state \<times> chat_output list" where
  "chatSubmit sessions command inp query s =
     (if ci_tab inp = None then (s, [])
      else
        (let slash = startsWith query ''/''; tried = (if slash then [CommandTried query] else []) in
         if slash \<and> command query (session_id_of inp) then (s, tried)
         else case ci_session inp of
                None \<Rightarrow> (s, tried)
              | Some se \<Rightarrow>
                  if se_isCompacting se then (s, tried)
                  else
                    (let images = ch_images s; s1 = s\<lparr>ch_images := []\<rparr> in
                     if se_isStreaming se \<or> se_busy se
                     then (s1\<lparr>ch_queue := ch_queue s1 @ [(query, images)]\<rparr>,
                           tried @ [Enqueued (query, images), AgentCancel (se_id se)])
                     else (s1, tried @ startAgentRun sessions (se_id se) query images None))))"

definition chatAutoApprove :: "chat_inputs \<Rightarrow> string \<Rightarrow> chat_output list" where
  "chatAutoApprove inp i =
     (case ci_session inp of Some se \<Rightarrow> [AutoApproveSession (se_id se)] | None \<Rightarrow> []) @ [ApprovalAnswer i AutoApproveD]"

text \<open>What the prompt bar asks for: the three callbacks given to it.\<close>

fun chat_decision :: "chat_inputs \<Rightarrow> ApprovalDecision \<Rightarrow> string \<Rightarrow> chat_output list" where
  "chat_decision inp ApproveD i = [ApprovalAnswer i ApproveD]"
| "chat_decision inp RejectD i = [ApprovalAnswer i RejectD]"
| "chat_decision inp AutoApproveD i = chatAutoApprove inp i"

definition chatDragEnter :: "bool \<Rightarrow> chat_state \<Rightarrow> chat_state" where
  "chatDragEnter hasFiles s = (if hasFiles then s\<lparr>ch_dragDepth := ch_dragDepth s + 1, ch_dragOver := True\<rparr> else s)"

definition chatDragOver :: "bool \<Rightarrow> chat_state \<Rightarrow> chat_state" where
  "chatDragOver hasFiles s = (if hasFiles \<and> \<not> ch_dragOver s then s\<lparr>ch_dragOver := True\<rparr> else s)"

definition chatDragLeave :: "bool \<Rightarrow> chat_state \<Rightarrow> chat_state" where
  "chatDragLeave hasFiles s =
     (if \<not> hasFiles then s
      else let d = ch_dragDepth s - 1; s1 = s\<lparr>ch_dragDepth := d\<rparr> in if d = 0 then s1\<lparr>ch_dragOver := False\<rparr> else s1)"

text \<open>The images among the dropped files, which are then read; each is added when it has been read.\<close>

definition chatDrop :: "File list option \<Rightarrow> chat_state \<Rightarrow> chat_state \<times> File list" where
  "chatDrop files s =
     (case files of
        None \<Rightarrow> (s, [])
      | Some fs \<Rightarrow>
          (s\<lparr>ch_dragDepth := 0, ch_dragOver := False\<rparr>,
           filter (\<lambda>f. file_type f = ''image/png'' \<or> file_type f = ''image/jpeg'') fs))"

text \<open>A data URL has a comma.\<close>

definition file_read :: "File \<Rightarrow> chat_state \<Rightarrow> chat_state" where
  "file_read f s =
     (case map_option (split_on (CHR '','')) (file_dataUrl f) of
        Some (_ # base64 # _) \<Rightarrow>
          s\<lparr>ch_images := ch_images s @
               [\<lparr>img_base64 = base64, img_mimeType = file_type f, img_fileName = Some (file_name f)\<rparr>]\<rparr>
      | _ \<Rightarrow> s)"

definition chatRemoveImage :: "nat \<Rightarrow> chat_state \<Rightarrow> chat_state" where
  "chatRemoveImage index s = s\<lparr>ch_images := map snd (filter (\<lambda>(i, _). i \<noteq> index) (List.enumerate 0 (ch_images s)))\<rparr>"

definition chatThreadSelect :: "StoredThread option \<Rightarrow> chat_state \<Rightarrow> chat_state \<times> chat_output list" where
  "chatThreadSelect t s = (s\<lparr>ch_pickerOpen := False\<rparr>, [ResumeThread t])"

section \<open>Scheduled loops\<close>

definition openLoops :: "chat_inputs \<Rightarrow> chat_output list" where
  "openLoops inp = (case session_id_of inp of Some i \<Rightarrow> if i = [] then [] else [ListLoops i] | None \<Rightarrow> [])"

definition loops_listed :: "js_error + ScheduledTask list \<Rightarrow> chat_state \<Rightarrow> chat_state" where
  "loops_listed res s = (case res of Inr tasks \<Rightarrow> s\<lparr>ch_loopTasks := tasks, ch_loopsOpen := True\<rparr> | Inl _ \<Rightarrow> s)"

definition loop_deleted :: "string \<Rightarrow> js_error + unit \<Rightarrow> chat_state \<Rightarrow> chat_state" where
  "loop_deleted taskId res s =
     (case res of Inr _ \<Rightarrow> s\<lparr>ch_loopTasks := filter (\<lambda>t. sk_id t \<noteq> taskId) (ch_loopTasks s)\<rparr> | Inl _ \<Rightarrow> s)"

text \<open>One deletion after the other, up to the first that fails; the flag says that all succeeded.\<close>

fun delete_loops :: "(string \<Rightarrow> bool) \<Rightarrow> ScheduledTask list \<Rightarrow> chat_output list \<times> bool" where
  "delete_loops ok [] = ([], True)"
| "delete_loops ok (t # ts) =
     (if ok (sk_id t) then (case delete_loops ok ts of (out, b) \<Rightarrow> (DeleteLoop (sk_id t) # out, b))
      else ([DeleteLoop (sk_id t)], False))"

definition all_loops_deleted :: "chat_state \<Rightarrow> chat_state" where
  "all_loops_deleted s = s\<lparr>ch_loopTasks := [], ch_loopsOpen := False\<rparr>"

section \<open>Events\<close>

datatype chat_event =
    Rendered chat_inputs
  | PromptSubmitted string
  | Decided ApprovalDecision string
  | DragEntered bool
  | DraggedOver bool
  | DragLeft bool
  | FilesDropped "File list option"
  | FileRead File
  | ImageRemoveClicked nat
  | ThreadChosen "StoredThread option"
  | PickerDismissed
  | LoopsClicked
  | LoopsListed "js_error + ScheduledTask list"
  | LoopDeleteClicked string
  | LoopDeleted string "js_error + unit"
  | AllLoopsClicked "string \<Rightarrow> bool"
  | AllLoopsDeleted
  | LoopsDismissed
  | DiffOpened
  | ContainerClicked bool
  | SyncTick

type_synonym chat_conf = "chat_inputs \<times> chat_state"

fun chat_step ::
  "(chat_output list \<Rightarrow> string \<Rightarrow> DesktopSession option) \<Rightarrow> (string \<Rightarrow> string option) \<Rightarrow>
   (string \<Rightarrow> string option \<Rightarrow> bool) \<Rightarrow> chat_event \<Rightarrow> chat_conf \<Rightarrow> chat_conf \<times> chat_output list" where
  "chat_step fresh consume command (Rendered inp') (inp, s) =
     (case chat_commit fresh consume inp' s of (s', out) \<Rightarrow> ((inp', s'), out))"
| "chat_step fresh consume command (PromptSubmitted q) (inp, s) =
     (case chatSubmit (fresh []) command inp q s of (s', out) \<Rightarrow> ((inp, s'), out))"
| "chat_step fresh consume command (Decided d i) (inp, s) = ((inp, s), chat_decision inp d i)"
| "chat_step fresh consume command (DragEntered h) (inp, s) = ((inp, chatDragEnter h s), [])"
| "chat_step fresh consume command (DraggedOver h) (inp, s) = ((inp, chatDragOver h s), [])"
| "chat_step fresh consume command (DragLeft h) (inp, s) = ((inp, chatDragLeave h s), [])"
| "chat_step fresh consume command (FilesDropped fs) (inp, s) = ((inp, fst (chatDrop fs s)), [])"
| "chat_step fresh consume command (FileRead f) (inp, s) = ((inp, file_read f s), [])"
| "chat_step fresh consume command (ImageRemoveClicked i) (inp, s) = ((inp, chatRemoveImage i s), [])"
| "chat_step fresh consume command (ThreadChosen t) (inp, s) =
     (if ch_pickerOpen s then (case chatThreadSelect t s of (s', out) \<Rightarrow> ((inp, s'), out)) else ((inp, s), []))"
| "chat_step fresh consume command PickerDismissed (inp, s) = ((inp, s\<lparr>ch_pickerOpen := False\<rparr>), [])"
| "chat_step fresh consume command LoopsClicked (inp, s) = ((inp, s), openLoops inp)"
| "chat_step fresh consume command (LoopsListed res) (inp, s) = ((inp, loops_listed res s), [])"
| "chat_step fresh consume command (LoopDeleteClicked i) (inp, s) = ((inp, s), [DeleteLoop i])"
| "chat_step fresh consume command (LoopDeleted i res) (inp, s) = ((inp, loop_deleted i res s), [])"
| "chat_step fresh consume command (AllLoopsClicked ok) (inp, s) = ((inp, s), fst (delete_loops ok (ch_loopTasks s)))"
| "chat_step fresh consume command AllLoopsDeleted (inp, s) = ((inp, all_loops_deleted s), [])"
| "chat_step fresh consume command LoopsDismissed (inp, s) = ((inp, s\<lparr>ch_loopsOpen := False\<rparr>), [])"
| "chat_step fresh consume command DiffOpened (inp, s) = ((inp, s), [SourceControlShown])"
| "chat_step fresh consume command (ContainerClicked hasTextarea) (inp, s) =
     ((inp, s), if hasTextarea then [TextareaFocused] else [])"
| "chat_step fresh consume command SyncTick (inp, s) =
     ((inp, s), case ch_syncing s of Some p \<Rightarrow> [SyncLocalBranch p] | None \<Rightarrow> [])"

section \<open>What is shown\<close>

text \<open>The block of the scheduled loops: its label; open, whether all can be cancelled and a row per loop.\<close>

record LoopBlock =
  lb_label :: string
  lb_panel :: "(bool \<times> (string \<times> string \<times> string) list) option"

definition loop_row :: "ScheduledTask \<Rightarrow> string \<times> string \<times> string" where
  "loop_row t =
     (sk_prompt t,
      if sk_isRecurring t then ''Every '' @ int_str (round_div (sk_intervalMs t) 60000) @ ''m'' else ''One-time'',
      sk_id t)"

definition LoopManagerBlock :: "nat \<Rightarrow> bool \<Rightarrow> chat_state \<Rightarrow> LoopBlock" where
  "LoopManagerBlock loopTaskCount runActive s =
     \<lparr>lb_label = nat_str loopTaskCount @ '' active loop'' @ (if loopTaskCount = 1 then [] else ''s'')
        @ (if runActive then '' '' @ [CHR 0x97] @ '' running'' else '' monitoring''),
      lb_panel =
        (if ch_loopsOpen s then Some (length (ch_loopTasks s) > 0, map loop_row (ch_loopTasks s)) else None)\<rparr>"

record StatusStack =
  ss_loops :: "LoopBlock option"
  ss_todos :: "TodoItem list option"
  ss_changed :: "(string \<times> int \<times> int) option"

record FullChat =
  fc_messages :: "Message list"
  fc_isStreaming :: bool
  fc_compacting :: bool
  fc_stack :: "StatusStack option"
  fc_bar :: "prompt_props option"
  fc_picker :: "string option"

datatype ChatBody = NoChat | EmptyChat "LoopBlock option" prompt_props "string option" | Chat FullChat

definition approval_request :: "ToolExecutionChunk \<Rightarrow> PromptApprovalRequest" where
  "approval_request t =
     \<lparr>par_requestId = nullish (tc_approvalRequestId t) [], par_title = tc_title t, par_toolKind = tc_toolKind t,
      par_input = nullish (tc_input t) (JObj []), par_diffData = tc_diffData t\<rparr>"

definition pending_approval :: "chat_inputs \<Rightarrow> PromptApprovalRequest option" where
  "pending_approval inp =
     (case ci_session inp of
        Some se \<Rightarrow> map_option approval_request (findLatestPendingApproval (se_messages se))
      | None \<Rightarrow> None)"

text \<open>The properties of the prompt bar; \<open>base\<close> holds those it reads from the store itself.\<close>

definition bar_props :: "prompt_props \<Rightarrow> chat_inputs \<Rightarrow> DesktopProject \<Rightarrow> chat_state \<Rightarrow> prompt_props" where
  "bar_props base inp j s =
     base\<lparr>pp_busy := nullish (map_option se_busy (ci_session inp)) False,
          pp_projectPath := (if truthy_str (dj_worktreePath j) then dj_worktreePath j else Some (dj_path j)),
          pp_mainProjectPath := Some (dj_path j), pp_gitBranch := dj_gitBranch j, pp_githubPR := dj_githubPR j,
          pp_isFocused := True, pp_isDragOver := ch_dragOver s, pp_images := ch_images s, pp_hasRemove := True,
          pp_pendingApproval := pending_approval inp, pp_hasApprove := True, pp_hasReject := True,
          pp_hasAutoApprove := True\<rparr>"

definition streaming_files ::
  "diff_parser \<Rightarrow> (string \<Rightarrow> string \<Rightarrow> bool) \<Rightarrow> DesktopSession \<Rightarrow> ChangedFileSummaryItem list" where
  "streaming_files hunks le se =
     (if truthy_str (se_streamingMessageId se)
      then (case find (\<lambda>m. Some (msg_id m) = se_streamingMessageId se) (se_messages se) of
              Some m \<Rightarrow> summarizeChangedFiles hunks le (msg_chunks m)
            | None \<Rightarrow> [])
      else [])"

definition changed_line :: "ChangedFileSummaryItem list \<Rightarrow> string \<times> int \<times> int" where
  "changed_line files =
     (nat_str (length files) @ '' file'' @ (if length files = 1 then [] else ''s'') @ '' changed'',
      foldl (\<lambda>n f. n + sum_additions f) 0 files, foldl (\<lambda>n f. n + sum_deletions f) 0 files)"

definition status_stack ::
  "diff_parser \<Rightarrow> (string \<Rightarrow> string \<Rightarrow> bool) \<Rightarrow> chat_inputs \<Rightarrow> DesktopSession \<Rightarrow> chat_state \<Rightarrow> StatusStack option" where
  "status_stack hunks le inp se s =
     (let files = streaming_files hunks le se;
          todos = nullish (se_todos se) [];
          hasTodos = (length todos > 0);
          hasFiles = (se_isStreaming se \<and> length files > 0);
          hasLoops = (ci_loopCount inp > 0);
          runActive = (se_isStreaming se \<or> se_busy se)
      in if hasTodos \<or> hasFiles \<or> hasLoops
         then Some \<lparr>ss_loops = (if hasLoops then Some (LoopManagerBlock (ci_loopCount inp) runActive s) else None),
                    ss_todos = (if hasTodos then Some todos else None),
                    ss_changed = (if hasFiles then Some (changed_line files) else None)\<rparr>
         else None)"

definition ChatView ::
  "diff_parser \<Rightarrow> (string \<Rightarrow> string \<Rightarrow> bool) \<Rightarrow> prompt_props \<Rightarrow> chat_inputs \<Rightarrow> chat_state \<Rightarrow> ChatBody" where
  "ChatView hunks le base inp s =
     (case project_of inp of
        None \<Rightarrow> NoChat
      | Some j \<Rightarrow>
          (let picker = (if ch_pickerOpen s then Some (dj_id j) else None);
               empty = EmptyChat
                 (if ci_loopCount inp > 0
                  then Some (LoopManagerBlock (ci_loopCount inp)
                         (case ci_session inp of Some se \<Rightarrow> se_isStreaming se \<or> se_busy se | None \<Rightarrow> False) s)
                  else None)
                 (bar_props base inp j s) picker
           in case ci_session inp of
                None \<Rightarrow> empty
              | Some se \<Rightarrow>
                  if length (se_messages se) > 0
                  then Chat \<lparr>fc_messages = se_messages se, fc_isStreaming = se_isStreaming se,
                        fc_compacting = se_isCompacting se,
                        fc_stack = (if se_isCompacting se then None else status_stack hunks le inp se s),
                        fc_bar = (if se_isCompacting se then None else Some (bar_props base inp j s)),
                        fc_picker = picker\<rparr>
                  else empty))"

section \<open>Facts on the messages\<close>

text \<open>The two loops find the last chunk that waits, in the order of the transcript.\<close>

lemma latest_in_chunks_find:
  "latest_in_chunks cs = Option.bind (find awaits_approval cs) chunk_tool"
  by (induction cs) auto

lemma find_append: "find P (xs @ ys) = (case find P xs of Some x \<Rightarrow> Some x | None \<Rightarrow> find P ys)"
  by (induction xs) auto

lemma awaits_tool: "awaits_approval c \<Longrightarrow> \<exists>t. c = ToolChunk t"
  by (cases c) simp_all

lemma find_awaits_tool: "find awaits_approval cs = Some c \<Longrightarrow> \<exists>t. c = ToolChunk t"
  by (metis awaits_tool find_Some_iff)

lemma latest_approval_find:
  "findLatestPendingApproval messages =
     Option.bind (find awaits_approval (rev (concat (map msg_chunks messages)))) chunk_tool"
proof -
  have "latest_in_messages ms = Option.bind (find awaits_approval (concat (map (rev \<circ> msg_chunks) ms))) chunk_tool" for ms
    by (induction ms)
      (auto simp: latest_in_chunks_find find_append dest: find_awaits_tool split: option.splits)
  moreover have "rev (concat (map msg_chunks messages)) = concat (map (rev \<circ> msg_chunks) (rev messages))"
    by (induction messages) auto
  ultimately show ?thesis by (simp add: findLatestPendingApproval_def)
qed

lemma push_block_append: "foldl push_block blocks cs = blocks @ foldl push_block [] cs"
proof (induction cs arbitrary: blocks)
  case (Cons c cs)
  have "push_block blocks c = blocks @ push_block [] c" by (cases c) simp_all
  then show ?case using Cons.IH [of "push_block blocks c"] Cons.IH [of "push_block [] c"] by simp
qed simp

text \<open>What one message becomes.\<close>

definition chat_messages_of :: "Message \<Rightarrow> chat_message list" where
  "chat_messages_of m = push_message [] m"

lemma push_message_append: "push_message acc m = acc @ chat_messages_of m"
  by (simp add: chat_messages_of_def push_message_def Let_def)

lemma messages_concat: "messagesToChatMessages ms = concat (map chat_messages_of ms)"
proof -
  have "foldl push_message acc ms = acc @ concat (map chat_messages_of ms)" for acc
    by (induction ms arbitrary: acc) (simp_all add: push_message_append)
  from this [of "[]"] show ?thesis by (simp add: messagesToChatMessages_def)
qed

text \<open>A message of the user or the agent becomes at most one, with its role; no other author's does.\<close>

lemma chat_message_shape:
  "chat_messages_of m = []
   \<or> (\<exists>c. chat_messages_of m = [(if msg_author m = UserAuthor then UserRole else AssistantRole, c)]
          \<and> c \<noteq> Blocks [] \<and> c \<noteq> PlainText [] \<and> msg_author m \<in> {UserAuthor, AgentAuthor})"
  by (auto simp: chat_messages_of_def push_message_def Let_def)

text \<open>A message with images keeps every image, in order.\<close>

fun block_image :: "content_block \<Rightarrow> string option" where
  "block_image (ImageUrl u) = Some u"
| "block_image _ = None"

fun chunk_image :: "Chunk \<Rightarrow> ImageData option" where
  "chunk_image (ImageChunk i) = Some i"
| "chunk_image _ = None"

lemma images_kept:
  "List.map_filter block_image (foldl push_block [] cs) = map data_url (List.map_filter chunk_image cs)"
proof (induction cs)
  case (Cons c cs)
  have "foldl push_block [] (c # cs) = push_block [] c @ foldl push_block [] cs"
    using push_block_append [of "push_block [] c"] by simp
  then show ?case using Cons.IH by (cases c) (simp_all add: map_filter_simps)
qed (simp add: map_filter_simps)

section \<open>Facts on the events\<close>

text \<open>Nothing ever opens the thread picker.\<close>

lemma picker_stays_closed: "\<not> ch_pickerOpen s \<Longrightarrow> chat_step fresh consume command e (inp, s) = (c, out) \<Longrightarrow> \<not> ch_pickerOpen (snd c)"
  by (cases e)
    (auto simp: chat_commit_def queue_effect_def sync_effect_def chatSubmit_def chatDragEnter_def chatDragOver_def
      chatDragLeave_def chatDrop_def file_read_def chatRemoveImage_def loops_listed_def loop_deleted_def
      all_loops_deleted_def Let_def split: if_splits option.splits list.splits sum.splits prod.splits)

lemma picker_never_shown:
  "\<not> ch_pickerOpen (snd (fst (run_events (chat_step fresh consume command) es (inp, init_chat))))"
proof -
  have "(\<lambda>c. \<not> ch_pickerOpen (snd c)) (fst (run_events (chat_step fresh consume command) es (inp, init_chat)))"
  proof (rule run_events_invariant)
    show "\<not> ch_pickerOpen (snd c')" if "\<not> ch_pickerOpen (snd c)" "chat_step fresh consume command e c = (c', out)" for c e c' out
      using picker_stays_closed [of "snd c" fresh consume command e "fst c"] that by simp
  qed (simp add: init_chat_def)
  then show ?thesis .
qed

section \<open>The queue of prompts\<close>

fun taken :: "chat_output \<Rightarrow> submission option" where
  "taken (Dequeued x) = Some x"
| "taken _ = None"

fun added :: "chat_output \<Rightarrow> submission option" where
  "added (Enqueued x) = Some x"
| "added _ = None"

fun sent :: "chat_output \<Rightarrow> Chunk list option" where
  "sent (UserMessageAdded _ chunks) = Some chunks"
| "sent _ = None"

abbreviation dequeued :: "chat_output list \<Rightarrow> submission list" where
  "dequeued \<equiv> List.map_filter taken"

abbreviation enqueued :: "chat_output list \<Rightarrow> submission list" where
  "enqueued \<equiv> List.map_filter added"

text \<open>The events that leave the tab on session \<open>sid\<close>.\<close>

fun keeps_session :: "string \<Rightarrow> chat_event \<Rightarrow> bool" where
  "keeps_session sid (Rendered inp) = (session_id_of inp = Some sid)"
| "keeps_session sid _ = True"

definition on_session :: "string \<Rightarrow> chat_conf \<Rightarrow> bool" where
  "on_session sid c = (case ch_seen (snd c) of Some (i, _) \<Rightarrow> session_id_of i = Some sid | None \<Rightarrow> False)"

lemma map_filter_append: "List.map_filter f (xs @ ys) = List.map_filter f xs @ List.map_filter f ys"
  by (simp add: List.map_filter_def)

lemma map_filter_none: "list_all (\<lambda>x. f x = None) xs \<Longrightarrow> List.map_filter f xs = []"
  by (induction xs) (simp_all add: map_filter_simps)

lemmas queue_log = map_filter_append map_filter_simps

lemma startAgentRun_log [simp]:
  "dequeued (startAgentRun sessions i q images d) = []" "enqueued (startAgentRun sessions i q images d) = []"
  by (simp_all add: startAgentRun_def queue_log split: option.split)

lemma mode_sync_log [simp]:
  "dequeued (mode_effect inp s) = []" "enqueued (mode_effect inp s) = []" "List.map_filter sent (mode_effect inp s) = []"
  "dequeued (snd (sync_effect inp s)) = []" "enqueued (snd (sync_effect inp s)) = []"
  "List.map_filter sent (snd (sync_effect inp s)) = []"
  by (simp_all add: mode_effect_def sync_effect_def queue_log split: option.split)

lemma sync_fields [simp]:
  "ch_queue (fst (sync_effect inp s)) = ch_queue s" "ch_seen (fst (sync_effect inp s)) = ch_seen s"
  by (simp_all add: sync_effect_def split: option.split)

lemma scheduled_log [simp]:
  "dequeued (scheduled_effect fresh consume inp b done_calls) = []"
  "enqueued (scheduled_effect fresh consume inp b done_calls) = []"
  by (simp_all add: scheduled_effect_def queue_log split: option.split)

lemma delete_loops_log [simp]:
  "dequeued (fst (delete_loops ok ts)) = []" "enqueued (fst (delete_loops ok ts)) = []"
  by (induction ts) (auto simp: queue_log split_beta)

lemma decision_log [simp]:
  "dequeued (chat_decision inp d i) = []" "enqueued (chat_decision inp d i) = []"
  by (cases d; simp add: chatAutoApprove_def queue_log split: option.split)+

lemma queue_effect_log:
  "dequeued (snd (queue_effect fresh inp (ch_queue s) b done_calls s)) @ ch_queue (fst (queue_effect fresh inp (ch_queue s) b done_calls s)) = ch_queue s"
  "enqueued (snd (queue_effect fresh inp (ch_queue s) b done_calls s)) = []"
  by (simp_all add: queue_effect_def queue_log split: option.split list.split)

text \<open>A rendering in the same session: the state the queue's effect starts from, and what comes out.\<close>

lemma commit_same_session:
  assumes "\<not> input_changed session_id_of inp s"
  shows "\<exists>s3 b o12. ch_queue s3 = ch_queue s
    \<and> (b \<longleftrightarrow> input_changed ci_session inp s \<or> queue_changed s)
    \<and> dequeued o12 = [] \<and> enqueued o12 = [] \<and> List.map_filter sent o12 = []
    \<and> chat_commit fresh consume inp s =
        (case queue_effect fresh inp (ch_queue s) b o12 s3 of
           (s4, o3) \<Rightarrow>
             (s4\<lparr>ch_seen := Some (inp, ch_queue s)\<rparr>,
              o12 @ o3 @ scheduled_effect fresh consume inp
                (input_changed ci_session inp s \<or> input_changed ci_scheduled inp s) (o12 @ o3)))"
proof -
  let ?s3 = "if input_changed ci_loopCount inp s \<and> ci_loopCount inp = 0
    then (fst (sync_effect inp s))\<lparr>ch_loopsOpen := False\<rparr> else fst (sync_effect inp s)"
  let ?o12 = "mode_effect inp s @ snd (sync_effect inp s)"
  show ?thesis
    by (rule exI [of _ ?s3], rule exI [of _ "input_changed ci_session inp s \<or> queue_changed s"], rule exI [of _ ?o12])
      (simp add: chat_commit_def assms Let_def split_beta map_filter_append)
qed

lemma on_session_unchanged:
  "on_session sid (i, s) \<Longrightarrow> session_id_of inp = Some sid \<Longrightarrow> \<not> input_changed session_id_of inp s"
  by (auto simp: on_session_def input_changed_def split: option.splits prod.splits)

lemma commit_queue:
  assumes "\<not> input_changed session_id_of inp s" "chat_commit fresh consume inp s = (s', out)"
  shows "dequeued out @ ch_queue s' = ch_queue s" "enqueued out = []" "ch_seen s' = Some (inp, ch_queue s)"
proof -
  obtain s3 b o12 where c: "ch_queue s3 = ch_queue s" "dequeued o12 = []" "enqueued o12 = []"
    "chat_commit fresh consume inp s =
       (case queue_effect fresh inp (ch_queue s) b o12 s3 of
          (s4, o3) \<Rightarrow> (s4\<lparr>ch_seen := Some (inp, ch_queue s)\<rparr>,
              o12 @ o3 @ scheduled_effect fresh consume inp
                (input_changed ci_session inp s \<or> input_changed ci_scheduled inp s) (o12 @ o3)))"
    using commit_same_session [OF assms(1), of fresh consume] by blast
  obtain s4 o3 where q: "queue_effect fresh inp (ch_queue s) b o12 s3 = (s4, o3)" by fastforce
  have "dequeued o3 @ ch_queue s4 = ch_queue s" "enqueued o3 = []"
    using queue_effect_log [of fresh inp s3 b o12] q c(1) by simp_all
  then show "dequeued out @ ch_queue s' = ch_queue s" "enqueued out = []" "ch_seen s' = Some (inp, ch_queue s)"
    using assms(2) c q by (auto simp: map_filter_append)
qed

lemma submit_queue:
  "chatSubmit sessions command inp q s = (s', out) \<Longrightarrow>
     dequeued out = [] \<and> ch_queue s' = ch_queue s @ enqueued out \<and> ch_seen s' = ch_seen s"
  by (auto simp: chatSubmit_def Let_def queue_log split: if_splits option.splits)

lemma other_events_queue:
  assumes "chat_step fresh consume command e (inp, s) = (c, out)"
    "\<And>i. e \<noteq> Rendered i" "\<And>q. e \<noteq> PromptSubmitted q"
  shows "dequeued out = [] \<and> enqueued out = [] \<and> ch_queue (snd c) = ch_queue s \<and> ch_seen (snd c) = ch_seen s \<and> fst c = inp"
  using assms
  by (cases e)
    (auto simp: chatDragEnter_def chatDragOver_def chatDragLeave_def chatDrop_def file_read_def chatRemoveImage_def
      chatThreadSelect_def openLoops_def loops_listed_def loop_deleted_def all_loops_deleted_def queue_log Let_def
      split: if_splits option.splits list.splits sum.splits prod.splits)

lemma step_queue:
  assumes "keeps_session sid e" "on_session sid c" "chat_step fresh consume command e c = (c', out)"
  shows "on_session sid c' \<and> dequeued out @ ch_queue (snd c') = ch_queue (snd c) @ enqueued out"
proof -
  obtain inp s where c: "c = (inp, s)" by (cases c)
  consider (render) i where "e = Rendered i" | (submit) q where "e = PromptSubmitted q"
    | (other) "\<And>i. e \<noteq> Rendered i" "\<And>q. e \<noteq> PromptSubmitted q" by blast
  then show ?thesis
  proof cases
    case render
    obtain s' where s': "chat_commit fresh consume i s = (s', out)" "c' = (i, s')"
      using assms(3) render c by (auto split: prod.splits)
    have i: "session_id_of i = Some sid" using assms(1) render by simp
    show ?thesis
      using commit_queue [OF on_session_unchanged [OF _ i] s'(1)] assms(2) i s'(2) by (simp add: c on_session_def)
  next
    case submit
    obtain s' where "chatSubmit (fresh []) command inp q s = (s', out)" "c' = (inp, s')"
      using assms(3) submit c by (auto split: prod.splits)
    with submit_queue show ?thesis using assms(2) by (fastforce simp: c on_session_def)
  next
    case other
    show ?thesis
      using other_events_queue [of fresh consume command e inp s c' out] other assms(2,3)
      by (simp add: c on_session_def)
  qed
qed

lemma run_queue:
  assumes "list_all (keeps_session sid) es" "on_session sid c"
    "run_events (chat_step fresh consume command) es c = (c', out)"
  shows "dequeued out @ ch_queue (snd c') = ch_queue (snd c) @ enqueued out"
  using assms
proof (induction es arbitrary: c out)
  case Nil
  then show ?case by (simp add: map_filter_simps)
next
  case (Cons e es)
  obtain c1 o1 where e: "chat_step fresh consume command e c = (c1, o1)" by fastforce
  obtain o2 where es: "run_events (chat_step fresh consume command) es c1 = (c', o2)" "out = o1 @ o2"
    using Cons.prems(3) e by (auto split: prod.splits)
  have "on_session sid c1" "dequeued o1 @ ch_queue (snd c1) = ch_queue (snd c) @ enqueued o1"
    using step_queue [OF _ Cons.prems(2) e] Cons.prems(1) by simp_all
  with Cons.IH [OF _ _ es(1)] Cons.prems(1) show ?case
    by (simp add: es(2) map_filter_append)
qed

section \<open>Renderings of one session\<close>

definition user_chunks :: "submission \<Rightarrow> Chunk list" where
  "user_chunks x = map ImageChunk (snd x) @ [TextChunk (fst x)]"

lemma sent_run: "sessions i \<noteq> None \<Longrightarrow> List.map_filter sent (startAgentRun sessions i q images None) = [user_chunks (q, images)]"
  by (auto simp: startAgentRun_def queue_log user_chunks_def nullish_def)

text \<open>One rendering takes one prompt and sends it.\<close>

lemma idle_rendering:
  assumes "\<not> input_changed session_id_of inp s" "ci_session inp = Some se" "session_idle se" "\<not> ci_scheduled inp"
    "input_changed ci_session inp s \<or> queue_changed s" "ch_queue s = x # xs" "\<And>calls. fresh calls (se_id se) \<noteq> None"
    "chat_commit fresh consume inp s = (s', out)"
  shows "ch_queue s' = xs" "ch_seen s' = Some (inp, x # xs)" "List.map_filter sent out = [user_chunks x]"
proof -
  obtain s3 b o12 where c: "ch_queue s3 = ch_queue s" "b \<longleftrightarrow> input_changed ci_session inp s \<or> queue_changed s"
    "List.map_filter sent o12 = []"
    "chat_commit fresh consume inp s =
       (case queue_effect fresh inp (ch_queue s) b o12 s3 of
          (s4, o3) \<Rightarrow> (s4\<lparr>ch_seen := Some (inp, ch_queue s)\<rparr>,
              o12 @ o3 @ scheduled_effect fresh consume inp
                (input_changed ci_session inp s \<or> input_changed ci_scheduled inp s) (o12 @ o3)))"
    using commit_same_session [OF assms(1), of fresh consume] by blast
  have "queue_effect fresh inp (ch_queue s) b o12 s3 =
      (s3\<lparr>ch_queue := xs\<rparr>, Dequeued x # startAgentRun (fresh o12) (se_id se) (fst x) (snd x) None)"
    using assms(2,3,5,6) c(1,2) by (simp add: queue_effect_def)
  moreover have "scheduled_effect fresh consume inp b' calls = []" for b' calls
    using assms(2,4) by (simp add: scheduled_effect_def)
  ultimately show "ch_queue s' = xs" "ch_seen s' = Some (inp, x # xs)" "List.map_filter sent out = [user_chunks x]"
    using assms(6,8) c(3,4) sent_run [of "fresh o12" "se_id se" "fst x" "snd x"] assms(7)
    by (auto simp: queue_log)
qed

text \<open>Nothing is taken while the session is busy, or where no prompt is queued.\<close>

lemma other_rendering:
  assumes "\<not> input_changed session_id_of inp s" "ci_session inp = Some se" "\<not> ci_scheduled inp"
    "\<not> session_idle se \<or> ch_queue s = []" "chat_commit fresh consume inp s = (s', out)"
  shows "ch_queue s' = ch_queue s" "ch_seen s' = Some (inp, ch_queue s)" "List.map_filter sent out = []"
proof -
  obtain s3 b o12 where c: "ch_queue s3 = ch_queue s" "List.map_filter sent o12 = []"
    "chat_commit fresh consume inp s =
       (case queue_effect fresh inp (ch_queue s) b o12 s3 of
          (s4, o3) \<Rightarrow> (s4\<lparr>ch_seen := Some (inp, ch_queue s)\<rparr>,
              o12 @ o3 @ scheduled_effect fresh consume inp
                (input_changed ci_session inp s \<or> input_changed ci_scheduled inp s) (o12 @ o3)))"
    using commit_same_session [OF assms(1), of fresh consume] by blast
  have "queue_effect fresh inp (ch_queue s) b o12 s3 = (s3, [])"
    using assms(2,4) by (auto simp: queue_effect_def split: list.split)
  moreover have "scheduled_effect fresh consume inp b' calls = []" for b' calls
    using assms(2,3) by (simp add: scheduled_effect_def)
  ultimately show "ch_queue s' = ch_queue s" "ch_seen s' = Some (inp, ch_queue s)" "List.map_filter sent out = []"
    using assms(5) c by (auto simp: queue_log)
qed

text \<open>
  A rendering with an idle session, by the three flags of the store; and a state in which the effect
  on the queue will run at the next such rendering: the queue has changed since the last one, or is empty,
  or that one was not idle, so that the session is another object.
\<close>

definition idle_input :: "chat_inputs \<Rightarrow> bool" where
  "idle_input inp =
     (case ci_session inp of
        Some se \<Rightarrow> \<not> se_isCompacting se \<and> \<not> se_isStreaming se \<and> \<not> se_busy se | None \<Rightarrow> False)"

definition queue_ready :: "chat_state \<Rightarrow> bool" where
  "queue_ready s =
     (ch_queue s = [] \<or> queue_changed s \<or> (case ch_seen s of Some (i, _) \<Rightarrow> \<not> idle_input i | None \<Rightarrow> True))"

lemma idle_session: "ci_session inp = Some se \<Longrightarrow> idle_input inp = session_idle se"
  by (simp add: idle_input_def session_idle_def)

lemma ready_changed:
  "queue_ready s \<Longrightarrow> idle_input inp \<Longrightarrow> ch_queue s \<noteq> [] \<Longrightarrow> input_changed ci_session inp s \<or> queue_changed s"
  by (auto simp: queue_ready_def input_changed_def idle_input_def split: option.splits prod.splits)

lemma rendering_takes:
  assumes "on_session sid (i, s)" "queue_ready s" "session_id_of inp = Some sid" "\<not> ci_scheduled inp"
    "\<And>calls. fresh calls sid \<noteq> None" "chat_commit fresh consume inp s = (s', out)"
  shows "on_session sid (inp, s')" "queue_ready s'"
    "ch_queue s' = drop (if idle_input inp then 1 else 0) (ch_queue s)"
    "List.map_filter sent out = map user_chunks (take (if idle_input inp then 1 else 0) (ch_queue s))"
proof -
  obtain se where se: "ci_session inp = Some se" "se_id se = sid"
    using assms(3) by (auto simp: session_id_of_def)
  note same = on_session_unchanged [OF assms(1,3)]
  have "on_session sid (inp, s') \<and> queue_ready s'
    \<and> ch_queue s' = drop (if idle_input inp then 1 else 0) (ch_queue s)
    \<and> List.map_filter sent out = map user_chunks (take (if idle_input inp then 1 else 0) (ch_queue s))"
  proof (cases "idle_input inp \<and> ch_queue s \<noteq> []")
    case True
    then obtain x xs where q: "ch_queue s = x # xs" by (cases "ch_queue s") auto
    have "session_idle se" using True se(1) by (simp add: idle_session)
    from idle_rendering [OF same se(1) this assms(4) ready_changed [OF assms(2)] q _ assms(6)] True assms(5)
    show ?thesis by (simp add: q se on_session_def assms(3) queue_ready_def queue_changed_def)
  next
    case False
    then have "\<not> session_idle se \<or> ch_queue s = []" using se(1) by (auto simp: idle_session)
    from other_rendering [OF same se(1) assms(4) this assms(6)] False
    show ?thesis by (auto simp: on_session_def assms(3) queue_ready_def)
  qed
  then show "on_session sid (inp, s')" "queue_ready s'"
    "ch_queue s' = drop (if idle_input inp then 1 else 0) (ch_queue s)"
    "List.map_filter sent out = map user_chunks (take (if idle_input inp then 1 else 0) (ch_queue s))" by blast+
qed

lemma renderings_take:
  assumes "\<And>calls. fresh calls sid \<noteq> None"
  shows "list_all (\<lambda>inp. session_id_of inp = Some sid \<and> \<not> ci_scheduled inp) inps \<Longrightarrow> on_session sid (i, s) \<Longrightarrow>
    queue_ready s \<Longrightarrow>
    (case run_events (chat_step fresh consume command) (map Rendered inps) (i, s) of
       (c', out) \<Rightarrow>
         ch_queue (snd c') = drop (length (filter idle_input inps)) (ch_queue s)
         \<and> List.map_filter sent out = map user_chunks (take (length (filter idle_input inps)) (ch_queue s)))"
proof (induction inps arbitrary: i s)
  case Nil
  then show ?case by (simp add: map_filter_simps)
next
  case (Cons inp inps)
  obtain s' o1 where c: "chat_commit fresh consume inp s = (s', o1)" by fastforce
  obtain c2 o2 where r: "run_events (chat_step fresh consume command) (map Rendered inps) (inp, s') = (c2, o2)"
    by fastforce
  have "session_id_of inp = Some sid" "\<not> ci_scheduled inp" using Cons.prems(1) by simp_all
  note step = rendering_takes [OF Cons.prems(2,3) this assms c]
  let ?m = "if idle_input inp then 1 else 0 :: nat" and ?n = "length (filter idle_input inps)"
  have "take (?m + ?n) xs = take ?m xs @ take ?n (drop ?m xs)" for xs :: "submission list" by (simp add: take_add)
  moreover have "length (filter idle_input (inp # inps)) = ?m + ?n" by simp
  ultimately show ?case
    using Cons.IH [OF _ step(1,2)] Cons.prems(1) c r step(3,4)
    by (simp add: map_filter_append add.commute split: if_splits)
qed

section \<open>Runs that should not start\<close>

definition sample_session :: "string \<Rightarrow> DesktopSession" where
  "sample_session i =
     \<lparr>se_id = i, se_messages = [], se_mode = ''default'', se_modelConfig = \<lparr>mc_name = ''m'', mc_effort = None\<rparr>,
      se_isStreaming = False, se_busy = False, se_isCompacting = False, se_streamingMessageId = None, se_todos = None\<rparr>"

definition sample_inputs :: "DesktopSession \<Rightarrow> bool \<Rightarrow> chat_inputs" where
  "sample_inputs se scheduled =
     \<lparr>ci_tab = Some \<lparr>dt_sessionId = se_id se, dt_project = None\<rparr>, ci_session = Some se, ci_scheduled = scheduled,
      ci_loopCount = 0\<rparr>"

fun stream_of :: "chat_output \<Rightarrow> (string \<times> string) option" where
  "stream_of (AgentStream i history _ _) =
     (case last history of (_, PlainText t) \<Rightarrow> Some (i, t) | _ \<Rightarrow> None)"
| "stream_of _ = None"

abbreviation all_fresh :: "chat_output list \<Rightarrow> string \<Rightarrow> DesktopSession option" where
  "all_fresh \<equiv> (\<lambda>calls i. Some (sample_session i))"

text \<open>
  A prompt is queued while session \<open>a\<close> is busy; the tab then changes to the idle session \<open>b\<close>. The effect
  that empties the queue and the one that takes the next prompt run in the same commit, the second
  with the queue of the rendering: the prompt is sent to session \<open>b\<close>.
\<close>

lemma prompt_crosses_sessions:
  "List.map_filter stream_of (snd (run_events (chat_step all_fresh (\<lambda>_. None) (\<lambda>_ _. False))
     [Rendered (sample_inputs ((sample_session ''a'')\<lparr>se_busy := True\<rparr>) False), PromptSubmitted ''fix it'',
      Rendered (sample_inputs ((sample_session ''a'')\<lparr>se_busy := True\<rparr>) False),
      Rendered (sample_inputs (sample_session ''b'') False)]
     (sample_inputs ((sample_session ''a'')\<lparr>se_busy := True\<rparr>) False, init_chat))) = [(''b'', ''fix it'')]"
  by code_simp

text \<open>
  When the session becomes idle with a prompt queued and a prompt scheduled, both effects run in the
  same commit and two runs of the session are started one after the other.
\<close>

lemma two_runs_started:
  "List.map_filter stream_of (snd (run_events (chat_step all_fresh (\<lambda>_. Some ''check the build'') (\<lambda>_ _. False))
     [Rendered (sample_inputs ((sample_session ''a'')\<lparr>se_busy := True\<rparr>) True), PromptSubmitted ''fix it'',
      Rendered (sample_inputs ((sample_session ''a'')\<lparr>se_busy := True\<rparr>) True),
      Rendered (sample_inputs (sample_session ''a'') True)]
     (sample_inputs ((sample_session ''a'')\<lparr>se_busy := True\<rparr>) True, init_chat))) =
   [(''a'', ''fix it''), (''a'', ''check the build'')]"
  by code_simp

section \<open>Images dropped on the chat\<close>

text \<open>Entering and leaving in any nesting: the overlay is gone as soon as every enter has its leave.\<close>

lemma leave_last: "ch_dragDepth s \<le> 1 \<Longrightarrow> \<not> ch_dragOver (chatDragLeave True s)"
  by (simp add: chatDragLeave_def Let_def)

lemma enters_depth: "ch_dragDepth ((chatDragEnter True ^^ n) s) = ch_dragDepth s + n"
  by (induction n) (simp_all add: chatDragEnter_def)

lemma leaves_depth: "ch_dragDepth ((chatDragLeave True ^^ n) s) = ch_dragDepth s - n"
  by (induction n) (simp_all add: chatDragLeave_def Let_def)

lemma enters_and_leaves:
  "ch_dragDepth s = 0 \<Longrightarrow> 0 < n \<Longrightarrow> \<not> ch_dragOver ((chatDragLeave True ^^ n) ((chatDragEnter True ^^ n) s))"
proof (induction n)
  case (Suc n)
  have "ch_dragDepth ((chatDragLeave True ^^ n) ((chatDragEnter True ^^ Suc n) s)) \<le> 1"
    by (simp only: leaves_depth enters_depth Suc.prems(1))
  then show ?case by (simp only: funpow.simps(2) comp_apply leave_last simp_thms)
qed simp

text \<open>Only the images of the two types of a drop are read.\<close>

lemma dropped_types: "list_all (\<lambda>f. file_type f \<in> {''image/png'', ''image/jpeg''}) (snd (chatDrop files s))"
  by (auto simp: chatDrop_def list_all_iff split: option.split)

text \<open>Deleting all loops asks for each in turn and stops at the first that fails.\<close>

lemma delete_loops_prefix:
  "delete_loops ok ts =
     (map (DeleteLoop \<circ> sk_id)
        (takeWhile (\<lambda>t. ok (sk_id t)) ts @ take 1 (dropWhile (\<lambda>t. ok (sk_id t)) ts)),
      list_all (\<lambda>t. ok (sk_id t)) ts)"
  by (induction ts) (simp_all add: split_beta)

section \<open>Properties\<close>

text \<open>
  C22. The queue of the chat is first in, first out, and loses nothing while the tab stays on its
  session: over every sequence of events, the prompts taken off the queue followed by those still in
  it are those that were in it followed by those added.
\<close>

theorem chat_queue_fifo:
  assumes "list_all (keeps_session sid) es" "on_session sid c"
  shows "case run_events (chat_step fresh consume command) es c of
    (c', out) \<Rightarrow> dequeued out @ ch_queue (snd c') = ch_queue (snd c) @ enqueued out"
  using run_queue [OF assms] by (auto split: prod.splits)

definition busy_conf :: chat_conf where
  "busy_conf =
     (let inp = sample_inputs ((sample_session ''a'')\<lparr>se_busy := True\<rparr>) False
      in (inp, init_chat\<lparr>ch_seen := Some (inp, [])\<rparr>))"

lemma chat_queue_fifo_witness:
  "let run = run_events (chat_step all_fresh (\<lambda>_. None) (\<lambda>_ _. False))
      [PromptSubmitted ''one'', PromptSubmitted ''two'', Rendered (sample_inputs (sample_session ''a'') False)] busy_conf
   in (case run of (c', out) \<Rightarrow> dequeued out = [(''one'', [])] \<and> ch_queue (snd c') = [(''two'', [])])
      \<and> (case run of (c', out) \<Rightarrow> dequeued out @ ch_queue (snd c') = ch_queue (snd busy_conf) @ enqueued out)"
proof -
  let ?step = "chat_step all_fresh (\<lambda>_. None) (\<lambda>_ _. False)"
  let ?es = "[PromptSubmitted ''one'', PromptSubmitted ''two'', Rendered (sample_inputs (sample_session ''a'') False)]"
  have "list_all (keeps_session ''a'') ?es" "on_session ''a'' busy_conf"
    by code_simp+
  from chat_queue_fifo [OF this, of all_fresh "\<lambda>_. None" "\<lambda>_ _. False"]
  have "case run_events ?step ?es busy_conf of
    (c', out) \<Rightarrow> dequeued out @ ch_queue (snd c') = ch_queue (snd busy_conf) @ enqueued out" .
  moreover have "case run_events ?step ?es busy_conf of (c', out) \<Rightarrow>
      dequeued out = [(''one'', [])] \<and> ch_queue (snd c') = [(''two'', [])]"
    by code_simp
  ultimately show ?thesis unfolding Let_def by (rule conjI [rotated])
qed



text \<open>The answers the chat gives to what leaves the bar: request id and decision.\<close>

fun answer_given :: "chat_output \<Rightarrow> (string \<times> ApprovalDecision) option" where
  "answer_given (ApprovalAnswer i d) = Some (i, d)"
| "answer_given _ = None"

definition chat_answers :: "chat_inputs \<Rightarrow> prompt_output list \<Rightarrow> (string \<times> ApprovalDecision) list" where
  "chat_answers inp out =
     List.map_filter answer_given
       (concat (map (\<lambda>x. case x of ApprovalSent d i \<Rightarrow> chat_decision inp d i | _ \<Rightarrow> []) out))"

lemma chat_answers_simps [simp]:
  "chat_answers inp [] = []" "chat_answers inp (ApprovalSent d i # out) = (i, d) # chat_answers inp out"
  "chat_answers inp (KeyStopped # out) = chat_answers inp out"
  "chat_answers inp (KeyPrevented # out) = chat_answers inp out"
  by (simp_all add: chat_answers_def map_filter_simps)
    (cases d; simp add: chatAutoApprove_def map_filter_simps split: option.split)

text \<open>The request id of the last tool call of the transcript that is pending and asks for approval.\<close>

definition awaited_request :: "DesktopSession \<Rightarrow> string option" where
  "awaited_request se =
     (case find awaits_approval (rev (concat (map msg_chunks (se_messages se)))) of
        Some (ToolChunk t) \<Rightarrow> tc_approvalRequestId t
      | _ \<Rightarrow> None)"

lemma bar_request:
  "request_id (bar_props base (inp\<lparr>ci_session := Some se\<rparr>) j s) = awaited_request se"
  "hasPendingApproval (bar_props base (inp\<lparr>ci_session := Some se\<rparr>) j s) = (awaited_request se \<noteq> None)"
proof -
  let ?f = "find awaits_approval (rev (concat (map msg_chunks (se_messages se))))"
  have "request_id (bar_props base (inp\<lparr>ci_session := Some se\<rparr>) j s) = awaited_request se
      \<and> awaited_request se \<noteq> Some []"
  proof (cases ?f)
    case (Some c)
    then have "awaits_approval c" by (auto simp: find_Some_iff)
    then obtain t where t: "c = ToolChunk t" "truthy_str (tc_approvalRequestId t)"
      by (cases c) simp_all
    then show ?thesis
      using Some by (auto simp: awaited_request_def request_id_def bar_props_def pending_approval_def
          latest_approval_find approval_request_def nullish_def truthy_str_iff)
  qed (simp add: awaited_request_def request_id_def bar_props_def pending_approval_def latest_approval_find)
  then show "request_id (bar_props base (inp\<lparr>ci_session := Some se\<rparr>) j s) = awaited_request se"
    "hasPendingApproval (bar_props base (inp\<lparr>ci_session := Some se\<rparr>) j s) = (awaited_request se \<noteq> None)"
    by (auto simp: hasPendingApproval_def truthy_str_iff)
qed

lemma bar_content:
  "approvalContent p = None \<longleftrightarrow> request_id p = None"
  "approvalContent p = Some content \<Longrightarrow> map snd (apc_options content) = [ApproveD, AutoApproveD, RejectD]"
  by (auto simp: approvalContent_def request_id_def approval_decisions)

lemma decision_answers:
  "p = bar_props base (inp\<lparr>ci_session := Some se\<rparr>) j s \<Longrightarrow>
   chat_answers inp' (submitApprovalDecision p d) = (case awaited_request se of None \<Rightarrow> [] | Some i \<Rightarrow> [(i, d)])"
  by (cases d) (auto simp: submitApprovalDecision_def bar_request, auto simp: bar_props_def)

lemma mode_key_answers [simp]: "chat_answers inp (handleModeKey p key shift) = []"
  by (simp add: handleModeKey_def) (simp add: chat_answers_def)

lemma chat_answers_append [simp]: "chat_answers inp (xs @ ys) = chat_answers inp xs @ chat_answers inp ys"
  by (simp add: chat_answers_def map_filter_append)

lemma at_index_map: "at_index (map f xs) i = map_option f (at_index xs i)"
  by (auto simp: at_index_def nat_less_iff split: option.split)

lemma nth_decision: "map snd xs = ds \<Longrightarrow> k < length ds \<Longrightarrow> snd (xs ! k) = ds ! k"
  by (metis length_map nth_map)

text \<open>
  C23. The chat and its prompt bar together: whatever the user does in the approval menu (a click on
  an option, enter on the highlighted one, escape, or the button to skip), if the transcript has a tool call that
  is pending and asks for approval, the host gets exactly one answer, under the request id of the last such
  call, with the decision of that option, and escape and skip reject; and if there is none, no answer is given.
\<close>

theorem chat_approval_answers:
  "let inp' = inp\<lparr>ci_session := Some se\<rparr>; p = bar_props base inp' j s;
       ds = [ApproveD, AutoApproveD, RejectD];
       answers = (\<lambda>e. chat_answers inp' (snd (prompt_react m e p ps)))
   in chat_answers inp' (submitApprovalDecision p d) =
        (case awaited_request se of None \<Rightarrow> [] | Some i \<Rightarrow> [(i, d)])
      \<and> answers (OptionClicked k) =
        (case awaited_request se of None \<Rightarrow> [] | Some i \<Rightarrow> if k < 3 then [(i, ds ! k)] else [])
      \<and> answers (DocumentKey ''Enter'' shift) =
        (case (awaited_request se, at_index ds (dp_approvalIndex ps)) of
           (Some i, Some d') \<Rightarrow> [(i, d')] | _ \<Rightarrow> [])
      \<and> answers (DocumentKey ''Escape'' shift) =
        (case awaited_request se of None \<Rightarrow> [] | Some i \<Rightarrow> [(i, RejectD)])
      \<and> answers SkipClicked = (case awaited_request se of None \<Rightarrow> [] | Some i \<Rightarrow> [(i, RejectD)])"
proof -
  define inp' where "inp' = inp\<lparr>ci_session := Some se\<rparr>"
  define p where "p = bar_props base inp' j s"
  note sent = decision_answers [OF p_def [unfolded inp'_def]]
  have pending: "hasPendingApproval p = (awaited_request se \<noteq> None)" "request_id p = awaited_request se"
    by (simp_all add: p_def inp'_def bar_request)
  have focused: "pp_isFocused p" by (simp add: p_def bar_props_def)
  have keys: "chat_answers inp' (snd (prompt_react m (DocumentKey key shift) p ps)) =
      chat_answers inp' (snd (handleApprovalKeyDown p key ps))" for key
    by (simp add: split_beta)
  show ?thesis
  proof (cases "awaited_request se")
    case None
    then have "approvalContent p = None" by (simp add: bar_content pending)
    with None show ?thesis
      unfolding Let_def inp'_def [symmetric] p_def [symmetric] keys
      by (simp add: sent option_clicked_def handleApprovalKeyDown_def)
  next
    case (Some i)
    then have "approvalContent p \<noteq> None" by (simp add: bar_content pending)
    then obtain content where c: "approvalContent p = Some content" by blast
    note ds = bar_content(2) [OF c]
    then have "length (apc_options content) = 3" by (metis length_map length_Cons list.size(3) numeral_3_eq_3)
    moreover have "at_index [ApproveD, AutoApproveD, RejectD] i = map_option snd (at_index (apc_options content) i)" for i
      by (metis at_index_map ds)
    ultimately show ?thesis
      using Some nth_decision [OF ds, of k]
      unfolding Let_def inp'_def [symmetric] p_def [symmetric] keys
      by (auto simp: sent option_clicked_def handleApprovalKeyDown_def c pending focused Let_def
          split: option.splits)
  qed
qed

end
