(* ===== verification/Desktop_Status.thy ===== *)
theory Desktop_Status
  imports Js_Number Mutations
begin

text \<open>
  The small status components of the desktop chat: \<open>ported/ContextIndicator.tsx\<close>, \<open>ported/Footer.tsx\<close>,
  \<open>ported/HeaderBar.tsx\<close> and the drag handle \<open>ported/PanelResizeHandle.tsx\<close>. Quotients are rounded to
  doubles here, since \<open>toFixed\<close> shows on which side of a tie they fall.
\<close>

section \<open>Doubles\<close>

fun bits :: "nat \<Rightarrow> nat" where
  "bits n = (if n = 0 then 0 else Suc (bits (n div 2)))"

declare bits.simps [simp del]

definition scale2 :: "rat \<Rightarrow> int \<Rightarrow> rat" where
  "scale2 x k = (if 0 \<le> k then x * 2 ^ nat k else x / 2 ^ nat (- k))"

definition round_half_even :: "rat \<Rightarrow> int" where
  "round_half_even r =
     (let f = \<lfloor>r\<rfloor>; d = r - of_int f in
      if d < 1 / 2 then f else if d > 1 / 2 then f + 1 else if even f then f else f + 1)"

text \<open>The scaling that leaves 53 bits before the binary point of \<open>a / b\<close>.\<close>

definition double_scale :: "nat \<Rightarrow> nat \<Rightarrow> int" where
  "double_scale a b =
     (let k = 53 - int (bits a) + int (bits b) in
      if scale2 (of_nat a / of_nat b) k < 2 ^ 53 then k else k - 1)"

text \<open>The double \<open>a / b\<close> for whole \<open>a\<close> and \<open>b > 0\<close>, neither huge nor tiny.\<close>

definition double_div :: "nat \<Rightarrow> nat \<Rightarrow> rat" where
  "double_div a b =
     (if a = 0 then 0
      else let k = double_scale a b in
           scale2 (of_int (round_half_even (scale2 (of_nat a / of_nat b) k))) (- k))"

text \<open>\<open>x.toFixed(1)\<close> for \<open>x \<ge> 0\<close>: the nearest tenth, the larger one for a tie.\<close>

definition toFixed1 :: "rat \<Rightarrow> string" where
  "toFixed1 x = (let n = \<lfloor>x * 10 + 1 / 2\<rfloor> in int_str (n div 10) @ ''.'' @ int_str (n mod 10))"

section \<open>The context indicator\<close>

definition formatTokens :: "int \<Rightarrow> string" where
  "formatTokens n =
     (if n \<ge> 1000000 then toFixed1 (double_div (nat n) 1000000) @ ''M''
      else if n \<ge> 1000 then toFixed1 (double_div (nat n) 1000) @ ''K''
      else int_str n)"

text \<open>The share of the context window in use.\<close>

definition context_fraction :: "nat \<Rightarrow> nat \<Rightarrow> rat" where
  "context_fraction used limit = (if limit > 0 then min (double_div used limit) 1 else 0)"

text \<open>\<open>fraction * 100\<close>, again a double, rounded half up.\<close>

definition double_times100 :: "rat \<Rightarrow> rat" where
  "double_times100 x = (case quotient_of x of (a, b) \<Rightarrow> double_div (nat (a * 100)) (nat b))"

definition context_percentage :: "rat \<Rightarrow> int" where
  "context_percentage fraction = \<lfloor>double_times100 fraction + 1 / 2\<rfloor>"

definition strokeColor :: "rat \<Rightarrow> rat \<Rightarrow> string" where
  "strokeColor threshold fraction =
     (if fraction \<ge> threshold then ''#f87171''
      else if fraction \<ge> 3 / 4 then ''#fbbf24''
      else if fraction \<ge> 1 / 2 then ''#93c5fd''
      else if fraction > 0 then ''#9ca3af''
      else ''#6b7280'')"

record ContextUse =
  cu_window :: "(nat \<times> nat) option"
  cu_hasMessages :: bool
  cu_harness :: string

text \<open>
  What is shown: nothing; the dashed ring with the text of its tooltip; or the ring with its colour, the
  share of it that is drawn, and the tooltip with whether it warns. The dash of the tooltip is the
  character 0x97, as in Windows-1252.
\<close>

datatype ContextView =
    NoContext
  | ContextUnavailable "string option"
  | ContextRing string rat "(string \<times> bool) option"

definition ContextIndicator :: "rat \<Rightarrow> ContextUse \<Rightarrow> bool \<Rightarrow> ContextView" where
  "ContextIndicator threshold u showTooltip =
     (case cu_window u of
        None \<Rightarrow>
          if \<not> cu_hasMessages u then NoContext
          else ContextUnavailable
            (if showTooltip
             then Some ((if cu_harness u = ''cursor'' then ''Cursor'' else if cu_harness u = ''codex'' then ''Codex''
                         else ''This provider'') @ '' doesn'' @ [CHR 0x27] @ ''t report token usage'')
             else None)
      | Some (used, limit) \<Rightarrow>
          (let fraction = context_fraction used limit in
           ContextRing (strokeColor threshold fraction) fraction
             (if showTooltip
              then Some (''Context: '' @ int_str (context_percentage fraction) @ ''% '' @ [CHR 0x97] @ '' ''
                           @ formatTokens (int used) @ '' / '' @ formatTokens (int limit) @ '' tokens'',
                         fraction \<ge> threshold)
              else None)))"

datatype tooltip_event = MouseIn | MouseOut | MouseDownOutside

text \<open>The listener of the document is there only while the tooltip is.\<close>

fun tooltip_step :: "tooltip_event \<Rightarrow> bool \<Rightarrow> bool" where
  "tooltip_step MouseIn shown = True"
| "tooltip_step MouseOut shown = False"
| "tooltip_step MouseDownOutside shown = False"

section \<open>The footer\<close>

definition BUSY_ACTIONS :: "string list" where
  "BUSY_ACTIONS = [''Calculating'', ''Processing'', ''Thinking'', ''Analyzing'', ''Working'']"

definition footerTokens :: "int \<Rightarrow> string" where
  "footerTokens n = (if n \<ge> 1000 then toFixed1 (double_div (nat n) 1000) @ ''k'' else int_str n)"

definition formatDuration :: "int \<Rightarrow> int \<Rightarrow> string" where
  "formatDuration now startTime =
     (let elapsed = now - startTime; seconds = elapsed div 1000 in
      if seconds < 60 then int_str seconds @ ''s''
      else let minutes = seconds div 60; remainingSeconds = seconds mod 60
           in int_str minutes @ ''m '' @ int_str remainingSeconds @ ''s'')"

text \<open>What the footer reads of the active session: busy, streaming and the tokens so far.\<close>

record FooterSession =
  fo_busy :: bool
  fo_streaming :: bool
  fo_total :: int

record footer_state =
  fo_action :: string
  fo_startTime :: "int option"
  fo_ticking :: bool

definition init_footer :: "nat \<Rightarrow> footer_state" where
  "init_footer r = \<lparr>fo_action = BUSY_ACTIONS ! r, fo_startTime = None, fo_ticking = False\<rparr>"

definition footer_busy :: "FooterSession option \<Rightarrow> bool" where
  "footer_busy session = nullish (map_option fo_busy session) False"

definition footer_effects :: "int \<Rightarrow> FooterSession option \<Rightarrow> footer_state \<Rightarrow> footer_state" where
  "footer_effects now session s =
     (let busy = footer_busy session;
          s = (if busy \<and> fo_startTime s = None then s\<lparr>fo_startTime := Some now\<rparr>
               else if \<not> busy \<and> fo_startTime s \<noteq> None then s\<lparr>fo_startTime := None\<rparr> else s)
      in s\<lparr>fo_ticking := busy\<rparr>)"

text \<open>The parts of the line, joined by dashes; the arrow before the tokens is left out.\<close>

definition Footer :: "int \<Rightarrow> FooterSession option \<Rightarrow> footer_state \<Rightarrow> (string \<times> string list) option" where
  "Footer now session s =
     (if \<not> footer_busy session then None
      else Some (fo_action s,
        [''esc to interrupt'']
        @ (case fo_startTime s of Some t \<Rightarrow> [formatDuration now t] | None \<Rightarrow> [])
        @ [footerTokens (nullish (map_option fo_total session) 0) @ '' session tokens'']
        @ (if nullish (map_option fo_streaming session) False then [''streaming''] else [])))"

definition HeaderBar :: "bool \<Rightarrow> string" where
  "HeaderBar narrow = (if narrow then ''ON Mobile Agent'' else ''ON Mobile Agent v0.1.0'')"

section \<open>The drag handle\<close>

text \<open>The pointers that hold the handle, each with the place where it was pressed.\<close>

type_synonym handle_state = "(int \<times> int) list"

datatype handle_event =
    PointerDown int int int
  | PointerMove int int
  | PointerUp int
  | PointerCancel int
  | DoubleClick

datatype handle_output = DragStart | DragMove int | HandleDoubleClick

definition pointer_cleanup :: "int \<Rightarrow> handle_state \<Rightarrow> handle_state" where
  "pointer_cleanup p s = filter (\<lambda>(q, _). q \<noteq> p) s"

fun handle_step :: "handle_event \<Rightarrow> handle_state \<Rightarrow> handle_state \<times> handle_output list" where
  "handle_step (PointerDown button p x) s = (if button \<noteq> 0 then (s, []) else (s @ [(p, x)], [DragStart]))"
| "handle_step (PointerMove p x) s = (s, map (\<lambda>(_, x0). DragMove (x - x0)) (filter (\<lambda>(q, _). q = p) s))"
| "handle_step (PointerUp p) s = (pointer_cleanup p s, [])"
| "handle_step (PointerCancel p) s = (pointer_cleanup p s, [])"
| "handle_step DoubleClick s = (s, [HandleDoubleClick])"

section \<open>Facts on doubles\<close>

lemma bits_bounds: "0 < n \<Longrightarrow> 2 ^ (bits n - 1) \<le> n \<and> n < 2 ^ bits n \<and> 0 < bits n"
proof (induction n rule: bits.induct)
  case (1 n)
  show ?case
  proof (cases "n div 2 = 0")
    case True
    then have "n = 1" using 1 by linarith
    moreover have "bits 1 = 1" by code_simp
    ultimately show ?thesis by simp
  next
    case False
    then have ih: "2 ^ (bits (n div 2) - 1) \<le> n div 2" "n div 2 < 2 ^ bits (n div 2)" "0 < bits (n div 2)"
      using 1 by auto
    have b: "bits n = Suc (bits (n div 2))" using 1 by (subst bits.simps) simp
    define P :: nat where "P = 2 ^ (bits (n div 2) - 1)"
    have "2 ^ bits (n div 2) = 2 * P"
      using ih(3) by (cases "bits (n div 2)") (simp_all add: P_def)
    with ih have "P \<le> n div 2" "n div 2 < 2 * P" "2 ^ (bits n - 1) = 2 * P" "2 ^ bits n = 4 * P"
      by (simp_all add: b P_def)
    moreover from this(1,2) have "2 * P \<le> n" "n < 4 * P" by linarith+
    ultimately show ?thesis using b by simp
  qed
qed

lemma scale2_powi: "scale2 x k = x * 2 powi k"
  by (auto simp: scale2_def power_int_def field_simps)

lemma scale2_inverse: "scale2 (scale2 x k) (- k) = x"
  by (simp add: scale2_powi power_int_minus)

lemma scale2_mono: "x \<le> y \<Longrightarrow> scale2 x k \<le> scale2 y k"
  by (simp add: scale2_powi mult_right_mono)

lemma scale2_pred: "scale2 x (k - 1) = scale2 x k / 2"
  by (simp add: scale2_powi power_int_diff)

lemma round_half_even_close: "\<bar>of_int (round_half_even r) - r\<bar> \<le> 1 / 2"
proof -
  have "of_int \<lfloor>r\<rfloor> \<le> r" "r < of_int \<lfloor>r\<rfloor> + 1" by linarith+
  then show ?thesis by (auto simp: round_half_even_def Let_def abs_le_iff)
qed

lemma double_scale_large:
  assumes "0 < a" "0 < b"
  shows "2 ^ 52 \<le> scale2 (of_nat a / of_nat b) (double_scale a b)"
proof -
  let ?x = "of_nat a / of_nat b :: rat"
  let ?k = "53 - int (bits a) + int (bits b)"
  have a: "2 ^ (bits a - 1) \<le> (of_nat a :: rat)" "0 < bits a"
    using bits_bounds [OF assms(1)] by (metis of_nat_le_iff of_nat_numeral of_nat_power, simp)
  have b: "of_nat b \<le> (2 ^ bits b :: rat)"
    using bits_bounds [OF assms(2)] by (metis less_imp_le of_nat_le_iff of_nat_numeral of_nat_power)
  have "2 powi 52 = 2 powi (int (bits a) - 1 - int (bits b)) * (2 :: rat) powi ?k"
    by (simp flip: power_int_add)
  also have "2 powi (int (bits a) - 1 - int (bits b)) = (2 :: rat) ^ (bits a - 1) / 2 ^ bits b"
  proof -
    have "int (bits a) - 1 = int (bits a - 1)" using a(2) by simp
    then show ?thesis by (simp only: power_int_diff simp_thms zero_neq_numeral [symmetric] power_int_of_nat)
  qed
  also have "\<dots> \<le> ?x"
    using a(1) b assms by (intro frac_le) simp_all
  finally have "2 powi 52 \<le> scale2 ?x ?k"
    by (simp add: scale2_powi mult_right_mono)
  then have "2 ^ 52 \<le> scale2 ?x ?k" by (simp add: power_int_def)
  then show ?thesis
    using scale2_pred [of ?x ?k] by (cases "scale2 ?x ?k < 2 ^ 53") (simp_all add: double_scale_def Let_def)
qed

text \<open>The quotient is exact up to one part in \<open>2 ^ 53\<close>.\<close>

lemma double_div_close:
  assumes "0 < b"
  shows "\<bar>double_div a b - of_nat a / of_nat b\<bar> \<le> of_nat a / of_nat b / 2 ^ 53"
proof (cases "a = 0")
  case False
  let ?x = "of_nat a / of_nat b :: rat"
  define k where "k = double_scale a b"
  define y where "y = scale2 ?x k"
  have y: "2 ^ 52 \<le> y"
    using double_scale_large [of a b] False assms by (simp add: y_def k_def)
  have x: "?x = scale2 y (- k)" by (simp add: y_def scale2_inverse)
  have dd: "double_div a b = scale2 (of_int (round_half_even y)) (- k)"
    using False by (simp add: double_div_def Let_def flip: k_def y_def)
  have "double_div a b - ?x = scale2 (of_int (round_half_even y) - y) (- k)"
    unfolding dd by (subst x) (simp add: scale2_powi left_diff_distrib)
  then have "\<bar>double_div a b - ?x\<bar> = scale2 \<bar>of_int (round_half_even y) - y\<bar> (- k)"
    by (simp add: scale2_powi abs_mult)
  also have "\<dots> \<le> scale2 (y / 2 ^ 53) (- k)"
    using round_half_even_close [of y] y by (intro scale2_mono) simp
  also have "\<dots> = ?x / 2 ^ 53" by (simp add: x scale2_powi)
  finally show ?thesis .
qed (simp add: double_div_def)

lemma double_div_nonneg: "0 < b \<Longrightarrow> 0 \<le> double_div a b"
proof -
  assume b: "0 < b"
  let ?x = "of_nat a / of_nat b :: rat"
  have "?x - ?x / 2 ^ 53 \<le> double_div a b"
    using double_div_close [OF b, of a] by (simp add: abs_le_iff)
  moreover have "?x / 2 ^ 53 \<le> ?x" by (simp add: divide_le_eq mult_le_cancel_left1)
  ultimately show ?thesis by simp
qed

lemma context_fraction_range: "0 \<le> context_fraction used limit" "context_fraction used limit \<le> 1"
  using double_div_nonneg [of limit used] by (auto simp: context_fraction_def)

text \<open>The share itself, as the exact quotient of the two counts, at most 1.\<close>

definition exact_share :: "nat \<Rightarrow> nat \<Rightarrow> rat" where
  "exact_share used limit = (if limit = 0 then 0 else min (of_nat used / of_nat limit) 1)"

lemma context_fraction_close: "\<bar>context_fraction used limit - exact_share used limit\<bar> \<le> 1 / 2 ^ 53"
proof (cases "limit = 0")
  case False
  let ?x = "of_nat used / of_nat limit :: rat" and ?d = "double_div used limit"
  have x: "0 \<le> ?x" by simp
  have near: "?x - ?x / 2 ^ 53 \<le> ?d" "?d \<le> ?x + ?x / 2 ^ 53"
    using double_div_close [of limit used] False by (simp_all add: abs_le_iff)
  have "\<bar>min ?d 1 - min ?x 1\<bar> \<le> 1 / 2 ^ 53"
  proof (cases "?x \<le> 1")
    case True
    then have "?x / 2 ^ 53 \<le> 1 / 2 ^ 53" by (simp only: divide_right_mono zero_le_power zero_le_numeral)
    with near True show ?thesis by (auto simp only: min_def abs_le_iff split: if_split; linarith)
  next
    case False
    then have "(1 - 1 / 2 ^ 53) * 1 \<le> (1 - 1 / 2 ^ 53) * ?x" by (intro mult_left_mono) simp_all
    moreover have "(1 - 1 / 2 ^ 53) * ?x = ?x - ?x / 2 ^ 53"
      by (simp only: left_diff_distrib mult_1_left times_divide_eq_left)
    ultimately have "1 - 1 / 2 ^ 53 \<le> ?d" using near(1) by (metis mult_1_right order_trans)
    with False show ?thesis by (auto simp: min_def abs_le_iff)
  qed
  with False show ?thesis by (simp add: context_fraction_def exact_share_def)
qed (simp add: context_fraction_def exact_share_def)

lemma double_times100_close:
  assumes "0 \<le> x"
  shows "\<bar>double_times100 x - x * 100\<bar> \<le> x * 100 / 2 ^ 53"
proof -
  obtain a b where q: "quotient_of x = (a, b)" by fastforce
  then have b: "0 < b" and x: "x = of_int a / of_int b"
    by (simp_all add: quotient_of_denom_pos quotient_of_div)
  then have a: "0 \<le> a" using assms by (simp add: zero_le_divide_iff)
  have "(of_nat (nat (a * 100)) :: rat) / of_nat (nat b) = x * 100"
    using a b x by (simp add: of_nat_nat)
  then show ?thesis
    using double_div_close [of "nat b" "nat (a * 100)"] b by (simp add: double_times100_def q)
qed

lemma toFixed1_close:
  "0 \<le> x \<Longrightarrow> \<exists>n. toFixed1 x = int_str (n div 10) @ ''.'' @ int_str (n mod 10) \<and> \<bar>of_int n / 10 - x\<bar> \<le> 1 / 20"
proof -
  let ?n = "\<lfloor>x * 10 + 1 / 2\<rfloor>"
  have "of_int ?n \<le> x * 10 + 1 / 2" "x * 10 - 1 / 2 < of_int ?n" by linarith+
  then have "\<bar>of_int ?n / 10 - x\<bar> \<le> 1 / 20" by (intro abs_leI) linarith+
  then show ?thesis unfolding toFixed1_def Let_def by blast
qed

text \<open>A tie in decimal is not one in doubles: 1150 tokens are shown as 1.1, 1250 as 1.3 thousands.\<close>

lemma floor_rat_numeral: "\<lfloor>(numeral a :: rat) / numeral b\<rfloor> = numeral a div numeral b"
  using floor_divide_of_int_eq [of "numeral a" "numeral b", where ?'a = rat] by simp

lemma ties_shown: "formatTokens 1150 = ''1.1K''" "formatTokens 1250 = ''1.3K''"
proof -
  have b: "bits 1150 = 11" "bits 1250 = 11" "bits 1000 = 10"
    by (simp_all add: bits.simps)
  have k: "double_scale 1150 1000 = 52" "double_scale 1250 1000 = 52"
    by (simp_all add: double_scale_def scale2_def b Let_def)
  have d: "double_div 1150 1000 = 2589569785738035 / 2251799813685248" "double_div 1250 1000 = 5 / 4"
    by (simp_all add: double_div_def k scale2_def round_half_even_def floor_rat_numeral Let_def)
  have i: "int_str 1 = ''1''" "int_str 3 = ''3''" by code_simp+
  show "formatTokens 1150 = ''1.1K''" "formatTokens 1250 = ''1.3K''"
    by (simp_all add: formatTokens_def toFixed1_def d i floor_rat_numeral Let_def)
qed

text \<open>Just below a million the unit is not changed.\<close>

lemma thousand_thousands: "formatTokens 999999 = ''1000.0K''"
proof -
  have b: "bits 999999 = 20" "bits 1000 = 10"
    by (simp_all add: bits.simps)
  have k: "double_scale 999999 1000 = 43"
    by (simp add: double_scale_def scale2_def b Let_def)
  have d: "double_div 999999 1000 = 4398042113057489 / 4398046511104"
    by (simp add: double_div_def k scale2_def round_half_even_def floor_rat_numeral Let_def)
  have i: "int_str 1000 = ''1000''" "int_str 0 = ''0''" by code_simp+
  show ?thesis
    by (simp add: formatTokens_def toFixed1_def d i floor_rat_numeral Let_def)
qed

section \<open>Facts on the footer and the handle\<close>

text \<open>The start time is there exactly while the session is busy, and it is that of the first effect.\<close>

lemma footer_settled:
  "fo_startTime (footer_effects now session s) \<noteq> None \<longleftrightarrow> footer_busy session"
  "fo_ticking (footer_effects now session s) = footer_busy session"
  "footer_busy session \<Longrightarrow> fo_startTime s = Some t \<Longrightarrow> fo_startTime (footer_effects now session s) = Some t"
  by (auto simp: footer_effects_def Let_def)

lemma duration_seconds: "0 \<le> t \<Longrightarrow> t < 60 \<Longrightarrow> formatDuration (t * 1000 + start) start = int_str t @ ''s''"
  by (simp add: formatDuration_def Let_def)

text \<open>A handle reports moves only of the pointers that hold it, and after a pointer is up, none of it.\<close>

lemma handle_released:
  "snd (handle_step (PointerMove p x) (fst (handle_step (PointerUp p) s))) = []"
  "snd (handle_step (PointerMove p x) (fst (handle_step (PointerCancel p) s))) = []"
  by (auto simp: pointer_cleanup_def filter_empty_conv)

lemma handle_distance:
  "p \<notin> fst ` set s \<Longrightarrow>
   snd (handle_step (PointerMove p x) (fst (handle_step (PointerDown 0 p x0) s))) = [DragMove (x - x0)]"
  by (force simp: filter_empty_conv)

section \<open>Properties\<close>

text \<open>
  C33. The percentage of the context window lies between 0 and 100 whatever was reported, and, although
  the share is rounded to a double twice, it is within half a point and one part in \<open>10 ^ 13\<close> of the exact
  quotient of the tokens used and the limit, taken as 100 where more is used than the limit. It is 0 with
  nothing used or with no limit, and 100 from the limit on.
\<close>

theorem context_percentage_bounds:
  "0 \<le> context_percentage (context_fraction used limit)
   \<and> context_percentage (context_fraction used limit) \<le> 100
   \<and> \<bar>of_int (context_percentage (context_fraction used limit))
        - (if limit = 0 then 0 else min (of_nat used / of_nat limit) (1 :: rat)) * 100\<bar> \<le> 1 / 2 + 1 / 10 ^ 13
   \<and> context_percentage (context_fraction used 0) = 0 \<and> context_percentage (context_fraction 0 limit) = 0
   \<and> context_percentage (context_fraction (Suc limit + k) (Suc limit)) = 100"
proof -
  have near: "0 \<le> context_percentage (context_fraction u l)" "context_percentage (context_fraction u l) \<le> 100"
    "\<bar>of_int (context_percentage (context_fraction u l)) - exact_share u l * 100\<bar> \<le> 1 / 2 + 1 / 10 ^ 13" for u l
  proof -
    define f where "f = context_fraction u l"
    define y where "y = double_times100 f"
    define n where "n = \<lfloor>y + 1 / 2\<rfloor>"
    have f: "0 \<le> f" "f \<le> 1"
      using context_fraction_range by (simp_all add: f_def)
    have "f - exact_share u l \<le> 1 / 2 ^ 53 \<and> - (f - exact_share u l) \<le> 1 / 2 ^ 53"
      using context_fraction_close [of u l] by (simp only: f_def abs_le_iff)
    then have share: "f \<le> exact_share u l + 1 / 2 ^ 53" "exact_share u l \<le> f + 1 / 2 ^ 53"
      by linarith+
    have "\<bar>y - f * 100\<bar> \<le> f * 100 / 2 ^ 53"
      unfolding y_def by (rule double_times100_close) (rule f(1))
    also have "\<dots> \<le> 100 / 2 ^ 53" using f by simp
    finally have "y - f * 100 \<le> 100 / 2 ^ 53 \<and> - (y - f * 100) \<le> 100 / 2 ^ 53"
      by (simp only: abs_le_iff)
    then have close: "y \<le> f * 100 + 100 / 2 ^ 53" "f * 100 - 100 / 2 ^ 53 \<le> y"
      by linarith+
    have n: "of_int n \<le> y + 1 / 2" "y - 1 / 2 < of_int n"
      unfolding n_def by linarith+
    have "of_int n < (101 :: rat)" "(-1 :: rat) < of_int n"
      using n close f by simp_all
    then have "n < 101" "-1 < n" by (metis of_int_less_iff of_int_numeral of_int_minus of_int_1)+
    moreover have "\<bar>of_int n - exact_share u l * 100\<bar> \<le> 1 / 2 + 1 / 10 ^ 13"
      using n close share by (intro abs_leI) simp_all
    ultimately show "0 \<le> context_percentage (context_fraction u l)" "context_percentage (context_fraction u l) \<le> 100"
      "\<bar>of_int (context_percentage (context_fraction u l)) - exact_share u l * 100\<bar> \<le> 1 / 2 + 1 / 10 ^ 13"
      by (simp_all add: context_percentage_def f_def [symmetric] y_def [symmetric] n_def [symmetric])
  qed
  have zero: "context_percentage 0 = 0" by code_simp
  have "exact_share (Suc limit + k) (Suc limit) = 1"
    by (simp add: exact_share_def min_def divide_le_eq)
  then have "- (of_int (context_percentage (context_fraction (Suc limit + k) (Suc limit))) - 1 * 100) \<le> (1 / 2 + 1 / 10 ^ 13 :: rat)"
    using near(3) [of "Suc limit + k" "Suc limit"] by (simp only: abs_le_iff)
  moreover have "1 / 2 + 1 / 10 ^ 13 < (1 :: rat)" by simp
  ultimately have "of_int (context_percentage (context_fraction (Suc limit + k) (Suc limit))) > (99 :: rat)"
    by linarith
  then have "context_percentage (context_fraction (Suc limit + k) (Suc limit)) > 99"
    by (metis of_int_less_iff of_int_numeral)
  then have "context_percentage (context_fraction (Suc limit + k) (Suc limit)) = 100"
    using near(2) [of "Suc limit + k" "Suc limit"] by simp
  moreover have "context_fraction 0 limit = 0" "context_fraction used 0 = 0"
    by (simp_all add: context_fraction_def double_div_def)
  ultimately show ?thesis using near [of used limit] zero by (simp only: exact_share_def simp_thms)
qed

end
