(* ===== verification/Page_Shell.thy ===== *)
theory Page_Shell
  imports Sidebar
begin

text \<open>
  The frame of the settings pages: \<open>components/AppShell.tsx\<close> with its sections and rows, the user menu
  of \<open>components/SidebarUserMenu.tsx\<close> and the editor of \<open>components/InstructionsEditor.tsx\<close>. A control
  is an element with the properties a user sees or can act on.
\<close>

section \<open>Controls\<close>

text \<open>
  A select has its value, its items with their labels, its placeholder and whether it is disabled; an
  input its value, its placeholder, whether it hides what is typed, and whether it is disabled.
\<close>

datatype control =
    TextC string
  | SelectC string "(string \<times> string) list" "string option" bool
  | InputC string string bool bool
  | SwitchC bool bool
  | ButtonC string bool
  | LinkC string string
  | RepoC "string list" "string option" string string
  | GroupC "control list"

primrec parts :: "control \<Rightarrow> control list" where
  "parts (TextC t) = [TextC t]"
| "parts (SelectC v xs p d) = [SelectC v xs p d]"
| "parts (InputC v p h d) = [InputC v p h d]"
| "parts (SwitchC c d) = [SwitchC c d]"
| "parts (ButtonC l d) = [ButtonC l d]"
| "parts (LinkC to l) = [LinkC to l]"
| "parts (RepoC rs r p n) = [RepoC rs r p n]"
| "parts (GroupC cs) = concat (map parts cs)"

section \<open>Sections and rows\<close>

record SettingsRowView =
  srv_label :: string
  srv_badge :: "string option"
  srv_description :: "string option"
  srv_htmlFor :: "string option"
  srv_dimmed :: bool
  srv_control :: control

definition shown_text :: "string option \<Rightarrow> string option" where
  "shown_text d = (if truthy_str d then d else None)"

definition SettingsRow :: "string \<Rightarrow> string option \<Rightarrow> string option \<Rightarrow> bool \<Rightarrow> control \<Rightarrow> SettingsRowView" where
  "SettingsRow label description htmlFor comingSoon c =
     \<lparr>srv_label = label, srv_badge = (if comingSoon then Some (''Pr'' @ [CHR 0xF3] @ ''ximamente'') else None),
      srv_description = shown_text description, srv_htmlFor = htmlFor, srv_dimmed = comingSoon, srv_control = c\<rparr>"

record 'a SettingsSectionView =
  ssv_title :: string
  ssv_description :: "string option"
  ssv_action :: "control option"
  ssv_children :: 'a

definition SettingsSection :: "string \<Rightarrow> string option \<Rightarrow> control option \<Rightarrow> 'a \<Rightarrow> 'a SettingsSectionView" where
  "SettingsSection title description action children =
     \<lparr>ssv_title = title, ssv_description = shown_text description, ssv_action = action, ssv_children = children\<rparr>"

record 'a AppShellView =
  asv_nav :: "NavItem list"
  asv_backTo :: "(string \<times> string) option"
  asv_title :: string
  asv_description :: "string option"
  asv_children :: 'a

definition AppShell ::
  "SessionUser \<Rightarrow> string \<Rightarrow> string option \<Rightarrow> (string \<times> string) option \<Rightarrow> 'a \<Rightarrow> 'a AppShellView" where
  "AppShell user title description backTo children =
     \<lparr>asv_nav = AppSidebar user, asv_backTo = backTo, asv_title = title,
      asv_description = shown_text description, asv_children = children\<rparr>"

section \<open>The user menu\<close>

text \<open>The avatar has an image only with a picture; the open menu holds the themes and its entries.\<close>

record UserMenuPanel =
  ump_themes :: "(Theme \<times> string \<times> bool) list"
  ump_settings :: "(string \<times> string) option"
  ump_logout :: string

record UserMenuView =
  umv_expanded :: bool
  umv_avatar :: "(string \<times> string) option"
  umv_initials :: string
  umv_login :: string
  umv_email :: "string option"
  umv_menu :: "UserMenuPanel option"

definition SidebarUserMenu :: "SessionUser \<Rightarrow> bool \<Rightarrow> Theme \<Rightarrow> bool \<Rightarrow> UserMenuView" where
  "SidebarUserMenu user showSettingsLink chosen shown =
     \<lparr>umv_expanded = shown,
      umv_avatar = (if truthy_str (su_avatar_url user) then Some (the (su_avatar_url user), su_login user) else None),
      umv_initials = user_initials user, umv_login = su_login user, umv_email = shown_text (su_email user),
      umv_menu =
        (if shown
         then Some \<lparr>ump_themes = map (\<lambda>(value, label). (value, label, chosen = value)) THEME_OPTIONS,
                    ump_settings = (if showSettingsLink then Some (''/my-settings'', (''Configuraci''
                        @ [CHR 0xF3] @ ''n del panel'')) else None),
                    ump_logout = (''Cerrar sesi'' @ [CHR 0xF3] @ ''n'')\<rparr>
         else None)\<rparr>"

section \<open>The editor of instructions\<close>

text \<open>Before it is mounted the editor is a plain field; the code editor reports \<open>undefined\<close> for no text.\<close>

datatype EditorWidget = PlainField string string bool | CodeEditor string bool

definition InstructionsEditor :: "bool \<Rightarrow> string \<Rightarrow> string option \<Rightarrow> bool \<Rightarrow> EditorWidget" where
  "InstructionsEditor mounted value placeholder disabled =
     (if \<not> mounted then PlainField value (nullish placeholder []) disabled else CodeEditor value disabled)"

datatype editor_widget_event = EditorMounted | FieldEdited string | CodeEdited "string option"

fun widget_step :: "bool \<Rightarrow> editor_widget_event \<Rightarrow> bool \<Rightarrow> bool \<times> string list" where
  "widget_step disabled EditorMounted mounted = (True, [])"
| "widget_step disabled (FieldEdited v) mounted = (mounted, if mounted \<or> disabled then [] else [v])"
| "widget_step disabled (CodeEdited v) mounted = (mounted, if mounted \<and> \<not> disabled then [nullish v []] else [])"

section \<open>Facts\<close>

text \<open>Exactly one theme is marked in the open menu.\<close>

lemma one_theme_marked:
  "map_option (\<lambda>p. map fst (filter (\<lambda>(_, _, m). m) (ump_themes p))) (umv_menu (SidebarUserMenu user link t True)) =
     Some [t]"
  by (cases t) (simp_all add: SidebarUserMenu_def THEME_OPTIONS_def)

text \<open>A disabled editor reports nothing, and one that is not reports every edit made in the widget it shows.\<close>

lemma editor_reports:
  "snd (widget_step disabled (FieldEdited v) mounted) \<noteq> [] \<longleftrightarrow>
     InstructionsEditor mounted value p disabled = PlainField value (nullish p []) False"
  "snd (widget_step disabled (CodeEdited w) mounted) \<noteq> [] \<longleftrightarrow>
     InstructionsEditor mounted value p disabled = CodeEditor value False"
  by (auto simp: InstructionsEditor_def)

lemma mounted_for_good: "EditorMounted \<in> set es \<Longrightarrow> fst (run_events (widget_step disabled) es mounted)"
proof -
  have step: "fst (widget_step disabled e True)" for e by (cases e) simp_all
  have stays: "fst (run_events (widget_step disabled) es True)" for es
    by (rule run_events_invariant [where I = "\<lambda>m. m"]) (use step in \<open>metis fst_conv\<close>)+
  show "EditorMounted \<in> set es \<Longrightarrow> ?thesis"
    by (induction es arbitrary: mounted) (auto simp: split_beta stays)
qed

text \<open>The pages only an administrator sees are listed for an administrator only.\<close>

lemma shell_admin_entries:
  "(\<exists>n \<in> set (asv_nav (AppShell user title d b c)). nav_adminOnly n) = su_is_admin user"
  by (auto simp: AppShell_def AppSidebar_def app_nav_def)

end
