(* ===== verification/Admin_Page.thy ===== *)
theory Admin_Page
  imports Settings_Pages Page_Shell Routes
begin

text \<open>
  The administration page, \<open>routes/admin.tsx\<close>: the section of the global defaults, with its four role
  pickers and the default repository, and the section of the credentials. Each is a state with the
  data its query has in the cache, a step function for what the user does and what the server answers,
  and a view. A disabled control does nothing.
\<close>

section \<open>Global defaults\<close>

record defaults_state =
  gd_settings :: "(string, jsval) js_map option"
  gd_error :: "string option"
  gd_draft :: string
  gd_role :: "Role \<Rightarrow> role_state"
  gd_save :: mutation

text \<open>A field of the settings, where \<open>null\<close> and \<open>undefined\<close> are the same.\<close>

definition setting_str :: "(string, jsval) js_map option \<Rightarrow> string \<Rightarrow> string option" where
  "setting_str settings k =
     (case settings of
        None \<Rightarrow> None
      | Some d \<Rightarrow> (case map_get d k of Some (JStr v) \<Rightarrow> Some v | _ \<Rightarrow> None))"

definition role_values :: "(string, jsval) js_map option \<Rightarrow> Role \<Rightarrow> string option \<times> string option" where
  "role_values settings r = (setting_str settings (fst (role_keys r)), setting_str settings (snd (role_keys r)))"

definition role_shown :: "(string, jsval) js_map option \<Rightarrow> Role \<Rightarrow> role_state" where
  "role_shown settings r = role_effect (fst (role_values settings r)) (snd (role_values settings r))"

text \<open>The mounted section, with the settings that the cache may already hold.\<close>

definition mount_defaults :: "(string, jsval) js_map option \<Rightarrow> defaults_state" where
  "mount_defaults settings =
     \<lparr>gd_settings = settings, gd_error = None, gd_draft = nullish (setting_str settings ''default_repo'') [],
      gd_role = role_shown settings, gd_save = MutIdle\<rparr>"

text \<open>New settings in the cache: an effect runs only where the values it depends on have changed.\<close>

definition gd_receive :: "(string, jsval) js_map \<Rightarrow> defaults_state \<Rightarrow> defaults_state" where
  "gd_receive d s =
     s\<lparr>gd_settings := Some d,
       gd_draft := (if setting_str (Some d) ''default_repo'' = setting_str (gd_settings s) ''default_repo''
                    then gd_draft s else nullish (setting_str (Some d) ''default_repo'') []),
       gd_role := (\<lambda>r. if role_values (Some d) r = role_values (gd_settings s) r then gd_role s r
                       else role_shown (Some d) r)\<rparr>"

definition defaults_disabled :: "defaults_state \<Rightarrow> bool" where
  "defaults_disabled s = (gd_settings s = None \<or> gd_save s = MutPending)"

datatype defaults_event =
    ModelPicked Role "string option"
  | EffortPicked Role "string option"
  | DraftTyped string
  | DraftBlurred
  | DefaultsSaved "js_error + (string, jsval) js_map"
  | DefaultsFetched "(string, jsval) js_map"

text \<open>The outputs are the bodies that are saved.\<close>

definition start_save ::
  "(string, jsval) js_map option \<Rightarrow> defaults_state \<Rightarrow> defaults_state \<times> (string, jsval) js_map list" where
  "start_save body s = (case body of None \<Rightarrow> (s, []) | Some b \<Rightarrow> (s\<lparr>gd_save := MutPending\<rparr>, [b]))"

definition role_picked ::
  "ModelOption list \<Rightarrow> Role \<Rightarrow> role_event \<Rightarrow> defaults_state \<Rightarrow> defaults_state \<times> (string, jsval) js_map list" where
  "role_picked models r e s =
     (case role_step models (defaults_disabled s) e (gd_role s r) of
        (rs, out) \<Rightarrow>
          (let s' = s\<lparr>gd_role := (gd_role s)(r := rs)\<rparr>
           in case out of [] \<Rightarrow> (s', []) | c # _ \<Rightarrow> start_save (role_change (gd_settings s) r c) s'))"

fun defaults_step ::
  "ModelOption list \<Rightarrow> defaults_event \<Rightarrow> defaults_state \<Rightarrow> defaults_state \<times> (string, jsval) js_map list" where
  "defaults_step models (ModelPicked r v) s = role_picked models r (RoleModel v) s"
| "defaults_step models (EffortPicked r v) s = role_picked models r (RoleEffort v) s"
| "defaults_step models (DraftTyped v) s = (if defaults_disabled s then s else s\<lparr>gd_draft := v\<rparr>, [])"
| "defaults_step models DraftBlurred s =
     (if defaults_disabled s then (s, []) else start_save (repo_blur (gd_settings s) (gd_draft s)) s)"
| "defaults_step models (DefaultsSaved r) s =
     (if gd_save s \<noteq> MutPending then (s, [])
      else (case r of
              Inl e \<Rightarrow> s\<lparr>gd_error := Some (message_of e), gd_save := MutFailed e\<rparr>
            | Inr saved \<Rightarrow> (gd_receive saved s)\<lparr>gd_error := None, gd_save := MutDone\<rparr>, []))"
| "defaults_step models (DefaultsFetched d) s = (gd_receive d s, [])"

section \<open>Its view\<close>

definition RolePicker :: "string \<Rightarrow> string \<Rightarrow> ModelOption list \<Rightarrow> bool \<Rightarrow> role_state \<Rightarrow> SettingsRowView" where
  "RolePicker label description models disabled s =
     SettingsRow label (Some description) None False
       (GroupC [SelectC (localModel s) (map (\<lambda>m. (mo_id m, mo_label m)) models) None disabled,
                SelectC (localEffort s) (map (\<lambda>e. (e, e)) (availableEfforts models s)) (Some ''effort'')
                  (disabled \<or> localModel s = [])])"

text \<open>A row over the error of the section, if there is one.\<close>

type_synonym rows_view = "SettingsRowView list \<times> string option"

definition GlobalDefaultsSection :: "ModelOption list \<Rightarrow> defaults_state \<Rightarrow> rows_view SettingsSectionView" where
  "GlobalDefaultsSection models s =
     (let picker = (\<lambda>label description r. RolePicker label description models (defaults_disabled s) (gd_role s r))
      in SettingsSection ''Valores predeterminados globales''
        (Some ''Modelos predeterminados para todo el espacio de trabajo. Las selecciones por usuario del Agente en la nube tienen prioridad sobre estos valores.'')
        None
        ([picker ''Agente''
            (''Modelo usado en las ejecuciones de escritura de c'' @ [CHR 0xF3]
                @ ''digo disparadas desde Slack, Linear, GitHub y el agente.'')
            AgentRole,
          picker ''Subagentes del agente'' ''Modelo usado por las tareas delegadas del agente principal.''
            AgentSubagentRole,
          SettingsRow ''Repositorio predeterminado''
            (Some (''Reserva global usada cuando una ejecuci'' @ [CHR 0xF3] @ ''n no tiene repo expl''
                @ [CHR 0xED] @ ''cito y el usuario no tiene uno predeterminado en su perfil. Usa owner/repo.''))
            None False (InputC (gd_draft s) ''owner/repo'' False (defaults_disabled s)),
          picker (''Revisor de c'' @ [CHR 0xF3] @ ''digo'') (''Modelo usado en las ejecuciones de revisi''
              @ [CHR 0xF3] @ ''n de PR.'') ReviewerRole,
          picker ''Subagentes del revisor'' ''Modelo usado por las tareas delegadas del revisor.''
            ReviewerSubagentRole],
         shown_text (gd_error s)))"

section \<open>Credentials\<close>

record cred_page =
  cp_form :: cred_state
  cp_data :: "TeamCredentialsStatus option"
  cp_loading :: bool
  cp_mut :: "Connection \<Rightarrow> mutation"

definition init_cred_page :: cred_page where
  "init_cred_page = \<lparr>cp_form = init_cred, cp_data = None, cp_loading = True, cp_mut = (\<lambda>_. MutIdle)\<rparr>"

definition dd_connected :: "cred_page \<Rightarrow> bool" where
  "dd_connected s = (case cp_data s of Some d \<Rightarrow> pcs_connected (tcs_datadog d) | None \<Rightarrow> False)"

definition ls_connected :: "cred_page \<Rightarrow> bool" where
  "ls_connected s = (case cp_data s of Some d \<Rightarrow> pcs_connected (tcs_langsmith d) | None \<Rightarrow> False)"

text \<open>The button of a connection: whether it is there, and the call its handler makes unless it is disabled.\<close>

fun cred_button :: "Connection \<Rightarrow> cred_page \<Rightarrow> bool" where
  "cred_button DatadogOn s = (\<not> dd_connected s)"
| "cred_button DatadogOff s = dd_connected s"
| "cred_button LangSmithOn s = (\<not> ls_connected s)"
| "cred_button LangSmithOff s = ls_connected s"

definition cred_busy :: "Connection \<Rightarrow> cred_page \<Rightarrow> bool" where
  "cred_busy c s = (cp_mut s c = MutPending)"

fun cred_call :: "Connection \<Rightarrow> cred_page \<Rightarrow> ApiCall option" where
  "cred_call DatadogOn s = connectDd (cred_busy DatadogOn s) (cp_form s)"
| "cred_call DatadogOff s = (if cred_busy DatadogOff s then None else Some DisconnectDatadog)"
| "cred_call LangSmithOn s = connectLs (cred_busy LangSmithOn s) (cp_form s)"
| "cred_call LangSmithOff s = (if cred_busy LangSmithOff s then None else Some DisconnectLangSmith)"

datatype cred_field = SiteField | ApiKeyField | AppKeyField | LsKeyField | EndpointField

fun cred_type :: "cred_field \<Rightarrow> string \<Rightarrow> cred_state \<Rightarrow> cred_state" where
  "cred_type SiteField v s = s\<lparr>ddSite := v\<rparr>"
| "cred_type ApiKeyField v s = s\<lparr>ddApiKey := v\<rparr>"
| "cred_type AppKeyField v s = s\<lparr>ddAppKey := v\<rparr>"
| "cred_type LsKeyField v s = s\<lparr>lsApiKey := v\<rparr>"
| "cred_type EndpointField v s = s\<lparr>lsEndpoint := v\<rparr>"

fun field_button :: "cred_field \<Rightarrow> Connection" where
  "field_button LsKeyField = LangSmithOn"
| "field_button EndpointField = LangSmithOn"
| "field_button _ = DatadogOn"

datatype cred_event =
    CredTyped cred_field string
  | CredPressed Connection
  | CredAnswered Connection "js_error + TeamCredentialsStatus"
  | CredFetched "js_error + TeamCredentialsStatus"

fun cred_step :: "cred_event \<Rightarrow> cred_page \<Rightarrow> cred_page \<times> ApiCall list" where
  "cred_step (CredTyped f v) s =
     (if cred_button (field_button f) s \<and> \<not> cp_loading s then s\<lparr>cp_form := cred_type f v (cp_form s)\<rparr> else s, [])"
| "cred_step (CredPressed c) s =
     (if cred_button c s
      then (case cred_call c s of
              None \<Rightarrow> (s, [])
            | Some call \<Rightarrow> (s\<lparr>cp_mut := (cp_mut s)(c := MutPending)\<rparr>, [call]))
      else (s, []))"
| "cred_step (CredAnswered c r) s =
     (if cred_busy c s
      then s\<lparr>cp_mut := (cp_mut s)(c := settle r), cp_form := fst (cred_answer c (map_sum id (\<lambda>_. JNull) r) (cp_form s)),
             cp_data := (case r of Inr d \<Rightarrow> Some d | Inl _ \<Rightarrow> cp_data s), cp_loading := (cp_loading s \<and> isl r)\<rparr>
      else s, [])"
| "cred_step (CredFetched r) s =
     (s\<lparr>cp_data := (case r of Inr d \<Rightarrow> Some d | Inl _ \<Rightarrow> cp_data s), cp_loading := False\<rparr>, [])"

definition datadog_row :: "cred_page \<Rightarrow> SettingsRowView" where
  "datadog_row s =
     (let form = cp_form s; busy = cp_loading s; p = map_option tcs_datadog (cp_data s)
      in SettingsRow ''Datadog''
        (Some (if dd_connected s
               then (''Conectado '' @ [CHR 0xB7] @ '' '') @ nullish (Option.bind p pcs_site) [] @ ('' ''
                   @ [CHR 0xB7] @ '' clave '' @ [CHR 0x95] @ [CHR 0x95] @ [CHR 0x95] @ [CHR 0x95])
                 @ nullish (Option.bind p pcs_api_key_last4) []
               else (''Conecta Datadog para habilitar m'' @ [CHR 0xE9]
                   @ ''tricas, logs, trazas y monitores de solo lectura.'')))
        None False
        (if dd_connected s then ButtonC ''Desconectar'' (cred_busy DatadogOff s)
         else GroupC [InputC (ddSite form) ''datadoghq.com'' False busy, InputC (ddApiKey form) ''Clave de API'' True busy,
                InputC (ddAppKey form) (''Clave de aplicaci'' @ [CHR 0xF3] @ ''n'') True busy,
                ButtonC ''Conectar''
                  (cred_busy DatadogOn s \<or> trim (ddSite form) = [] \<or> trim (ddApiKey form) = [] \<or> trim (ddAppKey form) = [])]))"

definition langsmith_row :: "cred_page \<Rightarrow> SettingsRowView" where
  "langsmith_row s =
     (let form = cp_form s; busy = cp_loading s; p = map_option tcs_langsmith (cp_data s);
          endpoint = Option.bind p pcs_endpoint
      in SettingsRow ''LangSmith''
        (Some (if ls_connected s
               then (''Conectado '' @ [CHR 0xB7] @ '' clave '' @ [CHR 0x95] @ [CHR 0x95] @ [CHR 0x95]
                   @ [CHR 0x95]) @ nullish (Option.bind p pcs_api_key_last4) []
                 @ (if truthy_str endpoint then ('' '' @ [CHR 0xB7] @ '' '') @ the endpoint else [])
               else ''Conecta LangSmith para habilitar herramientas de solo lectura de trazas y consulta de ejecuciones.''))
        None False
        (if ls_connected s then ButtonC ''Desconectar'' (cred_busy LangSmithOff s)
         else GroupC [InputC (lsApiKey form) ''Clave de API'' True busy,
                InputC (lsEndpoint form) ''Endpoint (opcional)'' False busy,
                ButtonC ''Conectar'' (cred_busy LangSmithOn s \<or> trim (lsApiKey form) = [])]))"

definition ObservabilityCredentialsSection :: "cred_page \<Rightarrow> rows_view SettingsSectionView" where
  "ObservabilityCredentialsSection s =
     SettingsSection ''Credenciales de observabilidad''
       (Some ''Credenciales de Datadog y LangSmith para todo el equipo. Se guardan cifradas en el servidor y nunca se exponen al sandbox. Conectarlas habilita herramientas de observabilidad de solo lectura para las ejecuciones del agente.'')
       None ([datadog_row s, langsmith_row s], shown_text (cr_error (cp_form s)))"

text \<open>The page, where the guard of the route lets it be shown.\<close>

definition AdminView ::
  "SessionUser fetched \<Rightarrow> OptionsPayload option \<Rightarrow> defaults_state \<Rightarrow> cred_page \<Rightarrow>
   rows_view SettingsSectionView list AppShellView option" where
  "AdminView session options g c =
     (case (AdminPage session, session) of
        (ShowPage _, Present user) \<Rightarrow>
          Some (AppShell user (''Administraci'' @ [CHR 0xF3] @ ''n'')
            (Some ''Valores predeterminados y credenciales de todo el espacio de trabajo.'') None
            [GlobalDefaultsSection (option_models options) g, ObservabilityCredentialsSection c])
      | _ \<Rightarrow> None)"

section \<open>Facts on the defaults\<close>

fun is_saved :: "defaults_event \<Rightarrow> bool" where
  "is_saved (DefaultsSaved _) = True"
| "is_saved _ = False"

text \<open>The saves, each with the settings as they were when it was started.\<close>

definition tagged_save ::
  "ModelOption list \<Rightarrow> defaults_event \<Rightarrow> defaults_state \<Rightarrow>
   defaults_state \<times> ((string, jsval) js_map option \<times> (string, jsval) js_map) list" where
  "tagged_save models e s = (case defaults_step models e s of (s', out) \<Rightarrow> (s', map (Pair (gd_settings s)) out))"

lemma role_step_disabled: "e \<noteq> RoleProps m f \<Longrightarrow> snd (role_step models True e s) = []"
  by (cases e) auto

lemma role_step_outputs: "snd (role_step models d e s) = [] \<or> (\<exists>c. snd (role_step models d e s) = [c] \<and> \<not> d)"
  by (cases e) (auto simp: handleModelChange_def handleEffortChange_def Let_def split: option.split)

lemma role_picked_cases:
  obtains "role_picked models r e s = (s\<lparr>gd_role := (gd_role s)(r := fst (role_step models (defaults_disabled s) e (gd_role s r)))\<rparr>, [])"
  | d c where "gd_settings s = Some d" "gd_save s \<noteq> MutPending"
      "role_step models (defaults_disabled s) e (gd_role s r) = (fst (role_step models (defaults_disabled s) e (gd_role s r)), [c])"
      "role_picked models r e s =
         (s\<lparr>gd_role := (gd_role s)(r := fst (role_step models (defaults_disabled s) e (gd_role s r))), gd_save := MutPending\<rparr>,
          [spread d [(fst (role_keys r), JStr (fst c)), (snd (role_keys r), JStr (snd c))]])"
proof -
  obtain rs out where q: "role_step models (defaults_disabled s) e (gd_role s r) = (rs, out)" by fastforce
  from role_step_outputs [of models "defaults_disabled s" e "gd_role s r"]
  consider "out = []" | c where "out = [c]" "\<not> defaults_disabled s" by (auto simp: q)
  then show thesis
  proof cases
    case 1
    then show thesis using that(1) by (simp add: role_picked_def q)
  next
    case (2 c)
    then obtain d where "gd_settings s = Some d" "gd_save s \<noteq> MutPending" by (auto simp: defaults_disabled_def)
    then show thesis using that(2) [of d c] 2 q by (simp add: role_picked_def role_change_def start_save_def)
  qed
qed

lemma role_keys_distinct: "fst (role_keys r) \<noteq> snd (role_keys r)"
  by (cases r) simp_all

definition control_fields :: "string list list" where
  "control_fields =
     map (\<lambda>r. [fst (role_keys r), snd (role_keys r)]) [AgentRole, AgentSubagentRole, ReviewerRole, ReviewerSubagentRole]
     @ [[''default_repo'']]"

definition changes_only :: "string list \<Rightarrow> (string, jsval) js_map \<Rightarrow> (string, jsval) js_map \<Rightarrow> bool" where
  "changes_only ks old new = (\<forall>k. k \<notin> set ks \<longrightarrow> map_get new k = map_get old k)"

fun save_ok :: "(string, jsval) js_map option \<times> (string, jsval) js_map \<Rightarrow> bool" where
  "save_ok (None, body) = False"
| "save_ok (Some d, body) = list_ex (\<lambda>ks. changes_only ks d body) control_fields"

lemma changes_only_spread: "distinct (map fst patch) \<Longrightarrow> changes_only (map fst patch) d (spread d patch)"
  unfolding changes_only_def by (metis map_add_dom_app_simps(3) map_get_spread map_of_eq_None_iff domIff set_map)

lemma role_save_ok: "save_ok (Some d, spread d [(fst (role_keys r), v), (snd (role_keys r), w)])"
proof -
  have "changes_only [fst (role_keys r), snd (role_keys r)] d (spread d [(fst (role_keys r), v), (snd (role_keys r), w)])"
    using changes_only_spread [of "[(fst (role_keys r), v), (snd (role_keys r), w)]"] role_keys_distinct by simp
  then show ?thesis by (cases r) (simp_all add: control_fields_def)
qed

lemma repo_save_ok: "save_ok (Some d, spread d [(''default_repo'', v)])"
  using changes_only_spread [of "[(''default_repo'', v)]"] by (simp add: control_fields_def)

lemma role_picked_ok:
  "list_all (\<lambda>b. save_ok (gd_settings s, b)) (snd (role_picked models r f s))"
  "of_bool (gd_save s = MutPending) + length (snd (role_picked models r f s))
     \<le> of_bool (gd_save (fst (role_picked models r f s)) = MutPending)"
  by (rule role_picked_cases [of models r f s]; simp add: role_save_ok del: save_ok.simps)+

lemma repo_blur_ok: "repo_blur settings draft = Some b \<Longrightarrow> save_ok (settings, b)"
  by (auto simp: repo_blur_def repo_save_ok simp del: save_ok.simps)

lemma tagged_ok:
  assumes "tagged_save models e s = (s', out)"
  shows "list_all save_ok out"
    and "of_bool (gd_save s = MutPending) + length out \<le> of_bool (is_saved e) + of_bool (gd_save s' = MutPending)"
proof -
  have step: "s' = fst (defaults_step models e s)" "out = map (Pair (gd_settings s)) (snd (defaults_step models e s))"
    using assms by (simp_all add: tagged_save_def split_beta)
  show "list_all save_ok out"
  proof (cases e)
    case DraftBlurred
    then show ?thesis
      using repo_blur_ok [of "gd_settings s"] by (auto simp: step start_save_def simp del: save_ok.simps split: option.split)
  qed (use role_picked_ok(1) in \<open>auto simp: step list.pred_map o_def simp del: save_ok.simps\<close>)
  show "of_bool (gd_save s = MutPending) + length out \<le> of_bool (is_saved e) + of_bool (gd_save s' = MutPending)"
  proof (cases e)
    case (ModelPicked r v)
    then show ?thesis using role_picked_ok(2) [of s models r "RoleModel v"] by (simp add: step)
  next
    case (EffortPicked r v)
    then show ?thesis using role_picked_ok(2) [of s models r "RoleEffort v"] by (simp add: step)
  qed (auto simp: step start_save_def defaults_disabled_def gd_receive_def split: option.split sum.split)
qed

interpretation defaults: guarded_requests "tagged_save models" "\<lambda>s. gd_save s = MutPending" "\<lambda>_. True" is_saved
  by unfold_locales (use tagged_ok(2) in \<open>simp add: occurrences_def\<close>)

text \<open>
  A choice that the server answers with what was sent: the picker shows what is saved, and the other
  pickers are as they were.
\<close>

lemma setting_str_spread:
  "distinct (map fst patch) \<Longrightarrow>
     setting_str (Some (spread d patch)) k =
       (case map_of patch k of Some v \<Rightarrow> (case v of JStr t \<Rightarrow> Some t | _ \<Rightarrow> None) | None \<Rightarrow> setting_str (Some d) k)"
  by (simp add: setting_str_def map_get_spread map_add_def split: option.split)

lemma picked_state: "role_step models d e s = (s', [c]) \<Longrightarrow> s' = role_effect (Some (fst c)) (Some (snd c))"
  by (cases e) (auto simp: handleModelChange_def handleEffortChange_def Let_def role_effect_def split: option.splits if_splits)

lemma role_keys_apart:
  "r' \<noteq> r \<Longrightarrow> fst (role_keys r') \<notin> {fst (role_keys r), snd (role_keys r)}
     \<and> snd (role_keys r') \<notin> {fst (role_keys r), snd (role_keys r)}"
  by (cases r; cases r') simp_all

lemma pick_saved_shown:
  assumes "role_picked models r e s = (s', [b])"
  shows "gd_role (gd_receive b s') r = role_shown (Some b) r"
    and "r' \<noteq> r \<Longrightarrow> gd_role (gd_receive b s') r' = gd_role s r'"
proof -
  obtain d c where dc: "gd_settings s = Some d"
      "role_step models (defaults_disabled s) e (gd_role s r) = (gd_role s' r, [c])"
      "gd_settings s' = Some d" "\<And>r'. r' \<noteq> r \<Longrightarrow> gd_role s' r' = gd_role s r'"
      "b = spread d [(fst (role_keys r), JStr (fst c)), (snd (role_keys r), JStr (snd c))]"
    using assms by (rule_tac role_picked_cases [of models r e s]) auto
  have v: "role_values (Some b) r = (Some (fst c), Some (snd c))"
    using role_keys_distinct [of r] by (simp add: role_values_def dc(5) setting_str_spread)
  with picked_state [OF dc(2)] show "gd_role (gd_receive b s') r = role_shown (Some b) r"
    by (simp add: gd_receive_def role_shown_def)
  assume "r' \<noteq> r"
  then have "role_values (Some b) r' = role_values (Some d) r'"
    using role_keys_apart [of r' r] role_keys_distinct [of r] by (simp add: role_values_def dc(5) setting_str_spread)
  with \<open>r' \<noteq> r\<close> show "gd_role (gd_receive b s') r' = gd_role s r'" by (simp add: gd_receive_def dc)
qed

text \<open>
  A choice that the server refuses stays in the picker, although the settings do not have it: the
  effect that takes over the settings depends on their values, and they have not changed.
\<close>

lemma failed_save_keeps_choice:
  assumes "role_picked models r e s = (s', [b])"
  shows "gd_role (fst (run_events (defaults_step models) [DefaultsSaved (Inl err), DefaultsFetched (the (gd_settings s))] s')) r =
      gd_role s' r"
    and "gd_settings (fst (run_events (defaults_step models) [DefaultsSaved (Inl err), DefaultsFetched (the (gd_settings s))] s')) =
      gd_settings s"
  using assms by (rule_tac [!] role_picked_cases [of models r e s]) (auto simp: gd_receive_def)

text \<open>Leaving the repository field saves the settings even if nothing was typed.\<close>

lemma blur_saves_unchanged:
  "snd (defaults_step models DraftBlurred (mount_defaults (Some d))) =
     [spread d [(''default_repo'', or_null (trim (nullish (setting_str (Some d) ''default_repo'') [])))]]"
  by (simp add: mount_defaults_def defaults_disabled_def start_save_def repo_blur_def)

section \<open>Facts on the credentials\<close>

definition connection_of :: "ApiCall \<Rightarrow> Connection option" where
  "connection_of call =
     (case call of
        ConnectDatadog _ \<Rightarrow> Some DatadogOn
      | DisconnectDatadog \<Rightarrow> Some DatadogOff
      | ConnectLangSmith _ \<Rightarrow> Some LangSmithOn
      | DisconnectLangSmith \<Rightarrow> Some LangSmithOff
      | _ \<Rightarrow> None)"

definition is_cred_call :: "Connection \<Rightarrow> ApiCall \<Rightarrow> bool" where
  "is_cred_call c call = (connection_of call = Some c)"

lemma is_cred_call_simps [simp]:
  "is_cred_call c (ConnectDatadog body) = (c = DatadogOn)" "is_cred_call c DisconnectDatadog = (c = DatadogOff)"
  "is_cred_call c (ConnectLangSmith body) = (c = LangSmithOn)" "is_cred_call c DisconnectLangSmith = (c = LangSmithOff)"
  by (auto simp: is_cred_call_def connection_of_def)

fun is_cred_answer :: "Connection \<Rightarrow> cred_event \<Rightarrow> bool" where
  "is_cred_answer c (CredAnswered c' _) = (c = c')"
| "is_cred_answer c _ = False"

definition full_text :: "jsval \<Rightarrow> bool" where
  "full_text v = (case v of JStr t \<Rightarrow> t \<noteq> [] \<and> trim t = t | _ \<Rightarrow> False)"

fun complete_call :: "ApiCall \<Rightarrow> bool" where
  "complete_call (ConnectDatadog (JObj kvs)) =
     (map fst kvs = [''site'', ''api_key'', ''app_key''] \<and> list_all (\<lambda>f. full_text (snd f)) kvs)"
| "complete_call (ConnectLangSmith (JObj [(k, v), (k', w)])) =
     (k = ''api_key'' \<and> full_text v \<and> k' = ''endpoint'' \<and> (w = JNull \<or> full_text w))"
| "complete_call call = (call = DisconnectDatadog \<or> call = DisconnectLangSmith)"

lemma cred_call_kind: "cred_call c s = Some call \<Longrightarrow> is_cred_call c' call = (c' = c) \<and> \<not> cred_busy c s"
  by (cases c; cases c') (auto simp: connectDd_def connectLs_def split: if_splits)

lemma cred_call_complete: "cred_call c s = Some call \<Longrightarrow> complete_call call"
  by (cases c) (auto simp: connectDd_def connectLs_def full_text_def or_null_def split: if_splits)

lemma cred_step_balance:
  assumes "cred_step e s = (s', out)"
  shows "of_bool (cred_busy c s) + occurrences (is_cred_call c) out \<le> of_bool (is_cred_answer c e) + of_bool (cred_busy c s')"
proof (cases e)
  case (CredPressed c')
  with assms show ?thesis
    by (auto simp: cred_busy_def dest: cred_call_kind [of _ _ _ c] split: if_splits option.splits)
qed (use assms in \<open>auto simp: cred_busy_def split: if_splits\<close>)

interpretation creds: guarded_requests cred_step "cred_busy c" "is_cred_call c" "is_cred_answer c"
  by unfold_locales (rule cred_step_balance)

definition connection_label :: "Connection \<Rightarrow> string" where
  "connection_label c = (if c = DatadogOn \<or> c = LangSmithOn then ''Conectar'' else ''Desconectar'')"

definition connection_row :: "Connection \<Rightarrow> cred_page \<Rightarrow> SettingsRowView" where
  "connection_row c = (if c = DatadogOn \<or> c = DatadogOff then datadog_row else langsmith_row)"

text \<open>What was typed as a secret is shown only in a field that hides it.\<close>

lemma secrets_hidden:
  "InputC v p False d \<in> set (parts (srv_control (connection_row c s))) \<Longrightarrow>
     (p = ''datadoghq.com'' \<and> v = ddSite (cp_form s)) \<or> (p = ''Endpoint (opcional)'' \<and> v = lsEndpoint (cp_form s))"
  by (cases c) (auto simp: connection_row_def datadog_row_def langsmith_row_def SettingsRow_def Let_def split: if_splits)

text \<open>
  The answers are taken in the order in which they arrive: the one for Datadog, made by the server
  first but arriving last, takes the connection of LangSmith off the page again.
\<close>

lemma older_answer_wins:
  assumes "cred_busy DatadogOn s" "cred_busy LangSmithOn s" "pcs_connected (tcs_langsmith both)" "\<not> pcs_connected (tcs_langsmith one)"
  shows "\<not> ls_connected (fst (run_events cred_step [CredAnswered LangSmithOn (Inr both), CredAnswered DatadogOn (Inr one)] s))"
  using assms by (simp add: cred_busy_def ls_connected_def)

text \<open>The success of one connection removes the error of the other.\<close>

lemma success_hides_error:
  assumes "cred_busy DatadogOn s" "cred_busy LangSmithOn s"
  shows "cr_error (cp_form (fst (run_events cred_step [CredAnswered DatadogOn (Inl e), CredAnswered LangSmithOn (Inr d)] s))) = None"
  using assms by (simp add: cred_busy_def cred_answer_def Let_def)

section \<open>Properties\<close>

text \<open>
  C16. No lost update in the global defaults: in every sequence of choices, typed drafts, answers and
  reloads, every body saved is the settings as the page had them with only the fields of one control
  replaced, and a save is started only after the one before it was answered.
\<close>

theorem defaults_saves:
  "case run_events (tagged_save models) es (mount_defaults settings) of
     (s', out) \<Rightarrow> list_all save_ok out \<and> length out \<le> occurrences is_saved es + of_bool (gd_save s' = MutPending)"
proof -
  have "list_all save_ok (snd (run_events (tagged_save models) es (mount_defaults settings)))"
    by (rule run_events_outputs [where I = "\<lambda>_. True"]) (auto dest: tagged_ok(1))
  moreover have "\<not> gd_save (mount_defaults settings) = MutPending" by (simp add: mount_defaults_def)
  from defaults.requests_answered [OF this, of es models]
  have "case run_events (tagged_save models) es (mount_defaults settings) of
     (s', out) \<Rightarrow> length out \<le> occurrences is_saved es + of_bool (gd_save s' = MutPending)"
    by (simp add: occurrences_def split: prod.splits)
  ultimately show ?thesis by (auto split: prod.splits)
qed

text \<open>
  The buttons of the credentials mean what they show: the button of a connection stands enabled on
  the page exactly when pressing it sends a request.
\<close>

theorem credential_buttons:
  "(ButtonC (connection_label c) False \<in> set (parts (srv_control (connection_row c s)))) =
     (snd (cred_step (CredPressed c) s) \<noteq> [])"
  by (cases c) (auto simp: connection_label_def connection_row_def datadog_row_def langsmith_row_def SettingsRow_def
      Let_def connectDd_def connectLs_def split: option.split)

text \<open>
  C31. The requests of the credentials: in every sequence of what is typed, pressed and answered, each
  request to connect carries its trimmed, non-empty fields, and for each of the four requests a second
  one is sent only after the first was answered.
\<close>

theorem credential_requests:
  "case run_events cred_step es init_cred_page of
     (s', out) \<Rightarrow>
       list_all complete_call out
       \<and> occurrences (is_cred_call c) out \<le> occurrences (is_cred_answer c) es + of_bool (cred_busy c s')"
proof -
  have "list_all complete_call (snd (run_events cred_step es init_cred_page))"
  proof (rule run_events_outputs [where I = "\<lambda>_. True"])
    show "True \<and> list_all complete_call out" if "cred_step e s = (s', out)" for e s s' out
      using that by (cases e) (auto dest: cred_call_complete split: if_splits option.splits)
  qed simp
  moreover have "\<not> cred_busy c init_cred_page" by (simp add: cred_busy_def init_cred_page_def)
  from creds.requests_answered [OF this, of es]
  have "case run_events cred_step es init_cred_page of
     (s', out) \<Rightarrow> occurrences (is_cred_call c) out \<le> occurrences (is_cred_answer c) es + of_bool (cred_busy c s')" .
  ultimately show ?thesis by (auto split: prod.splits)
qed

end
