(* ===== verification/Settings_Views.thy ===== *)
theory Settings_Views
  imports Settings_Pages Page_Shell Routes
begin

text \<open>
  The pages \<open>routes/my-settings.tsx\<close> and \<open>routes/cloud-agents.tsx\<close> as they are shown, the events of the
  first one, and what a save of one page does to the fields of the profile that other pages manage.
\<close>

type_synonym settings_body = "(SettingsRowView list \<times> control list) SettingsSectionView list \<times> string option"

section \<open>Profile settings\<close>

record my_state =
  my_error :: "string option"
  my_save :: mutation

definition init_my :: my_state where
  "init_my = \<lparr>my_error = None, my_save = MutIdle\<rparr>"

definition my_disabled :: "bool \<Rightarrow> my_state \<Rightarrow> bool" where
  "my_disabled profileLoading s = (profileLoading \<or> my_save s = MutPending)"

datatype my_event = DraftChosen DraftReviewChoice | DraftAnswered "js_error + jsval"

text \<open>The outputs are the bodies that are saved.\<close>

fun my_step ::
  "OptionsPayload option \<Rightarrow> Profile option \<Rightarrow> bool \<Rightarrow> my_event \<Rightarrow> my_state \<Rightarrow> my_state \<times> (string, jsval) js_map list" where
  "my_step options profile profileLoading (DraftChosen c) s =
     (if my_disabled profileLoading s then (s, [])
      else (\<lparr>my_error = None, my_save = MutPending\<rparr>, [handleDraftChoiceChange options profile c]))"
| "my_step options profile profileLoading (DraftAnswered r) s =
     (if my_save s = MutPending
      then \<lparr>my_error = (case r of Inl e \<Rightarrow> Some (message_of e) | Inr _ \<Rightarrow> my_error s), my_save = settle r\<rparr>
      else s, [])"

fun choice_value :: "DraftReviewChoice \<Rightarrow> string" where
  "choice_value TeamDefault = ''team_default''"
| "choice_value AlwaysOn = ''always_on''"
| "choice_value AlwaysOff = ''always_off''"

definition MySettingsPage ::
  "SessionUser fetched \<Rightarrow> Profile option \<Rightarrow> bool option \<Rightarrow> bool \<Rightarrow> my_state \<Rightarrow> outcome + settings_body AppShellView" where
  "MySettingsPage session profile teamDraft profileLoading s =
     (case session of
        Present user \<Rightarrow>
          Inr (AppShell user (''Configuraci'' @ [CHR 0xF3] @ ''n del perfil'') None None
            ([SettingsSection ''Perfil'' None None
                ([SettingsRow ''Correo'' None None False (TextC (nullish (su_email user) [CHR 0x97]))], []),
              SettingsSection (''Revisi'' @ [CHR 0xF3] @ ''n de c'' @ [CHR 0xF3] @ ''digo'') None None
                ([SettingsRow ''Revisar mis PRs en borrador''
                    (Some (''Define si la revisi'' @ [CHR 0xF3] @ ''n de c'' @ [CHR 0xF3]
                        @ ''digo se ejecuta en los pull requests que abres en borrador. Con el valor del equipo, se aplica la configuraci''
                        @ [CHR 0xF3] @ ''n global de tu administrador.''))
                    None False
                    (SelectC (choice_value (toChoice (Option.bind profile prof_review_draft_prs)))
                      [(''team_default'', teamDefaultLabel teamDraft), (''always_on'', ''Revisar siempre mis borradores''),
                       (''always_off'', ''No revisar nunca mis borradores'')] None (my_disabled profileLoading s))], []),
              SettingsSection ''Cuenta'' None None
                ([SettingsRow (''Cerrar sesi'' @ [CHR 0xF3] @ ''n'') (Some (''Cierra tu sesi'' @ [CHR 0xF3]
                    @ ''n del panel.'')) None False
                    (ButtonC (''Cerrar sesi'' @ [CHR 0xF3] @ ''n'') False)], [])],
             shown_text (my_error s)))
      | _ \<Rightarrow> Inl (session_guard session MySettingsRoute))"

section \<open>Cloud agent settings\<close>

definition effort_items :: "OptionsPayload option \<Rightarrow> string \<Rightarrow> (string \<times> string) list" where
  "effort_items options modelId =
     (case currentModel options modelId of None \<Rightarrow> [] | Some m \<Rightarrow> map (\<lambda>e. (e, e)) (mo_efforts m))"

definition model_items :: "OptionsPayload option \<Rightarrow> (string \<times> string) list" where
  "model_items options = map (\<lambda>m. (mo_id m, mo_label m)) (option_models options)"

definition repo_control :: "string list option \<Rightarrow> cloud_state \<Rightarrow> control" where
  "repo_control repos s =
     (if length (nullish repos []) > 0
      then RepoC (nullish repos []) (if cl_defaultRepo s = [] then None else Some (cl_defaultRepo s))
             (''Elige un repositorio'' @ [CHR 0x85]) ''Sin repositorio predeterminado''
      else InputC (cl_defaultRepo s) ''owner/repo'' False False)"

definition cloud_defaults ::
  "OptionsPayload option \<Rightarrow> string list option \<Rightarrow> cloud_state \<Rightarrow> SettingsRowView list \<times> control list" where
  "cloud_defaults options repos s =
     ([SettingsRow ''Modelo predeterminado'' (Some ''Se usa cuando no se especifica un modelo'') None False
         (SelectC (cl_modelId s) (model_items options) (Some ''Elige un modelo'') False),
       SettingsRow ''Esfuerzo de razonamiento'' (Some (''Cu'' @ [CHR 0xE1]
           @ ''nto piensa el modelo antes de responder'')) None False
         (SelectC (cl_effort s) (effort_items options (cl_modelId s)) None False),
       SettingsRow ''Modelo de subagente predeterminado''
         (Some ''Se usa para las tareas delegadas que lanza tu agente'') None False
         (SelectC (cl_subagentModelId s) (model_items options) (Some ''Elige un modelo'') False),
       SettingsRow ''Esfuerzo de razonamiento del subagente''
         (Some (''Cu'' @ [CHR 0xE1] @ ''nto piensan los subagentes delegados antes de responder'')) None False
         (SelectC (cl_subagentEffort s) (effort_items options (cl_subagentModelId s)) None False),
       SettingsRow ''Repositorio predeterminado'' (Some ''Se usa cuando no se especifica un repositorio'') None False
         (repo_control repos s),
       SettingsRow ''Base branch''
         (Some (''Si se deja vac'' @ [CHR 0xED] @ ''o, el agente usar'' @ [CHR 0xE1]
             @ '' la branch por defecto del repositorio (recomendado)''))
         (Some ''base-branch'') False (InputC (cl_baseBranch s) (''Nombre de la branch'' @ [CHR 0x85]) False False),
       SettingsRow ''Prefijo de branch'' (Some ''Prefijo para los nombres de branch que crea el agente'')
         (Some ''branch-prefix'') False (InputC (cl_branchPrefix s) ''open-swe/'' False False)],
      [ButtonC (if cl_save s = MutPending then (''Guardando''
          @ [CHR 0x85]) else ''Guardar valores'') (cl_save s = MutPending)])"

definition cloud_pull_requests :: "Profile option \<Rightarrow> SettingsRowView list \<times> control list" where
  "cloud_pull_requests profile =
     ([SettingsRow (''Corregir fallos de CI autom'' @ [CHR 0xE1] @ ''ticamente'')
         (Some (''El agente intentar'' @ [CHR 0xE1]
             @ '' corregir los checks de CI que fallen en los PRs que abre.'')) None True
         (SwitchC (nullish (Option.bind profile prof_auto_fix_ci) True) True),
       SettingsRow ''Crear PRs siempre''
         (Some (''Crear siempre un pull request para los cambios de c'' @ [CHR 0xF3]
             @ ''digo. Si se desactiva, los agentes crean PRs solo cuando es necesario o se solicita.''))
         None False (SwitchC (nullish (Option.bind profile prof_create_prs) False) False)], [])"

definition CloudAgentsPage ::
  "SessionUser fetched \<Rightarrow> OptionsPayload option \<Rightarrow> Profile option \<Rightarrow> string list option \<Rightarrow> cloud_state \<Rightarrow>
   outcome + settings_body AppShellView" where
  "CloudAgentsPage session options profile repos s =
     (case session of
        Present user \<Rightarrow>
          Inr (AppShell user ''Agente en la nube''
            (Some (''Configura c'' @ [CHR 0xF3]
                @ ''mo el agente elige modelo, repositorio y valores predeterminados de PR.'')) None
            ([SettingsSection ''Valores predeterminados'' None None (cloud_defaults options repos s),
              SettingsSection ''Pull Requests'' None None (cloud_pull_requests profile),
              SettingsSection ''Rules'' None None
                ([], [GroupC [LinkC ''/agents/instructions'' ''Repository Instructions'',
                              TextC (''Per-repo custom instructions injected into the agent'' @ [CHR 0x27]
                                  @ ''s system prompt.'')]])],
             shown_text (cl_error s)))
      | _ \<Rightarrow> Inl (session_guard session CloudAgentsRoute))"

section \<open>Facts\<close>

text \<open>Where the efforts are supported, each select of an effort shows one of its own items.\<close>

lemma efforts_listed:
  assumes "efforts_supported options s" "currentModel options (cl_modelId s) \<noteq> None" "currentModel options (cl_subagentModelId s) \<noteq> None"
  shows "list_all (\<lambda>i. case srv_control (fst (cloud_defaults options repos s) ! i) of
      SelectC v items _ _ \<Rightarrow> v \<in> set (map fst items) | _ \<Rightarrow> False) [1, 3]"
  using assms by (auto simp: efforts_supported_def cloud_defaults_def SettingsRow_def effort_items_def image_image)

text \<open>A choice that was refused is not kept: the select shows the profile, and it can be chosen again.\<close>

lemma refused_choice_not_kept:
  "run_events (my_step options profile False) [DraftChosen c, DraftAnswered (Inl e), DraftChosen c] init_my =
     (\<lparr>my_error = None, my_save = MutPending\<rparr>,
      [handleDraftChoiceChange options profile c, handleDraftChoiceChange options profile c])"
  by (simp add: init_my_def my_disabled_def settle_def)

text \<open>
  The switch for pull requests is enabled before the profile has loaded. The body is then made of
  the defaults, so it empties what the profile had for the repository, the branches and the review.
\<close>

lemma unloaded_profile_overwritten:
  "\<exists>body. snd (cloud_step options None (CloudCreatePrs v) init_cloud) = [body]
     \<and> map (map_get body) [''default_repo'', ''base_branch'', ''branch_prefix'', ''review_draft_prs''] =
         replicate 4 (Some JNull)
     \<and> map_get body ''default_model'' = Some (JStr (fallbackModel options))"
  "SwitchC False False \<in> set (map srv_control (fst (cloud_pull_requests None)))"
  by (simp_all add: persist_def buildProfileUpdate_def map_get_spread profile_fields_def no_profile_def str_or_null_def
      bool_or_null_def map_add_def numeral_nat cloud_pull_requests_def SettingsRow_def)

text \<open>The save button is enabled as well, and sends the empty form: a model without a name.\<close>

lemma empty_form_saved:
  "map_get (hd (snd (cloud_step options profile CloudSave init_cloud))) ''default_model'' = Some (JStr [])"
  "ButtonC ''Guardar valores'' False \<in> set (snd (cloud_defaults options repos init_cloud))"
  by (simp_all add: init_cloud_def persistDefaults_def persist_def buildProfileUpdate_def defaults_patch_def
      map_get_spread cloud_defaults_def)

text \<open>
  A profile without a model of its own follows the default of the team; changing the choice for draft
  reviews writes the present default into it.
\<close>

lemma choice_pins_model:
  "prof_default_model p = None \<Longrightarrow>
     map_get (handleDraftChoiceChange options (Some p) c) ''default_model'' = Some (JStr (fallbackModel options))"
  by (simp add: handleDraftChoiceChange_def buildProfileUpdate_def map_get_spread profile_fields_def map_add_def)

text \<open>What a server that keeps the body has as the profile afterwards, field by field.\<close>

definition saved_choice :: "(string, jsval) js_map \<Rightarrow> DraftReviewChoice" where
  "saved_choice body =
     toChoice (case map_get body ''review_draft_prs'' of Some (JBool b) \<Rightarrow> Some b | _ \<Rightarrow> None)"

definition without :: "string \<Rightarrow> (string, jsval) js_map \<Rightarrow> (string, jsval) js_map" where
  "without k m = filter (\<lambda>(k', _). k' \<noteq> k) m"

section \<open>Properties\<close>

text \<open>
  The choice for draft reviews is saved and read back as it was chosen, whatever the answers before,
  and the body holds every other field, in order, as a save without a change would send it.
\<close>

theorem draft_choice_round_trip:
  "case my_step options profile False (DraftChosen c) (\<lparr>my_error = e, my_save = settle r\<rparr>) of
     (s', out) \<Rightarrow>
       map saved_choice out = [c]
       \<and> map (without ''review_draft_prs'') out =
           [without ''review_draft_prs'' (buildProfileUpdate profile [] (fallbackModel options) (fallbackEffort options))]
       \<and> my_save s' = MutPending"
  by (cases c) (simp_all add: my_disabled_def handleDraftChoiceChange_def saved_choice_def buildProfileUpdate_def
      spread_def profile_fields_def bool_or_null_def fromChoice_def toChoice_def without_def)

end
