(* ===== verification/Page_Views.thy ===== *)
theory Page_Views
  imports Thread_View Git_Panel Message_List Agents_Page Azure_Pages Pickers
begin

text \<open>
  The rest of the pages: the thread page around its messages (\<open>AgentThreadView.tsx\<close>), the home page as
  it is shown (\<open>AgentsHome.tsx\<close>), the search parameters of the usage page (\<open>routes/usage.tsx\<close>), the
  effects of the file tree and of the scrolling in the git panel (\<open>AgentGitPanel.tsx\<close>), the warm-up of
  the highlighter (\<open>utils/diffUtils.ts\<close>), and the scroll control of the messages (\<open>Messages.tsx\<close>).
\<close>

section \<open>The thread page\<close>

record ThreadHeader =
  thh_label :: string
  thh_changes :: "(int \<times> string \<times> int \<times> int) option"
  thh_refresh :: "(string \<times> bool) option"
  thh_error :: "string option"

definition workspace_label :: "AgentThread \<Rightarrow> string" where
  "workspace_label t =
     (if isWorkspaceThread t
      then (''Workspace '' @ [CHR 0xB7] @ '' '') @ nullish (th_workspaceLabel t) ''repo''
        @ (if truthy_str (th_workspaceBranch t) then ('' '' @ [CHR 0xB7] @ '' '')
            @ the (th_workspaceBranch t) else [])
      else ''Sin workspace'')"

definition thread_header :: "AgentThread \<Rightarrow> view_state \<Rightarrow> ThreadHeader" where
  "thread_header t s =
     \<lparr>thh_label = workspace_label t,
      thh_changes =
        (if isWorkspaceThread t
         then map_option (\<lambda>d. (ds_files d, if ds_files d = 1 then ''archivo'' else ''archivos'', ds_additions d, ds_deletions d))
                (th_diffStats t)
         else None),
      thh_refresh =
        (if isWorkspaceThread t
         then Some (if snapshotting s then (''Actualizando''
             @ [CHR 0x85]) else ''Actualizar cambios'', snapshotting s) else None),
      thh_error = (if truthy_str (snapshotError s) then snapshotError s else None)\<rparr>"

text \<open>The card of an approval shows the first action; its two buttons decide.\<close>

definition approval_text :: "jsval list \<Rightarrow> string" where
  "approval_text actions =
     (let a = (case actions of x # _ \<Rightarrow> x | [] \<Rightarrow> JUndefined) in
      case as_string (get_prop a ''description'') of
        Some t \<Rightarrow> t
      | None \<Rightarrow>
          (''El agente quiere ejecutar una acci'' @ [CHR 0xF3] @ ''n persistente ('')
          @ nullish (as_string (get_prop a ''name'')) (''acci'' @ [CHR 0xF3] @ ''n'')
              @ ('') y necesita tu aprobaci'' @ [CHR 0xF3] @ ''n.''))"

record RunErrorCard =
  rec_message :: string
  rec_trace :: "string option"
  rec_retry :: "bool option"

text \<open>The card of an error; the retry button, if it is there, is disabled while a message is sent.\<close>

definition run_error_card :: "stream_view \<Rightarrow> AgentThread \<Rightarrow> bool \<Rightarrow> view_state \<Rightarrow> RunErrorCard option" where
  "run_error_card stream t isPending s =
     (if truthy_str (runError stream t)
      then Some \<lparr>rec_message = the (runError stream t),
                 rec_trace = (if truthy_str (th_traceUrl t) then th_traceUrl t else None),
                 rec_retry = (if lastUserText (baseMessages stream t s) \<noteq> [] then Some isPending else None)\<rparr>
      else None)"

record ThreadPrompt =
  tp_placeholder :: string
  tp_busy :: bool
  tp_disabled :: bool
  tp_queued :: "QueuedFollowUp list"
  tp_selection :: "ModelSelection option"

definition thread_prompt :: "string \<Rightarrow> ModelOptionsResult \<Rightarrow> stream_view \<Rightarrow> AgentThread \<Rightarrow> bool \<Rightarrow> view_state \<Rightarrow> ThreadPrompt" where
  "thread_prompt placeholder opts stream t isPending s =
     \<lparr>tp_placeholder = placeholder, tp_busy = view_streaming stream t, tp_disabled = isPending,
      tp_queued = queuedFollowUps s, tp_selection = activeSelection opts t s\<rparr>"

datatype ThreadBody =
    Conversation "Message list" bool bool "string option" "RunErrorCard option" bool ThreadPrompt
  | Hydrating string
  | FirstMessage string ThreadPrompt

text \<open>
  The body: the messages with their two flags (thinking, setting up), the approval, the error, the note
  of a stopped run and the prompt bar; or a placeholder; or the prompt bar for the first message.
\<close>

definition thread_body :: "ModelOptionsResult \<Rightarrow> stream_view \<Rightarrow> AgentThread \<Rightarrow> bool \<Rightarrow> view_state \<Rightarrow> ThreadBody" where
  "thread_body opts stream t isPending s =
     (let base = baseMessages stream t s in
      if length base > 0 then
        Conversation base (sv_isLoading stream) (settingUpSandbox stream t s)
          (if showApproval stream s then Some (approval_text (approvalActions stream)) else None)
          (run_error_card stream t isPending s) (runStopped stream t)
          (thread_prompt ''Escribe un seguimiento'' opts stream t isPending s)
      else if sv_isThreadLoading stream then Hydrating (''Cargando conversaci'' @ [CHR 0xF3] @ ''n'' @ [CHR 0x85])
      else FirstMessage (''Este hilo a'' @ [CHR 0xFA] @ ''n no tiene mensajes.'')
             (thread_prompt (''Env'' @ [CHR 0xED] @ ''a el primer mensaje'') opts stream t isPending s))"

text \<open>Sending from either prompt bar; the queue is read again if the message was queued.\<close>

definition prompt_send ::
  "ModelOptionsResult \<Rightarrow> AgentThread \<Rightarrow> view_state \<Rightarrow> string \<Rightarrow> ImageData list \<Rightarrow> SendAgentMessageVariables" where
  "prompt_send opts t s content images = send_vars (activeSelection opts t s) content images"

section \<open>The home page\<close>

record HomePrompt =
  hp_disabled :: bool
  hp_models :: "ModelOption list"
  hp_selection :: "ModelSelection option"
  hp_repos :: "string list option"
  hp_selectedRepo :: "string option"
  hp_repoPicker :: bool

datatype HomeNote = AzureOnly string | BaseModes "(BaseMode \<times> string \<times> bool) list"

record HomeView =
  hv_workspace :: "(string \<times> string option \<times> HomeNote) option"
  hv_selectedModel :: "string option"
  hv_prompt :: HomePrompt
  hv_error :: "string option"

definition base_modes :: "BaseMode \<Rightarrow> (BaseMode \<times> string \<times> bool) list" where
  "base_modes chosen =
     map (\<lambda>(mode, label). (mode, label, chosen = mode))
       [(Integration, ''Rama nueva desde develop''), (LocalBranch, (''Mi rama + '' @ [CHR 0xFA]
           @ ''ltimo develop''))]"

definition HomePage :: "(string \<Rightarrow> string option) \<Rightarrow> string list option \<Rightarrow> home_data \<Rightarrow> home_state \<Rightarrow> HomeView" where
  "HomePage hostname repos d s =
     (let w = selectedWorkspace d s in
      \<lparr>hv_workspace =
         map_option (\<lambda>x. (wk_label x, if truthy_str (wk_current_branch x) then wk_current_branch x else None,
                          if workspaceNotAzure hostname d s
                          then AzureOnly ''Solo repositorios de Azure DevOps. Este workspace no apunta a Azure y no puede iniciar una corrida.''
                          else BaseModes (base_modes (baseMode s)))) w,
       hv_selectedModel = map_option sel_modelId (home_activeSelection d s),
       hv_prompt =
         \<lparr>hp_disabled = submitting s, hp_models = mor_models (hd_options d), hp_selection = home_activeSelection d s,
          hp_repos = (if w \<noteq> None then None else repos), hp_selectedRepo = (if w \<noteq> None then None else home_repo d s),
          hp_repoPicker = (w = None)\<rparr>,
       hv_error = (if truthy_str (composeError s) then composeError s else None)\<rparr>)"

text \<open>A model chosen in the catalog keeps the effort unless it comes with its own.\<close>

definition catalog_choice :: "home_data \<Rightarrow> home_state \<Rightarrow> string \<Rightarrow> string option \<Rightarrow> ModelSelection" where
  "catalog_choice d s modelId defaultEffort =
     \<lparr>sel_modelId = modelId,
      sel_effort = nullish (nullish_opt defaultEffort (map_option sel_effort (home_activeSelection d s))) ''medium''\<rparr>"

section \<open>The usage page\<close>

record usage_search =
  us_period :: "string option"
  us_project :: "string option"

definition validateSearch :: "jsval \<Rightarrow> usage_search" where
  "validateSearch search =
     \<lparr>us_period = as_string (get_prop search ''period''), us_project = as_string (get_prop search ''project'')\<rparr>"

record usage_state =
  ug_search :: usage_search
  ug_project :: "string option"
  ug_projects :: "AzureProject list option"

definition init_usage :: "usage_search \<Rightarrow> AzureProject list option \<Rightarrow> usage_state" where
  "init_usage search projects = \<lparr>ug_search = search, ug_project = us_project search, ug_projects = projects\<rparr>"

text \<open>The effect that runs after a render.\<close>

definition usage_commit :: "usage_state \<Rightarrow> usage_state" where
  "usage_commit s = s\<lparr>ug_project := default_project (ug_projects s) (ug_project s)\<rparr>"

datatype usage_event =
    ProjectsLoaded "AzureProject list"
  | ProjectChosen "string option"
  | PeriodChosen AzureUsagePeriod
  | WentBack usage_search

fun usage_react :: "usage_event \<Rightarrow> usage_state \<Rightarrow> usage_state" where
  "usage_react (ProjectsLoaded ps) s = s\<lparr>ug_projects := Some ps\<rparr>"
| "usage_react (ProjectChosen v) s =
     (if length (nullish (ug_projects s) []) = 0 then s
      else case choose_project (us_period (ug_search s)) v (ug_project s) of
             (p, None) \<Rightarrow> s\<lparr>ug_project := p\<rparr>
           | (p, Some (project, period)) \<Rightarrow>
               s\<lparr>ug_project := p, ug_search := \<lparr>us_period = Some period, us_project = Some project\<rparr>\<rparr>)"
| "usage_react (PeriodChosen v) s =
     (case choose_period v (ug_project s) of
        (project, period) \<Rightarrow> s\<lparr>ug_search := \<lparr>us_period = Some period, us_project = project\<rparr>\<rparr>)"
| "usage_react (WentBack search) s = s\<lparr>ug_search := search\<rparr>"

definition usage_step :: "usage_event \<Rightarrow> usage_state \<Rightarrow> usage_state" where
  "usage_step e s = usage_commit (usage_react e s)"

text \<open>The request for the metrics, where one is made: project and period.\<close>

definition usage_query :: "bool \<Rightarrow> usage_state \<Rightarrow> (string \<times> AzureUsagePeriod) option" where
  "usage_query session s =
     (if session \<and> truthy_str (ug_project s) then Some (the (ug_project s), activePeriod (us_period (ug_search s))) else None)"

definition MetricCard :: "(int \<Rightarrow> string) \<Rightarrow> string \<Rightarrow> int \<Rightarrow> string \<Rightarrow> string \<times> string \<times> string" where
  "MetricCard formatNumber label v helper = (label, formatNumber v, helper)"

section \<open>The git panel\<close>

text \<open>
  What the file tree is told after a render: the effects that are due, in order. Paths and status are
  made anew whenever the list of files is.
\<close>

datatype tree_call = ResetPaths "string list" | SetGitStatus "(string \<times> GitStatus) list" | TreeSelected string | TreeScroll string

definition explorer_effects ::
  "bool \<Rightarrow> bool \<Rightarrow> bool \<Rightarrow> PanelFile list \<Rightarrow> string list \<Rightarrow> string option \<Rightarrow> tree_call list" where
  "explorer_effects filesChanged selectionChanged pathChanged files picked selectedPath =
     (if filesChanged then [ResetPaths (tree_paths files), SetGitStatus (tree_git_status files)] else [])
     @ (if selectionChanged then (case picked of p # _ \<Rightarrow> if p \<noteq> [] then [TreeSelected p] else [] | [] \<Rightarrow> []) else [])
     @ (if pathChanged \<and> truthy_str selectedPath then [TreeScroll (the selectedPath)] else [])"

text \<open>The effect that scrolls the diff to the section of a file.\<close>

definition panel_scroll :: "bool \<Rightarrow> bool \<Rightarrow> PanelFile list \<Rightarrow> string option \<Rightarrow> string option" where
  "panel_scroll filesChanged pathChanged files selectedPath =
     (if filesChanged \<or> pathChanged then scroll_target files selectedPath else None)"

text \<open>The cursor of the page while the handle is dragged.\<close>

definition drag_cursor :: "panel_state \<Rightarrow> string \<Rightarrow> string" where
  "drag_cursor s prev = (if dragging s then ''col-resize'' else prev)"

section \<open>The warm-up of the highlighter\<close>

text \<open>
  The module keeps one promise, here its number; \<open>wm_open\<close> are the numbers of those not settled. A call
  answers with the promise, on the server with a resolved one.
\<close>

record warm_state =
  wm_current :: "nat option"
  wm_next :: nat
  wm_open :: "nat list"

definition init_warm :: warm_state where
  "init_warm = \<lparr>wm_current = None, wm_next = 0, wm_open = []\<rparr>"

datatype warm_event = WarmCalled bool | Preloaded nat | PreloadFailed nat
datatype warm_output = Preload "string list \<times> string list" | WarmAnswer "nat option" | WarmRejected nat

definition warm_themes :: "string list \<times> string list" where
  "warm_themes = ([''pierre-light'', ''pierre-dark''], [''text''])"

fun warm_step :: "warm_event \<Rightarrow> warm_state \<Rightarrow> warm_state \<times> warm_output list" where
  "warm_step (WarmCalled server) s =
     (if server then (s, [WarmAnswer None])
      else case wm_current s of
             Some n \<Rightarrow> (s, [WarmAnswer (Some n)])
           | None \<Rightarrow>
               (\<lparr>wm_current = Some (wm_next s), wm_next = Suc (wm_next s), wm_open = wm_next s # wm_open s\<rparr>,
                [Preload warm_themes, WarmAnswer (Some (wm_next s))]))"
| "warm_step (Preloaded n) s = (s\<lparr>wm_open := filter (\<lambda>k. k \<noteq> n) (wm_open s)\<rparr>, [])"
| "warm_step (PreloadFailed n) s =
     (if n \<in> set (wm_open s)
      then (s\<lparr>wm_current := None, wm_open := filter (\<lambda>k. k \<noteq> n) (wm_open s)\<rparr>, [WarmRejected n])
      else (s, []))"

text \<open>The options of the diff viewer follow the theme.\<close>

record DiffOptions =
  dop_themes :: "string \<times> string"
  dop_themeType :: string
  dop_diffStyle :: string
  dop_overflow :: string
  dop_disableFileHeader :: bool
  dop_collapsedContextThreshold :: int

definition diffOptions :: DiffOptions where
  "diffOptions =
     \<lparr>dop_themes = (''pierre-light'', ''pierre-dark''), dop_themeType = ''system'', dop_diffStyle = ''unified'',
      dop_overflow = ''scroll'', dop_disableFileHeader = True, dop_collapsedContextThreshold = 4\<rparr>"

definition useDiffOptions :: "ResolvedTheme \<Rightarrow> DiffOptions" where
  "useDiffOptions t = diffOptions\<lparr>dop_themeType := (case t of RLight \<Rightarrow> ''light'' | RDark \<Rightarrow> ''dark'')\<rparr>"

section \<open>The scroll control of the messages\<close>

datatype ScrollSlot = InternalSlot | ExternalSlot

text \<open>The distance of the button from the bottom, where it is shown; and the space under the messages.\<close>

definition scroll_button :: "ScrollSlot \<Rightarrow> int \<Rightarrow> scroll_state \<Rightarrow> int option" where
  "scroll_button slot bottomInset s =
     (if slot = InternalSlot \<and> showScrollToBottom s then Some (if bottomInset > 0 then bottomInset + 8 else 16) else None)"

definition messages_padding :: "int \<Rightarrow> int option" where
  "messages_padding bottomInset = (if bottomInset > 0 then Some bottomInset else None)"

text \<open>The report to the parent when the button appears or disappears, and on the first commit.\<close>

definition scroll_report :: "bool option \<Rightarrow> scroll_state \<Rightarrow> bool option" where
  "scroll_report seen s = (if seen = Some (showScrollToBottom s) then None else Some (showScrollToBottom s))"

section \<open>Facts\<close>

text \<open>An error without a message shows no card at all.\<close>

lemma empty_error_hidden:
  "sv_error stream = ErrorObject [] \<Longrightarrow> \<not> truthy_str (th_errorMessage t) \<Longrightarrow> run_error_card stream t isPending s = None"
  by (simp add: run_error_card_def runError_def)

definition marked_modes :: "(BaseMode \<times> string \<times> bool) list \<Rightarrow> BaseMode list" where
  "marked_modes ms = map fst (filter (\<lambda>(_, _, m). m) ms)"

lemma base_modes_marked [simp]: "marked_modes (base_modes b) = [b]"
  by (cases b) (simp_all add: base_modes_def marked_modes_def)

text \<open>The project in the address, where there is one, is the project shown.\<close>

definition usage_in_step :: "usage_state \<Rightarrow> bool" where
  "usage_in_step s = (\<not> truthy_str (us_project (ug_search s)) \<or> us_project (ug_search s) = ug_project s)"

fun is_back :: "usage_event \<Rightarrow> bool" where
  "is_back (WentBack _) = True"
| "is_back _ = False"

lemma default_project_truthy: "truthy_str p \<Longrightarrow> default_project data p = p"
  by (auto simp: default_project_def split: option.split list.split)

lemma truthy_the: "truthy_str p \<Longrightarrow> Some (the p) = p"
  by (cases p) simp_all

lemma usage_commit_in_step: "usage_in_step s \<Longrightarrow> usage_in_step (usage_commit s)"
  by (auto simp: usage_in_step_def usage_commit_def default_project_truthy)

lemma usage_react_in_step: "usage_in_step s \<Longrightarrow> \<not> is_back e \<Longrightarrow> usage_in_step (usage_react e s)"
  by (cases e) (auto simp: usage_in_step_def choose_project_def choose_period_def truthy_the split: prod.splits)

lemma usage_run_in_step: "usage_in_step s \<Longrightarrow> list_all (\<lambda>e. \<not> is_back e) es \<Longrightarrow> usage_in_step (fold usage_step es s)"
  by (induction es arbitrary: s) (simp_all add: usage_step_def usage_commit_in_step usage_react_in_step)

text \<open>Going back in the history changes the address and the period, but not the project.\<close>

lemma back_keeps_project:
  "truthy_str (ug_project s) \<Longrightarrow>
     usage_query True (usage_step (WentBack search) s) = Some (the (ug_project s), activePeriod (us_period search))"
  by (simp add: usage_step_def usage_commit_def usage_query_def default_project_truthy)

text \<open>Choosing a file in the tree scrolls the tree and the diff to it.\<close>

lemma tree_choice_scrolls:
  assumes "p \<in> set (tree_paths files)" "p \<noteq> []"
  shows "explorer_effects False True False files (p # ps) old = [TreeSelected p]"
    and "selectedTreePath (panel_step s (TreeSelection (p # ps))) = Some p"
    and "explorer_effects False False True files (p # ps) (Some p) = [TreeScroll p]"
    and "\<exists>f \<in> set files. panel_treePath f = p \<and> panel_scroll False True files (Some p) = Some (panel_filePath f)"
proof -
  from assms(1) obtain g where g: "g \<in> set files" "panel_treePath g = p" by (auto simp: tree_paths_def)
  then obtain f where "find (\<lambda>f. panel_treePath f = p) files = Some f"
    by (cases "find (\<lambda>f. panel_treePath f = p) files") (auto simp: find_None_iff)
  moreover from this have "f \<in> set files" "panel_treePath f = p" by (auto simp: find_Some_iff)
  ultimately show "\<exists>f \<in> set files. panel_treePath f = p \<and> panel_scroll False True files (Some p) = Some (panel_filePath f)"
    using assms(2) by (auto simp: panel_scroll_def scroll_target_def)
qed (use assms in \<open>simp_all add: explorer_effects_def\<close>)

text \<open>
  Every new list of files, and each message of a running agent makes one, scrolls the diff back to the
  file that was chosen last.
\<close>

lemma new_files_scroll_back: "panel_scroll True False files (Some p) = panel_scroll False True files (Some p)"
  by (simp add: panel_scroll_def)

fun is_preload :: "warm_output \<Rightarrow> bool" where
  "is_preload (Preload _) = True"
| "is_preload _ = False"

fun is_warm_failure :: "warm_event \<Rightarrow> bool" where
  "is_warm_failure (PreloadFailed _) = True"
| "is_warm_failure _ = False"

interpretation warm: guarded_requests warm_step "\<lambda>s. wm_current s \<noteq> None" is_preload is_warm_failure
proof
  fix e s s' out
  assume "warm_step e s = (s', out)"
  then show "of_bool (wm_current s \<noteq> None) + occurrences is_preload out \<le> of_bool (is_warm_failure e) + of_bool (wm_current s' \<noteq> None)"
    by (cases e) (auto split: if_splits option.splits)
qed

definition warm_ok :: "warm_state \<Rightarrow> bool" where
  "warm_ok s = (wm_open s = [] \<or> wm_open s = [the (wm_current s)] \<and> wm_current s \<noteq> None)"

lemma warm_ok_step: "warm_ok s \<Longrightarrow> warm_step e s = (s', out) \<Longrightarrow> warm_ok s'"
  by (cases e) (auto simp: warm_ok_def split: if_splits option.splits)

text \<open>The button is gone once it was pressed, if the page can scroll to its end.\<close>

lemma pressed_button_gone: "0 \<le> clientHeight s \<Longrightarrow> scroll_button slot inset (handleScrollToBottom s) = None"
  by (auto simp: scroll_button_def handleScrollToBottom_def scrollToBottomNow_def syncScrollButtonVisibility_def
      clearScheduledScroll_def isNearBottom_def set_scrollTop_def max_top_def BOTTOM_LOCK_THRESHOLD_PX_def Let_def)

section \<open>Properties\<close>

text \<open>
  The button to try again means what it shows: it stands enabled in the card of an error exactly
  when the card is shown and pressing it sends the last message of the user again.
\<close>

theorem retry_button_sends:
  "(Option.bind (run_error_card stream t isPending s) rec_retry = Some False) =
     (truthy_str (runError stream t) \<and> handleRetry opts stream t isPending s \<noteq> None)"
proof -
  have "\<not> view_streaming stream t" if "truthy_str (runError stream t)"
    using that by (auto simp: runError_def split: if_splits)
  then show ?thesis by (auto simp: run_error_card_def handleRetry_def Let_def)
qed

text \<open>
  C17. The home page shows what it will send: the note that only Azure repositories are allowed stands
  there exactly when a prompt would be refused; and a run that is started has the repository shown in
  the prompt bar, and the one base mode that is marked where a workspace is chosen (with an empty
  identifier the workspace and its mode are left out), and none where the choice of a mode is not shown.
\<close>

theorem home_shows_what_it_sends:
  "(\<exists>l b note. hv_workspace (HomePage hostname repos d s) = Some (l, b, AzureOnly note)) =
     (snd (home_submit hostname d prompt images s) = None)
   \<and> (case snd (home_submit hostname d prompt images s) of
        None \<Rightarrow> True
      | Some (content, conf) \<Rightarrow>
          map_get conf ''repo'' =
            (let r = hp_selectedRepo (hv_prompt (HomePage hostname repos d s)) in
             if truthy_str r then Some (JStr (the r)) else None)
          \<and> (case hv_workspace (HomePage hostname repos d s) of
               Some (_, _, BaseModes ms) \<Rightarrow>
                 (\<exists>m. marked_modes ms = [m]
                    \<and> map_get conf ''base_mode'' =
                        (if map_option wk_id (selectedWorkspace d s) = Some [] then None
                         else Some (JStr (base_mode_str m))))
             | _ \<Rightarrow> selectedWorkspace d s = None \<and> map_get conf ''base_mode'' = None))"
proof (cases "selectedWorkspace d s")
  case (Some w)
  then show ?thesis
    by (auto simp: HomePage_def home_submit_def configurable_get home_repo_def Let_def)
qed (auto simp: HomePage_def home_submit_def configurable_get workspaceNotAzure_def Let_def)

text \<open>
  The address and the usage page agree: whatever is loaded and chosen, in any order, the project in
  the address, if there is one, is the one whose metrics are requested.
\<close>

theorem usage_address_agrees:
  "usage_in_step (fold usage_step (filter (\<lambda>e. \<not> is_back e) es) (usage_commit (init_usage search projects)))"
  by (rule usage_run_in_step, rule usage_commit_in_step) (simp_all add: usage_in_step_def init_usage_def list_all_iff)

text \<open>
  The highlighter is warmed up once: in every sequence of calls and answers it is loaded at most
  once more often than it failed, and never twice at the same time.
\<close>

theorem warm_up_once:
  "case run_events warm_step es init_warm of
     (s', out) \<Rightarrow>
       occurrences is_preload out \<le> occurrences is_warm_failure es + of_bool (wm_current s' \<noteq> None)
       \<and> length (wm_open s') \<le> 1"
proof -
  have "warm_ok (fst (run_events warm_step es init_warm))"
    by (rule run_events_invariant [OF warm_ok_step]) (simp_all add: init_warm_def warm_ok_def)
  moreover have "\<not> wm_current init_warm \<noteq> None" by (simp add: init_warm_def)
  note warm.requests_answered [OF this, of es]
  ultimately show ?thesis by (auto simp: warm_ok_def split: prod.splits)
qed

end
