(* ===== verification/Rich_Text.thy ===== *)
theory Rich_Text
  imports Tool_Cards Agent_Instructions
begin

text \<open>
  The rendering of formatted content: \<open>ported/MarkdownTable.tsx\<close>, \<open>ported/Markdown.tsx\<close> with the options
  it gives to the Markdown library, \<open>ported/DiffView.tsx\<close>, \<open>subagents/SubagentActivity.tsx\<close>, and the
  query of the repositories that several pages keep under one key of the cache.
\<close>

section \<open>Tables\<close>

text \<open>
  A React node: an element with its tag (none for a component or a fragment), a list, or something
  that is not an element.
\<close>

datatype react_node = Elem "string option" "react_node list" | NodeList "react_node list" | Leaf string

text \<open>\<open>Children.toArray\<close> and \<open>Children.forEach\<close> look into lists.\<close>

fun flat_nodes :: "react_node \<Rightarrow> react_node list" where
  "flat_nodes (NodeList ns) = concat (map flat_nodes ns)"
| "flat_nodes n = [n]"

fun is_cell :: "react_node \<Rightarrow> bool" where
  "is_cell (Elem tag _) = (tag = Some ''th'' \<or> tag = Some ''td'')"
| "is_cell _ = False"

definition countCells :: "react_node list \<Rightarrow> nat" where
  "countCells children = length (filter is_cell (concat (map flat_nodes children)))"

fun collectColumnCounts :: "react_node \<Rightarrow> nat list" where
  "collectColumnCounts (Elem tag children) =
     (if tag = Some ''tr'' then (let n = countCells children in if n > 0 then [n] else [])
      else concat (map collectColumnCounts children))"
| "collectColumnCounts (NodeList ns) = concat (map collectColumnCounts ns)"
| "collectColumnCounts (Leaf _) = []"

definition getTableMinWidth :: "nat \<Rightarrow> string" where
  "getTableMinWidth columnCount =
     (if columnCount \<le> 1 then ''100%''
      else ''max(100%, '' @ nat_str (max 420 (columnCount * 160)) @ ''px)'')"

definition columnCount :: "react_node list \<Rightarrow> nat" where
  "columnCount children = fold max (concat (map collectColumnCounts children)) 0"

definition MarkdownTable :: "react_node list \<Rightarrow> string \<times> react_node list" where
  "MarkdownTable children = (getTableMinWidth (columnCount children), children)"

section \<open>Markdown\<close>

text \<open>The class of a code element names a language: \<open>/language-([^\s]+)/\<close>.\<close>

fun names_language :: "string \<Rightarrow> bool" where
  "names_language [] = False"
| "names_language (c # s) =
     (startsWith (c # s) ''language-''
        \<and> (case drop 9 (c # s) of d # _ \<Rightarrow> \<not> is_ws d | [] \<Rightarrow> False)
      \<or> names_language s)"

datatype CodeView = BlockCode "string option" string | InlineCode string

definition markdown_code :: "string option \<Rightarrow> string \<Rightarrow> CodeView" where
  "markdown_code className t =
     (if names_language (nullish className []) \<or> CHR 0x0A \<in> set t then BlockCode className t else InlineCode t)"

record MarkdownOptions =
  mdo_mode :: string
  mdo_parseIncomplete :: bool
  mdo_isAnimating :: bool
  mdo_animated :: "(string \<times> string \<times> int \<times> int \<times> string) option"
  mdo_theme :: "string list"

definition STREAMDOWN_ANIMATED :: "string \<times> string \<times> int \<times> int \<times> string" where
  "STREAMDOWN_ANIMATED = (''word'', ''slideUp'', 60, 10, ''ease-out'')"

definition Markdown :: "string \<Rightarrow> bool \<Rightarrow> MarkdownOptions \<times> string" where
  "Markdown content isLive =
     (\<lparr>mdo_mode = (if isLive then ''streaming'' else ''static''), mdo_parseIncomplete = isLive, mdo_isAnimating = isLive,
       mdo_animated = (if isLive then Some STREAMDOWN_ANIMATED else None),
       mdo_theme = [''github-light'', ''github-dark'']\<rparr>, content)"

section \<open>A diff in the transcript\<close>

datatype DiffViewBody = BinaryNote | NoChangesNote | DiffShown string bool int int string string

definition diff_displayPath :: "string \<Rightarrow> string" where
  "diff_displayPath path =
     (let name = last (split_on (CHR ''/'') path) in if name = [] then path else name)"

definition DiffView :: "diff_parser \<Rightarrow> DiffData \<Rightarrow> DiffViewBody" where
  "DiffView hunks d =
     (let n = countLineChanges hunks (originalContent d) (newContent d) (filePath d) in
      if isBinary d then BinaryNote
      else if additions n = 0 \<and> deletions n = 0 then NoChangesNote
      else DiffShown (diff_displayPath (filePath d)) (isNewFile d) (additions n) (deletions n)
             (nullish (originalContent d) []) (newContent d))"

section \<open>The activity of a subagent\<close>

record SubagentCall =
  sac_id :: "string option"
  sac_callId :: "string option"
  sac_name :: string
  sac_status :: string

definition activity_key :: "nat \<Rightarrow> SubagentCall \<Rightarrow> string" where
  "activity_key i c =
     (if truthy_str (sac_id c) then the (sac_id c)
      else if truthy_str (sac_callId c) then the (sac_callId c) else ''sub-tool-'' @ nat_str i)"

definition activity_icon :: "string \<Rightarrow> SubagentIcon" where
  "activity_icon status = (if status = ''finished'' then SubDone else if status = ''error'' then SubError else SubRunning)"

definition SubagentActivity :: "SubagentCall list \<Rightarrow> (string \<times> SubagentIcon \<times> string) list option" where
  "SubagentActivity calls =
     (if length calls = 0 then None
      else Some (map (\<lambda>(i, c). (activity_key i c, activity_icon (sac_status c), humanizeToolName (sac_name c)))
             (List.enumerate 0 calls)))"

section \<open>The repositories, under one key\<close>

text \<open>The query of the two panels and of the page of an owner: the key that \<open>useRepos\<close> has, too.\<close>

definition panel_repos :: "fetch \<Rightarrow> string \<Rightarrow> (js_error + jsval) query" where
  "panel_repos fetch base = default_query [''repos''] (repos_or_empty (api_call fetch base (Repos None)))"

section \<open>Facts\<close>

lemma fold_max_bounds: "(\<forall>n \<in> set ns. n \<le> fold max ns (m :: nat)) \<and> m \<le> fold max ns m"
proof (induction ns arbitrary: m)
  case (Cons n ns)
  from Cons [of "max n m"] show ?case by auto
qed simp

lemma fold_max_member: "fold max ns (m :: nat) = m \<or> fold max ns m \<in> set ns"
proof (induction ns arbitrary: m)
  case (Cons n ns)
  from Cons [of "max n m"] show ?case by (auto simp: max_def split: if_splits)
qed simp

text \<open>A row inside a cell, which is a table in a table, does not count.\<close>

lemma nested_rows_ignored:
  "collectColumnCounts (Elem (Some ''tr'') [Elem (Some ''td'') children]) = [1]"
  by (simp add: countCells_def)

lemma collect_positive: "n \<in> set (collectColumnCounts t) \<Longrightarrow> 0 < n"
  by (induction t) (auto simp: Let_def split: if_splits)

lemma humanized_no_underscore: "CHR ''_'' \<notin> set (humanizeToolName name)"
proof -
  let ?t = "map (\<lambda>c. if c = CHR ''_'' then CHR '' '' else c) name"
  have "set (trim ?t) \<subseteq> set ?t"
    by (force simp: trim_def trim_start_def dest!: set_dropWhileD)
  moreover have "CHR ''_'' \<notin> set ?t" by auto
  ultimately show ?thesis by (auto simp: humanizeToolName_def Let_def)
qed

lemma humanized_shown: "humanizeToolName name \<noteq> []" "trim (humanizeToolName name) = humanizeToolName name"
proof -
  have "trim ''tool'' = ''tool''" by code_simp
  then show "humanizeToolName name \<noteq> []" "trim (humanizeToolName name) = humanizeToolName name"
    by (auto simp: humanizeToolName_def Let_def)
qed

text \<open>A new file without content is shown as unchanged, without its name.\<close>

lemma empty_new_file_unchanged:
  assumes "hunks path [] [] = []" "filePath d = path" "originalContent d = None" "newContent d = []" "\<not> isBinary d"
  shows "DiffView hunks d = NoChangesNote"
  using assms by (simp add: DiffView_def countLineChanges_def)

text \<open>
  The pages share the entry of the cache, but not the function that fills it: for a user without
  access to Azure DevOps (403) the home page has an empty list and the panels have an error, and
  which of the two a page shows depends on the page that was visited first.
\<close>

lemma shared_key_two_meanings:
  assumes "api_call fetch base (Repos None) = Inl (ApiError 403 m)"
  shows "query_key (useRepos fetch base signedIn) = query_key (panel_repos fetch base)"
    and "query_fn (useRepos fetch base signedIn) = Inr (JObj [(''repositories'', JArr [])])"
    and "query_fn (panel_repos fetch base) = Inl (ApiError 403 m)"
  using assms by (simp_all add: useRepos_def panel_repos_def default_query_def empty_on_denied_def repos_or_empty_def)

section \<open>Properties\<close>

text \<open>
  The width of a table holds its widest row: the number of columns is at least the number of cells of
  each row that is not inside another, it is that of some row unless there is none, and from two
  columns on every column has its 160 pixels.
\<close>

theorem table_width_holds_rows:
  "(\<forall>t \<in> set children. \<forall>n \<in> set (collectColumnCounts t). n \<le> columnCount children)
   \<and> (columnCount children = 0 \<or> columnCount children \<in> \<Union> (set ` collectColumnCounts ` set children))"
  using fold_max_bounds [of "concat (map collectColumnCounts children)" 0]
    fold_max_member [of "concat (map collectColumnCounts children)" 0]
  by (auto simp: columnCount_def)

end
