(* ===== verification/Route_Tree.thy ===== *)
theory Route_Tree
  imports Routes Sidebar "HOL-Library.Multiset"
begin

text \<open>
  The route tree, \<open>src/routeTree.gen.ts\<close>: the file every route comes from, the identifier, path and
  parent it is given, the listings of the routes by full path, by the target of a link and by
  identifier, the children of each route, and the tree the router is created with (\<open>src/router.tsx\<close>).
  How the router matches a location is its own; a link names a route by its entry in the listing.
\<close>

section \<open>The routes\<close>

datatype file_route =
    RootFile
  | UsageFile
  | ReviewFile
  | MySettingsFile
  | LoginFile
  | IntegrationsFile
  | CloudAgentsFile
  | AgentsFile
  | AdminFile
  | IndexFile
  | AgentsIndexFile
  | ReviewStylesFile
  | AgentsInstructionsFile
  | AgentsThreadIdFile
  | AgentsAutomationsIndexFile
  | ReviewRepositoriesOwnerFile
  | AgentsAutomationsNewFile
  | AgentsAutomationsScheduleIdFile

fun route_file :: "file_route \<Rightarrow> string" where
  "route_file RootFile = ''__root''"
| "route_file UsageFile = ''usage''"
| "route_file ReviewFile = ''review''"
| "route_file MySettingsFile = ''my-settings''"
| "route_file LoginFile = ''login''"
| "route_file IntegrationsFile = ''integrations''"
| "route_file CloudAgentsFile = ''cloud-agents''"
| "route_file AgentsFile = ''agents''"
| "route_file AdminFile = ''admin''"
| "route_file IndexFile = ''index''"
| "route_file AgentsIndexFile = ''agents/index''"
| "route_file ReviewStylesFile = ''review_.styles''"
| "route_file AgentsInstructionsFile = ''agents_.instructions''"
| "route_file AgentsThreadIdFile = ''agents/$threadId''"
| "route_file AgentsAutomationsIndexFile = ''agents/automations/index''"
| "route_file ReviewRepositoriesOwnerFile = ''review_.repositories.$owner''"
| "route_file AgentsAutomationsNewFile = ''agents/automations/new''"
| "route_file AgentsAutomationsScheduleIdFile = ''agents/automations/$scheduleId''"

record RouteOptions =
  ro_id :: string
  ro_path :: string
  ro_parent :: file_route

fun route_update :: "file_route \<Rightarrow> RouteOptions option" where
  "route_update RootFile = None"
| "route_update UsageFile = Some \<lparr>ro_id = ''/usage'', ro_path = ''/usage'', ro_parent = RootFile\<rparr>"
| "route_update ReviewFile = Some \<lparr>ro_id = ''/review'', ro_path = ''/review'', ro_parent = RootFile\<rparr>"
| "route_update MySettingsFile = Some \<lparr>ro_id = ''/my-settings'', ro_path = ''/my-settings'', ro_parent = RootFile\<rparr>"
| "route_update LoginFile = Some \<lparr>ro_id = ''/login'', ro_path = ''/login'', ro_parent = RootFile\<rparr>"
| "route_update IntegrationsFile = Some \<lparr>ro_id = ''/integrations'', ro_path = ''/integrations'', ro_parent = RootFile\<rparr>"
| "route_update CloudAgentsFile = Some \<lparr>ro_id = ''/cloud-agents'', ro_path = ''/cloud-agents'', ro_parent = RootFile\<rparr>"
| "route_update AgentsFile = Some \<lparr>ro_id = ''/agents'', ro_path = ''/agents'', ro_parent = RootFile\<rparr>"
| "route_update AdminFile = Some \<lparr>ro_id = ''/admin'', ro_path = ''/admin'', ro_parent = RootFile\<rparr>"
| "route_update IndexFile = Some \<lparr>ro_id = ''/'', ro_path = ''/'', ro_parent = RootFile\<rparr>"
| "route_update AgentsIndexFile = Some \<lparr>ro_id = ''/'', ro_path = ''/'', ro_parent = AgentsFile\<rparr>"
| "route_update ReviewStylesFile = Some \<lparr>ro_id = ''/review_/styles'', ro_path = ''/review/styles'', ro_parent = RootFile\<rparr>"
| "route_update AgentsInstructionsFile = Some \<lparr>ro_id = ''/agents_/instructions'', ro_path = ''/agents/instructions'', ro_parent = RootFile\<rparr>"
| "route_update AgentsThreadIdFile = Some \<lparr>ro_id = ''/$threadId'', ro_path = ''/$threadId'', ro_parent = AgentsFile\<rparr>"
| "route_update AgentsAutomationsIndexFile = Some \<lparr>ro_id = ''/automations/'', ro_path = ''/automations/'', ro_parent = AgentsFile\<rparr>"
| "route_update ReviewRepositoriesOwnerFile = Some \<lparr>ro_id = ''/review_/repositories/$owner'', ro_path = ''/review/repositories/$owner'', ro_parent = RootFile\<rparr>"
| "route_update AgentsAutomationsNewFile = Some \<lparr>ro_id = ''/automations/new'', ro_path = ''/automations/new'', ro_parent = AgentsFile\<rparr>"
| "route_update AgentsAutomationsScheduleIdFile = Some \<lparr>ro_id = ''/automations/$scheduleId'', ro_path = ''/automations/$scheduleId'', ro_parent = AgentsFile\<rparr>"

definition FileRoutesByFullPath :: "(string \<times> file_route) list" where
  "FileRoutesByFullPath =
     [(''/'', IndexFile),
      (''/admin'', AdminFile),
      (''/agents'', AgentsFile),
      (''/cloud-agents'', CloudAgentsFile),
      (''/integrations'', IntegrationsFile),
      (''/login'', LoginFile),
      (''/my-settings'', MySettingsFile),
      (''/review'', ReviewFile),
      (''/usage'', UsageFile),
      (''/agents/$threadId'', AgentsThreadIdFile),
      (''/agents/instructions'', AgentsInstructionsFile),
      (''/review/styles'', ReviewStylesFile),
      (''/agents/'', AgentsIndexFile),
      (''/agents/automations/$scheduleId'', AgentsAutomationsScheduleIdFile),
      (''/agents/automations/new'', AgentsAutomationsNewFile),
      (''/review/repositories/$owner'', ReviewRepositoriesOwnerFile),
      (''/agents/automations/'', AgentsAutomationsIndexFile)]"

definition FileRoutesByTo :: "(string \<times> file_route) list" where
  "FileRoutesByTo =
     [(''/'', IndexFile),
      (''/admin'', AdminFile),
      (''/cloud-agents'', CloudAgentsFile),
      (''/integrations'', IntegrationsFile),
      (''/login'', LoginFile),
      (''/my-settings'', MySettingsFile),
      (''/review'', ReviewFile),
      (''/usage'', UsageFile),
      (''/agents/$threadId'', AgentsThreadIdFile),
      (''/agents/instructions'', AgentsInstructionsFile),
      (''/review/styles'', ReviewStylesFile),
      (''/agents'', AgentsIndexFile),
      (''/agents/automations/$scheduleId'', AgentsAutomationsScheduleIdFile),
      (''/agents/automations/new'', AgentsAutomationsNewFile),
      (''/review/repositories/$owner'', ReviewRepositoriesOwnerFile),
      (''/agents/automations'', AgentsAutomationsIndexFile)]"

definition FileRoutesById :: "(string \<times> file_route) list" where
  "FileRoutesById =
     [(''__root__'', RootFile),
      (''/'', IndexFile),
      (''/admin'', AdminFile),
      (''/agents'', AgentsFile),
      (''/cloud-agents'', CloudAgentsFile),
      (''/integrations'', IntegrationsFile),
      (''/login'', LoginFile),
      (''/my-settings'', MySettingsFile),
      (''/review'', ReviewFile),
      (''/usage'', UsageFile),
      (''/agents/$threadId'', AgentsThreadIdFile),
      (''/agents_/instructions'', AgentsInstructionsFile),
      (''/review_/styles'', ReviewStylesFile),
      (''/agents/'', AgentsIndexFile),
      (''/agents/automations/$scheduleId'', AgentsAutomationsScheduleIdFile),
      (''/agents/automations/new'', AgentsAutomationsNewFile),
      (''/review_/repositories/$owner'', ReviewRepositoriesOwnerFile),
      (''/agents/automations/'', AgentsAutomationsIndexFile)]"

definition fullPaths :: "string list" where
  "fullPaths =
     [''/'',
      ''/admin'',
      ''/agents'',
      ''/cloud-agents'',
      ''/integrations'',
      ''/login'',
      ''/my-settings'',
      ''/review'',
      ''/usage'',
      ''/agents/$threadId'',
      ''/agents/instructions'',
      ''/review/styles'',
      ''/agents/'',
      ''/agents/automations/$scheduleId'',
      ''/agents/automations/new'',
      ''/review/repositories/$owner'',
      ''/agents/automations/'']"

definition to_paths :: "string list" where
  "to_paths =
     [''/'',
      ''/admin'',
      ''/cloud-agents'',
      ''/integrations'',
      ''/login'',
      ''/my-settings'',
      ''/review'',
      ''/usage'',
      ''/agents/$threadId'',
      ''/agents/instructions'',
      ''/review/styles'',
      ''/agents'',
      ''/agents/automations/$scheduleId'',
      ''/agents/automations/new'',
      ''/review/repositories/$owner'',
      ''/agents/automations'']"

definition route_ids :: "string list" where
  "route_ids =
     [''__root__'',
      ''/'',
      ''/admin'',
      ''/agents'',
      ''/cloud-agents'',
      ''/integrations'',
      ''/login'',
      ''/my-settings'',
      ''/review'',
      ''/usage'',
      ''/agents/$threadId'',
      ''/agents_/instructions'',
      ''/review_/styles'',
      ''/agents/'',
      ''/agents/automations/$scheduleId'',
      ''/agents/automations/new'',
      ''/review_/repositories/$owner'',
      ''/agents/automations/'']"

definition RootRouteChildren :: "(string \<times> file_route) list" where
  "RootRouteChildren =
     [(''IndexRoute'', IndexFile),
      (''AdminRoute'', AdminFile),
      (''AgentsRoute'', AgentsFile),
      (''CloudAgentsRoute'', CloudAgentsFile),
      (''IntegrationsRoute'', IntegrationsFile),
      (''LoginRoute'', LoginFile),
      (''MySettingsRoute'', MySettingsFile),
      (''ReviewRoute'', ReviewFile),
      (''UsageRoute'', UsageFile),
      (''AgentsInstructionsRoute'', AgentsInstructionsFile),
      (''ReviewStylesRoute'', ReviewStylesFile),
      (''ReviewRepositoriesOwnerRoute'', ReviewRepositoriesOwnerFile)]"

definition AgentsRouteChildren :: "(string \<times> file_route) list" where
  "AgentsRouteChildren =
     [(''AgentsThreadIdRoute'', AgentsThreadIdFile),
      (''AgentsIndexRoute'', AgentsIndexFile),
      (''AgentsAutomationsScheduleIdRoute'', AgentsAutomationsScheduleIdFile),
      (''AgentsAutomationsNewRoute'', AgentsAutomationsNewFile),
      (''AgentsAutomationsIndexRoute'', AgentsAutomationsIndexFile)]"

text \<open>The objects with the children of the agents layout and of the root.\<close>

definition agents_children :: "(string \<times> file_route) list" where
  "agents_children =
     [(''AgentsThreadIdRoute'', AgentsThreadIdFile),
      (''AgentsIndexRoute'', AgentsIndexFile),
      (''AgentsAutomationsScheduleIdRoute'', AgentsAutomationsScheduleIdFile),
      (''AgentsAutomationsNewRoute'', AgentsAutomationsNewFile),
      (''AgentsAutomationsIndexRoute'', AgentsAutomationsIndexFile)]"

definition root_children :: "(string \<times> file_route) list" where
  "root_children =
     [(''IndexRoute'', IndexFile),
      (''AdminRoute'', AdminFile),
      (''AgentsRoute'', AgentsFile),
      (''CloudAgentsRoute'', CloudAgentsFile),
      (''IntegrationsRoute'', IntegrationsFile),
      (''LoginRoute'', LoginFile),
      (''MySettingsRoute'', MySettingsFile),
      (''ReviewRoute'', ReviewFile),
      (''UsageRoute'', UsageFile),
      (''AgentsInstructionsRoute'', AgentsInstructionsFile),
      (''ReviewStylesRoute'', ReviewStylesFile),
      (''ReviewRepositoriesOwnerRoute'', ReviewRepositoriesOwnerFile)]"

record RoutePath =
  rp_id :: string
  rp_path :: string
  rp_fullPath :: string
  rp_preLoader :: file_route
  rp_parent :: file_route

definition FileRoutesByPath :: "(string \<times> RoutePath) list" where
  "FileRoutesByPath =
     [(''/usage'', \<lparr>rp_id = ''/usage'', rp_path = ''/usage'', rp_fullPath = ''/usage'', rp_preLoader = UsageFile, rp_parent = RootFile\<rparr>),
      (''/review'', \<lparr>rp_id = ''/review'', rp_path = ''/review'', rp_fullPath = ''/review'', rp_preLoader = ReviewFile, rp_parent = RootFile\<rparr>),
      (''/my-settings'', \<lparr>rp_id = ''/my-settings'', rp_path = ''/my-settings'', rp_fullPath = ''/my-settings'', rp_preLoader = MySettingsFile, rp_parent = RootFile\<rparr>),
      (''/login'', \<lparr>rp_id = ''/login'', rp_path = ''/login'', rp_fullPath = ''/login'', rp_preLoader = LoginFile, rp_parent = RootFile\<rparr>),
      (''/integrations'', \<lparr>rp_id = ''/integrations'', rp_path = ''/integrations'', rp_fullPath = ''/integrations'', rp_preLoader = IntegrationsFile, rp_parent = RootFile\<rparr>),
      (''/cloud-agents'', \<lparr>rp_id = ''/cloud-agents'', rp_path = ''/cloud-agents'', rp_fullPath = ''/cloud-agents'', rp_preLoader = CloudAgentsFile, rp_parent = RootFile\<rparr>),
      (''/agents'', \<lparr>rp_id = ''/agents'', rp_path = ''/agents'', rp_fullPath = ''/agents'', rp_preLoader = AgentsFile, rp_parent = RootFile\<rparr>),
      (''/admin'', \<lparr>rp_id = ''/admin'', rp_path = ''/admin'', rp_fullPath = ''/admin'', rp_preLoader = AdminFile, rp_parent = RootFile\<rparr>),
      (''/'', \<lparr>rp_id = ''/'', rp_path = ''/'', rp_fullPath = ''/'', rp_preLoader = IndexFile, rp_parent = RootFile\<rparr>),
      (''/agents/'', \<lparr>rp_id = ''/agents/'', rp_path = ''/'', rp_fullPath = ''/agents/'', rp_preLoader = AgentsIndexFile, rp_parent = AgentsFile\<rparr>),
      (''/review_/styles'', \<lparr>rp_id = ''/review_/styles'', rp_path = ''/review/styles'', rp_fullPath = ''/review/styles'', rp_preLoader = ReviewStylesFile, rp_parent = RootFile\<rparr>),
      (''/agents_/instructions'', \<lparr>rp_id = ''/agents_/instructions'', rp_path = ''/agents/instructions'', rp_fullPath = ''/agents/instructions'', rp_preLoader = AgentsInstructionsFile, rp_parent = RootFile\<rparr>),
      (''/agents/$threadId'', \<lparr>rp_id = ''/agents/$threadId'', rp_path = ''/$threadId'', rp_fullPath = ''/agents/$threadId'', rp_preLoader = AgentsThreadIdFile, rp_parent = AgentsFile\<rparr>),
      (''/agents/automations/'', \<lparr>rp_id = ''/agents/automations/'', rp_path = ''/automations'', rp_fullPath = ''/agents/automations/'', rp_preLoader = AgentsAutomationsIndexFile, rp_parent = AgentsFile\<rparr>),
      (''/review_/repositories/$owner'', \<lparr>rp_id = ''/review_/repositories/$owner'', rp_path = ''/review/repositories/$owner'', rp_fullPath = ''/review/repositories/$owner'', rp_preLoader = ReviewRepositoriesOwnerFile, rp_parent = RootFile\<rparr>),
      (''/agents/automations/new'', \<lparr>rp_id = ''/agents/automations/new'', rp_path = ''/automations/new'', rp_fullPath = ''/agents/automations/new'', rp_preLoader = AgentsAutomationsNewFile, rp_parent = AgentsFile\<rparr>),
      (''/agents/automations/$scheduleId'', \<lparr>rp_id = ''/agents/automations/$scheduleId'', rp_path = ''/automations/$scheduleId'', rp_fullPath = ''/agents/automations/$scheduleId'', rp_preLoader = AgentsAutomationsScheduleIdFile, rp_parent = AgentsFile\<rparr>)]"

section \<open>The tree\<close>

text \<open>\<open>_addFileChildren\<close> gives a route its children, the values of the object in the order of its fields.\<close>

datatype route_tree = RouteNode file_route "route_tree list"

definition file_children :: "file_route \<Rightarrow> route_tree list \<Rightarrow> route_tree" where
  "file_children r children = RouteNode r children"

definition AgentsRouteWithChildren :: route_tree where
  "AgentsRouteWithChildren = file_children AgentsFile (map (\<lambda>(_, r). RouteNode r []) agents_children)"

definition routeTree :: route_tree where
  "routeTree =
     file_children RootFile
       (map (\<lambda>(_, r). if r = AgentsFile then AgentsRouteWithChildren else RouteNode r []) root_children)"

text \<open>\<open>getRouter\<close>: the tree and the options the router is created with.\<close>

record RouterOptions =
  routeTree_option :: route_tree
  scrollRestoration :: bool
  defaultPreload :: string
  defaultPreloadStaleTime :: int

definition getRouter :: RouterOptions where
  "getRouter =
     \<lparr>routeTree_option = routeTree, scrollRestoration = True, defaultPreload = ''intent'', defaultPreloadStaleTime = 0\<rparr>"

section \<open>The document\<close>

text \<open>
  \<open>routes/__root.tsx\<close>: the head of the document, the page for a location without a route, and the
  attribute of the document element. The style sheet is the one the build gives.
\<close>

definition root_meta :: "(string \<times> string) list" where
  "root_meta =
     [(''charSet'', ''utf-8''), (''viewport'', ''width=device-width, initial-scale=1, maximum-scale=1''),
      (''theme-color'', ''#41a52c''), (''title'', ''ON Mobile Agent'')]"

definition root_links :: "string \<Rightarrow> (string \<times> string) list" where
  "root_links appCss =
     [(''stylesheet'', appCss), (''manifest'', ''/manifest.webmanifest''), (''icon'', ''/favicon.png''),
      (''apple-touch-icon'', ''/apple-touch-icon.png'')]"

definition notFoundComponent :: "string \<times> string" where
  "notFoundComponent = (''404'', ''The requested page could not be found.'')"

text \<open>The document: its language, the script run before anything is shown, and the page or the outlet.\<close>

datatype 'page document_body = GivenPage 'page | RouteOutlet

definition RootDocument :: "string \<Rightarrow> 'page option \<Rightarrow> string \<times> string \<times> 'page document_body" where
  "RootDocument script children =
     (''en'', script, case children of None \<Rightarrow> RouteOutlet | Some page \<Rightarrow> GivenPage page)"

section \<open>The page of a route\<close>

text \<open>
  The component of a route's file, as the page of \<open>Routes\<close>; \<open>param\<close> is the parameter of the location,
  for the three routes with one. The root shows the document around every page.
\<close>

fun page_of :: "string \<Rightarrow> file_route \<Rightarrow> route option" where
  "page_of param RootFile = None"
| "page_of param IndexFile = Some IndexRoute"
| "page_of param AdminFile = Some AdminRoute"
| "page_of param AgentsFile = Some (AgentsRoute AgentsIndex)"
| "page_of param CloudAgentsFile = Some CloudAgentsRoute"
| "page_of param IntegrationsFile = Some IntegrationsRoute"
| "page_of param LoginFile = Some LoginRoute"
| "page_of param MySettingsFile = Some MySettingsRoute"
| "page_of param ReviewFile = Some ReviewRoute"
| "page_of param UsageFile = Some UsageRoute"
| "page_of param AgentsThreadIdFile = Some (AgentsRoute (AgentThreadRoute param))"
| "page_of param AgentsInstructionsFile = Some InstructionsRoute"
| "page_of param ReviewStylesFile = Some ReviewStylesRoute"
| "page_of param AgentsIndexFile = Some (AgentsRoute AgentsIndex)"
| "page_of param AgentsAutomationsScheduleIdFile = Some (AgentsRoute (AutomationEdit param))"
| "page_of param AgentsAutomationsNewFile = Some (AgentsRoute AutomationNew)"
| "page_of param ReviewRepositoriesOwnerFile = Some (ReviewReposRoute param)"
| "page_of param AgentsAutomationsIndexFile = Some (AgentsRoute AutomationsIndex)"

text \<open>
  The redirects of the pages name their targets as strings: the sign-in page, the settings and the
  home of the agents (\<open>to\<close> of \<open>Navigate\<close>). Opening a link follows them through the listing, at most \<open>n\<close>
  times; \<open>None\<close> is a target that is not listed.
\<close>

fun redirect_to :: "route \<Rightarrow> string option" where
  "redirect_to LoginRoute = Some ''/login''"
| "redirect_to MySettingsRoute = Some ''/my-settings''"
| "redirect_to (AgentsRoute AgentsIndex) = Some ''/agents''"
| "redirect_to _ = None"

definition target_page :: "string \<Rightarrow> string \<Rightarrow> route option" where
  "target_page param to = Option.bind (map_of FileRoutesByTo to) (page_of param)"

fun open_link ::
  "nat \<Rightarrow> SessionUser fetched \<Rightarrow> AgentThread fetched \<Rightarrow> string \<Rightarrow> string \<Rightarrow> outcome option" where
  "open_link n session thread param to =
     (case target_page param to of
        None \<Rightarrow> None
      | Some page \<Rightarrow>
          (case render_route session thread page of
             RedirectTo r \<Rightarrow>
               (case n of
                  0 \<Rightarrow> Some (RedirectTo r)
                | Suc m \<Rightarrow> Option.bind (redirect_to r) (open_link m session thread param))
           | out \<Rightarrow> Some out))"

declare open_link.simps [simp del]

section \<open>The listings against the tree\<close>

text \<open>
  The specification: along the tree, the path of a route is the path of its parent followed by its
  own, and so is its identifier; the root contributes nothing to either.
\<close>

definition own_path :: "file_route \<Rightarrow> string" where
  "own_path r = (case route_update r of None \<Rightarrow> [] | Some o' \<Rightarrow> ro_path o')"

definition own_id :: "file_route \<Rightarrow> string" where
  "own_id r = (case route_update r of None \<Rightarrow> [] | Some o' \<Rightarrow> ro_id o')"

fun tree_walk :: "(file_route \<Rightarrow> string) \<Rightarrow> string \<Rightarrow> route_tree \<Rightarrow> (string \<times> file_route) list" where
  "tree_walk own prefix (RouteNode r ts) =
     (prefix @ own r, r) # concat (map (tree_walk own (prefix @ own r)) ts)"

fun tree_edges :: "route_tree \<Rightarrow> (file_route \<times> file_route) list" where
  "tree_edges (RouteNode r ts) =
     map (\<lambda>t. case t of RouteNode c _ \<Rightarrow> (c, r)) ts @ concat (map tree_edges ts)"

definition cut_slash :: "string \<Rightarrow> string" where
  "cut_slash p = (if p \<noteq> ''/'' \<and> p \<noteq> [] \<and> last p = CHR ''/'' then butlast p else p)"

lemmas listing_defs =
  FileRoutesByFullPath_def FileRoutesByTo_def FileRoutesById_def FileRoutesByPath_def
  fullPaths_def to_paths_def route_ids_def RootRouteChildren_def AgentsRouteChildren_def
  agents_children_def root_children_def

lemmas tree_defs = routeTree_def AgentsRouteWithChildren_def file_children_def agents_children_def
  root_children_def own_path_def own_id_def

lemma mounted_paths:
  "tree_walk own_path [] routeTree =
     [([], RootFile), (''/'', IndexFile), (''/admin'', AdminFile), (''/agents'', AgentsFile),
      (''/agents/$threadId'', AgentsThreadIdFile), (''/agents/'', AgentsIndexFile),
      (''/agents/automations/$scheduleId'', AgentsAutomationsScheduleIdFile),
      (''/agents/automations/new'', AgentsAutomationsNewFile), (''/agents/automations/'', AgentsAutomationsIndexFile),
      (''/cloud-agents'', CloudAgentsFile), (''/integrations'', IntegrationsFile), (''/login'', LoginFile),
      (''/my-settings'', MySettingsFile), (''/review'', ReviewFile), (''/usage'', UsageFile),
      (''/agents/instructions'', AgentsInstructionsFile), (''/review/styles'', ReviewStylesFile),
      (''/review/repositories/$owner'', ReviewRepositoriesOwnerFile)]"
  by (simp add: tree_defs)

lemma mounted_ids:
  "tree_walk own_id [] routeTree =
     [([], RootFile), (''/'', IndexFile), (''/admin'', AdminFile), (''/agents'', AgentsFile),
      (''/agents/$threadId'', AgentsThreadIdFile), (''/agents/'', AgentsIndexFile),
      (''/agents/automations/$scheduleId'', AgentsAutomationsScheduleIdFile),
      (''/agents/automations/new'', AgentsAutomationsNewFile), (''/agents/automations/'', AgentsAutomationsIndexFile),
      (''/cloud-agents'', CloudAgentsFile), (''/integrations'', IntegrationsFile), (''/login'', LoginFile),
      (''/my-settings'', MySettingsFile), (''/review'', ReviewFile), (''/usage'', UsageFile),
      (''/agents_/instructions'', AgentsInstructionsFile), (''/review_/styles'', ReviewStylesFile),
      (''/review_/repositories/$owner'', ReviewRepositoriesOwnerFile)]"
  by (simp add: tree_defs)

lemma mounted_edges:
  "tree_edges routeTree =
     map (\<lambda>(_, r). (r, RootFile)) root_children @ map (\<lambda>(_, r). (r, AgentsFile)) agents_children"
  by (simp add: tree_defs)

text \<open>A listing that has every file but the root, once.\<close>

definition each_file_once :: "file_route list \<Rightarrow> bool" where
  "each_file_once rs = (distinct rs \<and> set rs = UNIV - {RootFile})"

lemma each_file_once_iff:
  "each_file_once rs \<longleftrightarrow>
     distinct rs \<and> RootFile \<notin> set rs
     \<and> {UsageFile, ReviewFile, MySettingsFile, LoginFile,
         IntegrationsFile, CloudAgentsFile, AgentsFile, AdminFile,
         IndexFile, AgentsIndexFile, ReviewStylesFile, AgentsInstructionsFile,
         AgentsThreadIdFile, AgentsAutomationsIndexFile, ReviewRepositoriesOwnerFile, AgentsAutomationsNewFile,
         AgentsAutomationsScheduleIdFile} \<subseteq> set rs"
proof -
  have "r = RootFile \<or> r \<in> {UsageFile, ReviewFile, MySettingsFile, LoginFile,
         IntegrationsFile, CloudAgentsFile, AgentsFile, AdminFile,
         IndexFile, AgentsIndexFile, ReviewStylesFile, AgentsInstructionsFile,
         AgentsThreadIdFile, AgentsAutomationsIndexFile, ReviewRepositoriesOwnerFile, AgentsAutomationsNewFile,
         AgentsAutomationsScheduleIdFile}" for r
    by (cases r) simp_all
  then show ?thesis
    by (auto simp: each_file_once_def)
qed

lemma each_file_listed:
  "each_file_once (map snd (tl (tree_walk own_path [] routeTree)))"
  "each_file_once (map snd FileRoutesByFullPath)" "each_file_once (map snd (tl FileRoutesById))"
  "each_file_once (map (\<lambda>(_, e). rp_preLoader e) FileRoutesByPath)"
  by (simp_all add: each_file_once_iff mounted_paths FileRoutesByFullPath_def FileRoutesById_def FileRoutesByPath_def)

lemma paths_of_tree:
  "list_all (\<lambda>(p, r). map_of (map prod.swap (tree_walk own_path [] routeTree)) r = Some p) FileRoutesByFullPath"
  by (simp add: mounted_paths FileRoutesByFullPath_def)

lemma ids_of_tree:
  "list_all (\<lambda>(i, r). map_of (map prod.swap (tree_walk own_id [] routeTree)) r = Some i) (tl FileRoutesById)"
  by (simp add: mounted_ids FileRoutesById_def)

text \<open>The listing of types: the identifier is the key, and the parent, path and full path are those of the file.\<close>

definition entry_agrees :: "string \<times> RoutePath \<Rightarrow> bool" where
  "entry_agrees = (\<lambda>(i, e).
     rp_id e = i \<and> map_of FileRoutesById i = Some (rp_preLoader e)
     \<and> map_of FileRoutesByFullPath (rp_fullPath e) = Some (rp_preLoader e)
     \<and> map_of (tree_edges routeTree) (rp_preLoader e) = Some (rp_parent e)
     \<and> map_option ro_parent (route_update (rp_preLoader e)) = Some (rp_parent e)
     \<and> rp_path e = cut_slash (own_path (rp_preLoader e)))"

lemma entries_agree: "list_all entry_agrees FileRoutesByPath"
proof -
  have "entry_agrees x" if "x \<in> set FileRoutesByPath" for x
    using that unfolding FileRoutesByPath_def list.set insert_iff empty_iff
    by (elim disjE; simp add: entry_agrees_def mounted_edges FileRoutesById_def FileRoutesByFullPath_def
        agents_children_def root_children_def own_path_def cut_slash_def)
  then show ?thesis by (simp add: list_all_iff)
qed

lemma targets_cut:
  "FileRoutesByTo = map (\<lambda>(p, r). (cut_slash p, r)) (filter (\<lambda>(_, r). r \<noteq> AgentsFile) FileRoutesByFullPath)"
  by (simp add: FileRoutesByFullPath_def FileRoutesByTo_def cut_slash_def)

section \<open>Links\<close>

lemma listed_target: "map_of FileRoutesByTo to = None \<longleftrightarrow> to \<notin> fst ` set FileRoutesByTo"
  by (rule map_of_eq_None_iff)

lemma target_page_None: "target_page param to = None \<longleftrightarrow> to \<notin> fst ` set FileRoutesByTo"
proof -
  have "map_of FileRoutesByTo to = Some f \<Longrightarrow> page_of param f \<noteq> None" for f
    by (drule map_of_SomeD) (auto simp: FileRoutesByTo_def)
  then show ?thesis
    using listed_target [of to] by (cases "map_of FileRoutesByTo to") (auto simp: target_page_def)
qed

lemma redirect_targets:
  "target_page param ''/login'' = Some LoginRoute" "target_page param ''/my-settings'' = Some MySettingsRoute"
  "target_page param ''/agents'' = Some (AgentsRoute AgentsIndex)"
  by (simp_all add: target_page_def FileRoutesByTo_def)

lemma redirects_listed:
  "render_route session thread page = RedirectTo r \<Longrightarrow> \<exists>to. redirect_to r = Some to \<and> target_page param to = Some r"
  by (cases page; cases session; auto simp: route_defs redirect_targets split: agents_child.splits fetched.splits if_splits)

text \<open>Following the strings of the redirects through the listing is following the pages.\<close>

lemma open_link_follow:
  "open_link n session thread param to = map_option (follow n session thread) (target_page param to)"
proof (induction n arbitrary: to)
  case 0
  then show ?case
    by (auto simp: open_link.simps [of 0] split: option.split outcome.split)
next
  case (Suc n)
  show ?case
  proof (cases "target_page param to")
    case (Some page)
    show ?thesis
    proof (cases "render_route session thread page")
      case (RedirectTo r)
      then obtain t where "redirect_to r = Some t" "target_page param t = Some r"
        using redirects_listed by blast
      then show ?thesis
        by (simp add: open_link.simps [of "Suc n"] Some RedirectTo Suc)
    qed (simp_all add: open_link.simps [of "Suc n"] Some)
  qed (simp add: open_link.simps [of "Suc n"])
qed

text \<open>The path of a child of the layout has an open thread exactly where the child is the page of a thread.\<close>

lemma layout_children_open_thread:
  "map (\<lambda>(_, r). (r, activeThreadId (''/agents'' @ own_path r))) agents_children =
     [(AgentsThreadIdFile, Some ''$threadId''), (AgentsIndexFile, None), (AgentsAutomationsScheduleIdFile, None),
      (AgentsAutomationsNewFile, None), (AgentsAutomationsIndexFile, None)]"
  by (simp add: agents_children_def own_path_def activeThreadId_def)

section \<open>Properties\<close>

text \<open>
  The generated listings agree with the tree the router is created with: every file is mounted
  exactly once; the listing by full path gives each route the path it has along the tree, and the
  listing by identifier the identifier; a link's target is the full path without its closing slash,
  of every route but the layout, whose place the index page takes; the table of types gives every
  route the parent it is mounted under; and no target is listed twice.
\<close>

theorem route_listings_match_tree:
  "each_file_once (map snd (tl (tree_walk own_path [] routeTree)))
   \<and> each_file_once (map snd FileRoutesByFullPath)
   \<and> list_all (\<lambda>(p, r). map_of (map prod.swap (tree_walk own_path [] routeTree)) r = Some p) FileRoutesByFullPath
   \<and> each_file_once (map snd (tl FileRoutesById))
   \<and> list_all (\<lambda>(i, r). map_of (map prod.swap (tree_walk own_id [] routeTree)) r = Some i) (tl FileRoutesById)
   \<and> FileRoutesByTo = map (\<lambda>(p, r). (cut_slash p, r)) (filter (\<lambda>(_, r). r \<noteq> AgentsFile) FileRoutesByFullPath)
   \<and> distinct (map fst FileRoutesByTo)
   \<and> each_file_once (map (\<lambda>(_, e). rp_preLoader e) FileRoutesByPath)
   \<and> list_all entry_agrees FileRoutesByPath
   \<and> map fst FileRoutesByFullPath = fullPaths \<and> map fst FileRoutesByTo = to_paths
   \<and> map fst FileRoutesById = route_ids
   \<and> agents_children = AgentsRouteChildren \<and> root_children = RootRouteChildren"
  by (intro conjI each_file_listed paths_of_tree ids_of_tree targets_cut entries_agree) (simp_all add: listing_defs)

text \<open>
  C20. Every link lands on a page: opening a target that is not listed finds no route, and opening one
  that is ends, after at most two redirects read as the strings of the sources, on a page or a
  placeholder: without a session on the sign-in page, with one never there, and on the administration
  page for an administrator only. The entries of both sidebars are listed targets.
\<close>

theorem links_settle:
  "(case open_link 2 session thread param to of
      None \<Rightarrow> to \<notin> fst ` set FileRoutesByTo
    | Some (RedirectTo _) \<Rightarrow> False
    | Some Skeleton \<Rightarrow> session = Fetching \<or> thread = Fetching
    | Some (ShowPage p) \<Rightarrow>
        (case session of
           Fetching \<Rightarrow> False
         | Absent \<Rightarrow> p = LoginRoute
         | Present user \<Rightarrow> (if p = AdminRoute then su_is_admin user else p \<notin> {LoginRoute, IndexRoute, IntegrationsRoute})))
   \<and> map nav_to app_nav @ map fst agents_nav = filter (\<lambda>t. t \<in> fst ` set FileRoutesByTo) (map nav_to app_nav @ map fst agents_nav)"
  using redirects_end [of session thread] target_page_None [of param to]
  by (cases "target_page param to") (simp_all add: open_link_follow app_nav_def agents_nav_def FileRoutesByTo_def)

end
