(* ===== verification/Json_Round_Trip.thy ===== *)
theory Json_Round_Trip
  imports Stream_Messages Api_Client
begin

text \<open>
  \<open>JSON.parse\<close> reads back what \<open>JSON.stringify\<close> writes: the body of a request
  (\<open>lib/api.ts\<close>) and tool arguments given as text (\<open>lib/agents/streamMessagesFromState.ts\<close>). The parser
  is the recursive descent of \<open>Js_Value\<close>; the proof follows the printed value from left to right with the
  rest of the text kept.
\<close>

section \<open>What a printed value keeps\<close>

text \<open>
  Printing loses two things: an undefined property is left out and an undefined element is \<open>null\<close>.
  A decimal is kept as text, so it has to be one the parser reads as a whole, and the keys that are
  printed have to differ, as they do in an object.
\<close>

fun json_clean :: "jsval \<Rightarrow> jsval"
  and json_cleans :: "jsval list \<Rightarrow> jsval list"
  and json_clean_props :: "(string \<times> jsval) list \<Rightarrow> (string \<times> jsval) list"
where
  "json_clean JUndefined = JNull"
| "json_clean (JArr vs) = JArr (json_cleans vs)"
| "json_clean (JObj kvs) = JObj (json_clean_props kvs)"
| "json_clean v = v"
| "json_cleans [] = []"
| "json_cleans (v # vs) = json_clean v # json_cleans vs"
| "json_clean_props [] = []"
| "json_clean_props ((k, v) # kvs) =
     (if v = JUndefined then json_clean_props kvs else (k, json_clean v) # json_clean_props kvs)"

fun json_ok :: "jsval \<Rightarrow> bool"
  and jsons_ok :: "jsval list \<Rightarrow> bool"
  and json_props_ok :: "(string \<times> jsval) list \<Rightarrow> bool"
where
  "json_ok (JDec d) = (parse_number d = Some (JDec d, []))"
| "json_ok (JArr vs) = jsons_ok vs"
| "json_ok (JObj kvs) = (json_props_ok kvs \<and> distinct (map fst (json_clean_props kvs)))"
| "json_ok v = True"
| "jsons_ok [] = True"
| "jsons_ok (v # vs) = (json_ok v \<and> jsons_ok vs)"
| "json_props_ok [] = True"
| "json_props_ok ((k, v) # kvs) = (json_ok v \<and> json_props_ok kvs)"

section \<open>Strings\<close>

lemma code_less: "code c < 256"
  by (cases c) (simp add: code_def)

lemma hex_val_digit: "d < 16 \<Longrightarrow> hex_val (hex_digit d) = Some d"
  by (auto simp: hex_val_def hex_digit_def code_def)

lemma unicode_escape_hex:
  assumes "code c < 32"
  shows "unicode_escape (CHR ''0'') (CHR ''0'') (hex_digit (code c div 16)) (hex_digit (code c mod 16)) = Some c"
proof -
  have zero: "hex_val (CHR ''0'') = Some 0"
    by (simp add: hex_val_def code_def)
  have "16 * (code c div 16) + code c mod 16 = code c"
    by simp
  then show ?thesis
    using assms by (simp add: unicode_escape_def zero hex_val_digit char_of_code)
qed

lemma code_inj: "code c = code d \<longleftrightarrow> c = d"
  by (metis char_of_code)

lemma char_eqI: "code c = n \<Longrightarrow> char_of n = c"
  by (auto simp: code_def)

lemma parse_escaped_char:
  "parse_chars (escape_char c @ s) = map_option (\<lambda>(t, r). (c # t, r)) (parse_chars s)"
proof -
  have codes: "code (CHR ''u'') = 117" "code (CHR ''b'') = 98" "code (CHR ''t'') = 116" "code (CHR ''n'') = 110"
    "code (CHR ''f'') = 102" "code (CHR ''r'') = 114" "code (CHR 0x5C) = 92" "code (CHR 0x22) = 34"
    by (simp_all add: code_def)
  consider "code c \<in> {34, 92}" | "code c \<in> {8, 9, 10, 12, 13}"
    | "code c < 32" "code c \<notin> {8, 9, 10, 12, 13}" | "32 \<le> code c" "code c \<notin> {34, 92}"
    by fastforce
  then show ?thesis
  proof cases
    case 1
    then have "code c = code (CHR 0x22) \<or> code c = code (CHR 0x5C)"
      by (simp add: codes)
    then have "c = CHR 0x22 \<or> c = CHR 0x5C"
      by (simp only: code_inj)
    then show ?thesis
      by (auto simp: escape_char_def codes simple_escape_def)
  next
    case 2
    then show ?thesis
      by (auto simp: escape_char_def codes simple_escape_def dest: char_eqI)
  next
    case 3
    then show ?thesis
      by (simp add: escape_char_def codes unicode_escape_hex Let_def)
  next
    case 4
    then show ?thesis
      by (auto simp: escape_char_def)
  qed
qed

lemma parse_quoted: "parse_chars (concat (map escape_char s) @ CHR 0x22 # r) = Some (s, r)"
  by (induction s) (simp_all add: parse_escaped_char code_def)

section \<open>Numbers\<close>

text \<open>A text after which a number ends.\<close>

definition num_end :: "string \<Rightarrow> bool" where
  "num_end s = (case s of [] \<Rightarrow> True | c # _ \<Rightarrow> \<not> is_digit c \<and> c \<notin> {CHR ''.'', CHR ''e'', CHR ''E''})"

lemma num_end_simps [simp]: "num_end []" "num_end (CHR '','' # s)" "num_end (CHR '']'' # s)" "num_end (CHR ''}'' # s)"
  by (simp_all add: num_end_def is_digit_def code_def)

lemma parse_digits_append:
  assumes "parse_digits s = Some (ds, s')" "num_end rest"
  shows "parse_digits (s @ rest) = Some (ds, s' @ rest)"
proof (cases "s' = []")
  case True
  then have all: "\<forall>c \<in> set s. is_digit c" and ds: "ds = s" "s \<noteq> []"
    using assms(1) by (auto simp: parse_digits_def Let_def split: if_splits)
  have "takeWhile is_digit rest = []" "dropWhile is_digit rest = rest"
    using assms(2) by (auto simp: num_end_def split: list.splits)
  then show ?thesis
    using all ds True by (simp add: parse_digits_def)
next
  case False
  then obtain c where "c \<in> set s" "\<not> is_digit c"
    using assms(1) by (auto simp: parse_digits_def Let_def split: if_splits)
  then show ?thesis
    using assms(1) by (auto simp: parse_digits_def Let_def takeWhile_append1 dropWhile_append1 split: if_splits)
qed

lemma parse_frac_append:
  assumes "parse_frac s = Some (fr, s')" "num_end rest"
  shows "parse_frac (s @ rest) = Some (fr, s' @ rest)"
proof (cases s)
  case Nil
  then show ?thesis
    using assms by (auto simp: parse_frac_def num_end_def split: list.splits)
next
  case (Cons c r)
  then show ?thesis
    using assms by (auto simp: parse_frac_def parse_digits_append split: if_splits)
qed

lemma parse_exp_append:
  assumes "parse_exp s = Some (ex, s')" "num_end rest"
  shows "parse_exp (s @ rest) = Some (ex, s' @ rest)"
proof (cases s)
  case Nil
  then show ?thesis
    using assms by (auto simp: parse_exp_def num_end_def split: list.splits)
next
  case (Cons c r)
  show ?thesis
  proof (cases "c = CHR ''e'' \<or> c = CHR ''E''")
    case False
    then show ?thesis using Cons assms by (auto simp: parse_exp_def)
  next
    case True
    then obtain d r1 where r: "r = d # r1"
      using Cons assms by (cases r) (auto simp: parse_exp_def)
    have app: "parse_digits (d # r1) = Some (ds, q) \<Longrightarrow> parse_digits (d # r1 @ rest) = Some (ds, q @ rest)" for ds q
      using parse_digits_append [OF _ assms(2), of "d # r1"] by simp
    show ?thesis
      using Cons True assms r by (auto simp: parse_exp_def parse_digits_append app split: if_splits)
  qed
qed

lemma parse_number_append:
  assumes num: "parse_number s = Some (v, [])" and rest: "num_end rest"
  shows "parse_number (s @ rest) = Some (v, rest)"
proof -
  have "s \<noteq> []"
    using num by (auto simp: parse_number_def parse_digits_def startsWith_def)
  then have starts: "startsWith (s @ rest) ''-'' = startsWith s ''-''"
    and dropped: "drop 1 (s @ rest) = drop 1 s @ rest"
    by (cases s; simp add: startsWith_def)+
  let ?s1 = "if startsWith s ''-'' then drop 1 s else s"
  from num obtain ds s2 fr s3 ex where
    parts: "parse_digits ?s1 = Some (ds, s2)" "parse_frac s2 = Some (fr, s3)" "parse_exp s3 = Some (ex, [])"
    unfolding parse_number_def Let_def by (auto split: option.splits prod.splits if_split_asm)
  have s1: "(if startsWith (s @ rest) ''-'' then drop 1 (s @ rest) else s @ rest) = ?s1 @ rest"
    by (simp only: starts dropped if_distrib [of "\<lambda>x. x @ rest"])
  have parts': "parse_digits (?s1 @ rest) = Some (ds, s2 @ rest)" "parse_frac (s2 @ rest) = Some (fr, s3 @ rest)"
    "parse_exp (s3 @ rest) = Some (ex, rest)"
    using parts rest by (simp_all only: parse_digits_append parse_frac_append parse_exp_append append_Nil)
  have number: "parse_number u =
      (if 1 < length ds \<and> hd ds = CHR ''0'' then None
       else Some (if fr = [] \<and> ex = []
                  then JNum (if startsWith s ''-'' then - int (digits_val ds) else int (digits_val ds))
                  else JDec ((if startsWith s ''-'' then ''-'' else []) @ ds @ fr @ ex), q))"
    if "startsWith u ''-'' = startsWith s ''-''"
      "parse_digits (if startsWith s ''-'' then drop 1 u else u) = Some (ds, a)"
      "parse_frac a = Some (fr, b)" "parse_exp b = Some (ex, q)" for u a b q
    unfolding parse_number_def Let_def that(1) that(2) using that(3,4) by simp
  show ?thesis
    using num number [OF refl parts] number [OF starts _ parts'(2,3)] parts'(1) s1 starts
    by (auto split: if_split_asm)
qed

lemma nat_str_no_leading_zero: "1 < length (nat_str n) \<Longrightarrow> hd (nat_str n) \<noteq> CHR ''0''"
proof (induction n rule: nat_str.induct)
  case (1 n)
  show ?case
  proof (cases "n < 10")
    case False
    have small: "hd (nat_str (n div 10)) \<noteq> CHR ''0''" if "n div 10 < 10"
    proof -
      have "code (hd (nat_str (n div 10))) \<noteq> 48"
        using that False by (simp add: nat_str.simps [of "n div 10"])
      then show ?thesis by (auto simp: code_def)
    qed
    have "n div 10 < 10 \<or> 1 < length (nat_str (n div 10))"
      by (auto simp: nat_str.simps [of "n div 10"] neq_Nil_conv Suc_le_eq)
    then show ?thesis
      using 1 False small by (auto simp: nat_str.simps [of n])
  qed (use 1 in \<open>simp add: nat_str.simps [of n]\<close>)
qed

lemma parse_int: "parse_number (int_str i) = Some (JNum i, [])"
proof -
  have digits: "takeWhile is_digit (nat_str n) = nat_str n" "dropWhile is_digit (nat_str n) = []" for n
    using nat_str_digits [of n] by (simp_all add: takeWhile_eq_all_conv)
  have minus: "\<not> startsWith (nat_str n) ''-''" for n
    using nat_str_not_minus by (cases "nat_str n") (auto simp: startsWith_def)
  show ?thesis
    using nat_str_no_leading_zero [of "nat i"] nat_str_no_leading_zero [of "nat (- i)"]
    by (auto simp: parse_number_def int_str_def parse_digits_def digits minus parse_frac_def parse_exp_def
        startsWith_def [of "CHR ''-'' # _"] Let_def)
qed

section \<open>Values\<close>

lemma number_first:
  assumes "parse_number s = Some (v, r)"
  obtains c s' where "s = c # s'" "is_digit c \<or> c = CHR ''-''"
proof (cases s)
  case Nil
  then show ?thesis using assms by (simp add: parse_number_def parse_digits_def startsWith_def)
next
  case (Cons c s')
  have "is_digit c \<or> c = CHR ''-''"
    using assms Cons
    by (auto simp: parse_number_def parse_digits_def startsWith_def Let_def split: if_splits)
  then show ?thesis using that Cons by blast
qed

lemma skip_ws_first: "\<not> json_ws c \<Longrightarrow> skip_ws (c # s) = c # s"
  by (simp add: skip_ws_def)

lemma parse_val_number:
  assumes num: "parse_number s = Some (v, [])" and rest: "num_end rest" and n: "0 < n"
  shows "parse_val n (s @ rest) = Some (v, rest)"
proof -
  obtain m where m: "n = Suc m" using n by (cases n) auto
  obtain c s' where s: "s = c # s'" and c: "is_digit c \<or> c = CHR ''-''"
    by (rule number_first [OF num])
  have facts: "\<not> json_ws c" "c \<noteq> CHR ''{''" "c \<noteq> CHR ''[''" "code c \<noteq> 34" "c \<noteq> CHR ''n''" "c \<noteq> CHR ''t''" "c \<noteq> CHR ''f''"
    using c by (auto simp: json_ws_def is_digit_def code_def)
  show ?thesis
    using parse_number_append [OF num rest] facts
    by (simp add: m s skip_ws_first startsWith_def)
qed

lemma stringify_first:
  "json_ok v \<Longrightarrow> \<exists>c s. stringify_val v = c # s \<and> \<not> json_ws c \<and> c \<noteq> CHR '']'' \<and> c \<noteq> CHR ''}''"
proof (cases v)
  case (JNum i)
  obtain c s' where "int_str i = c # s'" "is_digit c \<or> c = CHR ''-''"
    by (rule number_first [OF parse_int])
  then show ?thesis by (auto simp: JNum json_ws_def is_digit_def code_def)
next
  case (JDec d)
  assume "json_ok v"
  then have "parse_number d = Some (JDec d, [])" by (simp add: JDec)
  then obtain c s' where "d = c # s'" "is_digit c \<or> c = CHR ''-''"
    by (rule number_first)
  then show ?thesis by (auto simp: JDec json_ws_def is_digit_def code_def)
qed (auto simp: json_ws_def code_def quote_str_def)

lemma skip_value:
  assumes "json_ok v"
  shows "skip_ws (stringify_val v @ s) = stringify_val v @ s"
    "\<not> startsWith (stringify_val v @ s) '']''"
  using stringify_first [OF assms] by (auto simp: skip_ws_first startsWith_def)

lemma skip_ws_punct [simp]:
  "skip_ws (CHR '','' # s) = CHR '','' # s" "skip_ws (CHR '']'' # s) = CHR '']'' # s"
  "skip_ws (CHR ''}'' # s) = CHR ''}'' # s" "skip_ws (CHR '':'' # s) = CHR '':'' # s"
  "skip_ws (CHR ''['' # s) = CHR ''['' # s" "skip_ws (CHR ''{'' # s) = CHR ''{'' # s"
  "skip_ws (CHR 0x22 # s) = CHR 0x22 # s"
  by (simp_all add: skip_ws_first json_ws_def code_def)

lemma parse_val_literals:
  "0 < n \<Longrightarrow> parse_val n (''null'' @ s) = Some (JNull, s)"
  "0 < n \<Longrightarrow> parse_val n (''true'' @ s) = Some (JBool True, s)"
  "0 < n \<Longrightarrow> parse_val n (''false'' @ s) = Some (JBool False, s)"
  by (cases n; simp add: skip_ws_def json_ws_def code_def startsWith_def)+

lemma parse_val_string: "0 < n \<Longrightarrow> parse_val n (quote_str t @ s) = Some (JStr t, s)"
  by (cases n) (simp_all add: quote_str_def parse_quoted, simp add: code_def)

lemma parse_val_array:
  assumes "\<not> startsWith (skip_ws s) '']''"
  shows "parse_val (Suc n) (CHR ''['' # s) = map_option (\<lambda>(vs, r). (JArr vs, r)) (parse_elems n s)"
  using assms by simp

lemma parse_val_object:
  assumes "\<not> startsWith (skip_ws s) ''}''"
  shows "parse_val (Suc n) (CHR ''{'' # s) = map_option (\<lambda>(kvs, r). (JObj kvs, r)) (parse_props n [] s)"
  using assms by simp

lemma stringify_elems_Nil [simp]: "stringify_elems vs = [] \<longleftrightarrow> vs = []"
  by (cases vs) simp_all

lemma stringify_props_Nil: "stringify_props kvs = [] \<longleftrightarrow> json_clean_props kvs = []"
proof (induction kvs)
  case (Cons p kvs)
  then show ?case by (cases p) simp
qed simp

lemma stringify_props_first: "ps = stringify_props kvs \<Longrightarrow> ps \<noteq> [] \<Longrightarrow> \<exists>s. join '','' ps = CHR 0x22 # s"
proof (induction kvs arbitrary: ps)
  case (Cons p kvs)
  then show ?case
    by (cases p; cases "stringify_props kvs = []") (auto simp: quote_str_def join_Cons split: if_splits)
qed simp

lemma parse_key:
  "parse_string (skip_ws (quote_str k @ CHR '':'' # s)) = Some (k, CHR '':'' # s)"
  by (simp add: quote_str_def parse_string_def parse_quoted, simp add: code_def)

lemma update_fresh: "k \<notin> fst ` set m \<Longrightarrow> AList.update k v m = m @ [(k, v)]"
  by (induction m) auto

lemma parse_stringify:
  "json_ok v \<Longrightarrow> num_end rest \<Longrightarrow> 2 * length (stringify_val v) < n \<Longrightarrow>
     parse_val n (stringify_val v @ rest) = Some (json_clean v, rest)"
  "jsons_ok vs \<Longrightarrow> vs \<noteq> [] \<Longrightarrow> 2 * length (join '','' (stringify_elems vs)) + 1 < n \<Longrightarrow>
     parse_elems n (join '','' (stringify_elems vs) @ CHR '']'' # rest) = Some (json_cleans vs, rest)"
  "json_props_ok kvs \<Longrightarrow> distinct (map fst acc @ map fst (json_clean_props kvs)) \<Longrightarrow> stringify_props kvs \<noteq> [] \<Longrightarrow>
     2 * length (join '','' (stringify_props kvs)) + 1 < n \<Longrightarrow>
     parse_props n acc (join '','' (stringify_props kvs) @ CHR ''}'' # rest) = Some (acc @ json_clean_props kvs, rest)"
proof (induction v and vs and kvs arbitrary: rest n and rest n and rest n acc
    rule: stringify_val_stringify_elems_stringify_props.induct)
  case (4 i)
  then show ?case
    by (simp add: parse_val_number parse_int)
next
  case (5 d)
  then show ?case
    by (simp add: parse_val_number)
next
  case (7 vs)
  then obtain m where m: "n = Suc m" by (cases n) auto
  show ?case
  proof (cases vs)
    case Nil
    then show ?thesis by (simp add: m startsWith_def)
  next
    case (Cons w ws)
    have "\<not> startsWith (skip_ws (join '','' (stringify_elems vs) @ CHR '']'' # rest)) '']''"
      using 7(2) skip_value [of w] by (cases "ws = []") (simp_all add: Cons join_Cons)
    moreover have "parse_elems m (join '','' (stringify_elems vs) @ CHR '']'' # rest) = Some (json_cleans vs, rest)"
      using 7(2,4) Cons by (intro 7(1)) (simp_all add: m)
    ultimately show ?thesis
      by (simp add: m parse_val_array del: parse_val.simps)
  qed
next
  case (8 kvs)
  then obtain m where m: "n = Suc m" by (cases n) auto
  show ?case
  proof (cases "stringify_props kvs = []")
    case True
    then show ?thesis using stringify_props_Nil [of kvs] by (simp add: m startsWith_def)
  next
    case False
    obtain s where "join '','' (stringify_props kvs) = CHR 0x22 # s"
      using stringify_props_first [OF refl False] by blast
    then have "\<not> startsWith (skip_ws (join '','' (stringify_props kvs) @ CHR ''}'' # rest)) ''}''"
      by (simp add: startsWith_def)
    moreover have "parse_props m [] (join '','' (stringify_props kvs) @ CHR ''}'' # rest) =
        Some ([] @ json_clean_props kvs, rest)"
      using 8(2,4) False by (intro 8(1)) (simp_all add: m)
    ultimately show ?thesis
      by (simp add: m parse_val_object del: parse_val.simps)
  qed
next
  case (10 v vs)
  then obtain m where m: "n = Suc m" by (cases n) auto
  have v: "parse_val m (stringify_val v @ r) = Some (json_clean v, r)" if "num_end r" for r
    using 10(3,5) that by (intro 10(1)) (cases "vs = []"; simp add: m join_Cons)+
  show ?case
  proof (cases "vs = []")
    case True
    then show ?thesis by (simp add: m v)
  next
    case False
    have "parse_elems m (join '','' (stringify_elems vs) @ CHR '']'' # rest) = Some (json_cleans vs, rest)"
      using 10(3,5) False by (intro 10(2)) (simp_all add: m join_Cons)
    then show ?thesis
      using False by (simp add: m join_Cons v)
  qed
next
  case (12 k v kvs)
  show ?case
  proof (cases "v = JUndefined")
    case True
    then show ?thesis using 12 by simp
  next
    case False
    obtain m where m: "n = Suc m" using 12 by (cases n) auto
    have v: "parse_val m (stringify_val v @ r) = Some (json_clean v, r)" if "num_end r" for r
      using 12(4,7) that False
      by (intro 12(2)) (cases "stringify_props kvs = []"; simp add: m join_Cons)+
    have set: "AList.update k (json_clean v) acc = acc @ [(k, json_clean v)]"
      using 12(5) False by (simp add: update_fresh)
    show ?thesis
    proof (cases "stringify_props kvs = []")
      case True
      then show ?thesis
        using False stringify_props_Nil [of kvs] by (simp add: m parse_key v set)
    next
      case more: False
      have "parse_props m (acc @ [(k, json_clean v)]) (join '','' (stringify_props kvs) @ CHR ''}'' # rest) =
          Some ((acc @ [(k, json_clean v)]) @ json_clean_props kvs, rest)"
        using 12(4,5,7) more False by (intro 12(3)) (simp_all add: m join_Cons)
      then show ?thesis
        using more False by (simp add: m join_Cons parse_key v set)
    qed
  qed
qed (auto simp: parse_val_literals [simplified] parse_val_string)

lemma json_parse_stringify: "json_ok v \<Longrightarrow> json_parse (stringify_val v) = Some (json_clean v)"
  using parse_stringify(1) [of v "[]" "Suc (2 * length (stringify_val v))"]
  by (simp add: json_parse_def skip_ws_def)

section \<open>Reading a request\<close>

text \<open>
  The specification of the other side: the record a body stands for. An absent field, a null and a
  value are told apart.
\<close>

definition read_maybe :: "(jsval \<Rightarrow> 'a) \<Rightarrow> jsval \<Rightarrow> 'a maybe_null" where
  "read_maybe f v = (if v = JUndefined then None else if v = JNull then Some None else Some (Some (f v)))"

definition read_str :: "jsval \<Rightarrow> string" where
  "read_str v = (case v of JStr s \<Rightarrow> s | _ \<Rightarrow> [])"

definition read_list :: "(jsval \<Rightarrow> 'a) \<Rightarrow> jsval \<Rightarrow> 'a list" where
  "read_list f v = (case v of JArr vs \<Rightarrow> map f vs | _ \<Rightarrow> [])"

definition read_image :: "jsval \<Rightarrow> ImageData" where
  "read_image v =
     \<lparr>img_base64 = read_str (get_prop v ''base64''), img_mimeType = read_str (get_prop v ''mimeType''),
      img_fileName = Option.bind (read_maybe read_str (get_prop v ''fileName'')) id\<rparr>"

definition read_message :: "jsval \<Rightarrow> ThreadMessageRequest" where
  "read_message v =
     \<lparr>tmr_content = read_str (get_prop v ''content''),
      tmr_images = (if get_prop v ''images'' = JUndefined then None else Some (read_list read_image (get_prop v ''images''))),
      tmr_model_id = read_maybe read_str (get_prop v ''model_id''),
      tmr_effort = read_maybe read_str (get_prop v ''effort'')\<rparr>"

definition read_schedule_create :: "jsval \<Rightarrow> ScheduleCreateRequest" where
  "read_schedule_create v =
     \<lparr>scr_prompt = read_str (get_prop v ''prompt''), scr_schedule = read_str (get_prop v ''schedule''),
      scr_name = read_maybe read_str (get_prop v ''name''), scr_repo = read_maybe read_str (get_prop v ''repo''),
      scr_model_id = read_maybe read_str (get_prop v ''model_id''), scr_effort = read_maybe read_str (get_prop v ''effort'')\<rparr>"

definition read_schedule_update :: "jsval \<Rightarrow> ScheduleUpdateRequest" where
  "read_schedule_update v =
     \<lparr>sur_prompt = read_maybe read_str (get_prop v ''prompt''), sur_schedule = read_maybe read_str (get_prop v ''schedule''),
      sur_name = read_maybe read_str (get_prop v ''name''), sur_repo = read_maybe read_str (get_prop v ''repo''),
      sur_model_id = read_maybe read_str (get_prop v ''model_id''), sur_effort = read_maybe read_str (get_prop v ''effort''),
      sur_enabled = read_maybe (\<lambda>b. b = JBool True) (get_prop v ''enabled'')\<rparr>"

definition read_decision :: "jsval \<Rightarrow> Decision" where
  "read_decision v = (if read_str (get_prop v ''type'') = ''approve'' then Approve else Reject)"

text \<open>The value the server parses from the body of a request.\<close>

definition received :: "string \<Rightarrow> string \<times> RequestInit \<Rightarrow> jsval option" where
  "received base r = Option.bind (req_body (http_request base (fst r) (snd r))) json_parse"

lemma received_body:
  assumes "json_ok v" "v \<noteq> JUndefined"
  shows "received base (path, with_body me v) = Some (json_clean v)"
  using assms by (simp add: received_def http_request_def with_body_def with_method_def no_init_def stringify_def json_parse_stringify)

lemma clean_props_keys: "set (map fst (json_clean_props kvs)) \<subseteq> set (map fst kvs)"
proof (induction kvs)
  case (Cons p kvs)
  then show ?case by (cases p) auto
qed simp

lemma json_obj_ok: "json_props_ok kvs \<Longrightarrow> distinct (map fst kvs) \<Longrightarrow> json_ok (JObj kvs)"
proof (induction kvs)
  case (Cons p kvs)
  then show ?case
    using clean_props_keys [of kvs] by (cases p) auto
qed simp

text \<open>A property of the parsed object: undefined stays undefined, and any other value is cleaned.\<close>

definition kept :: "jsval \<Rightarrow> jsval" where
  "kept v = (if v = JUndefined then JUndefined else json_clean v)"

lemma clean_prop:
  assumes "distinct (map fst kvs)"
  shows "get_prop (json_clean (JObj kvs)) k = kept (get_prop (JObj kvs) k)"
  using assms
proof (induction kvs)
  case (Cons p kvs)
  obtain k' v where p: "p = (k', v)" by (cases p)
  have "map_of (json_clean_props kvs) k' = None"
    using Cons.prems clean_props_keys [of kvs] by (auto simp: p map_of_eq_None_iff)
  then show ?case
    using Cons by (auto simp: p kept_def)
qed (simp add: kept_def)

lemma maybe_read:
  "json_ok (opt_json JStr x)" "json_ok (opt_json JBool z)"
  "read_maybe read_str (kept (opt_json JStr x)) = x"
  "read_maybe (\<lambda>b. b = JBool True) (kept (opt_json JBool z)) = z"
  by (auto simp: opt_json_def read_maybe_def read_str_def kept_def split: option.split)

lemma kept_simps [simp]:
  "kept (JStr s) = JStr s" "kept (JArr vs) = JArr (json_cleans vs)" "kept JUndefined = JUndefined" "read_str (JStr s) = s"
  by (simp_all add: kept_def read_str_def)

lemma json_lists:
  "jsons_ok (map f xs) = list_all (\<lambda>x. json_ok (f x)) xs" "json_cleans (map f xs) = map (\<lambda>x. json_clean (f x)) xs"
  by (induction xs) simp_all

text \<open>The objects the requests send: their keys differ, and reading a property of the parsed object.\<close>

lemma image_read: "json_ok (image_json i)" "read_image (json_clean (image_json i)) = i"
proof -
  show "json_ok (image_json i)"
    unfolding image_json_def by (rule json_obj_ok) (simp_all add: maybe_read)
  have opt: "Option.bind (map_option Some x) id = x" for x :: "string option" by (cases x) simp_all
  have p: "get_prop (json_clean (image_json i)) k = kept (get_prop (image_json i) k)" for k
    unfolding image_json_def by (rule clean_prop) simp
  show "read_image (json_clean (image_json i)) = i"
    unfolding read_image_def p by (simp add: image_json_def maybe_read opt)
qed

lemma message_read: "json_ok (message_json b)" "read_message (json_clean (message_json b)) = b"
proof -
  show "json_ok (message_json b)"
    unfolding message_json_def
    by (rule json_obj_ok) (simp_all add: maybe_read json_lists image_read list_all_iff split: option.split)
  have p: "get_prop (json_clean (message_json b)) k = kept (get_prop (message_json b) k)" for k
    unfolding message_json_def by (rule clean_prop) simp
  show "read_message (json_clean (message_json b)) = b"
    unfolding read_message_def p by (cases "tmr_images b"; simp add: message_json_def maybe_read json_lists read_list_def image_read comp_def)
qed

lemma schedule_create_read:
  "json_ok (schedule_create_json b)" "read_schedule_create (json_clean (schedule_create_json b)) = b"
proof -
  show "json_ok (schedule_create_json b)"
    unfolding schedule_create_json_def by (rule json_obj_ok) (simp_all add: maybe_read)
  have p: "get_prop (json_clean (schedule_create_json b)) k = kept (get_prop (schedule_create_json b) k)" for k
    unfolding schedule_create_json_def by (rule clean_prop) simp
  show "read_schedule_create (json_clean (schedule_create_json b)) = b"
    unfolding read_schedule_create_def p by (simp add: schedule_create_json_def maybe_read)
qed

lemma schedule_update_read:
  "json_ok (schedule_update_json b)" "read_schedule_update (json_clean (schedule_update_json b)) = b"
proof -
  show "json_ok (schedule_update_json b)"
    unfolding schedule_update_json_def by (rule json_obj_ok) (simp_all add: maybe_read)
  have p: "get_prop (json_clean (schedule_update_json b)) k = kept (get_prop (schedule_update_json b) k)" for k
    unfolding schedule_update_json_def by (rule clean_prop) simp
  show "read_schedule_update (json_clean (schedule_update_json b)) = b"
    unfolding read_schedule_update_def p by (simp add: schedule_update_json_def maybe_read)
qed

lemma decisions_read:
  "json_ok (decision_json d)" "read_decision (json_clean (decision_json d)) = d"
  by (cases d; simp add: decision_json_def read_decision_def)+

section \<open>Properties\<close>

text \<open>
  C18. A request can be read back: from the text of the body the client sends, the parser gives the
  message, the new automation, the change of an automation, the decisions, the instructions of a repository
  and the custom prompt exactly as they were given, whatever characters their strings have, with an
  absent field told apart from a null.
\<close>

theorem requests_read_back:
  "map_option read_message (received base (agentsApi (QueueMessage i m))) = Some m
   \<and> map_option read_schedule_create (received base (agentsApi (CreateSchedule sc))) = Some sc
   \<and> map_option read_schedule_update (received base (agentsApi (UpdateSchedule i su))) = Some su
   \<and> map_option (\<lambda>v. read_list read_decision (get_prop v ''decisions''))
       (received base (agentsApi (ResumeInterrupt i ds))) = Some ds
   \<and> received base (api (SaveAgentInstructions repo t)) = Some (JObj [(''instructions'', JStr t)])
   \<and> received base (api (SaveReviewStylePrompt repo t)) = Some (JObj [(''custom_prompt'', JStr t)])
   \<and> received base (api (SetEnabledReviewRepo repo b)) = Some (JObj [(''full_name'', JStr repo), (''enabled'', JBool b)])"
proof -
  have objects: "message_json m \<noteq> JUndefined" "schedule_create_json sc \<noteq> JUndefined" "schedule_update_json su \<noteq> JUndefined"
    by (simp_all add: message_json_def schedule_create_json_def schedule_update_json_def)
  show ?thesis
    by (simp add: received_body objects message_read schedule_create_read schedule_update_read decisions_read
        read_list_def json_lists list_all_iff comp_def)
qed

text \<open>
  Tool arguments given as the text of an object are read as that object, less its undefined
  properties: a call shows the same arguments however they arrive.
\<close>

theorem tool_args_as_text:
  assumes "json_ok (JObj kvs)"
  shows "parseToolArgs (JStr (stringify_val (JObj kvs))) = parseToolArgs (JObj (json_clean_props kvs))"
  using json_parse_stringify [OF assms] by (simp add: parseToolArgs_def)

theorem tool_args_as_text_witness:
  "parseToolArgs (JStr (stringify_val (JObj [(''command'', JStr ''ls''), (''timeout'', JUndefined)]))) =
     JObj [(''command'', JStr ''ls'')]"
  using tool_args_as_text [of "[(''command'', JStr ''ls''), (''timeout'', JUndefined)]"]
  by (simp add: parseToolArgs_def)

end
