(* ===== verification/Agents_Shell.thy ===== *)
theory Agents_Shell
  imports Routes Submit_Message Page_Shell
begin

text \<open>
  The layout of the agents pages: \<open>AgentsLayout\<close> of \<open>routes/agents.tsx\<close>, which reads the open thread off
  the path, \<open>AgentsShell\<close> and the frame of \<open>AgentsSidebar\<close> (\<open>components/agents/AgentsSidebar.tsx\<close>),
  the stream provider it mounts (\<open>lib/agents/AgentThreadStreamProvider.tsx\<close>) and the marker of a live thread
  (\<open>lib/agents/provider/useIsInAgentThreadStream.tsx\<close>). A run of the layout is a list of events; a link to
  a page outside it ends the run.
\<close>

section \<open>The stream provider\<close>

definition AGENT_ASSISTANT_ID :: string where
  "AGENT_ASSISTANT_ID = ''agent''"

text \<open>Every request of the stream carries the session cookie, whatever the library asked for.\<close>

definition dashboardFetch :: "(string, string) js_map \<Rightarrow> (string, string) js_map" where
  "dashboardFetch init = map_set ''credentials'' ''include'' init"

definition agentStreamApiUrl :: "string \<Rightarrow> string \<Rightarrow> string" where
  "agentStreamApiUrl origin base = toAbsoluteApiUrl origin (agentsLangGraphApiUrl base)"

text \<open>
  The properties given to the library's provider: no thread id is \<open>undefined\<close>, which lets the first
  message create the thread. The callbacks are fixed when the controller is created and read the
  thread id from a reference, the second component, which every render sets.
\<close>

record StreamProps =
  sp_apiUrl :: string
  sp_assistantId :: string
  sp_threadId :: "string option"

definition AgentThreadStreamProvider :: "string \<Rightarrow> string \<Rightarrow> string option \<Rightarrow> StreamProps \<times> string option" where
  "AgentThreadStreamProvider origin base threadId =
     (\<lparr>sp_apiUrl = agentStreamApiUrl origin base, sp_assistantId = AGENT_ASSISTANT_ID, sp_threadId = threadId\<rparr>, threadId)"

text \<open>The marker is set around the page of a thread only.\<close>

definition useIsInAgentThreadStream :: "agents_child \<Rightarrow> bool" where
  "useIsInAgentThreadStream child = (case child of AgentThreadRoute _ \<Rightarrow> True | _ \<Rightarrow> False)"

section \<open>The sidebar\<close>

record ChatScope =
  cs_selected :: bool
  cs_count :: nat
  cs_label :: string
  cs_to :: string

definition ChatScopeSection :: "bool \<Rightarrow> nat \<Rightarrow> ChatScope" where
  "ChatScopeSection isSelected threadCount =
     \<lparr>cs_selected = isSelected, cs_count = threadCount, cs_label = ''Chats corrientes'', cs_to = ''/agents''\<rparr>"

text \<open>A group with its rows; \<open>shut\<close> says which groups are collapsed, and \<open>busy\<close> which threads are being deleted.\<close>

definition ThreadGroup_view ::
  "string option \<Rightarrow> (string \<Rightarrow> bool) \<Rightarrow> bool \<Rightarrow> string \<Rightarrow> AgentThread list \<Rightarrow> (string \<times> nat \<times> (string \<times> ThreadRowView) list) option" where
  "ThreadGroup_view active busy collapsed label threads =
     map_option (\<lambda>g. (gv_label g, gv_count g,
         map (\<lambda>t. (th_id t, ThreadRow (Some (th_id t) = active) (busy (th_id t)) t)) (gv_rows g)))
       (thread_group_view label collapsed threads)"

record AgentsSidebarView =
  agv_brand :: string
  agv_newAgent :: "string \<times> string"
  agv_nav :: "(string \<times> string) list"
  agv_chats :: ChatScope
  agv_workspaces :: WorkspaceSectionView
  agv_heading :: string
  agv_groups :: "(string \<times> nat \<times> (string \<times> ThreadRowView) list) list"
  agv_width :: rat

text \<open>\<open>None\<close> is the collapsed sidebar, a button to expand it. The user menu at the foot is \<open>SidebarUserMenu\<close>.\<close>

definition AgentsSidebar ::
  "SidebarView \<Rightarrow> string option \<Rightarrow> (string \<Rightarrow> bool) \<Rightarrow> (string \<Rightarrow> bool) \<Rightarrow> sidebar_state \<Rightarrow> AgentsSidebarView option" where
  "AgentsSidebar v active busy toggled s =
     (case SidebarFrame (side_layout s) of
        ExpandButton \<Rightarrow> None
      | Aside width \<Rightarrow> Some
          \<lparr>agv_brand = ''/my-settings'', agv_newAgent = (''/agents'', ''Nuevo agente''), agv_nav = agents_nav,
           agv_chats = ChatScopeSection (sv_chatsSelected v) (sv_chatCount v),
           agv_workspaces = sv_workspaces v, agv_heading = sv_heading v,
           agv_groups = concat (map (\<lambda>(label, threads, defaultCollapsed).
               case ThreadGroup_view active busy (defaultCollapsed \<noteq> toggled label) label threads of
                 None \<Rightarrow> [] | Some g \<Rightarrow> [g]) (sv_groups v)),
           agv_width = width\<rparr>)"

text \<open>The shell puts the sidebar beside the page.\<close>

definition AgentsShell ::
  "SidebarView \<Rightarrow> string option \<Rightarrow> (string \<Rightarrow> bool) \<Rightarrow> (string \<Rightarrow> bool) \<Rightarrow> sidebar_state \<Rightarrow> 'page \<Rightarrow> AgentsSidebarView option \<times> 'page" where
  "AgentsShell v active busy toggled s children = (AgentsSidebar v active busy toggled s, children)"

section \<open>The layout\<close>

record agents_shell =
  sh_path :: string
  sh_side :: sidebar_state
  sh_ref :: "string option"

text \<open>A new location: the layout is rendered with it, and the provider sets its reference.\<close>

definition show_path :: "string \<Rightarrow> agents_shell \<Rightarrow> agents_shell" where
  "show_path path s = s\<lparr>sh_path := path, sh_ref := snd (AgentThreadStreamProvider [] [] (activeThreadId path))\<rparr>"

definition mount_shell :: "bool \<Rightarrow> string option \<Rightarrow> stored_value option \<Rightarrow> string option \<Rightarrow> string \<Rightarrow> agents_shell" where
  "mount_shell mobile stored w c path =
     show_path path \<lparr>sh_path = path, sh_side = init_sidebar mobile stored w c, sh_ref = None\<rparr>"

text \<open>
  The events: a location reached otherwise, the links of the sidebar (each with the answer of the media
  query when it is followed), the buttons and the handle of the frame, a change of the storage in another
  tab, and the callbacks of the stream. \<open>encode\<close> is how the router writes a parameter into a path.
\<close>

datatype shell_event =
    Located string
  | NewAgentLink bool
  | AutomationsLink bool
  | ChatsLink bool
  | WorkspaceLink bool string
  | ThreadLink bool string
  | FrameAction layout_event
  | TabStorage "string option"
  | StreamCreated
  | StreamCompleted

definition close_mobile :: "bool \<Rightarrow> agents_shell \<Rightarrow> agents_shell" where
  "close_mobile mobile s = s\<lparr>sh_side := (sh_side s)\<lparr>side_layout := layout_step (CloseOnMobile mobile) (side_layout (sh_side s))\<rparr>\<rparr>"

fun shell_step :: "(string \<Rightarrow> string) \<Rightarrow> shell_event \<Rightarrow> agents_shell \<Rightarrow> agents_shell \<times> action list" where
  "shell_step encode (Located path) s = (show_path path s, [])"
| "shell_step encode (NewAgentLink mobile) s =
     (show_path ''/agents'' (s\<lparr>sh_side := clearWorkspaceSelection mobile (sh_side s)\<rparr>), [])"
| "shell_step encode (AutomationsLink mobile) s = (show_path ''/agents/automations'' (close_mobile mobile s), [])"
| "shell_step encode (ChatsLink mobile) s =
     (show_path ''/agents'' (s\<lparr>sh_side := clearWorkspaceSelection mobile (sh_side s)\<rparr>), [])"
| "shell_step encode (WorkspaceLink mobile i) s =
     (show_path ''/agents'' (s\<lparr>sh_side := selectWorkspace mobile i (sh_side s)\<rparr>), [])"
| "shell_step encode (ThreadLink mobile i) s = (show_path (''/agents/'' @ encode i) (close_mobile mobile s), [])"
| "shell_step encode (FrameAction e) s =
     (s\<lparr>sh_side := (sh_side s)\<lparr>side_layout := layout_step e (side_layout (sh_side s))\<rparr>\<rparr>, [])"
| "shell_step encode (TabStorage stored) s = (s\<lparr>sh_side := storage_event stored (sh_side s)\<rparr>, [])"
| "shell_step encode StreamCreated s = (s, onCreated)"
| "shell_step encode StreamCompleted s = (s, fst (onCompleted (sh_ref s)))"

section \<open>Facts\<close>

text \<open>The threads whose rows are marked as the open one.\<close>

definition marked_threads :: "AgentsSidebarView \<Rightarrow> string list" where
  "marked_threads v = map fst (filter (\<lambda>(_, r). tr_active r) (concat (map (\<lambda>(_, _, rows). rows) (agv_groups v))))"

definition shell_ok :: "agents_shell \<Rightarrow> bool" where
  "shell_ok s =
     (sh_ref s = activeThreadId (sh_path s) \<and> sel_workspace (sh_side s) = sel_storage (sh_side s)
      \<and> layout_ok (side_layout (sh_side s)))"

lemma show_path_fields [simp]:
  "sh_path (show_path p s) = p" "sh_ref (show_path p s) = activeThreadId p" "sh_side (show_path p s) = sh_side s"
  by (simp_all add: show_path_def AgentThreadStreamProvider_def)

lemma layout_ok_close: "layout_ok s \<Longrightarrow> layout_ok (closeOnMobile m s)"
  by (simp add: closeOnMobile_def layout_ok_def)

lemma shell_ok_init: "shell_ok (mount_shell mobile stored w c path)"
  by (simp add: shell_ok_def mount_shell_def init_sidebar_def layout_ok_init)

lemma shell_ok_step: "shell_ok s \<Longrightarrow> shell_ok (fst (shell_step encode e s))"
  by (cases e) (simp_all add: shell_ok_def clearWorkspaceSelection_def selectWorkspace_def storage_event_def
      sync_selected_def close_mobile_def Let_def layout_ok_close layout_ok_step del: layout_step.simps)

lemma shell_ok_run: "shell_ok (fst (run_events (shell_step encode) es (mount_shell mobile stored w c path)))"
  by (rule run_events_invariant [where I = shell_ok]) (metis shell_ok_step fst_conv, rule shell_ok_init)

lemma ThreadGroup_rows:
  "ThreadGroup_view active busy shut label ts = Some (l, n, rows) \<Longrightarrow> (i, r) \<in> set rows \<Longrightarrow> tr_active r = (Some i = active)"
  by (auto simp: ThreadGroup_view_def thread_group_view_def ThreadRow_def split: if_splits)

lemma marked_is_open:
  assumes side: "AgentsSidebar v active busy toggled s = Some a" and marked: "i \<in> set (marked_threads a)"
  shows "active = Some i"
proof -
  obtain l n rows r where group: "(l, n, rows) \<in> set (agv_groups a)" and row: "(i, r) \<in> set rows" "tr_active r"
    using marked by (auto simp: marked_threads_def)
  obtain label ts shut where "Some (l, n, rows) = ThreadGroup_view active busy shut label ts"
    using side group by (auto simp: AgentsSidebar_def split: FrameView.splits option.splits)
  then show ?thesis
    using ThreadGroup_rows [OF _ row(1)] row(2) by metis
qed

text \<open>The path of a thread, with the parameter written so that it has no slash, has that thread open.\<close>

lemma thread_path_open:
  assumes "CHR ''/'' \<notin> set (encode i)" "encode i \<notin> {[], ''automations''}"
  shows "activeThreadId (''/agents/'' @ encode i) = Some (encode i)"
  using assms active_thread_of_path(1) [of "encode i"] by simp

lemma new_agent_state:
  "sh_path (fst (shell_step encode (NewAgentLink m) s)) = ''/agents''"
  "sh_ref (fst (shell_step encode (NewAgentLink m) s)) = None"
  "sel_storage (sh_side (fst (shell_step encode (NewAgentLink m) s))) = None"
  "sel_workspace (sh_side (fst (shell_step encode (NewAgentLink m) s))) = None"
  "lay_storedCollapsed (side_layout (sh_side (fst (shell_step encode (NewAgentLink m) s)))) =
     lay_storedCollapsed (side_layout (sh_side s))"
  using active_thread_of_path(2)
  by (simp_all add: clearWorkspaceSelection_def sync_selected_def closeOnMobile_def Let_def)

lemma completed_refreshes:
  "shell_ok s \<Longrightarrow> snd (shell_step encode StreamCompleted s) =
     (if truthy_str (activeThreadId (sh_path s))
      then [Cache (InvalidateQueries (detail_key (the (activeThreadId (sh_path s)))) False)] else [])
     @ [Cache (InvalidateQueries threads_key True)]"
  by (simp add: shell_ok_def onCompleted_def)

section \<open>Properties\<close>

text \<open>
  C19. The layout follows the location: after every run of links, frame actions, changes of the storage
  and stream callbacks, the reference the callbacks read is the thread of the path on screen, the scope
  shown is the stored one, and the stored width is the one a reload shows. So a completed run refreshes the
  thread on screen, if there is one, and the list; and the link for a new agent leaves no thread open, no
  workspace chosen and no row marked.
\<close>

theorem layout_follows_location:
  "let s = fst (run_events (shell_step encode) es (mount_shell mobile stored w c path));
       new = fst (shell_step encode (NewAgentLink m) s);
       marked = (\<lambda>t. case AgentsSidebar v (activeThreadId (sh_path t)) busy toggled (sh_side t) of
                        None \<Rightarrow> [] | Some a \<Rightarrow> marked_threads a)
   in shell_ok s
      \<and> snd (shell_step encode StreamCompleted s) =
          (if truthy_str (activeThreadId (sh_path s))
           then [Cache (InvalidateQueries (detail_key (the (activeThreadId (sh_path s)))) False)] else [])
          @ [Cache (InvalidateQueries threads_key True)]
      \<and> set (marked s) \<subseteq> set_option (activeThreadId (sh_path s))
      \<and> shell_ok new \<and> sh_path new = ''/agents'' \<and> sh_ref new = None
      \<and> sel_storage (sh_side new) = None \<and> sel_workspace (sh_side new) = None \<and> marked new = []
      \<and> lay_storedCollapsed (side_layout (sh_side new)) = lay_storedCollapsed (side_layout (sh_side s))"
proof -
  define s where "s = fst (run_events (shell_step encode) es (mount_shell mobile stored w c path))"
  define new where "new = fst (shell_step encode (NewAgentLink m) s)"
  have ok: "shell_ok s" unfolding s_def by (rule shell_ok_run)
  have new: "shell_ok new" "sh_path new = ''/agents''" "sh_ref new = None" "sel_storage (sh_side new) = None"
    "sel_workspace (sh_side new) = None"
    "lay_storedCollapsed (side_layout (sh_side new)) = lay_storedCollapsed (side_layout (sh_side s))"
    unfolding new_def by (rule shell_ok_step [OF ok]) (rule new_agent_state)+
  define marked where "marked = (\<lambda>t :: agents_shell. case AgentsSidebar v (activeThreadId (sh_path t)) busy toggled (sh_side t) of
      None \<Rightarrow> [] | Some a \<Rightarrow> marked_threads a)"
  have open_only: "set (marked t) \<subseteq> set_option (activeThreadId (sh_path t))" for t
    unfolding marked_def using marked_is_open [of v "activeThreadId (sh_path t)" busy toggled "sh_side t"]
    by (cases "AgentsSidebar v (activeThreadId (sh_path t)) busy toggled (sh_side t)") auto
  have "marked new = []"
    using open_only [of new] by (simp only: new(2) active_thread_of_path(2) option.set subset_empty set_empty)
  then show ?thesis
    unfolding Let_def s_def [symmetric] new_def [symmetric] marked_def [symmetric]
    by (intro conjI ok new open_only completed_refreshes)
qed

text \<open>
  Following a thread's link opens it: with a parameter written without a slash that is not one of the
  names the layout keeps for itself, the stream is given that thread, and on a small screen the sidebar is
  closed without changing the stored choice.
\<close>

theorem thread_link_opens:
  assumes "CHR ''/'' \<notin> set (encode i)" "encode i \<notin> {[], ''automations''}"
  shows "let s' = fst (shell_step encode (ThreadLink mobile i) s) in
    sh_ref s' = Some (encode i) \<and> sp_threadId (fst (AgentThreadStreamProvider origin base (activeThreadId (sh_path s')))) = Some (encode i)
    \<and> (if mobile then SidebarFrame (side_layout (sh_side s')) = ExpandButton
       else side_layout (sh_side s') = side_layout (sh_side s))
    \<and> lay_storedCollapsed (side_layout (sh_side s')) = lay_storedCollapsed (side_layout (sh_side s))"
  using thread_path_open [of encode i, OF assms]
  by (simp add: AgentThreadStreamProvider_def close_mobile_def closeOnMobile_def SidebarFrame_def Let_def)

theorem thread_link_opens_witness:
  "sh_ref (fst (shell_step (\<lambda>i. i) (ThreadLink True ''t1'') (mount_shell True None None None ''/agents''))) = Some ''t1''"
  using thread_link_opens [of "\<lambda>i. i" "''t1''" True "mount_shell True None None None ''/agents''" "[]" "[]"]
  unfolding Let_def by (simp del: shell_step.simps)

end
