(* ===== verification/UI_Primitives.thy ===== *)
theory UI_Primitives
  imports Prelude
begin

text \<open>
  The user-interface primitives, \<open>components/ui\<close>: each wraps an element or a component of the library
  Base UI, gives it a slot and defaults, passes the caller's properties through and adds its own
  children. A component is a function from its properties and children to an element; a property given
  as \<open>undefined\<close> takes the default, and the properties spread after the fixed ones replace them, as in
  JSX. The class texts are styles and are left out: \<open>Classes\<close> keeps whose they are, the variants
  chosen and the caller's own class. What the library's components do with an element is theirs. The
  small marks of the application (the brand, the prefix of a bubble, the compaction indicator) are at the end.
\<close>

section \<open>Elements\<close>

datatype ui_value =
    Undef
  | Str string
  | Num int
  | Bool bool
  | Handler string
  | Classes string "(string \<times> ui_value) list" ui_value
  | RenderOf ui_node
and ui_node =
    Element string "(string \<times> ui_value) list" "ui_node list"
  | TextNode string

type_synonym ui_props = "(string \<times> ui_value) list"
type_synonym component = "ui_props \<Rightarrow> ui_node list \<Rightarrow> ui_node"

text \<open>Destructuring a property with its default, the rest of the properties, and a spread after fixed ones.\<close>

definition prop_or :: "ui_value \<Rightarrow> string \<Rightarrow> ui_props \<Rightarrow> ui_value" where
  "prop_or d k p = (case map_of p k of None \<Rightarrow> d | Some v \<Rightarrow> if v = Undef then d else v)"

abbreviation given :: "string \<Rightarrow> ui_props \<Rightarrow> ui_value" where
  "given \<equiv> prop_or Undef"

definition omit :: "string list \<Rightarrow> ui_props \<Rightarrow> ui_props" where
  "omit ks p = filter (\<lambda>(k, _). k \<notin> set ks) p"

definition spread_props :: "ui_props \<Rightarrow> ui_props \<Rightarrow> ui_props" where
  "spread_props base extra = extra @ filter (\<lambda>(k, _). k \<notin> set (map fst extra)) base"

fun ui_truthy :: "ui_value \<Rightarrow> bool" where
  "ui_truthy Undef = False"
| "ui_truthy (Str s) = (s \<noteq> [])"
| "ui_truthy (Num n) = (n \<noteq> 0)"
| "ui_truthy (Bool b) = b"
| "ui_truthy _ = True"

text \<open>The wrapper most primitives are: a slot, the classes with the caller's, and everything else as given.\<close>

definition wrapper :: "string \<Rightarrow> string \<Rightarrow> component" where
  "wrapper tag slot p kids =
     Element tag
       (spread_props [(''data-slot'', Str slot), (''className'', Classes slot [] (given ''className'' p))]
         (omit [''className''] p)) kids"

definition icon :: "string \<Rightarrow> ui_node" where
  "icon name = Element name [] []"

section \<open>Button, badge, switch, separator, input\<close>

text \<open>The variants, and the pair that is used where none is given.\<close>

definition button_variants :: "string list \<times> string list" where
  "button_variants =
     ([''default'', ''outline'', ''secondary'', ''ghost'', ''destructive'', ''link''],
      [''default'', ''xs'', ''sm'', ''lg'', ''icon'', ''icon-xs'', ''icon-sm'', ''icon-lg''])"

definition buttonVariants :: "ui_value \<Rightarrow> ui_value \<Rightarrow> ui_value \<Rightarrow> ui_value" where
  "buttonVariants variant sz className =
     Classes ''buttonVariants''
       [(''variant'', if variant = Undef then Str ''default'' else variant),
        (''size'', if sz = Undef then Str ''default'' else sz)] className"

definition Button :: component where
  "Button p kids =
     Element ''ButtonPrimitive''
       (spread_props
         [(''data-slot'', Str ''button''),
          (''className'', buttonVariants (prop_or (Str ''default'') ''variant'' p)
                            (prop_or (Str ''default'') ''size'' p) (given ''className'' p))]
         (omit [''className'', ''variant'', ''size''] p)) kids"

definition IconButton :: component where
  "IconButton p kids =
     Element ''Button''
       (spread_props
         [(''variant'', prop_or (Str ''default'') ''variant'' p), (''size'', prop_or (Str ''icon'') ''size'' p),
          (''className'', given ''className'' p)]
         (omit [''className'', ''variant'', ''size''] p)) kids"

definition badge_variants :: "string list" where
  "badge_variants = [''default'', ''secondary'', ''destructive'', ''outline'', ''ghost'', ''link'']"

text \<open>A badge is made by the library's \<open>useRender\<close>, from a tag, properties, an element to render and a state.\<close>

definition Badge :: component where
  "Badge p kids =
     (let variant = prop_or (Str ''default'') ''variant'' p in
      Element ''useRender''
        [(''defaultTagName'', Str ''span''),
         (''props'', RenderOf (Element ''span''
            (spread_props [(''className'', Classes ''badgeVariants'' [(''variant'', variant)] (given ''className'' p))]
              (omit [''className'', ''variant'', ''render''] p)) kids)),
         (''render'', given ''render'' p), (''slot'', Str ''badge''), (''variant'', variant)] [])"

definition Switch :: component where
  "Switch p kids =
     wrapper ''Switch.Root'' ''switch'' p
       [Element ''Switch.Thumb'' [(''data-slot'', Str ''switch-thumb''), (''className'', Classes ''switch-thumb'' [] Undef)] []]"

definition Separator :: component where
  "Separator p kids =
     Element ''SeparatorPrimitive''
       (spread_props
         [(''data-slot'', Str ''separator''), (''orientation'', prop_or (Str ''horizontal'') ''orientation'' p),
          (''className'', Classes ''separator'' [] (given ''className'' p))]
         (omit [''className'', ''orientation''] p)) kids"

definition Input :: component where
  "Input p kids =
     Element ''InputPrimitive''
       (spread_props
         [(''type'', given ''type'' p), (''data-slot'', Str ''input''), (''className'', Classes ''input'' [] (given ''className'' p))]
         (omit [''className'', ''type''] p)) kids"

definition Textarea :: component where
  "Textarea = wrapper ''textarea'' ''textarea''"

definition Label_el :: component where
  "Label_el = wrapper ''label'' ''label''"

definition Skeleton_el :: component where
  "Skeleton_el = wrapper ''div'' ''skeleton''"

section \<open>Avatar and card\<close>

definition Avatar :: component where
  "Avatar p kids =
     Element ''Avatar.Root''
       (spread_props
         [(''data-slot'', Str ''avatar''), (''data-size'', prop_or (Str ''default'') ''size'' p),
          (''className'', Classes ''avatar'' [] (given ''className'' p))]
         (omit [''className'', ''size''] p)) kids"

definition AvatarImage :: component where
  "AvatarImage = wrapper ''Avatar.Image'' ''avatar-image''"

definition AvatarFallback :: component where
  "AvatarFallback = wrapper ''Avatar.Fallback'' ''avatar-fallback''"

definition AvatarBadge :: component where
  "AvatarBadge = wrapper ''span'' ''avatar-badge''"

definition AvatarGroup :: component where
  "AvatarGroup = wrapper ''div'' ''avatar-group''"

definition AvatarGroupCount :: component where
  "AvatarGroupCount = wrapper ''div'' ''avatar-group-count''"

definition Card :: component where
  "Card p kids =
     Element ''div''
       (spread_props
         [(''data-slot'', Str ''card''), (''data-size'', prop_or (Str ''default'') ''size'' p),
          (''className'', Classes ''card'' [] (given ''className'' p))]
         (omit [''className'', ''size''] p)) kids"

definition CardHeader :: component where
  "CardHeader = wrapper ''div'' ''card-header''"

definition CardTitle :: component where
  "CardTitle = wrapper ''div'' ''card-title''"

definition CardDescription :: component where
  "CardDescription = wrapper ''div'' ''card-description''"

definition CardAction :: component where
  "CardAction = wrapper ''div'' ''card-action''"

definition CardContent :: component where
  "CardContent = wrapper ''div'' ''card-content''"

definition CardFooter :: component where
  "CardFooter = wrapper ''div'' ''card-footer''"

section \<open>Input groups\<close>

definition InputGroup :: component where
  "InputGroup p kids =
     Element ''div''
       (spread_props
         [(''data-slot'', Str ''input-group''), (''role'', Str ''group''),
          (''className'', Classes ''input-group'' [] (given ''className'' p))]
         (omit [''className''] p)) kids"

definition addon_aligns :: "string list" where
  "addon_aligns = [''inline-start'', ''inline-end'', ''block-start'', ''block-end'']"

definition InputGroupAddon :: component where
  "InputGroupAddon p kids =
     (let align = prop_or (Str ''inline-start'') ''align'' p in
      Element ''div''
        (spread_props
          [(''role'', Str ''group''), (''data-slot'', Str ''input-group-addon''), (''data-align'', align),
           (''className'', Classes ''inputGroupAddonVariants'' [(''align'', align)] (given ''className'' p)),
           (''onClick'', Handler ''addon_click'')]
          (omit [''className'', ''align''] p)) kids)"

text \<open>
  A click on an addon: nothing where it is in a button, else the focus goes to the first input of the
  parent, if it has one.
\<close>

definition addon_click :: "bool \<Rightarrow> 'a option \<Rightarrow> 'a option" where
  "addon_click inButton input = (if inButton then None else input)"

definition group_button_sizes :: "string list" where
  "group_button_sizes = [''xs'', ''sm'', ''icon-xs'', ''icon-sm'']"

definition InputGroupButton :: component where
  "InputGroupButton p kids =
     (let sz = prop_or (Str ''xs'') ''size'' p in
      Element ''Button''
        (spread_props
          [(''type'', prop_or (Str ''button'') ''type'' p), (''data-size'', sz),
           (''variant'', prop_or (Str ''ghost'') ''variant'' p),
           (''className'', Classes ''inputGroupButtonVariants'' [(''size'', sz)] (given ''className'' p))]
          (omit [''className'', ''type'', ''variant'', ''size''] p)) kids)"

definition InputGroupText :: component where
  "InputGroupText p kids =
     Element ''span''
       (spread_props [(''className'', Classes ''input-group-text'' [] (given ''className'' p))] (omit [''className''] p)) kids"

definition InputGroupInput :: component where
  "InputGroupInput = wrapper ''Input'' ''input-group-control''"

definition InputGroupTextarea :: component where
  "InputGroupTextarea = wrapper ''Textarea'' ''input-group-control''"

section \<open>Combobox\<close>

definition ComboboxValue :: component where
  "ComboboxValue p kids = Element ''Combobox.Value'' (spread_props [(''data-slot'', Str ''combobox-value'')] p) kids"

definition ComboboxTrigger :: component where
  "ComboboxTrigger p kids = wrapper ''Combobox.Trigger'' ''combobox-trigger'' p (kids @ [icon ''CaretDownIcon''])"

definition ComboboxClear :: component where
  "ComboboxClear p kids =
     Element ''Combobox.Clear''
       (spread_props
         [(''data-slot'', Str ''combobox-clear''),
          (''render'', RenderOf (Element ''InputGroupButton'' [(''variant'', Str ''ghost''), (''size'', Str ''icon-xs'')] [])),
          (''className'', Classes [] [] (given ''className'' p))]
         (omit [''className''] p)) [icon ''XIcon'']"

definition ComboboxInput :: component where
  "ComboboxInput p kids =
     (let disabled = prop_or (Bool False) ''disabled'' p;
          showTrigger = prop_or (Bool True) ''showTrigger'' p;
          showClear = prop_or (Bool False) ''showClear'' p
      in Element ''InputGroup'' [(''className'', Classes ''combobox-input'' [] (given ''className'' p))]
           ([Element ''Combobox.Input''
               (spread_props [(''render'', RenderOf (Element ''InputGroupInput'' [(''disabled'', disabled)] []))]
                 (omit [''className'', ''disabled'', ''showTrigger'', ''showClear''] p)) [],
             Element ''InputGroupAddon'' [(''align'', Str ''inline-end'')]
               ((if ui_truthy showTrigger
                 then [Element ''InputGroupButton''
                         [(''size'', Str ''icon-xs''), (''variant'', Str ''ghost''),
                          (''render'', RenderOf (Element ''ComboboxTrigger'' [] [])),
                          (''data-slot'', Str ''input-group-button''), (''className'', Classes ''combobox-input-trigger'' [] Undef),
                          (''disabled'', disabled)] []]
                 else [])
                @ (if ui_truthy showClear then [Element ''ComboboxClear'' [(''disabled'', disabled)] []] else []))]
            @ kids))"

definition ComboboxContent :: component where
  "ComboboxContent p kids =
     (let anchor = given ''anchor'' p in
      Element ''Combobox.Portal'' []
        [Element ''Combobox.Positioner''
           [(''side'', prop_or (Str ''bottom'') ''side'' p), (''sideOffset'', prop_or (Num 6) ''sideOffset'' p),
            (''align'', prop_or (Str ''start'') ''align'' p), (''alignOffset'', prop_or (Num 0) ''alignOffset'' p),
            (''anchor'', anchor), (''className'', Classes ''positioner'' [] Undef)]
           [Element ''Combobox.Popup''
              (spread_props
                [(''data-slot'', Str ''combobox-content''), (''data-chips'', Bool (ui_truthy anchor)),
                 (''className'', Classes ''combobox-content'' [] (given ''className'' p))]
                (omit [''className'', ''side'', ''sideOffset'', ''align'', ''alignOffset'', ''anchor''] p)) kids]])"

definition ComboboxItem :: component where
  "ComboboxItem p kids =
     wrapper ''Combobox.Item'' ''combobox-item'' p
       (kids @ [Element ''Combobox.ItemIndicator''
                  [(''render'', RenderOf (Element ''span'' [(''className'', Classes ''item-indicator'' [] Undef)] []))]
                  [icon ''CheckIcon'']])"

definition ComboboxCollection :: component where
  "ComboboxCollection p kids = Element ''Combobox.Collection'' (spread_props [(''data-slot'', Str ''combobox-collection'')] p) kids"

definition ComboboxChip :: component where
  "ComboboxChip p kids =
     wrapper ''Combobox.Chip'' ''combobox-chip'' (omit [''showRemove''] p)
       (kids
        @ (if ui_truthy (prop_or (Bool True) ''showRemove'' p)
           then [Element ''Combobox.ChipRemove''
                   [(''render'', RenderOf (Element ''Button'' [(''variant'', Str ''ghost''), (''size'', Str ''icon-xs'')] [])),
                    (''className'', Classes ''combobox-chip-remove'' [] Undef),
                    (''data-slot'', Str ''combobox-chip-remove'')] [icon ''XIcon'']]
           else []))"

definition ComboboxList :: component where
  "ComboboxList = wrapper ''Combobox.List'' ''combobox-list''"

definition ComboboxGroup :: component where
  "ComboboxGroup = wrapper ''Combobox.Group'' ''combobox-group''"

definition ComboboxLabel :: component where
  "ComboboxLabel = wrapper ''Combobox.GroupLabel'' ''combobox-label''"

definition ComboboxEmpty :: component where
  "ComboboxEmpty = wrapper ''Combobox.Empty'' ''combobox-empty''"

definition ComboboxSeparator :: component where
  "ComboboxSeparator = wrapper ''Combobox.Separator'' ''combobox-separator''"

definition ComboboxChips :: component where
  "ComboboxChips = wrapper ''Combobox.Chips'' ''combobox-chips''"

definition ComboboxChipsInput :: component where
  "ComboboxChipsInput = wrapper ''Combobox.Input'' ''combobox-chip-input''"

section \<open>Select\<close>

definition SelectTrigger :: component where
  "SelectTrigger p kids =
     Element ''Select.Trigger''
       (spread_props
         [(''data-slot'', Str ''select-trigger''), (''data-size'', prop_or (Str ''default'') ''size'' p),
          (''className'', Classes ''select-trigger'' [] (given ''className'' p))]
         (omit [''className'', ''size''] p))
       (kids @ [Element ''Select.Icon'' [(''render'', RenderOf (icon ''CaretDownIcon''))] []])"

definition SelectScrollUpButton :: component where
  "SelectScrollUpButton p kids = wrapper ''Select.ScrollUpArrow'' ''select-scroll-up-button'' p [icon ''CaretUpIcon'']"

definition SelectScrollDownButton :: component where
  "SelectScrollDownButton p kids = wrapper ''Select.ScrollDownArrow'' ''select-scroll-down-button'' p [icon ''CaretDownIcon'']"

definition SelectContent :: component where
  "SelectContent p kids =
     (let alignItemWithTrigger = prop_or (Bool True) ''alignItemWithTrigger'' p in
      Element ''Select.Portal'' []
        [Element ''Select.Positioner''
           [(''side'', prop_or (Str ''bottom'') ''side'' p), (''sideOffset'', prop_or (Num 4) ''sideOffset'' p),
            (''align'', prop_or (Str ''center'') ''align'' p), (''alignOffset'', prop_or (Num 0) ''alignOffset'' p),
            (''alignItemWithTrigger'', alignItemWithTrigger), (''className'', Classes ''positioner'' [] Undef)]
           [Element ''Select.Popup''
              (spread_props
                [(''data-slot'', Str ''select-content''), (''data-align-trigger'', alignItemWithTrigger),
                 (''className'', Classes ''select-content'' [] (given ''className'' p))]
                (omit [''className'', ''side'', ''sideOffset'', ''align'', ''alignOffset'', ''alignItemWithTrigger''] p))
              [Element ''SelectScrollUpButton'' [] [], Element ''Select.List'' [] kids, Element ''SelectScrollDownButton'' [] []]]])"

definition SelectItem :: component where
  "SelectItem p kids =
     wrapper ''Select.Item'' ''select-item'' p
       [Element ''Select.ItemText'' [(''className'', Classes ''select-item-text'' [] Undef)] kids,
        Element ''Select.ItemIndicator''
          [(''render'', RenderOf (Element ''span'' [(''className'', Classes ''item-indicator'' [] Undef)] []))]
          [icon ''CheckIcon'']]"

definition SelectGroup :: component where
  "SelectGroup = wrapper ''Select.Group'' ''select-group''"

definition SelectValue :: component where
  "SelectValue = wrapper ''Select.Value'' ''select-value''"

definition SelectLabel :: component where
  "SelectLabel = wrapper ''Select.GroupLabel'' ''select-label''"

definition SelectSeparator :: component where
  "SelectSeparator = wrapper ''Select.Separator'' ''select-separator''"

section \<open>The small marks\<close>

definition OnOffMark :: component where
  "OnOffMark p kids =
     Element ''span'' [(''aria-hidden'', Bool True), (''className'', Classes ''onoff-mark'' [] (given ''className'' p))]
       [Element ''span'' [(''className'', Classes ''onoff-lines'' [] Undef)]
          [Element ''span'' [(''className'', Classes ''onoff-line'' [] Undef)] [TextNode ''ON''],
           Element ''span'' [(''className'', Classes ''onoff-line'' [] Undef)] [TextNode ''OFF'']]]"

definition OnOffBrand :: component where
  "OnOffBrand p kids =
     Element ''span'' [(''className'', Classes ''onoff-brand'' [] (given ''className'' p))]
       ([Element ''OnOffMark'' [] [],
         Element ''span'' [(''className'', Classes ''onoff-name'' [] Undef)] [TextNode ''ON Mobile Agent'']]
        @ (if ui_truthy (prop_or (Bool False) ''showMobileCue'' p)
           then [Element ''SiAndroid'' [(''className'', Classes ''android-cue'' [] Undef), (''aria-label'', Str ''Android'')] []]
           else []))"

definition Logo :: component where
  "Logo p kids =
     Element ''div'' [(''className'', Classes ''logo'' [] Undef)]
       [Element ''OnOffMark'' [(''className'', Classes ''logo-mark'' [] Undef)] [],
        Element ''div'' [(''className'', Classes ''logo-texts'' [] Undef)]
          [Element ''div'' [(''className'', Classes ''logo-name'' [] Undef)]
             [TextNode ''ON '', Element ''span'' [(''className'', Classes ''logo-accent'' [] Undef)] [TextNode ''Mobile Agent''],
              Element ''SiAndroid'' [(''className'', Classes ''android-cue'' [] Undef), (''aria-label'', Str ''Android'')] []],
           Element ''div'' [(''className'', Classes ''logo-tagline'' [] Undef)] [TextNode ''Enterprise mobile SDLC'']]]"

text \<open>The compaction indicator: a timer of 400 ms turns one dot into two, two into three and three into one.\<close>

definition next_dots :: "nat \<Rightarrow> nat" where
  "next_dots d = d mod 3 + 1"

definition CompactingIndicator :: "nat \<Rightarrow> ui_node list" where
  "CompactingIndicator dots =
     [Element ''LoaderCircle'' [(''size'', Num 12), (''className'', Classes ''spin'' [] Undef)] [],
      Element ''span'' [] [TextNode (''Compacting conversation'' @ replicate dots (CHR ''.''))]]"

section \<open>Slots and properties\<close>

text \<open>The components with a slot, and the slot of each.\<close>

definition slot_table :: "(component \<times> string) list" where
  "slot_table =
     [(Button, ''button''),
      (Switch, ''switch''),
      (Separator, ''separator''),
      (Input, ''input''),
      (Textarea, ''textarea''),
      (Label_el, ''label''),
      (Skeleton_el, ''skeleton''),
      (Avatar, ''avatar''),
      (AvatarImage, ''avatar-image''),
      (AvatarFallback, ''avatar-fallback''),
      (AvatarBadge, ''avatar-badge''),
      (AvatarGroup, ''avatar-group''),
      (AvatarGroupCount, ''avatar-group-count''),
      (Card, ''card''),
      (CardHeader, ''card-header''),
      (CardTitle, ''card-title''),
      (CardDescription, ''card-description''),
      (CardAction, ''card-action''),
      (CardContent, ''card-content''),
      (CardFooter, ''card-footer''),
      (InputGroup, ''input-group''),
      (InputGroupAddon, ''input-group-addon''),
      (InputGroupInput, ''input-group-control''),
      (InputGroupTextarea, ''input-group-control''),
      (ComboboxValue, ''combobox-value''),
      (ComboboxTrigger, ''combobox-trigger''),
      (ComboboxClear, ''combobox-clear''),
      (ComboboxItem, ''combobox-item''),
      (ComboboxCollection, ''combobox-collection''),
      (ComboboxChip, ''combobox-chip''),
      (ComboboxList, ''combobox-list''),
      (ComboboxGroup, ''combobox-group''),
      (ComboboxLabel, ''combobox-label''),
      (ComboboxEmpty, ''combobox-empty''),
      (ComboboxSeparator, ''combobox-separator''),
      (ComboboxChips, ''combobox-chips''),
      (ComboboxChipsInput, ''combobox-chip-input''),
      (SelectTrigger, ''select-trigger''),
      (SelectScrollUpButton, ''select-scroll-up-button''),
      (SelectScrollDownButton, ''select-scroll-down-button''),
      (SelectItem, ''select-item''),
      (SelectGroup, ''select-group''),
      (SelectValue, ''select-value''),
      (SelectLabel, ''select-label''),
      (SelectSeparator, ''select-separator'')]"

fun attr :: "string \<Rightarrow> ui_node \<Rightarrow> ui_value option" where
  "attr k (Element _ attrs _) = map_of attrs k"
| "attr k (TextNode _) = None"

fun kids_of :: "ui_node \<Rightarrow> ui_node list" where
  "kids_of (Element _ _ kids) = kids"
| "kids_of (TextNode _) = []"

text \<open>The names the components take out of their properties before they spread the rest.\<close>

definition taken_props :: "string list" where
  "taken_props = [''className'', ''size'', ''variant'', ''type'', ''align'', ''orientation'', ''showRemove'', ''render'']"

section \<open>Facts\<close>

lemma map_of_filter_key: "map_of (filter (\<lambda>(k, _). P k) xs) k = (if P k then map_of xs k else None)"
  by (induction xs) auto

lemma map_of_omit: "map_of (omit ks p) k = (if k \<in> set ks then None else map_of p k)"
  by (simp add: omit_def map_of_filter_key [where P = "\<lambda>k. k \<notin> set ks"])

lemma map_of_spread: "map_of (spread_props base extra) k = (case map_of extra k of Some v \<Rightarrow> Some v | None \<Rightarrow> map_of base k)"
proof -
  have "map_of (filter (\<lambda>(k, _). k \<notin> set (map fst extra)) base) k = (if k \<notin> set (map fst extra) then map_of base k else None)"
    by (rule map_of_filter_key)
  moreover have "k \<notin> set (map fst extra)" if "map_of extra k = None"
    using that by (simp add: map_of_eq_None_iff)
  ultimately show ?thesis
    by (simp add: spread_props_def map_add_def split: option.split)
qed

lemmas attr_lookups = map_of_spread map_of_omit wrapper_def

lemmas component_defs =
  Button_def IconButton_def Badge_def Switch_def Separator_def
  Input_def Textarea_def Label_el_def Skeleton_el_def Avatar_def
  AvatarImage_def AvatarFallback_def AvatarBadge_def AvatarGroup_def AvatarGroupCount_def
  Card_def CardHeader_def CardTitle_def CardDescription_def CardAction_def
  CardContent_def CardFooter_def InputGroup_def InputGroupAddon_def InputGroupButton_def
  InputGroupText_def InputGroupInput_def InputGroupTextarea_def ComboboxValue_def ComboboxTrigger_def
  ComboboxClear_def ComboboxInput_def ComboboxContent_def ComboboxItem_def ComboboxCollection_def
  ComboboxChip_def ComboboxList_def ComboboxGroup_def ComboboxLabel_def ComboboxEmpty_def
  ComboboxSeparator_def ComboboxChips_def ComboboxChipsInput_def SelectTrigger_def SelectScrollUpButton_def
  SelectScrollDownButton_def SelectContent_def SelectItem_def SelectGroup_def SelectValue_def
  SelectLabel_def SelectSeparator_def

text \<open>What a component that spreads the rest of its properties over fixed ones does with a property.\<close>

lemma slot_kept:
  assumes "''data-slot'' \<notin> set ks" "map_of base ''data-slot'' = Some (Str slot)"
  shows "attr ''data-slot'' (Element tag (spread_props base (omit ks p)) kids) =
    (case map_of p ''data-slot'' of Some v \<Rightarrow> Some v | None \<Rightarrow> Some (Str slot))"
  using assms by (simp add: map_of_spread map_of_omit split: option.split)

lemma passed_through:
  assumes "set ks \<subseteq> set taken_props"
  shows "list_all (\<lambda>(k, _). k \<in> set taken_props \<or> attr k (Element tag (spread_props base (omit ks p)) kids) = map_of p k) p"
proof -
  have "k \<in> set taken_props \<or> attr k (Element tag (spread_props base (omit ks p)) kids) = map_of p k" if "(k, v) \<in> set p" for k v
  proof -
    have "map_of p k \<noteq> None"
      using weak_map_of_SomeI [OF that] by auto
    then show ?thesis
      using assms by (auto simp: map_of_spread map_of_omit)
  qed
  then show ?thesis by (auto simp: list_all_iff)
qed

lemma omit_omit: "omit ks (omit ls p) = omit (ls @ ks) p" and omit_none: "omit [] p = p"
  by (auto simp: omit_def intro: filter_cong)

lemmas slot_kept_all = slot_kept [where ks = "[]", unfolded omit_none]
lemmas passed_through_all = passed_through [where ks = "[]", unfolded omit_none]

lemma map_of_single: "map_of [(k, v)] k' = (if k' = k then Some v else None)"
  by simp

text \<open>After any number of ticks the compaction indicator shows one to three dots, in turn.\<close>

lemma dots_cycle: "(next_dots ^^ n) 1 = n mod 3 + 1"
proof (induction n)
  case (Suc n)
  then show ?case by (simp add: next_dots_def) (simp add: mod_Suc)
qed simp

section \<open>Properties\<close>

text \<open>
  The primitives with a slot keep it and are transparent: the element each one makes has the slot of
  its component unless the caller gives another, and every property the component does not take out
  for itself reaches that element as it was given.
\<close>

theorem primitives_transparent:
  "list_all (\<lambda>(f, slot).
     attr ''data-slot'' (f p kids) =
       (case map_of p ''data-slot'' of Some v \<Rightarrow> Some v | None \<Rightarrow> Some (Str slot))
     \<and> list_all (\<lambda>(k, _). k \<in> set taken_props \<or> attr k (f p kids) = map_of p k) p) slot_table"
  unfolding slot_table_def list.pred_inject prod.case component_defs wrapper_def Let_def
    omit_omit append.simps
  by (intro conjI slot_kept passed_through slot_kept_all passed_through_all TrueI) (simp_all add: taken_props_def)

text \<open>
  The input of a combobox: \<open>disabled\<close> reaches the text field, the arrow and the clear button, and
  only them; the arrow is shown unless it is switched off and the clear button only where it is asked
  for; the options of the wrapper never reach the library's input, and every other property does.
\<close>

theorem combobox_input_controls:
  "(let disabled = prop_or (Bool False) ''disabled'' p;
        shown = ComboboxInput p kids;
        field = hd (kids_of shown);
        controls = kids_of (kids_of shown ! 1)
    in map (attr ''disabled'') controls = replicate (length controls) (Some disabled)
       \<and> map (attr ''data-slot'') controls =
           (if ui_truthy (prop_or (Bool True) ''showTrigger'' p) then [Some (Str ''input-group-button'')] else [])
           @ (if ui_truthy (prop_or (Bool False) ''showClear'' p) then [None] else [])
       \<and> attr k field = (if k \<in> {''className'', ''disabled'', ''showTrigger'', ''showClear''} then None
                         else case map_of p k of Some v \<Rightarrow> Some v
                              | None \<Rightarrow> if k = ''render'' then Some (RenderOf (Element ''InputGroupInput'' [(''disabled'', disabled)] []))
                                       else None)
       \<and> drop 2 (kids_of shown) = kids)"
proof -
  define disabled where "disabled = prop_or (Bool False) ''disabled'' p"
  define shown where "shown = ComboboxInput p kids"
  have parts: "kids_of shown =
      Element ''Combobox.Input''
        (spread_props [(''render'', RenderOf (Element ''InputGroupInput'' [(''disabled'', disabled)] []))]
          (omit [''className'', ''disabled'', ''showTrigger'', ''showClear''] p)) []
      # kids_of shown ! 1 # kids"
    "kids_of (kids_of shown ! 1) =
      (if ui_truthy (prop_or (Bool True) ''showTrigger'' p)
       then [Element ''InputGroupButton''
               [(''size'', Str ''icon-xs''), (''variant'', Str ''ghost''),
                (''render'', RenderOf (Element ''ComboboxTrigger'' [] [])),
                (''data-slot'', Str ''input-group-button''), (''className'', Classes ''combobox-input-trigger'' [] Undef),
                (''disabled'', disabled)] []]
       else [])
      @ (if ui_truthy (prop_or (Bool False) ''showClear'' p) then [Element ''ComboboxClear'' [(''disabled'', disabled)] []] else [])"
    by (simp_all add: shown_def disabled_def ComboboxInput_def Let_def)
  have field: "attr k (hd (kids_of shown)) =
      (if k \<in> {''className'', ''disabled'', ''showTrigger'', ''showClear''} then None
       else case map_of p k of Some v \<Rightarrow> Some v
            | None \<Rightarrow> if k = ''render'' then Some (RenderOf (Element ''InputGroupInput'' [(''disabled'', disabled)] [])) else None)"
    by (subst parts(1)) (simp only: list.sel attr.simps map_of_spread map_of_omit map_of_single list.set, simp split: option.split)
  have "drop 2 (kids_of shown) = kids"
    by (subst parts(1)) simp
  with field show ?thesis
    unfolding Let_def disabled_def [symmetric] shown_def [symmetric] parts(2)
    by (auto simp: disabled_def shown_def)
qed

end
