(* ===== verification/Page_Queries.thy ===== *)
theory Page_Queries
  imports Review_Styles Azure_Pages Submit_Message
begin

text \<open>
  The queries of all pages in one place: the hooks of \<open>lib/agents/queries.ts\<close>, \<open>lib/session.ts\<close> and
  \<open>lib/profile.ts\<close>, and the queries the components write themselves. They share one cache, in which an
  entry is found by its key alone, so that two queries with one key have to ask for the same thing.
\<close>

section \<open>Queries\<close>

text \<open>What a query asks: a request as it is, or one whose refusals are read as an answer.\<close>

datatype query_fun =
    AskApi ApiCall
  | AskAgents AgentsCall
  | AskSession
  | AskRepos
  | AskPanelRepos

fun run_query :: "fetch \<Rightarrow> string \<Rightarrow> query_fun \<Rightarrow> js_error + jsval" where
  "run_query fetch base (AskApi c) = api_call fetch base c"
| "run_query fetch base (AskAgents c) = agents_call fetch base c"
| "run_query fetch base AskSession = null_on_401 (api_call fetch base Me)"
| "run_query fetch base AskRepos = empty_on_denied (api_call fetch base (Repos None))"
| "run_query fetch base AskPanelRepos = repos_or_empty (api_call fetch base (Repos None))"

text \<open>A key is a list whose elements may be null; \<open>pq_poll\<close> is the interval of \<open>refetchInterval\<close>.\<close>

record page_query =
  pq_key :: "string option list"
  pq_fun :: query_fun
  pq_enabled :: bool
  pq_staleTime :: int
  pq_retry :: nat
  pq_poll :: "int option"

definition hook :: "('r \<Rightarrow> query_fun) \<Rightarrow> 'r query \<Rightarrow> page_query" where
  "hook f q =
     \<lparr>pq_key = map Some (query_key q), pq_fun = f (query_fn q), pq_enabled = query_enabled q,
      pq_staleTime = query_staleTime q, pq_retry = query_retry q, pq_poll = None\<rparr>"

definition own_query :: "string option list \<Rightarrow> query_fun \<Rightarrow> page_query" where
  "own_query k f = \<lparr>pq_key = k, pq_fun = f, pq_enabled = True, pq_staleTime = 30000, pq_retry = 1, pq_poll = None\<rparr>"

section \<open>The queries the components write\<close>

definition model_catalog_query :: "bool \<Rightarrow> page_query" where
  "model_catalog_query signedIn =
     (own_query [Some ''model-catalog''] (AskApi GetModelCatalog))\<lparr>pq_enabled := signedIn, pq_poll := Some 60000\<rparr>"

definition team_settings_query :: "bool \<Rightarrow> page_query" where
  "team_settings_query signedIn = (own_query [Some ''teamSettings''] (AskApi GetTeamSettings))\<lparr>pq_enabled := signedIn\<rparr>"

definition admin_options_query :: "SessionUser option \<Rightarrow> page_query" where
  "admin_options_query session =
     (own_query [Some ''options''] (AskApi Options))
       \<lparr>pq_enabled := (case session of None \<Rightarrow> False | Some u \<Rightarrow> su_is_admin u)\<rparr>"

definition admin_settings_query :: page_query where
  "admin_settings_query = own_query [Some ''teamSettings''] (AskApi GetTeamSettings)"

definition admin_credentials_query :: page_query where
  "admin_credentials_query = own_query [Some ''teamCredentials''] (AskApi GetTeamCredentials)"

definition azure_projects_query :: "bool \<Rightarrow> page_query" where
  "azure_projects_query signedIn =
     (own_query [Some ''azureProjects''] (AskApi AzureProjects))\<lparr>pq_enabled := signedIn, pq_retry := 0\<rparr>"

text \<open>A parameter that is null is written into the path as \<open>null\<close>; such a query is not enabled.\<close>

definition pull_requests_query :: "bool \<Rightarrow> string option \<Rightarrow> page_query" where
  "pull_requests_query signedIn project =
     (own_query [Some ''azurePullRequests'', project] (AskApi (AzurePullRequests (nullish project ''null''))))
       \<lparr>pq_enabled := (signedIn \<and> truthy_str project), pq_retry := 0\<rparr>"

definition usage_metrics_query :: "bool \<Rightarrow> string option \<Rightarrow> AzureUsagePeriod \<Rightarrow> page_query" where
  "usage_metrics_query signedIn project period =
     (own_query [Some ''azureUsage'', project, Some (period_str period)]
        (AskApi (AzureUsage (nullish project ''null'') (Some period))))
       \<lparr>pq_enabled := (signedIn \<and> truthy_str project), pq_retry := 0, pq_staleTime := 2 * 60 * 1000\<rparr>"

definition enabled_repos_query :: "bool \<Rightarrow> page_query" where
  "enabled_repos_query signedIn =
     (own_query [Some ''enabledReviewRepos''] (AskApi ListEnabledReviewRepos))\<lparr>pq_enabled := signedIn\<rparr>"

definition owner_repos_query :: "bool \<Rightarrow> page_query" where
  "owner_repos_query signedIn = (own_query [Some ''repos''] AskPanelRepos)\<lparr>pq_enabled := signedIn\<rparr>"

definition instructions_query :: page_query where
  "instructions_query = own_query [Some ''agentInstructions''] (AskApi ListAgentInstructions)"

definition instruction_query :: "string option \<Rightarrow> page_query" where
  "instruction_query selected =
     (own_query [Some ''agentInstruction'', selected] (AskApi (GetAgentInstructions (nullish selected ''null''))))
       \<lparr>pq_enabled := truthy_str selected\<rparr>"

definition styles_query :: "ReviewStyle list option \<Rightarrow> page_query" where
  "styles_query data =
     (own_query [Some ''reviewStyles''] (AskApi ListReviewStyles))\<lparr>pq_poll := styles_interval data\<rparr>"

definition style_query :: "string option \<Rightarrow> ReviewStyle option \<Rightarrow> page_query" where
  "style_query selected detail =
     (own_query [Some ''reviewStyle'', selected] (AskApi (GetReviewStyle (nullish selected ''null''))))
       \<lparr>pq_enabled := truthy_str selected, pq_poll := style_interval detail\<rparr>"

definition panel_repos_query :: page_query where
  "panel_repos_query = own_query [Some ''repos''] AskPanelRepos"

section \<open>All queries\<close>

text \<open>A place where queries are made, with what they depend on there.\<close>

datatype place =
    EveryPage
  | SignedInHooks bool
  | ThreadsList "AgentThread list option"
  | OneThread string bool
  | SchedulesList
  | CatalogPicker bool
  | ProfilePage bool
  | AdminOptions "SessionUser option"
  | AdminSections
  | PullRequests bool "string option"
  | UsageOf bool "string option" AzureUsagePeriod
  | OwnerPage bool
  | InstructionsPanel "string option"
  | StylesPanel "ReviewStyle list option" "string option" "ReviewStyle option"

fun queries_of :: "place \<Rightarrow> page_query list" where
  "queries_of EveryPage = [hook (\<lambda>_. AskSession) (useSession (\<lambda>_. Inl (OtherError [])) [])]"
| "queries_of (SignedInHooks signedIn) =
     [hook AskApi (useProfile signedIn), hook AskApi (useOptions signedIn), hook AskApi (useWorkspaces signedIn),
      hook (\<lambda>_. AskRepos) (useRepos (\<lambda>_. Inl (OtherError [])) [] signedIn)]"
| "queries_of (ThreadsList data) = [(hook AskAgents useAgentThreads)\<lparr>pq_poll := refetchInterval data\<rparr>]"
| "queries_of (OneThread threadId hasPr) = [hook AskAgents (useAgentThread threadId), hook AskAgents (useAgentThreadPrDiff threadId hasPr)]"
| "queries_of SchedulesList = [hook AskAgents useAgentSchedules]"
| "queries_of (CatalogPicker signedIn) = [model_catalog_query signedIn]"
| "queries_of (ProfilePage signedIn) = [team_settings_query signedIn]"
| "queries_of (AdminOptions session) = [admin_options_query session]"
| "queries_of AdminSections = [admin_credentials_query, admin_settings_query]"
| "queries_of (PullRequests signedIn project) = [azure_projects_query signedIn, pull_requests_query signedIn project]"
| "queries_of (UsageOf signedIn project period) = [azure_projects_query signedIn, usage_metrics_query signedIn project period]"
| "queries_of (OwnerPage signedIn) = [owner_repos_query signedIn, enabled_repos_query signedIn]"
| "queries_of (InstructionsPanel selected) = [instructions_query, panel_repos_query, instruction_query selected]"
| "queries_of (StylesPanel data selected detail) = [styles_query data, panel_repos_query, style_query selected detail]"

section \<open>What a key stands for\<close>

text \<open>The specification: the request a key of the cache stands for, the same on every page.\<close>

definition single_keys :: "(string \<times> query_fun) list" where
  "single_keys =
     [(''session'', AskSession), (''profile'', AskApi GetProfile), (''options'', AskApi Options),
      (''workspaces'', AskApi Workspaces), (''agent-threads'', AskAgents ListThreads),
      (''agent-schedules'', AskAgents ListSchedules), (''model-catalog'', AskApi GetModelCatalog),
      (''teamSettings'', AskApi GetTeamSettings), (''teamCredentials'', AskApi GetTeamCredentials),
      (''azureProjects'', AskApi AzureProjects), (''enabledReviewRepos'', AskApi ListEnabledReviewRepos),
      (''agentInstructions'', AskApi ListAgentInstructions), (''reviewStyles'', AskApi ListReviewStyles)]"

definition pair_keys :: "(string \<times> (string \<Rightarrow> query_fun)) list" where
  "pair_keys =
     [(''agent-threads'', \<lambda>i. AskAgents (GetThread i None)), (''azurePullRequests'', \<lambda>p. AskApi (AzurePullRequests p)),
      (''agentInstruction'', \<lambda>r. AskApi (GetAgentInstructions r)), (''reviewStyle'', \<lambda>r. AskApi (GetReviewStyle r))]"

definition period_named :: "string \<Rightarrow> AzureUsagePeriod" where
  "period_named s = (if s = ''7d'' then Period7d else if s = ''30d'' then Period30d else PeriodAll)"

fun key_fun :: "string option list \<Rightarrow> query_fun option" where
  "key_fun [Some a] = map_of single_keys a"
| "key_fun [Some a, b] = map_option (\<lambda>f. f (nullish b ''null'')) (map_of pair_keys a)"
| "key_fun [Some a, b, Some c] =
     (if a = ''agent-threads'' \<and> c = ''pr-diff'' then map_option (AskAgents \<circ> GetThreadPrDiff) b
      else if a = ''azureUsage'' then Some (AskApi (AzureUsage (nullish b ''null'') (Some (period_named c))))
      else None)"
| "key_fun _ = None"

lemma period_named_str [simp]: "period_named (period_str p) = p"
  by (cases p) (simp_all add: period_named_def)

lemmas written_queries =
  own_query_def model_catalog_query_def team_settings_query_def admin_options_query_def admin_settings_query_def
  admin_credentials_query_def azure_projects_query_def pull_requests_query_def usage_metrics_query_def
  enabled_repos_query_def owner_repos_query_def instructions_query_def instruction_query_def styles_query_def
  style_query_def panel_repos_query_def

lemmas hook_queries =
  hook_def default_query_def useSession_def useProfile_def useOptions_def useWorkspaces_def useRepos_def
  useAgentThreads_def useAgentThread_def useAgentThreadPrDiff_def useAgentSchedules_def threads_key_def
  detail_key_def prDiff_key_def schedules_key_def

text \<open>The two readings of the repositories differ for a user who is refused, and only there.\<close>

lemma repos_readings:
  "(case api_call fetch base (Repos None) of
      Inl (ApiError status message) \<Rightarrow>
        (status = 403) = (map_sum id (\<lambda>v. get_prop v ''repositories'') (run_query fetch base AskRepos)
           \<noteq> map_sum id (\<lambda>v. get_prop v ''repositories'') (run_query fetch base AskPanelRepos))
    | _ \<Rightarrow> run_query fetch base AskRepos = run_query fetch base AskPanelRepos)"
  by (auto simp: empty_on_denied_def repos_or_empty_def split: sum.split js_error.split)

text \<open>The keys the mutations of the hooks set or invalidate are keys of queries.\<close>

lemma updated_keys_known:
  "key_fun (map Some threads_key) = Some (AskAgents ListThreads)"
  "key_fun (map Some (detail_key i)) = Some (AskAgents (GetThread i None))"
  "key_fun (map Some schedules_key) = Some (AskAgents ListSchedules)"
  "snd usePickWorkspace = [InvalidateQueries [''workspaces''] False]" "key_fun [Some ''workspaces''] = Some (AskApi Workspaces)"
  by (simp_all add: threads_key_def detail_key_def schedules_key_def single_keys_def pair_keys_def usePickWorkspace_def)

section \<open>Properties\<close>

text \<open>
  C24. One key, one question: wherever a query is made and whatever it depends on there, the cache entry it
  uses stands for the request it sends; only the entry of the repositories has two readings. A query whose key
  has a null in it is never sent.
\<close>

theorem one_question_per_key:
  "list_all (\<lambda>q.
     (if pq_key q = [Some ''repos''] then pq_fun q \<in> {AskRepos, AskPanelRepos} else key_fun (pq_key q) = Some (pq_fun q))
     \<and> pq_enabled q = (pq_enabled q \<and> None \<notin> set (pq_key q))) (queries_of place)"
  by (cases place) (auto simp: written_queries hook_queries single_keys_def pair_keys_def)

end
