(* ===== verification/Spec2Isabelle.thy ===== *)
theory Spec2Isabelle
  imports Agent_Message Message_List Git_Panel Cron Thread_Queries Thread_Groups Display Theme_State
    Thread_View Agents_Home Prompt_Bar Source_Control Sidebar Pickers
    Automations Review_Styles Settings_Pages Azure_Pages Routes Agents_Page Live_Cards Bar_View
    Chat_View Desktop_Status Admin_Page Settings_Views Page_Views Rich_Text
    Route_Tree Json_Round_Trip Agents_Shell UI_Primitives
    Page_Queries
begin

text \<open>
  A verification of the dashboard of the mobile agent (\<open>apps/dashboard/src\<close>), the web client in which
  a developer starts agent runs, follows them, steers them and looks at what they changed.

  \<^bold>\<open>The program.\<close> A run's messages arrive through a stream library. \<open>streamMessagesToUi\<close> turns them
  into transcript messages made of chunks; \<open>buildRenderItems\<close> turns the chunks of a message into the
  items shown, each by its card; \<open>summarizeChangedFiles\<close> collects the edits for the card under a
  message and for the git panel. The thread page (\<open>AgentThreadView\<close>) shows the transcript, the queue
  of follow-up messages, the approval gate and the run's state; the home page (\<open>AgentsHome\<close>) starts a
  run; both send through the prompt bar and through \<open>useSubmitAgentMessage\<close>. The sidebar lists the
  threads of the chosen workspace and shares that choice with the home page through the browser's
  storage. Beside them are the source control tile over the host's git, the editor of automations,
  the panels for instructions and review styles, the settings, administration and Azure pages, and
  the guards of the routes. A second chat, carried over from the desktop application, is in the sources
  with its prompt bar, approval menu, queue and pickers. Requests go through two small HTTP clients, and their results are kept in
  a query cache, which is a library.

  \<^bold>\<open>The theories\<close>, from the library up:
  \<^item> \<open>Prelude\<close>: JavaScript's nullish operator, Latin-1 strings, decimal printing, maps in insertion
    order, stable sorting (locale \<open>comparator\<close>), clamped values (locale \<open>clamped\<close>, interpreted for the
    widths of the git panel, the file explorer and the sidebar), and the lemmas the components share.
    \<open>Mutations\<close>: the states of a mutation, runs of a component with its outputs, and the locale
    \<open>guarded_requests\<close> for a component that sends a request only when none is under way; it is
    interpreted for the deletion of a thread, the automation editor, the two panels, the sections of
    the administration page and the warm-up of the highlighter.
  \<^item> \<open>Js_Value\<close>, \<open>Js_Number\<close>: dynamic values with \<open>JSON.stringify\<close> and \<open>JSON.parse\<close>, and \<open>Number\<close> of
    a string. The parser's fuel is twice the length of its input plus one: each call of the descent
    leaves a shorter rest, and \<open>json_parse_fuel\<close> proves that more fuel changes no result.
    \<open>Json_Round_Trip\<close>: the parser reads back what the printer writes, so a request can be read back
    from its body, and tool arguments mean the same as an object and as its text.
  \<^item> \<open>Agent_Types\<close>: \<open>lib/agents/types.ts\<close>. \<open>Api_Types\<close>: the interfaces of \<open>lib/api.ts\<close>.
  \<^item> \<open>Stream_Messages\<close>: \<open>lib/agents/streamMessagesToUi.ts\<close>. The loop with its mutable agent turn equals a
    reference that cuts the messages at the human ones; no tool call is lost, repeated or reordered;
    a call is shown as completed only on evidence; what a transcript message can hold.
  \<^item> \<open>Render_Items\<close>: \<open>components/agents/messages/renderItems.ts\<close>. Nothing is lost, groups are maximal and
    hold what they say, and the keys given to React are distinct where the ids of the calls and of the
    message allow it.
  \<^item> \<open>Changed_Files\<close>: \<open>summarizeChangedFiles.ts\<close> and \<open>diffStats.ts\<close>. \<open>Agent_Message\<close>: the component
    \<open>AgentMessage.tsx\<close> with its expandable groups. \<open>Message_List\<close>: \<open>Messages.tsx\<close> and
    \<open>useLiveMarkdownMessageId.ts\<close>, the scroll machine. \<open>Git_Panel\<close>: \<open>AgentGitPanel.tsx\<close>.
  \<^item> \<open>Tool_Cards\<close>, \<open>Reply_Card\<close>, \<open>Live_Cards\<close>: the cards of a transcript. The Slack text is cut completely,
    a reply throws in exactly one case, a code block whose language has no colon in its name shows only
    its own tokens once the passive effect of its last change has run, and the spinner settles.
  \<^item> \<open>Source_Tree\<close>, \<open>Source_Control\<close>: \<open>ported/SourceControlTile.tsx\<close>. The file tree refines the map from
    paths to diffs; every handler is split at its await, the state stays consistent under every order
    of answers and of rejected promises, and the calls under way come to an end; a rejected commit,
    push or pull, which nothing catches, leaves its flag set, and every other flag is cleared.
  \<^item> \<open>Cron\<close>: \<open>lib/agents/cron.ts\<close>. \<open>Display\<close>: \<open>lib/repo.ts\<close>, \<open>lib/sessionDisplay.ts\<close>, \<open>lib/utils.ts\<close>.
    \<open>Theme_State\<close>: \<open>lib/theme.ts\<close> as a step relation, with the script of \<open>routes/__root.tsx\<close>.
  \<^item> \<open>Api_Client\<close>: \<open>lib/api.ts\<close> and \<open>lib/agents/api.ts\<close>; every method of the two clients, what request it
    sends, that the values in its path can be told apart, and what its response becomes. \<open>Thread_Groups\<close>: \<open>groupThreads\<close>. \<open>Thread_Queries\<close>:
    \<open>lib/agents/queries.ts\<close>, \<open>lib/profile.ts\<close>, \<open>lib/session.ts\<close>, \<open>lib/query.ts\<close>.
  \<^item> \<open>Model_Options\<close>: \<open>useModelOptions.ts\<close>. \<open>Submit_Message\<close>: \<open>useSubmitAgentMessage.ts\<close> and
    \<open>AgentThreadStreamProvider.tsx\<close>. \<open>Thread_View\<close>: \<open>AgentThreadView.tsx\<close>. \<open>Agents_Home\<close>:
    \<open>AgentsHome.tsx\<close>. \<open>Prompt_Bar\<close>, \<open>Bar_View\<close>: \<open>CloudPromptBar.tsx\<close>.
  \<^item> \<open>Sidebar\<close>: \<open>AgentsSidebar.tsx\<close>, \<open>sidebar-layout.tsx\<close>, \<open>SidebarUserMenu.tsx\<close>, \<open>AppSidebar.tsx\<close>.
    \<open>Agents_Page\<close>: the sidebar beside the home page, with the choice they share. \<open>Pickers\<close>:
    \<open>RepoSelector.tsx\<close>, \<open>ModelCatalogPicker.tsx\<close>, \<open>AgentRunCard.tsx\<close>.
  \<^item> \<open>Automations\<close>: \<open>AutomationEditor.tsx\<close>, \<open>AutomationsList.tsx\<close>, \<open>ScheduleTriggerPicker.tsx\<close>.
    \<open>Agent_Instructions\<close>, \<open>Review_Styles\<close>: the two panels. \<open>Settings_Pages\<close>: \<open>my-settings.tsx\<close>,
    \<open>cloud-agents.tsx\<close>, \<open>admin.tsx\<close>. \<open>Azure_Pages\<close>: \<open>review.tsx\<close>, \<open>usage.tsx\<close> and the repositories of an
    owner. \<open>Routes\<close>: the guards of the pages; redirects end. \<open>Route_Tree\<close>: \<open>routeTree.gen.ts\<close>,
    \<open>router.tsx\<close> and the document of \<open>routes/__root.tsx\<close>; the listings agree with the tree, and every
    link lands on a page. \<open>Agents_Shell\<close>: the layout of \<open>routes/agents.tsx\<close> with the sidebar and
    \<open>AgentThreadStreamProvider.tsx\<close>; whatever happens in it, it follows the location. \<open>Page_Queries\<close>: the queries of all pages;
    a key of the cache stands for one request, but for the repositories, which are read in two ways.
  \<^item> \<open>Page_Shell\<close>: \<open>AppShell.tsx\<close> with the controls of a settings page, \<open>SidebarUserMenu.tsx\<close> and
    \<open>InstructionsEditor.tsx\<close>. \<open>Admin_Page\<close>: the two sections of \<open>admin.tsx\<close> as state machines with
    their views; no save loses an update, and a button is enabled exactly when it sends a request.
    \<open>Settings_Views\<close>: what the profile and cloud agent pages show, and what their saves do to the
    fields of other pages. \<open>Page_Views\<close>: the thread page around its messages, the home page as shown
    (it shows what it sends), the address of the usage page, the effects of the file tree,
    \<open>utils/diffUtils.ts\<close> and the scroll button.
  \<^item> \<open>Desktop_Prompt\<close>, \<open>Desktop_Pickers\<close>, \<open>Desktop_Status\<close>, \<open>Chat_View\<close>: the desktop chat,
    \<open>ported/PromptBar.tsx\<close>, \<open>ThreadPicker.tsx\<close>, \<open>BranchSelector.tsx\<close>, \<open>ContextIndicator.tsx\<close>,
    \<open>Footer.tsx\<close>, \<open>HeaderBar.tsx\<close>, \<open>PanelResizeHandle.tsx\<close> and \<open>ChatView.tsx\<close>. A decision goes to the
    request shown and to the last call that waits; on one session the queue of prompts is first in,
    first out, and the renderings of an idle session with no scheduled prompt drain it; the keyboard moves through the rows as they are shown;
    quotients are rounded as doubles are.
  \<^item> \<open>Rich_Text\<close>: \<open>MarkdownTable.tsx\<close>, \<open>Markdown.tsx\<close>, \<open>DiffView.tsx\<close>, \<open>SubagentActivity.tsx\<close>.
  \<^item> \<open>UI_Primitives\<close>: \<open>components/ui\<close>, every primitive as a function from its properties to an element, and
    the small marks (\<open>OnOffBrand.tsx\<close>, \<open>Logo.tsx\<close>, \<open>CompactingIndicator.tsx\<close>). A primitive keeps its slot
    and passes on what it does not take.

  \<^bold>\<open>How the code is modelled.\<close> An interface is a record, a string union a datatype, an optional or
  nullable field an option. A component's hook state and refs are one record; an effect, a handler or
  the part of a handler between two awaits is a function on it, which also returns the requests,
  cache operations and events it performs, in order. Events of a component form a datatype with a
  step function, or a step relation, so that an invariant speaks of every sequence of events. What a
  request answers is an argument: a result or an error, with every branch of the code's error
  handling. A view is the element rendered with its properties, without styling.

  \<^bold>\<open>Parameters.\<close> Code outside the sources is an argument of the definitions that use it: \<open>fetch\<close> and
  the server, the host's git, the diff library (\<open>hunks\<close>), the highlighter, \<open>localeCompare\<close> (\<open>le\<close>), the
  URL parser (\<open>hostname\<close>), the router's encoding of a path parameter (\<open>encode\<close>), the locale's dates and numbers, the clock and random numbers. The desktop chat
  imports a store, commands, a file completion and model names that are not in the repository: what
  each event reads of the store is an argument, the other modules are the record \<open>prompt_modules\<close>.
  Strings are Latin-1, with the ellipsis, the dash and the bullet at their places in code page 1252, or
  an ellipsis written as three dots; numbers are integers, or rationals where a fraction can occur.

  \<^bold>\<open>Not modelled.\<close> The Python backend, engine, packages and services; \<open>client.tsx\<close>, which starts the
  libraries on the document; styles, class texts and JSX layout; how the router matches a location;
  Markdown itself, the code editor, the file tree, the diff viewer and the widgets the UI primitives wrap,
  which are libraries. The widths of the panels are rationals, where the code has doubles.
\<close>

section \<open>Properties across components\<close>

text \<open>
  The prompt bar and the home page together: the bar empties itself as soon as it has handed the
  prompt over, and the page starts a run exactly when its Azure gate lets it through; so where the
  gate refuses, no run has started and the prompt and its images are gone from the bar.
\<close>

theorem refused_prompt_is_lost:
  "case handleSubmit disabled b of
     (b', Submitted prompt images # _) \<Rightarrow>
       bar_value b' = [] \<and> pendingImages b' = []
       \<and> (snd (home_submit hostname d prompt images s) = None) = workspaceNotAzure hostname d s
   | (b', _) \<Rightarrow> b' = b"
  by (auto simp: handleSubmit_def home_submit_def)

text \<open>
  What the layout does with the operations of a page: a navigation is a new location. \<open>encode\<close> is how the
  router writes a parameter into a path.
\<close>

definition layout_hears :: "(string \<Rightarrow> string) \<Rightarrow> cache_op list \<Rightarrow> agents_shell \<Rightarrow> agents_shell" where
  "layout_hears encode ops sh =
     fold (\<lambda>op t. case op of Navigate path \<Rightarrow> fst (shell_step encode (Located path) t) | _ \<Rightarrow> t) ops sh"

text \<open>
  C5. A run started on the home page is the run the layout follows. Suppose the Azure gate let the prompt
  through and the stream reports a thread id that is not empty and that the router writes without a slash,
  not as an empty text and not as \<open>automations\<close>. Then the page seeds that thread and goes to it, and the
  draft is used up; the layout reads the id as written off the path and gives it to the stream provider;
  and when the run completes, the requests made are those for that id: its detail is refreshed, its queue is
  read, and is continued exactly if it holds messages. For an id that the router writes as it is, that is
  the thread itself.
\<close>

theorem started_run_followed:
  assumes "\<not> workspaceNotAzure hostname d s"
    and "i \<noteq> []" "CHR ''/'' \<notin> set (encode i)" "encode i \<notin> {[], ''automations''}"
  shows "case thread_created encode now nowIso (Some i) (fst (home_submit hostname d prompt images s)) of
     (s', Some (t, ops)) \<Rightarrow>
       draft s' = None \<and> SetThread (detail_key i) t None \<in> set ops \<and> th_id t = i
       \<and> (let sh' = layout_hears encode ops sh; acts = run_completed (sh_ref sh') queued continued in
            sh_path sh' = ''/agents/'' @ encode i
            \<and> sp_threadId (fst (AgentThreadStreamProvider origin base (activeThreadId (sh_path sh')))) = Some (encode i)
            \<and> Cache (InvalidateQueries (detail_key (encode i)) False) \<in> set acts
            \<and> Call (GetQueuedMessages (encode i)) \<in> set acts
            \<and> (Call (ContinueQueuedMessages (encode i)) \<in> set acts) = (\<exists>q. queued = Inr q \<and> qp_count q > 0)
            \<and> list_all (\<lambda>a. case a of Call c \<Rightarrow> c = GetQueuedMessages (encode i) \<or> c = ContinueQueuedMessages (encode i)
                              | _ \<Rightarrow> True) acts)
   | (s', None) \<Rightarrow> False"
proof -
  have path: "activeThreadId (''/agents/'' @ encode i) = Some (encode i)"
    using thread_path_open [of encode i] assms by simp
  have "encode i \<noteq> []" using assms by simp
  then have acts: "set (run_completed (Some (encode i)) queued continued) =
      {Cache (InvalidateQueries (detail_key (encode i)) False), Cache (InvalidateQueries threads_key True)}
      \<union> set (continue_queue (encode i) queued continued)"
    by (cases "continue_queue (encode i) queued continued")
       (auto simp: run_completed_def continue_queue_def truthy_str_iff Let_def)
  have "list_all (\<lambda>a. case a of Call c \<Rightarrow> c = GetQueuedMessages (encode i) \<or> c = ContinueQueuedMessages (encode i) | _ \<Rightarrow> True)
      (continue_queue (encode i) queued continued)"
    "(Call (ContinueQueuedMessages (encode i)) \<in> set (continue_queue (encode i) queued continued)) =
       (\<exists>q. queued = Inr q \<and> qp_count q > 0)"
    "Call (GetQueuedMessages (encode i)) \<in> set (continue_queue (encode i) queued continued)"
    by (cases queued; cases continued; auto simp: continue_queue_def Let_def)+
  with acts path assms show ?thesis
    by (simp add: home_submit_def thread_created_def optimisticThread_def layout_hears_def
        AgentThreadStreamProvider_def Let_def truthy_str_iff list_all_iff)
qed

theorem started_run_followed_witness:
  "snd (thread_created (\<lambda>i. i) 0 [] (Some ''t1'')
     (fst (home_submit (\<lambda>_. None)
        \<lparr>hd_options = \<lparr>mor_models = [], mor_defaultSelection = None, mor_isLoading = False\<rparr>, hd_profile = None,
         hd_workspaces = None, hd_session = None\<rparr> ''fix'' [] (init_home None)))) \<noteq> None"
    (is "snd ?created \<noteq> None")
proof
  assume "snd ?created = None"
  then obtain s' where "?created = (s', None)"
    by (cases ?created) auto
  then show False
    using started_run_followed [where encode = "\<lambda>i. i" and hostname = "\<lambda>_. None" and s = "init_home None" and i = "''t1''" and now = 0
        and nowIso = "[]" and prompt = "''fix''" and images = "[]"
        and d = "\<lparr>hd_options = \<lparr>mor_models = [], mor_defaultSelection = None, mor_isLoading = False\<rparr>,
          hd_profile = None, hd_workspaces = None, hd_session = None\<rparr>"]
    by (simp add: workspaceNotAzure_def selectedWorkspace_def)
qed

end
